(* ===== verification/Rust_Prelude.thy ===== *)
theory Rust_Prelude
  imports Main "HOL-Library.Word"
begin

text \<open>
  What the model uses of Rust and its standard library, and the generic lemmas that the
  components share.

  \<^item> Machine integers are words (\<open>u8\<close>, \<open>u16\<close>, \<open>u32\<close>, \<open>u64\<close>); \<open>usize\<close> is \<open>nat\<close>,
    with every subtraction of the source written as a checked one.
  \<^item> \<open>Bytes\<close>, \<open>BytesMut\<close> and \<open>Vec<u8>\<close> are lists of \<open>u8\<close>.  A \<open>String\<close> is a
    \<open>string\<close> whose characters are its UTF-8 bytes, so \<open>length\<close> is \<open>String::len\<close>;
    \<open>valid_str\<close> says that the bytes are well-formed UTF-8, which Rust guarantees.
  \<^item> \<open>Result<T, E>\<close> is \<open>('a, 'e) result\<close>, with a third constructor for a panic, so
    that an \<open>unwrap\<close> of \<open>None\<close>, an \<open>unreachable!\<close>, an arithmetic underflow and a read
    out of range are values of the model.
  \<^item> A function that appends to a \<open>&mut BytesMut\<close> and returns a \<open>Result\<close> is a writer:
    a state transformer that returns the buffer on error paths too.
\<close>

unbundle bit_operations_syntax

type_synonym u8 = "8 word"
type_synonym u16 = "16 word"
type_synonym u32 = "32 word"
type_synonym u64 = "64 word"
type_synonym usize = nat
type_synonym bytes = "u8 list"

named_theorems wire_simps \<open>behaviour of the byte-level readers and writers\<close>
named_theorems emit_rules \<open>what each writer appends\<close>
named_theorems w_simps \<open>evaluation of writers on a buffer\<close>

section \<open>Results and panics\<close>

datatype ('a, 'e) result = Ok 'a | Err 'e | Panic

primrec and_then :: "('a, 'e) result \<Rightarrow> ('a \<Rightarrow> ('b, 'e) result) \<Rightarrow> ('b, 'e) result" where
  "and_then (Ok x) f = f x"
| "and_then (Err e) f = Err e"
| "and_then Panic f = Panic"

primrec ok_or :: "'a option \<Rightarrow> 'e \<Rightarrow> ('a, 'e) result" where
  "ok_or None e = Err e"
| "ok_or (Some x) e = Ok x"

primrec unwrap :: "'a option \<Rightarrow> ('a, 'e) result" where
  "unwrap None = Panic"
| "unwrap (Some x) = Ok x"

primrec unwrap_or :: "('a, 'e) result \<Rightarrow> 'a \<Rightarrow> ('a, 'e) result" where
  "unwrap_or (Ok x) d = Ok x"
| "unwrap_or (Err e) d = Ok d"
| "unwrap_or Panic d = Panic"

primrec is_ok :: "('a, 'e) result \<Rightarrow> bool" where
  "is_ok (Ok x) = True"
| "is_ok (Err e) = False"
| "is_ok Panic = False"

lemma and_then_eq_Ok:
  "and_then r f = Ok y \<longleftrightarrow> (\<exists>x. r = Ok x \<and> f x = Ok y)"
  by (cases r) auto

lemma and_then_eq_Panic:
  "and_then r f = Panic \<longleftrightarrow> r = Panic \<or> (\<exists>x. r = Ok x \<and> f x = Panic)"
  by (cases r) auto

lemma and_then_eq_Err:
  "and_then r f = Err e \<longleftrightarrow> r = Err e \<or> (\<exists>x. r = Ok x \<and> f x = Err e)"
  by (cases r) auto

lemma ok_or_eq_Ok [simp]: "ok_or opt e = Ok x \<longleftrightarrow> opt = Some x"
  by (cases opt) auto

lemma ok_or_not_Panic [simp]: "ok_or opt e \<noteq> Panic"
  by (cases opt) auto

lemma and_then_cong [fundef_cong]:
  "r = r' \<Longrightarrow> (\<And>x. r' = Ok x \<Longrightarrow> f x = g x) \<Longrightarrow> and_then r f = and_then r' g"
  by (cases r') auto

lemma and_then_assoc:
  "and_then (and_then r f) g = and_then r (\<lambda>x. and_then (f x) g)"
  by (cases r) auto

section \<open>Writers\<close>

type_synonym ('a, 'e) writer = "bytes \<Rightarrow> ('a, 'e) result \<times> bytes"

definition w_ok :: "'a \<Rightarrow> ('a, 'e) writer" where
  "w_ok x buf = (Ok x, buf)"

definition w_err :: "'e \<Rightarrow> ('a, 'e) writer" where
  "w_err e buf = (Err e, buf)"

definition w_panic :: "('a, 'e) writer" where
  "w_panic buf = (Panic, buf)"

definition w_bind :: "('a, 'e) writer \<Rightarrow> ('a \<Rightarrow> ('b, 'e) writer) \<Rightarrow> ('b, 'e) writer" where
  "w_bind m f buf =
     (case m buf of
        (Ok x, buf') \<Rightarrow> f x buf'
      | (Err e, buf') \<Rightarrow> (Err e, buf')
      | (Panic, buf') \<Rightarrow> (Panic, buf'))"

text \<open>A value computed without touching the buffer, and \<open>buffer[i] = b\<close>.\<close>

definition w_lift :: "('a, 'e) result \<Rightarrow> ('a, 'e) writer" where
  "w_lift r buf = (r, buf)"

definition w_set :: "nat \<Rightarrow> u8 \<Rightarrow> (unit, 'e) writer" where
  "w_set i b buf = (if i < length buf then (Ok (), buf[i := b]) else (Panic, buf))"

text \<open>The sequence of statements of a block, and a \<open>for\<close> loop.\<close>

primrec w_seq :: "(unit, 'e) writer list \<Rightarrow> (unit, 'e) writer" where
  "w_seq [] = w_ok ()"
| "w_seq (m # ms) = w_bind m (\<lambda>_. w_seq ms)"

definition w_for :: "'a list \<Rightarrow> ('a \<Rightarrow> (unit, 'e) writer) \<Rightarrow> (unit, 'e) writer" where
  "w_for xs f = w_seq (map f xs)"

primrec w_some :: "'a option \<Rightarrow> ('a \<Rightarrow> (unit, 'e) writer) \<Rightarrow> (unit, 'e) writer" where
  "w_some None f = w_ok ()"
| "w_some (Some x) f = f x"

definition w_unwrap :: "'a option \<Rightarrow> ('a \<Rightarrow> ('b, 'e) writer) \<Rightarrow> ('b, 'e) writer" where
  "w_unwrap opt f = (case opt of None \<Rightarrow> w_panic | Some x \<Rightarrow> f x)"

text \<open>
  \<open>emits m x bs\<close>: whatever the buffer holds, the writer returns \<open>x\<close> and appends
  \<open>bs\<close>.  The rules below compute \<open>bs\<close> along the structure of a writer.
\<close>

definition emits :: "('a, 'e) writer \<Rightarrow> 'a \<Rightarrow> bytes \<Rightarrow> bool" where
  "emits m x bs \<longleftrightarrow> (\<forall>buf. m buf = (Ok x, buf @ bs))"

lemma emitsD: "emits m x bs \<Longrightarrow> m buf = (Ok x, buf @ bs)"
  by (simp add: emits_def)

lemma emits_ok [emit_rules]: "emits (w_ok x) x []"
  by (simp add: emits_def w_ok_def)

lemma emits_lift: "r = Ok x \<Longrightarrow> emits (w_lift r) x []"
  by (simp add: emits_def w_lift_def)

lemma emits_bind [emit_rules]:
  "emits m x bs \<Longrightarrow> emits (f x) y cs \<Longrightarrow> emits (w_bind m f) y (bs @ cs)"
  by (simp add: emits_def w_bind_def)

lemma emits_seq_Nil [emit_rules]: "emits (w_seq []) () []"
  by (simp add: emits_ok)

lemma emits_seq_Cons [emit_rules]:
  "emits m () bs \<Longrightarrow> emits (w_seq ms) () cs \<Longrightarrow> emits (w_seq (m # ms)) () (bs @ cs)"
  by (simp add: emits_bind)

lemma emits_for:
  "(\<And>x. x \<in> set xs \<Longrightarrow> emits (f x) () (g x)) \<Longrightarrow> emits (w_for xs f) () (concat (map g xs))"
proof (induction xs)
  case Nil
  then show ?case by (simp add: w_for_def emits_ok)
next
  case (Cons x xs)
  then have "emits (f x) () (g x)" and "emits (w_seq (map f xs)) () (concat (map g xs))"
    by (simp_all add: w_for_def)
  then show ?case by (simp add: w_for_def emits_bind)
qed

lemma emits_some:
  "(\<And>x. v = Some x \<Longrightarrow> emits (f x) () (g x)) \<Longrightarrow>
   emits (w_some v f) () (case v of None \<Rightarrow> [] | Some x \<Rightarrow> g x)"
  by (cases v) (auto simp: emits_ok)

lemma emits_unwrap: "emits (f x) y bs \<Longrightarrow> emits (w_unwrap (Some x) f) y bs"
  by (simp add: w_unwrap_def)

lemma emits_cong: "emits m x bs \<Longrightarrow> bs = cs \<Longrightarrow> emits m x cs"
  by simp

lemmas [w_simps] = Let_def w_ok_def w_err_def w_panic_def w_bind_def w_lift_def w_unwrap_def

section \<open>UTF-8\<close>

definition cont_byte :: "u8 \<Rightarrow> bool" where
  "cont_byte b \<longleftrightarrow> 0x80 \<le> b \<and> b \<le> 0xBF"

text \<open>\<open>core::str::from_utf8\<close> accepts exactly the byte sequences of the Unicode standard.\<close>

fun utf8_valid :: "bytes \<Rightarrow> bool" where
  "utf8_valid [] = True"
| "utf8_valid (b # bs) =
     (if b < 0x80 then utf8_valid bs
      else if 0xC2 \<le> b \<and> b \<le> 0xDF then
        (case bs of c # r \<Rightarrow> cont_byte c \<and> utf8_valid r | _ \<Rightarrow> False)
      else if 0xE0 \<le> b \<and> b \<le> 0xEF then
        (case bs of
           c # d # r \<Rightarrow>
             (if b = 0xE0 then 0xA0 \<le> c \<and> c \<le> 0xBF
              else if b = 0xED then 0x80 \<le> c \<and> c \<le> 0x9F
              else cont_byte c) \<and> cont_byte d \<and> utf8_valid r
         | _ \<Rightarrow> False)
      else if 0xF0 \<le> b \<and> b \<le> 0xF4 then
        (case bs of
           c # d # e # r \<Rightarrow>
             (if b = 0xF0 then 0x90 \<le> c \<and> c \<le> 0xBF
              else if b = 0xF4 then 0x80 \<le> c \<and> c \<le> 0x8F
              else cont_byte c) \<and> cont_byte d \<and> cont_byte e \<and> utf8_valid r
         | _ \<Rightarrow> False)
      else False)"

definition as_bytes :: "string \<Rightarrow> bytes" where
  "as_bytes s = map (\<lambda>c. word_of_nat (of_char c)) s"

definition str_of :: "bytes \<Rightarrow> string" where
  "str_of bs = map (\<lambda>b. char_of (unat b)) bs"

definition valid_str :: "string \<Rightarrow> bool" where
  "valid_str s \<longleftrightarrow> utf8_valid (as_bytes s)"

definition from_utf8 :: "bytes \<Rightarrow> 'e \<Rightarrow> (string, 'e) result" where
  "from_utf8 bs e = (if utf8_valid bs then Ok (str_of bs) else Err e)"

lemma length_as_bytes [simp]: "length (as_bytes s) = length s"
  by (simp add: as_bytes_def)

lemma length_str_of [simp]: "length (str_of bs) = length bs"
  by (simp add: str_of_def)

lemma str_of_as_bytes [simp]: "str_of (as_bytes s) = s"
proof -
  have "char_of (unat (word_of_nat (of_char c) :: u8)) = c" for c :: char
  proof -
    have "(of_char c :: nat) < 2 ^ 8"
      using nat_of_char_less_256 [of c] by simp
    then have "unat (word_of_nat (of_char c) :: u8) = of_char c"
      by (simp add: unat_of_nat take_bit_nat_eq_self)
    then show ?thesis by simp
  qed
  then show ?thesis by (simp add: as_bytes_def str_of_def comp_def)
qed

lemma as_bytes_str_of [simp]: "as_bytes (str_of bs) = bs"
proof -
  have "unat b mod 256 = unat b" for b :: u8
  proof -
    have "unat b < 2 ^ LENGTH(8)" by (rule unsigned_less)
    then show ?thesis by simp
  qed
  then show ?thesis by (simp add: as_bytes_def str_of_def comp_def)
qed

lemma as_bytes_Nil [simp]: "as_bytes [] = []" and str_of_Nil [simp]: "str_of [] = []"
  by (simp_all add: as_bytes_def str_of_def)

lemma from_utf8_as_bytes: "valid_str s \<Longrightarrow> from_utf8 (as_bytes s) e = Ok s"
  by (simp add: from_utf8_def valid_str_def)

lemma from_utf8_Ok: "from_utf8 bs e = Ok s \<longleftrightarrow> valid_str s \<and> bs = as_bytes s"
  by (auto simp: from_utf8_def valid_str_def)

lemma from_utf8_not_Panic [simp]: "from_utf8 bs e \<noteq> Panic"
  by (simp add: from_utf8_def)

section \<open>Shared list and arithmetic facts\<close>

lemma foldl_plus_map: "foldl (\<lambda>s t. s + f t) a xs = a + sum_list (map f xs)" for a :: nat
  by (induction xs arbitrary: a) auto

lemma length_concat_map: "length (concat (map g xs)) = sum_list (map (\<lambda>x. length (g x)) xs)"
  by (induction xs) auto

lemma w_for_buf:
  "(\<And>x. x \<in> set xs \<Longrightarrow> emits (f x) () (g x)) \<Longrightarrow> w_for xs f buf = (Ok (), buf @ concat (map g xs))"
  by (rule emitsD) (rule emits_for)

definition checked_sub :: "usize \<Rightarrow> usize \<Rightarrow> (usize, 'e) result" where
  "checked_sub a b = (if b \<le> a then Ok (a - b) else Panic)"

definition str_wf :: "string \<Rightarrow> bool" where
  "str_wf s \<longleftrightarrow> valid_str s \<and> length s < 65536"

end
