(* ===== verification/Mqtt_Types.thy ===== *)
theory Mqtt_Types
  imports Rust_Prelude
begin

text \<open>
  The data of the MQTT protocol crate: \<open>src/protocol/src/mqtt/common.rs\<close>.  Each \<open>struct\<close>
  is a record, each \<open>enum\<close> a datatype with the constructors of the source.  A field or a
  constructor whose name several types of the source share carries a prefix that names
  its type.  \<open>Display\<close> implementations only format log lines and are not modelled.
\<close>

section \<open>Protocol versions and packet types\<close>

datatype MqttProtocol = Mqtt3 | Mqtt4 | Mqtt5

definition is_mqtt3 :: "u8 \<Rightarrow> bool" where
  "is_mqtt3 protocol \<longleftrightarrow> protocol = 3"

definition is_mqtt4 :: "u8 \<Rightarrow> bool" where
  "is_mqtt4 protocol \<longleftrightarrow> protocol = 4"

definition is_mqtt5 :: "u8 \<Rightarrow> bool" where
  "is_mqtt5 protocol \<longleftrightarrow> protocol = 5"

primrec protocol_to_string :: "MqttProtocol \<Rightarrow> string" where
  "protocol_to_string Mqtt3 = ''MQTT3''"
| "protocol_to_string Mqtt4 = ''MQTT4''"
| "protocol_to_string Mqtt5 = ''MQTT5''"

primrec protocol_to_u8 :: "MqttProtocol \<Rightarrow> u8" where
  "protocol_to_u8 Mqtt3 = 3"
| "protocol_to_u8 Mqtt4 = 4"
| "protocol_to_u8 Mqtt5 = 5"

datatype PacketType =
    T_Connect | T_ConnAck | T_Publish | T_PubAck | T_PubRec | T_PubRel | T_PubComp
  | T_Subscribe | T_SubAck | T_Unsubscribe | T_UnsubAck | T_PingReq | T_PingResp
  | T_Disconnect | T_Auth

primrec packet_type_code :: "PacketType \<Rightarrow> u8" where
  "packet_type_code T_Connect = 1"
| "packet_type_code T_ConnAck = 2"
| "packet_type_code T_Publish = 3"
| "packet_type_code T_PubAck = 4"
| "packet_type_code T_PubRec = 5"
| "packet_type_code T_PubRel = 6"
| "packet_type_code T_PubComp = 7"
| "packet_type_code T_Subscribe = 8"
| "packet_type_code T_SubAck = 9"
| "packet_type_code T_Unsubscribe = 10"
| "packet_type_code T_UnsubAck = 11"
| "packet_type_code T_PingReq = 12"
| "packet_type_code T_PingResp = 13"
| "packet_type_code T_Disconnect = 14"
| "packet_type_code T_Auth = 15"

section \<open>Errors\<close>

text \<open>\<open>IoError\<close> wraps an I/O error of the runtime; no modelled function builds it.\<close>

datatype mqtt_error =
    InvalidConnectReturnCode u8
  | InvalidReason u8
  | InvalidRemainingLength usize
  | InvalidProtocol
  | InvalidProtocolLevel u8
  | IncorrectPacketFormat
  | InvalidPacketType u8
  | InvalidRetainForwardRule u8
  | InvalidQoS u8
  | PayloadTooLong
  | PayloadNotUtf8
  | BoundaryCrossed usize
  | MalformedPacket
  | MalformedRemainingLength
  | InsufficientBytes usize
  | PacketIdZero
  | PayloadSizeLimitExceeded usize
  | EmptySubscription
  | InvalidSubscribeReasonCode u8
  | TopicNotUtf8
  | PayloadSizeIncorrect
  | InvalidPropertyType u8
  | IoError

type_synonym 'a res = "('a, mqtt_error) result"
type_synonym 'a wr = "('a, mqtt_error) writer"
type_synonym user_props = "(string \<times> string) list"

section \<open>Quality of service\<close>

datatype QoS = AtMostOnce | AtLeastOnce | ExactlyOnce

text \<open>\<open>From<QoS> for u8\<close>; the cast \<open>qos as u8\<close> reads the same discriminants.\<close>

primrec qos_to_u8 :: "QoS \<Rightarrow> u8" where
  "qos_to_u8 AtMostOnce = 0"
| "qos_to_u8 AtLeastOnce = 1"
| "qos_to_u8 ExactlyOnce = 2"

definition qos :: "u8 \<Rightarrow> QoS option" where
  "qos num =
     (if num = 0 then Some AtMostOnce
      else if num = 1 then Some AtLeastOnce
      else if num = 2 then Some ExactlyOnce
      else None)"

section \<open>Connect\<close>

record Connect =
  keep_alive :: u16
  client_id :: string
  clean_session :: bool

record ConnectProperties =
  cp_session_expiry_interval :: "u32 option"
  cp_receive_maximum :: "u16 option"
  cp_max_packet_size :: "u32 option"
  cp_topic_alias_max :: "u16 option"
  cp_request_response_info :: "u8 option"
  cp_request_problem_info :: "u8 option"
  cp_user_properties :: user_props
  cp_authentication_method :: "string option"
  cp_authentication_data :: "bytes option"

record LastWill =
  will_topic :: bytes
  will_message :: bytes
  will_qos :: QoS
  will_retain :: bool

record LastWillProperties =
  lw_delay_interval :: "u32 option"
  lw_payload_format_indicator :: "u8 option"
  lw_message_expiry_interval :: "u32 option"
  lw_content_type :: "string option"
  lw_response_topic :: "string option"
  lw_correlation_data :: "bytes option"
  lw_user_properties :: user_props

record Login =
  username :: string
  password :: string

section \<open>ConnAck\<close>

datatype ConnectReturnCode =
    CR_Success | CR_NotAuthorized
  | CR_UnspecifiedError | CR_MalformedPacket | CR_ProtocolError
  | CR_ImplementationSpecificError | CR_UnsupportedProtocolVersion
  | CR_ClientIdentifierNotValid | CR_BadUserNamePassword | CR_ServerUnavailable
  | CR_ServerBusy | CR_Banned | CR_BadAuthenticationMethod | CR_TopicNameInvalid
  | CR_PacketTooLarge | CR_QuotaExceeded | CR_PayloadFormatInvalid
  | CR_RetainNotSupported | CR_QoSNotSupported | CR_UseAnotherServer | CR_ServerMoved
  | CR_ConnectionRateExceeded
  | CR_RefusedProtocolVersion | CR_BadClientId | CR_ServiceUnavailable

record ConnAck =
  session_present :: bool
  ca_code :: ConnectReturnCode

record ConnAckProperties =
  ca_session_expiry_interval :: "u32 option"
  ca_receive_max :: "u16 option"
  ca_max_qos :: "u8 option"
  ca_retain_available :: "u8 option"
  ca_max_packet_size :: "u32 option"
  ca_assigned_client_identifier :: "string option"
  ca_topic_alias_max :: "u16 option"
  ca_reason_string :: "string option"
  ca_user_properties :: user_props
  ca_wildcard_subscription_available :: "u8 option"
  ca_subscription_identifiers_available :: "u8 option"
  ca_shared_subscription_available :: "u8 option"
  ca_server_keep_alive :: "u16 option"
  ca_response_information :: "string option"
  ca_server_reference :: "string option"
  ca_authentication_method :: "string option"
  ca_authentication_data :: "bytes option"

section \<open>Publish and its acknowledgements\<close>

record Publish =
  dup :: bool
  p_qos :: QoS
  p_pkid :: u16
  retain :: bool
  topic :: bytes
  payload :: bytes

definition publish_new :: "bytes \<Rightarrow> bytes \<Rightarrow> bool \<Rightarrow> Publish" where
  "publish_new t pl r =
     \<lparr>dup = False, p_qos = AtMostOnce, p_pkid = 0, retain = r, topic = t, payload = pl\<rparr>"

definition publish_len :: "Publish \<Rightarrow> usize" where
  "publish_len p =
     (let len = 2 + length (topic p) + length (payload p)
      in if p_qos p = AtMostOnce then len else len + 2)"

record PublishProperties =
  pp_payload_format_indicator :: "u8 option"
  pp_message_expiry_interval :: "u32 option"
  pp_topic_alias :: "u16 option"
  pp_response_topic :: "string option"
  pp_correlation_data :: "bytes option"
  pp_user_properties :: user_props
  pp_subscription_identifiers :: "usize list"
  pp_content_type :: "string option"

datatype PubAckReason =
    PA_Success | PA_NoMatchingSubscribers | PA_UnspecifiedError
  | PA_ImplementationSpecificError | PA_NotAuthorized | PA_TopicNameInvalid
  | PA_PacketIdentifierInUse | PA_QuotaExceeded | PA_PayloadFormatInvalid

record PubAck =
  pa_pkid :: u16
  pa_reason :: "PubAckReason option"

record PubAckProperties =
  pa_reason_string :: "string option"
  pa_user_properties :: user_props

datatype PubRecReason =
    PR_Success | PR_NoMatchingSubscribers | PR_UnspecifiedError
  | PR_ImplementationSpecificError | PR_NotAuthorized | PR_TopicNameInvalid
  | PR_PacketIdentifierInUse | PR_QuotaExceeded | PR_PayloadFormatInvalid

record PubRec =
  pr_pkid :: u16
  pr_reason :: "PubRecReason option"

record PubRecProperties =
  pr_reason_string :: "string option"
  pr_user_properties :: user_props

datatype PubRelReason = PL_Success | PL_PacketIdentifierNotFound

record PubRel =
  pl_pkid :: u16
  pl_reason :: "PubRelReason option"

record PubRelProperties =
  pl_reason_string :: "string option"
  pl_user_properties :: user_props

datatype PubCompReason = PC_Success | PC_PacketIdentifierNotFound

record PubComp =
  pc_pkid :: u16
  pc_reason :: "PubCompReason option"

record PubCompProperties =
  pc_reason_string :: "string option"
  pc_user_properties :: user_props

section \<open>Subscriptions\<close>

datatype RetainForwardRule = OnEverySubscribe | OnNewSubscribe | Never

primrec retain_forward_to_u8 :: "RetainForwardRule \<Rightarrow> u8" where
  "retain_forward_to_u8 OnEverySubscribe = 0"
| "retain_forward_to_u8 OnNewSubscribe = 1"
| "retain_forward_to_u8 Never = 2"

record Filter =
  path :: string
  f_qos :: QoS
  nolocal :: bool
  preserve_retain :: bool
  retain_forward_rule :: RetainForwardRule

record Subscribe =
  packet_identifier :: u16
  s_filters :: "Filter list"

record SubscribeProperties =
  sp_subscription_identifier :: "usize option"
  sp_user_properties :: user_props

datatype SubscribeReasonCode =
    SR_QoS0 | SR_QoS1 | SR_QoS2 | SR_Success QoS | SR_Failure
  | SR_Unspecified | SR_ImplementationSpecific | SR_NotAuthorized
  | SR_TopicFilterInvalid | SR_PkidInUse | SR_QuotaExceeded
  | SR_SharedSubscriptionsNotSupported | SR_SubscriptionIdNotSupported
  | SR_WildcardSubscriptionsNotSupported | SR_ExclusiveSubscriptionDisabled
  | SR_TopicSubscribed

record SubAck =
  sa_pkid :: u16
  return_codes :: "SubscribeReasonCode list"

definition suback_len :: "SubAck \<Rightarrow> usize" where
  "suback_len s = 2 + length (return_codes s)"

record SubAckProperties =
  sa_reason_string :: "string option"
  sa_user_properties :: user_props

record Unsubscribe =
  u_pkid :: u16
  u_filters :: "string list"

record UnsubscribeProperties =
  u_user_properties :: user_props

datatype UnsubAckReason =
    UR_Success | UR_NoSubscriptionExisted | UR_UnspecifiedError
  | UR_ImplementationSpecificError | UR_NotAuthorized | UR_TopicFilterInvalid
  | UR_PacketIdentifierInUse

record UnsubAck =
  ua_pkid :: u16
  ua_reasons :: "UnsubAckReason list"

record UnsubAckProperties =
  ua_reason_string :: "string option"
  ua_user_properties :: user_props

section \<open>Disconnect and Auth\<close>

datatype DisconnectReasonCode =
    DR_NormalDisconnection | DR_DisconnectWithWillMessage | DR_UnspecifiedError
  | DR_MalformedPacket | DR_ProtocolError | DR_ImplementationSpecificError
  | DR_NotAuthorized | DR_ServerBusy | DR_ServerShuttingDown | DR_KeepAliveTimeout
  | DR_SessionTakenOver | DR_TopicFilterInvalid | DR_TopicNameInvalid
  | DR_ReceiveMaximumExceeded | DR_TopicAliasInvalid | DR_PacketTooLarge
  | DR_MessageRateTooHigh | DR_QuotaExceeded | DR_AdministrativeAction
  | DR_PayloadFormatInvalid | DR_RetainNotSupported | DR_QoSNotSupported
  | DR_UseAnotherServer | DR_ServerMoved | DR_SharedSubscriptionNotSupported
  | DR_ConnectionRateExceeded | DR_MaximumConnectTime
  | DR_SubscriptionIdentifiersNotSupported | DR_WildcardSubscriptionsNotSupported

record Disconnect =
  reason_code :: "DisconnectReasonCode option"

record DisconnectProperties =
  d_session_expiry_interval :: "u32 option"
  d_reason_string :: "string option"
  d_user_properties :: user_props
  d_server_reference :: "string option"

datatype AuthReason = AR_Success | AR_ContinueAuthentication | AR_ReAuthenticate

record Auth =
  a_reason :: "AuthReason option"

record AuthProperties =
  a_authentication_method :: "string option"
  a_authentication_data :: "bytes option"
  a_reason_string :: "string option"
  a_user_properties :: user_props

section \<open>Packets\<close>

datatype MqttPacket =
    P_Connect u8 Connect "ConnectProperties option" "LastWill option"
      "LastWillProperties option" "Login option"
  | P_ConnAck ConnAck "ConnAckProperties option"
  | P_Publish Publish "PublishProperties option"
  | P_PubAck PubAck "PubAckProperties option"
  | P_PubRec PubRec "PubRecProperties option"
  | P_PubRel PubRel "PubRelProperties option"
  | P_PubComp PubComp "PubCompProperties option"
  | P_PingReq
  | P_PingResp
  | P_Subscribe Subscribe "SubscribeProperties option"
  | P_SubAck SubAck "SubAckProperties option"
  | P_Unsubscribe Unsubscribe "UnsubscribeProperties option"
  | P_UnsubAck UnsubAck "UnsubAckProperties option"
  | P_Disconnect Disconnect "DisconnectProperties option"
  | P_Auth Auth "AuthProperties option"

lemma qos_of_u8 [simp]: "qos (qos_to_u8 q) = Some q"
  by (cases q) (simp_all add: qos_def)

lemma qos_Some: "qos n = Some q \<longleftrightarrow> n = qos_to_u8 q"
  by (cases q) (auto simp: qos_def)

end
