(* ===== verification/Mqtt_Wire.thy ===== *)
theory Mqtt_Wire
  imports Mqtt_Types
begin

text \<open>
  The byte-level primitives of \<open>src/protocol/src/mqtt/common.rs\<close>: fixed headers, the
  variable byte integer, length-prefixed bytes and strings.  A reader takes the stream
  and returns the value with the rest of the stream; a writer appends to a buffer.

  The main results are the exact relation between the variable byte integer that
  \<open>write_remaining_length\<close> emits and the one that \<open>length\<close> accepts, and the framing
  law \<open>check_frame\<close>: a frame followed by any bytes is recognised with exactly its own
  extent.
\<close>

section \<open>The \<open>bytes\<close> crate operations the code uses\<close>

text \<open>\<open>Buf::advance\<close>, \<open>BytesMut::split_to\<close> panic when fewer bytes are left.\<close>

definition advance :: "usize \<Rightarrow> bytes \<Rightarrow> bytes res" where
  "advance n bs = (if n \<le> length bs then Ok (drop n bs) else Panic)"

definition split_to :: "usize \<Rightarrow> bytes \<Rightarrow> (bytes \<times> bytes) res" where
  "split_to n bs = (if n \<le> length bs then Ok (take n bs, drop n bs) else Panic)"

text \<open>The writers never fail: \<open>BytesMut\<close> grows.  Integers are big-endian.\<close>

definition put_slice :: "bytes \<Rightarrow> unit wr" where
  "put_slice bs buf = (Ok (), buf @ bs)"

definition put_u8 :: "u8 \<Rightarrow> unit wr" where
  "put_u8 b = put_slice [b]"

definition be16 :: "u16 \<Rightarrow> bytes" where
  "be16 v = [ucast (drop_bit 8 v), ucast v]"

definition be32 :: "u32 \<Rightarrow> bytes" where
  "be32 v = [ucast (drop_bit 24 v), ucast (drop_bit 16 v), ucast (drop_bit 8 v), ucast v]"

definition put_u16 :: "u16 \<Rightarrow> unit wr" where
  "put_u16 v = put_slice (be16 v)"

definition put_u32 :: "u32 \<Rightarrow> unit wr" where
  "put_u32 v = put_slice (be32 v)"

definition from_be16 :: "u8 \<Rightarrow> u8 \<Rightarrow> u16" where
  "from_be16 a b = push_bit 8 (ucast a) OR ucast b"

definition from_be32 :: "u8 \<Rightarrow> u8 \<Rightarrow> u8 \<Rightarrow> u8 \<Rightarrow> u32" where
  "from_be32 a b c d =
     push_bit 24 (ucast a) OR push_bit 16 (ucast b) OR push_bit 8 (ucast c) OR ucast d"

section \<open>Fixed header and the variable byte integer\<close>

record FixedHeader =
  byte1 :: u8
  fixed_header_len :: usize
  remaining_len :: usize

definition fixed_header_new :: "u8 \<Rightarrow> usize \<Rightarrow> usize \<Rightarrow> FixedHeader" where
  "fixed_header_new b1 remaining_len_len rl =
     \<lparr>byte1 = b1, fixed_header_len = remaining_len_len + 1, remaining_len = rl\<rparr>"

definition packet_type :: "FixedHeader \<Rightarrow> PacketType res" where
  "packet_type h =
     (let num = drop_bit 4 (byte1 h) in
      if num = 1 then Ok T_Connect
      else if num = 2 then Ok T_ConnAck
      else if num = 3 then Ok T_Publish
      else if num = 4 then Ok T_PubAck
      else if num = 5 then Ok T_PubRec
      else if num = 6 then Ok T_PubRel
      else if num = 7 then Ok T_PubComp
      else if num = 8 then Ok T_Subscribe
      else if num = 9 then Ok T_SubAck
      else if num = 10 then Ok T_Unsubscribe
      else if num = 11 then Ok T_UnsubAck
      else if num = 12 then Ok T_PingReq
      else if num = 13 then Ok T_PingResp
      else if num = 14 then Ok T_Disconnect
      else Err (InvalidPacketType num))"

definition frame_length :: "FixedHeader \<Rightarrow> usize" where
  "frame_length h = fixed_header_len h + remaining_len h"

text \<open>
  The loop of \<open>length\<close>, with its four loop variables.  The stream ends without a
  final byte exactly when \<open>done\<close> is still false after the loop.
\<close>

fun length_loop :: "bytes \<Rightarrow> usize \<Rightarrow> usize \<Rightarrow> nat \<Rightarrow> (usize \<times> usize) res" where
  "length_loop [] len len_len shift = Err (InsufficientBytes 1)"
| "length_loop (b # bs) len len_len shift =
     (let len_len = len_len + 1;
          len = len + unat (b AND 0x7F) * 2 ^ shift in
      if b AND 0x80 = 0 then Ok (len_len, len)
      else let shift = shift + 7 in
        if shift > 21 then Err MalformedRemainingLength
        else length_loop bs len len_len shift)"

definition read_length :: "bytes \<Rightarrow> (usize \<times> usize) res" where
  "read_length stream = length_loop stream 0 0 0"

definition parse_fixed_header :: "bytes \<Rightarrow> FixedHeader res" where
  "parse_fixed_header stream =
     (case stream of
        b1 # b2 # rest \<Rightarrow>
          and_then (read_length (b2 # rest)) (\<lambda>(len_len, len).
            Ok (fixed_header_new b1 len_len len))
      | _ \<Rightarrow> Err (InsufficientBytes (2 - length stream)))"

definition check :: "bytes \<Rightarrow> usize \<Rightarrow> FixedHeader res" where
  "check stream max_packet_size =
     and_then (parse_fixed_header stream) (\<lambda>fixed_header.
       if remaining_len fixed_header > max_packet_size
       then Err (PayloadSizeLimitExceeded (remaining_len fixed_header))
       else if length stream < frame_length fixed_header
       then Err (InsufficientBytes (frame_length fixed_header - length stream))
       else Ok fixed_header)"

section \<open>Readers\<close>

definition read_u16 :: "bytes \<Rightarrow> (u16 \<times> bytes) res" where
  "read_u16 stream =
     (case stream of a # b # rest \<Rightarrow> Ok (from_be16 a b, rest) | _ \<Rightarrow> Err MalformedPacket)"

definition read_u8 :: "bytes \<Rightarrow> (u8 \<times> bytes) res" where
  "read_u8 stream = (case stream of b # rest \<Rightarrow> Ok (b, rest) | [] \<Rightarrow> Err MalformedPacket)"

definition read_u32 :: "bytes \<Rightarrow> (u32 \<times> bytes) res" where
  "read_u32 stream =
     (case stream of
        a # b # c # d # rest \<Rightarrow> Ok (from_be32 a b c d, rest)
      | _ \<Rightarrow> Err MalformedPacket)"

definition read_mqtt_bytes :: "bytes \<Rightarrow> (bytes \<times> bytes) res" where
  "read_mqtt_bytes stream =
     and_then (read_u16 stream) (\<lambda>(n, stream).
       let len = unat n in
       if len > length stream then Err (BoundaryCrossed len)
       else split_to len stream)"

definition read_mqtt_string :: "bytes \<Rightarrow> (string \<times> bytes) res" where
  "read_mqtt_string stream =
     and_then (read_mqtt_bytes stream) (\<lambda>(s, stream).
       and_then (from_utf8 s TopicNotUtf8) (\<lambda>v. Ok (v, stream)))"

section \<open>Writers\<close>

definition write_mqtt_bytes :: "bytes \<Rightarrow> unit wr" where
  "write_mqtt_bytes bs = w_seq [put_u16 (word_of_nat (length bs)), put_slice bs]"

definition write_mqtt_string :: "string \<Rightarrow> unit wr" where
  "write_mqtt_string s = write_mqtt_bytes (as_bytes s)"

text \<open>The loop of \<open>write_remaining_length\<close>: the buffer and the number of bytes written.\<close>

function write_length_loop :: "nat \<Rightarrow> usize \<Rightarrow> usize wr" where
  "write_length_loop x count buf =
     (let byte = word_of_nat (x mod 128);
          x = x div 128;
          byte = (if x > 0 then byte OR 128 else byte);
          buf = buf @ [byte];
          count = count + 1 in
      if x = 0 then (Ok count, buf) else write_length_loop x count buf)"
  by pat_completeness auto
termination
  by (relation "measure (\<lambda>(x, count, buf). x)") (auto intro: div_less_dividend gr0I)

declare write_length_loop.simps [simp del]

definition write_remaining_length :: "usize \<Rightarrow> usize wr" where
  "write_remaining_length len =
     (if len > 268435455 then w_err PayloadTooLong else write_length_loop len 0)"

definition len_len :: "usize \<Rightarrow> usize" where
  "len_len len =
     (if len \<ge> 2097152 then 4
      else if len \<ge> 16384 then 3
      else if len \<ge> 128 then 2
      else 1)"

section \<open>Words and bytes\<close>

lemma unat_of_small: "m < 128 \<Longrightarrow> unat (word_of_nat m :: u8) = m"
  by (simp add: unat_of_nat take_bit_nat_eq_self)

lemma small_and_7F: "m < 128 \<Longrightarrow> (word_of_nat m :: u8) AND 0x7F = word_of_nat m"
proof -
  assume "m < 128"
  have "(word_of_nat m :: u8) AND mask 7 = take_bit 7 (word_of_nat m)"
    by (simp add: take_bit_eq_mask)
  also have "\<dots> = word_of_nat (take_bit 7 m)"
    by (simp add: take_bit_of_nat)
  also have "take_bit 7 m = m"
    using \<open>m < 128\<close> by (simp add: take_bit_nat_eq_self)
  finally show ?thesis by (simp add: mask_eq_decr_exp)
qed

lemma small_and_80: "m < 128 \<Longrightarrow> (word_of_nat m :: u8) AND 0x80 = 0"
proof -
  assume "m < 128"
  then have "(word_of_nat m :: u8) AND 0x80 = (word_of_nat m AND 0x7F) AND 0x80"
    by (simp only: small_and_7F)
  also have "\<dots> = word_of_nat m AND (0x7F AND 0x80)"
    by (simp only: and.assoc)
  finally show ?thesis by simp
qed

lemma or_80_and_7F: "(b OR 128 :: u8) AND 0x7F = b AND 0x7F"
  by (simp add: bit.conj_disj_distrib2)

lemma or_80_and_80: "(b OR 128 :: u8) AND 0x80 \<noteq> 0"
proof -
  have "bit ((b OR 128 :: u8) AND 0x80) 7"
    by (simp add: bit_simps)
  then show ?thesis by auto
qed

lemma be16_from_be16: "be16 (from_be16 a b) = [a, b]"
  unfolding be16_def from_be16_def
  by (auto simp: bit_eq_iff bit_simps dest: bit_imp_le_length)

lemma from_be16_be16: "from_be16 (ucast (drop_bit 8 v)) (ucast v) = v"
  unfolding from_be16_def
  by (auto simp: bit_eq_iff bit_simps)

lemma from_be32_be32:
  "from_be32 (ucast (drop_bit 24 v)) (ucast (drop_bit 16 v)) (ucast (drop_bit 8 v)) (ucast v) = v"
proof (rule bit_word_eqI)
  fix n assume "n < LENGTH(32)"
  then consider "n < 8" | "8 \<le> n" "n < 16" | "16 \<le> n" "n < 24" | "24 \<le> n" "n < 32"
    by fastforce
  then show "bit (from_be32 (ucast (drop_bit 24 v)) (ucast (drop_bit 16 v))
      (ucast (drop_bit 8 v)) (ucast v)) n = bit v n"
    by cases (auto simp: from_be32_def bit_simps)
qed

lemma be32_from_be32: "be32 (from_be32 a b c d) = [a, b, c, d]"
  unfolding be32_def from_be32_def
  by (auto simp: bit_eq_iff bit_simps dest: bit_imp_le_length)

lemma word_of_nat_u16: "n < 65536 \<Longrightarrow> unat (word_of_nat n :: u16) = n"
  by (simp add: unat_of_nat take_bit_nat_eq_self)

section \<open>The variable byte integer\<close>

text \<open>The bytes that the loop of \<open>write_remaining_length\<close> appends.\<close>

fun vbi :: "nat \<Rightarrow> bytes" where
  "vbi x = (if x div 128 = 0 then [word_of_nat (x mod 128)]
            else (word_of_nat (x mod 128) OR 128) # vbi (x div 128))"

declare vbi.simps [simp del]

lemma write_length_loop_vbi:
  "write_length_loop x count buf = (Ok (count + length (vbi x)), buf @ vbi x)"
proof (induction x count buf rule: write_length_loop.induct)
  case (1 x count buf)
  show ?case
  proof (cases "x div 128 = 0")
    case True
    then show ?thesis
      by (simp add: write_length_loop.simps [of x] vbi.simps [of x])
  next
    case False
    with "1" [OF refl refl refl refl refl] show ?thesis
      by (simp add: write_length_loop.simps [of x] vbi.simps [of x])
  qed
qed

lemma length_vbi_less: "x < 128 ^ Suc k \<Longrightarrow> length (vbi x) \<le> Suc k"
proof (induction k arbitrary: x)
  case 0
  then show ?case by (simp add: vbi.simps [of x])
next
  case (Suc k)
  from Suc.prems have "x div 128 < 128 ^ Suc k"
    by (simp add: less_mult_imp_div_less mult.commute)
  then have "length (vbi (x div 128)) \<le> Suc k" by (rule Suc.IH)
  then show ?case by (simp add: vbi.simps [of x])
qed

lemma length_vbi_step:
  "length (vbi x) = (if x < 128 then 1 else Suc (length (vbi (x div 128))))"
  by (simp add: vbi.simps [of x] div_eq_0_iff)

lemma length_vbi: "x \<le> 268435455 \<Longrightarrow> length (vbi x) = len_len x"
proof -
  assume "x \<le> 268435455"
  then have "x div 128 < 2097152" "x div 128 div 128 < 16384" "x div 128 div 128 div 128 < 128"
    by simp_all
  moreover have "x div 128 < 128 \<longleftrightarrow> x < 16384" "x div 128 div 128 < 128 \<longleftrightarrow> x < 2097152"
    by auto
  ultimately show ?thesis
    by (simp add: length_vbi_step [of x] length_vbi_step [of "x div 128"]
        length_vbi_step [of "x div 128 div 128"] length_vbi_step [of "x div 128 div 128 div 128"]
        len_len_def del: div_mult2_eq)
qed

lemma length_loop_vbi:
  "shift + 7 * length (vbi x) \<le> 28 \<Longrightarrow>
   length_loop (vbi x @ rest) acc n shift = Ok (n + length (vbi x), acc + x * 2 ^ shift)"
proof (induction x arbitrary: acc n shift rule: vbi.induct)
  case (1 x)
  have small: "x mod 128 < 128" by simp
  show ?case
  proof (cases "x div 128 = 0")
    case True
    then have "x mod 128 = x" by (simp add: div_eq_0_iff)
    with True small show ?thesis
      by (simp add: vbi.simps [of x] small_and_80 small_and_7F unat_of_small)
  next
    case False
    have len: "shift + 7 + 7 * length (vbi (x div 128)) \<le> 28"
      using "1.prems" False by (simp add: vbi.simps [of x])
    have "1 \<le> length (vbi (x div 128))" by (simp add: vbi.simps)
    with len have "\<not> 21 < shift + 7" by linarith
    moreover have "acc + x mod 128 * 2 ^ shift + x div 128 * 2 ^ (shift + 7) = acc + x * 2 ^ shift"
    proof -
      have "x mod 128 * 2 ^ shift + x div 128 * 2 ^ (shift + 7) = (x div 128 * 128 + x mod 128) * 2 ^ shift"
        unfolding distrib_right power_add by (simp add: ac_simps)
      also have "\<dots> = x * 2 ^ shift"
        by (simp only: div_mult_mod_eq)
      finally show ?thesis by simp
    qed
    ultimately show ?thesis
      using False "1.IH" [OF False len] small
      by (simp add: vbi.simps [of x] or_80_and_80 or_80_and_7F small_and_7F unat_of_small)
  qed
qed

text \<open>What the decoder accepts: at most four bytes, a value of at most 28 bits.\<close>

lemma and_7F_less: "unat (b AND 0x7F :: u8) < 128"
proof -
  have "unat (b AND 0x7F) \<le> unat (0x7F :: u8)"
    by (rule word_and_le1 [THEN word_le_nat_alt [THEN iffD1]])
  then show ?thesis by simp
qed

lemma length_loop_bounds:
  "length_loop bs acc n shift = Ok (k, x) \<Longrightarrow> shift \<le> 21 \<Longrightarrow>
   n < k \<and> k \<le> n + length bs \<and> shift + 7 * (k - n) \<le> 28 \<and>
   (\<exists>y. x = acc + y * 2 ^ shift \<and> y < 128 ^ (k - n))"
proof (induction bs arbitrary: acc n shift)
  case Nil
  then show ?case by simp
next
  case (Cons b bs)
  let ?d = "unat (b AND 0x7F)"
  show ?case
  proof (cases "b AND 0x80 = 0")
    case True
    with Cons.prems and_7F_less [of b] show ?thesis by auto
  next
    case False
    with Cons.prems have rec: "length_loop bs (acc + ?d * 2 ^ shift) (Suc n) (shift + 7) = Ok (k, x)"
      and s: "shift + 7 \<le> 21"
      by (auto simp: Let_def split: if_splits)
    from Cons.IH [OF rec s] obtain y where b: "Suc n < k" "k \<le> Suc n + length bs"
      "shift + 7 + 7 * (k - Suc n) \<le> 28"
      and x: "x = acc + ?d * 2 ^ shift + y * 2 ^ (shift + 7)" and y: "y < 128 ^ (k - Suc n)"
      by auto
    have "x = acc + (?d + 128 * y) * 2 ^ shift"
      using x by (simp add: power_add algebra_simps)
    moreover have "?d + 128 * y < 128 ^ (k - n)"
    proof -
      have "?d + 128 * y < 128 * Suc y" using and_7F_less [of b] by simp
      also have "\<dots> \<le> 128 * 128 ^ (k - Suc n)" using y by (intro mult_left_mono) simp_all
      also have "\<dots> = 128 ^ (k - n)"
        using b(1) by (simp add: power_Suc [symmetric] Suc_diff_Suc del: power_Suc)
      finally show ?thesis .
    qed
    ultimately show ?thesis using b by auto
  qed
qed

lemma read_length_bounds:
  assumes "read_length bs = Ok (k, x)"
  shows "1 \<le> k \<and> k \<le> 4 \<and> k \<le> length bs \<and> x \<le> 268435455"
proof -
  from length_loop_bounds [OF assms [unfolded read_length_def]]
  have k: "0 < k" "k \<le> length bs" "7 * k \<le> 28" and x: "x < 128 ^ k"
    by auto
  have "(128::nat) ^ k \<le> 128 ^ 4" using k(3) by (intro power_increasing) simp_all
  with x k show ?thesis by auto
qed

lemma read_length_not_Panic [simp]: "read_length bs \<noteq> Panic"
proof -
  have "length_loop bs acc n shift \<noteq> Panic" for acc n shift
    by (induction bs acc n shift rule: length_loop.induct) (auto simp: Let_def)
  then show ?thesis by (simp add: read_length_def)
qed

lemma read_length_vbi:
  "x \<le> 268435455 \<Longrightarrow> read_length (vbi x @ rest) = Ok (len_len x, x)"
  using length_loop_vbi [of 0 x rest 0 0]
  by (simp add: read_length_def length_vbi len_len_def)

lemma emits_remaining_length [emit_rules]:
  "len \<le> 268435455 \<Longrightarrow> emits (write_remaining_length len) (len_len len) (vbi len)"
  by (simp add: emits_def write_remaining_length_def write_length_loop_vbi length_vbi)

lemma write_remaining_length_ok [w_simps]:
  "len \<le> 268435455 \<Longrightarrow> write_remaining_length len buf = (Ok (len_len len), buf @ vbi len)"
  by (rule emitsD) (rule emits_remaining_length)

lemma write_remaining_length_too_long [w_simps]:
  "268435455 < len \<Longrightarrow> write_remaining_length len buf = (Err PayloadTooLong, buf)"
  by (simp add: write_remaining_length_def w_err_def)

section \<open>What the writers emit and the readers recover\<close>

text \<open>The encodings of a length-prefixed byte string and of a string.\<close>

definition mbytes :: "bytes \<Rightarrow> bytes" where
  "mbytes bs = be16 (word_of_nat (length bs)) @ bs"

definition mstring :: "string \<Rightarrow> bytes" where
  "mstring s = mbytes (as_bytes s)"

lemma emits_put_u8 [emit_rules]: "emits (put_u8 b) () [b]"
  by (simp add: emits_def put_u8_def put_slice_def)

lemma emits_put_slice [emit_rules]: "emits (put_slice bs) () bs"
  by (simp add: emits_def put_slice_def)

lemma emits_put_u16 [emit_rules]: "emits (put_u16 v) () (be16 v)"
  by (simp add: put_u16_def emits_put_slice)

lemma emits_put_u32 [emit_rules]: "emits (put_u32 v) () (be32 v)"
  by (simp add: put_u32_def emits_put_slice)

lemma emits_mqtt_bytes [emit_rules]: "emits (write_mqtt_bytes bs) () (mbytes bs)"
  unfolding write_mqtt_bytes_def mbytes_def
  by (rule emits_cong, (rule emit_rules)+, simp)

lemma emits_mqtt_string [emit_rules]: "emits (write_mqtt_string s) () (mstring s)"
  by (simp add: write_mqtt_string_def mstring_def emits_mqtt_bytes)

lemma put_u8_buf [w_simps]: "put_u8 b buf = (Ok (), buf @ [b])"
  by (rule emitsD) (rule emits_put_u8)

lemma put_slice_buf [w_simps]: "put_slice bs buf = (Ok (), buf @ bs)"
  by (rule emitsD) (rule emits_put_slice)

lemma put_u16_buf [w_simps]: "put_u16 v buf = (Ok (), buf @ be16 v)"
  by (rule emitsD) (rule emits_put_u16)

lemma put_u32_buf [w_simps]: "put_u32 v buf = (Ok (), buf @ be32 v)"
  by (rule emitsD) (rule emits_put_u32)

lemma write_mqtt_bytes_buf [w_simps]: "write_mqtt_bytes bs buf = (Ok (), buf @ mbytes bs)"
  by (rule emitsD) (rule emits_mqtt_bytes)

lemma write_mqtt_string_buf [w_simps]: "write_mqtt_string s buf = (Ok (), buf @ mstring s)"
  by (rule emitsD) (rule emits_mqtt_string)

lemma length_be16 [simp]: "length (be16 v) = 2" by (simp add: be16_def)

lemma length_be32 [simp]: "length (be32 v) = 4" by (simp add: be32_def)

lemma length_mbytes [simp]: "length (mbytes bs) = 2 + length bs" by (simp add: mbytes_def)

lemma length_mstring [simp]: "length (mstring s) = 2 + length s" by (simp add: mstring_def)

lemma read_u8_Cons [wire_simps]: "read_u8 (b # rest) = Ok (b, rest)"
  by (simp add: read_u8_def)

lemma read_u16_be16 [wire_simps]: "read_u16 (be16 v @ rest) = Ok (v, rest)"
  by (simp add: read_u16_def be16_def from_be16_be16)

lemma read_u32_be32 [wire_simps]: "read_u32 (be32 v @ rest) = Ok (v, rest)"
  by (simp add: read_u32_def be32_def from_be32_be32)

lemma read_mqtt_bytes_mbytes [wire_simps]:
  "length bs < 65536 \<Longrightarrow> read_mqtt_bytes (mbytes bs @ rest) = Ok (bs, rest)"
  by (simp add: read_mqtt_bytes_def mbytes_def read_u16_be16 word_of_nat_u16 split_to_def)

lemma read_mqtt_string_mstring [wire_simps]:
  "valid_str s \<Longrightarrow> length s < 65536 \<Longrightarrow> read_mqtt_string (mstring s @ rest) = Ok (s, rest)"
  by (simp add: read_mqtt_string_def mstring_def read_mqtt_bytes_mbytes from_utf8_as_bytes)

section \<open>Frames\<close>

text \<open>
  A packet on the wire: the first byte, the length of the body, the body; and the header
  that \<open>check\<close> recovers from it.
\<close>

definition frame :: "u8 \<Rightarrow> bytes \<Rightarrow> bytes" where
  "frame b1 body = b1 # vbi (length body) @ body"

definition frame_header :: "u8 \<Rightarrow> bytes \<Rightarrow> FixedHeader" where
  "frame_header b1 body = fixed_header_new b1 (len_len (length body)) (length body)"

lemma vbi_not_Nil [simp]: "vbi x \<noteq> []"
  by (simp add: vbi.simps)

lemma length_frame:
  "length body \<le> 268435455 \<Longrightarrow> length (frame b1 body) = frame_length (frame_header b1 body)"
  by (simp add: frame_def frame_header_def fixed_header_new_def frame_length_def length_vbi)

lemma parse_fixed_header_vbi:
  "x \<le> 268435455 \<Longrightarrow>
   parse_fixed_header (b1 # vbi x @ rest) = Ok (fixed_header_new b1 (len_len x) x)"
proof -
  assume x: "x \<le> 268435455"
  obtain c cs where "vbi x @ rest = c # cs" by (cases "vbi x") auto
  with read_length_vbi [OF x, of rest] show ?thesis
    by (simp add: parse_fixed_header_def)
qed

lemma check_frame:
  assumes "length body \<le> 268435455" and "length body \<le> max_size"
  shows "check (frame b1 body @ rest) max_size = Ok (frame_header b1 body)"
  using assms length_frame [OF assms(1), of b1]
  by (simp add: check_def frame_def frame_header_def parse_fixed_header_vbi)
     (simp add: fixed_header_new_def frame_length_def)

lemma check_Ok:
  assumes "check stream max_size = Ok h"
  shows "frame_length h \<le> length stream \<and> remaining_len h \<le> max_size \<and>
    2 \<le> fixed_header_len h \<and> fixed_header_len h \<le> 5 \<and> byte1 h = hd stream"
  using assms
  by (auto simp: check_def parse_fixed_header_def and_then_eq_Ok fixed_header_new_def
      split: list.splits if_splits dest!: read_length_bounds)

lemma check_not_Panic [simp]: "check stream max_size \<noteq> Panic"
  by (auto simp: check_def parse_fixed_header_def and_then_eq_Panic split: list.splits)

text \<open>Every strict prefix of a frame asks for more bytes.\<close>

lemma length_loop_prefix:
  "k < length (vbi x) \<Longrightarrow> shift + 7 * length (vbi x) \<le> 28 \<Longrightarrow>
   length_loop (take k (vbi x)) acc n shift = Err (InsufficientBytes 1)"
proof (induction x arbitrary: k acc n shift rule: vbi.induct)
  case (1 x)
  show ?case
  proof (cases "k = 0 \<or> x div 128 = 0")
    case True
    with "1.prems" show ?thesis by (auto simp: vbi.simps [of x])
  next
    case False
    then obtain j where j: "k = Suc j" and x: "x div 128 \<noteq> 0" by (cases k) auto
    have lv: "length (vbi x) = Suc (length (vbi (x div 128)))"
      using x by (simp add: vbi.simps [of x])
    with "1.prems" j have "j < length (vbi (x div 128))"
      and len: "shift + 7 + 7 * length (vbi (x div 128)) \<le> 28"
      by simp_all
    then have "length_loop (take j (vbi (x div 128))) a m (shift + 7) = Err (InsufficientBytes 1)" for a m
      by (rule "1.IH" [OF x])
    moreover have "1 \<le> length (vbi (x div 128))" by (simp add: vbi.simps)
    ultimately show ?thesis using j x len
      by (simp add: vbi.simps [of x] or_80_and_80)
  qed
qed

lemma check_prefix:
  assumes "length body \<le> 268435455" and "length body \<le> max_size"
    and "k < length (frame b1 body)"
  shows "\<exists>n > 0. check (take k (frame b1 body)) max_size = Err (InsufficientBytes n)"
proof (cases "k < 1 + length (vbi (length body))")
  case True
  then consider "k = 0" | "k = 1" | j where "k = Suc j" "0 < j" "j < length (vbi (length body))"
    by (cases k; cases "k - 1") auto
  then show ?thesis
  proof cases
    case 3
    have "length (vbi (length body)) \<le> 4"
      using assms(1) by (simp add: length_vbi len_len_def)
    with 3 have "read_length (take j (vbi (length body))) = Err (InsufficientBytes 1)"
      by (simp add: read_length_def length_loop_prefix)
    moreover obtain c cs where "take j (vbi (length body)) = c # cs"
      using 3 by (cases "vbi (length body)"; cases j) auto
    ultimately show ?thesis using 3
      by (simp add: frame_def check_def parse_fixed_header_def)
  qed (simp_all add: frame_def check_def parse_fixed_header_def)
next
  case False
  then have "take k (frame b1 body) =
      b1 # vbi (length body) @ take (k - 1 - length (vbi (length body))) body"
    by (simp add: frame_def take_Cons')
  with assms False show ?thesis
    by (simp add: check_def parse_fixed_header_vbi frame_def)
       (simp add: fixed_header_new_def frame_length_def length_vbi)
qed

lemma advance_frame:
  "length body \<le> 268435455 \<Longrightarrow>
   advance (fixed_header_len (frame_header b1 body)) (frame b1 body) = Ok body"
  by (simp add: advance_def frame_def frame_header_def fixed_header_new_def length_vbi)

text \<open>
  What a decoder does first: recognise a frame and cut it off the stream
  (\<open>check\<close>, then \<open>stream.split_to(frame_length)\<close>).
\<close>

definition take_frame :: "usize \<Rightarrow> bytes \<Rightarrow> (FixedHeader \<times> bytes \<times> bytes) res" where
  "take_frame max_size stream =
     and_then (check stream max_size) (\<lambda>fixed_header.
     and_then (split_to (frame_length fixed_header) stream) (\<lambda>(packet, stream).
       Ok (fixed_header, packet, stream)))"

lemma take_frame_frame:
  assumes "length body \<le> 268435455" and "length body \<le> max_size"
  shows "take_frame max_size (frame b1 body @ rest) = Ok (frame_header b1 body, frame b1 body, rest)"
  using assms by (simp add: take_frame_def check_frame split_to_def length_frame [symmetric])

lemma take_frame_not_Panic [simp]: "take_frame max_size stream \<noteq> Panic"
  by (auto simp: take_frame_def and_then_eq_Panic split_to_def dest!: check_Ok)

lemma take_frame_Ok:
  assumes "take_frame max_size stream = Ok (h, packet, rest)"
  shows "stream = packet @ rest \<and> length packet = fixed_header_len h + remaining_len h \<and>
    remaining_len h \<le> max_size \<and> 2 \<le> length packet"
proof -
  from assms have c: "check stream max_size = Ok h"
    and p: "packet = take (frame_length h) stream" "rest = drop (frame_length h) stream"
    by (auto simp: take_frame_def and_then_eq_Ok split_to_def split: if_splits)
  from check_Ok [OF c] p show ?thesis by (simp add: frame_length_def)
qed

section \<open>The contract of a packet codec\<close>

text \<open>
  Every packet module promises the same: its writer appends the frame of the packet, and
  its reader recovers from that frame the packet, up to the fields that the wire format
  does not carry (\<open>norm\<close>).  \<open>wf\<close> says which packets fit in the wire format.
\<close>

locale packet_codec =
  fixes "write" :: "'p \<Rightarrow> usize wr"
    and read :: "FixedHeader \<Rightarrow> bytes \<Rightarrow> 'q res"
    and first_byte :: "'p \<Rightarrow> u8"
    and body :: "'p \<Rightarrow> bytes"
    and wf :: "'p \<Rightarrow> bool"
    and norm :: "'p \<Rightarrow> 'q"
  assumes write_frame:
      "wf p \<Longrightarrow> emits (write p) (length (frame (first_byte p) (body p))) (frame (first_byte p) (body p))"
    and read_frame:
      "wf p \<Longrightarrow> read (frame_header (first_byte p) (body p)) (frame (first_byte p) (body p)) = Ok (norm p)"
    and body_bound: "wf p \<Longrightarrow> length (body p) \<le> 268435455"
begin

lemma round_trip:
  assumes "wf p" and "length (body p) \<le> max_size"
  shows "\<exists>fr. write p buf = (Ok (length fr), buf @ fr) \<and>
    (\<forall>rest. \<exists>h. take_frame max_size (fr @ rest) = Ok (h, fr, rest) \<and> read h fr = Ok (norm p))"
  using emitsD [OF write_frame [OF assms(1)]] take_frame_frame [OF body_bound [OF assms(1)] assms(2)]
    read_frame [OF assms(1)]
  by blast

lemma frames_determine_packets:
  assumes "wf p" and "wf q"
    and "frame (first_byte p) (body p) @ r = frame (first_byte q) (body q) @ s"
  shows "norm p = norm q \<and> r = s"
proof -
  let ?m = "max (length (body p)) (length (body q))"
  let ?tp = "(frame_header (first_byte p) (body p), frame (first_byte p) (body p), r)"
  let ?tq = "(frame_header (first_byte q) (body q), frame (first_byte q) (body q), s)"
  have p: "take_frame ?m (frame (first_byte p) (body p) @ r) = Ok ?tp"
    by (rule take_frame_frame) (simp_all add: body_bound [OF assms(1)])
  have q: "take_frame ?m (frame (first_byte q) (body q) @ s) = Ok ?tq"
    by (rule take_frame_frame) (simp_all add: body_bound [OF assms(2)])
  have "Ok ?tp = (Ok ?tq :: (FixedHeader \<times> bytes \<times> bytes) res)"
    by (rule trans [OF p [symmetric]]) (simp only: assms(3) q)
  then have "?tp = ?tq" by (simp only: result.inject)
  then have h: "frame_header (first_byte p) (body p) = frame_header (first_byte q) (body q)"
    and f: "frame (first_byte p) (body p) = frame (first_byte q) (body q)" and "r = s"
    by (simp_all only: prod.inject)
  moreover have "Ok (norm p) = (Ok (norm q) :: 'q res)"
    by (rule trans [OF read_frame [OF assms(1), symmetric]])
       (simp only: h f read_frame [OF assms(2)])
  ultimately show ?thesis by simp
qed

lemma truncated_frame:
  assumes "wf p" and "length (body p) \<le> max_size" and "k < length (frame (first_byte p) (body p))"
  shows "\<exists>n > 0. take_frame max_size (take k (frame (first_byte p) (body p))) = Err (InsufficientBytes n)"
  using check_prefix [OF body_bound [OF assms(1)] assms(2,3)] by (auto simp: take_frame_def)

end

section \<open>Consequences that the packet modules share\<close>

lemma advance_frame' [simp]:
  "length body \<le> 268435455 \<Longrightarrow>
   advance (fixed_header_len (frame_header b1 body)) (frame b1 body) = Ok body"
  by (rule advance_frame)

lemma frame_header_sel [simp]:
  "byte1 (frame_header b1 body) = b1" "remaining_len (frame_header b1 body) = length body"
  by (simp_all add: frame_header_def fixed_header_new_def)

lemma emits_frameI:
  assumes "\<And>buf. m buf = (Ok n, buf @ b1 # vbi (length body) @ body)"
    and "length body \<le> 268435455" and "n = 1 + len_len (length body) + length body"
  shows "emits m (length (frame b1 body)) (frame b1 body)"
  using assms by (simp add: emits_def frame_def length_vbi)

lemma readers_at_end [wire_simps]:
  "read_u16 (be16 v) = Ok (v, [])"
  "read_u32 (be32 w) = Ok (w, [])"
  "length bs < 65536 \<Longrightarrow> read_mqtt_bytes (mbytes bs) = Ok (bs, [])"
  "valid_str s \<Longrightarrow> length s < 65536 \<Longrightarrow> read_mqtt_string (mstring s) = Ok (s, [])"
  using read_u16_be16 [of v "[]"] read_u32_be32 [of w "[]"]
    read_mqtt_bytes_mbytes [of bs "[]"] read_mqtt_string_mstring [of s "[]"]
  by simp_all

lemma vbi_small: "x < 128 \<Longrightarrow> vbi x = [word_of_nat x]"
  by (simp add: vbi.simps)

lemma qos_to_u8_and_3 [simp]: "qos_to_u8 q AND 3 = qos_to_u8 q"
  by (cases q) simp_all

lemma mstring_Nil [simp]: "mstring s \<noteq> []"
  by (simp add: mstring_def mbytes_def be16_def)

lemma read_u16_shrinks: "read_u16 bs = Ok (v, r) \<Longrightarrow> length r < length bs"
  by (auto simp: read_u16_def split: list.splits)

lemma read_u8_shrinks: "read_u8 bs = Ok (v, r) \<Longrightarrow> length r < length bs"
  by (auto simp: read_u8_def split: list.splits)

lemma read_mqtt_bytes_shrinks: "read_mqtt_bytes bs = Ok (v, r) \<Longrightarrow> length r < length bs"
  by (fastforce simp: read_mqtt_bytes_def and_then_eq_Ok split_to_def Let_def
      split: if_splits dest: read_u16_shrinks)

lemma read_mqtt_string_shrinks: "read_mqtt_string bs = Ok (v, r) \<Longrightarrow> length r < length bs"
  by (auto simp: read_mqtt_string_def and_then_eq_Ok dest: read_mqtt_bytes_shrinks)

text \<open>
  The loop \<open>while bytes.has_remaining() { codes.push(reason(read_u8(bytes)?)?) }\<close>, which
  the v4 and v5 SubAck readers and the v5 UnsubAck reader share, for a given \<open>reason\<close>.
\<close>

fun read_codes :: "(u8 \<Rightarrow> 'a res) \<Rightarrow> bytes \<Rightarrow> 'a list \<Rightarrow> 'a list res" where
  "read_codes reason [] codes = Ok codes"
| "read_codes reason (b # bs) codes =
     and_then (reason b) (\<lambda>c. read_codes reason bs (codes @ [c]))"

lemma read_codes_map:
  "\<forall>c \<in> set cs. reason (code c) = Ok (norm c) \<Longrightarrow>
   read_codes reason (map code cs) acc = Ok (acc @ map norm cs)"
  by (induction cs arbitrary: acc) auto

lemma read_not_Panic [simp]:
  "read_u8 bs \<noteq> Panic" "read_u16 bs \<noteq> Panic" "read_u32 bs \<noteq> Panic"
  "read_mqtt_bytes bs \<noteq> Panic" "read_mqtt_string bs \<noteq> Panic"
  by (auto simp: read_u8_def read_u16_def read_u32_def read_mqtt_bytes_def read_mqtt_string_def
      and_then_eq_Panic split_to_def Let_def split: list.splits if_splits)

lemma advance_eq_Panic [simp]: "advance n bs = Panic \<longleftrightarrow> length bs < n"
  by (auto simp: advance_def)

lemma advance_eq_Ok: "advance n bs = Ok r \<longleftrightarrow> n \<le> length bs \<and> r = drop n bs"
  by (auto simp: advance_def)

lemma read_codes_not_Panic:
  "(\<And>b. reason b \<noteq> Panic) \<Longrightarrow> read_codes reason bs acc \<noteq> Panic"
  by (induction bs arbitrary: acc) (auto simp: and_then_eq_Panic)

lemma read_u16_length: "read_u16 bs = Ok (v, r) \<Longrightarrow> length bs = 2 + length r"
  by (auto simp: read_u16_def split: list.splits)

lemma read_mqtt_bytes_length: "read_mqtt_bytes bs = Ok (v, r) \<Longrightarrow> length bs = 2 + length v + length r"
  by (auto simp: read_mqtt_bytes_def and_then_eq_Ok split_to_def Let_def
      split: if_splits dest!: read_u16_length)

lemma read_mqtt_string_length: "read_mqtt_string bs = Ok (v, r) \<Longrightarrow> length bs = 2 + length v + length r"
  by (auto simp: read_mqtt_string_def and_then_eq_Ok from_utf8_Ok dest!: read_mqtt_bytes_length)

section \<open>The remaining length\<close>

text \<open>
  C4: \<open>write_remaining_length\<close> and \<open>length\<close> are inverse on every length that MQTT allows:
  one to four bytes are written, as many as \<open>len_len\<close> counts, and the reader gets the length
  back whatever follows.
\<close>

theorem remaining_length_round_trip:
  assumes "len \<le> 268435455"
  shows "\<exists>bs. write_remaining_length len buf = (Ok (len_len len), buf @ bs) \<and>
    length bs = len_len len \<and> (\<forall>rest. read_length (bs @ rest) = Ok (len_len len, len))"
  using write_remaining_length_ok [OF assms] length_vbi [OF assms] read_length_vbi [OF assms] by blast

theorem remaining_length_round_trip_witness:
  "\<exists>bs. write_remaining_length 268435455 [] = (Ok (len_len 268435455), [] @ bs) \<and>
    length bs = len_len 268435455 \<and> (\<forall>rest. read_length (bs @ rest) = Ok (len_len 268435455, 268435455))"
  by (rule remaining_length_round_trip) simp

text \<open>
  C17: whatever the bytes of the peer, \<open>length\<close> looks at no more than four of them and yields a
  value below $2^{28}$: a fixed header cannot make the decoder loop or overflow.
\<close>

theorem read_length_bounded:
  "(case read_length bs of
      Ok (k, x) \<Rightarrow> 1 \<le> k \<and> k \<le> 4 \<and> k \<le> length bs \<and> x \<le> 268435455
    | Err e \<Rightarrow> e = InsufficientBytes 1 \<or> e = MalformedRemainingLength
    | Panic \<Rightarrow> False)"
proof -
  have err: "length_loop bs acc n shift = Err e \<Longrightarrow> e = InsufficientBytes 1 \<or> e = MalformedRemainingLength"
    for acc n shift e
    by (induction bs acc n shift rule: length_loop.induct) (auto simp: Let_def split: if_splits)
  show ?thesis
    using read_length_bounds [of bs] err [of 0 0 0] read_length_not_Panic [of bs]
    by (auto simp: read_length_def split: result.split)
qed

end
