(* ===== verification/Mqtt_V4.thy ===== *)
theory Mqtt_V4
  imports Mqtt_Wire
begin

text \<open>
  The MQTT 3.1/3.1.1 packets: \<open>src/protocol/src/mqtt/mqttv4/\<close>.  One reader and one writer
  per packet, in the order of the modules, then the round-trip laws: what a writer
  appends is the frame of the packet, and its reader recovers the packet from the frame.
  The bounds on the fields are what the two-byte length prefixes and the four-byte
  remaining length can carry.
\<close>

section \<open>ConnAck\<close>

definition v4_connect_return :: "u8 \<Rightarrow> ConnectReturnCode res" where
  "v4_connect_return num =
     (if num = 0 then Ok CR_Success
      else if num = 1 then Ok CR_RefusedProtocolVersion
      else if num = 2 then Ok CR_BadClientId
      else if num = 3 then Ok CR_ServiceUnavailable
      else if num = 4 then Ok CR_BadUserNamePassword
      else if num = 5 then Ok CR_NotAuthorized
      else Err (InvalidConnectReturnCode num))"

definition v4_connect_code :: "ConnectReturnCode \<Rightarrow> u8 res" where
  "v4_connect_code return_code =
     (case return_code of
        CR_Success \<Rightarrow> Ok 0
      | CR_RefusedProtocolVersion \<Rightarrow> Ok 1
      | CR_BadClientId \<Rightarrow> Ok 2
      | CR_ServiceUnavailable \<Rightarrow> Ok 3
      | CR_BadUserNamePassword \<Rightarrow> Ok 4
      | CR_NotAuthorized \<Rightarrow> Ok 5
      | _ \<Rightarrow> Panic)"

definition v4_connack_read :: "FixedHeader \<Rightarrow> bytes \<Rightarrow> ConnAck res" where
  "v4_connack_read fixed_header bytes =
     and_then (advance (fixed_header_len fixed_header) bytes) (\<lambda>bytes.
     and_then (read_u8 bytes) (\<lambda>(flags, bytes).
     and_then (read_u8 bytes) (\<lambda>(return_code, bytes).
     and_then (v4_connect_return return_code) (\<lambda>code.
       Ok \<lparr>session_present = (flags AND 0x01 = 1), ca_code = code\<rparr>))))"

definition v4_connack_write :: "ConnAck \<Rightarrow> usize wr" where
  "v4_connack_write connack =
     (let len = 1 + 1 in
      w_bind (put_u8 0x20) (\<lambda>_.
      w_bind (write_remaining_length len) (\<lambda>count.
      w_bind (put_u8 (of_bool (session_present connack))) (\<lambda>_.
      w_bind (w_lift (v4_connect_code (ca_code connack))) (\<lambda>code.
      w_bind (put_u8 code) (\<lambda>_.
        w_ok (1 + count + len)))))))"

section \<open>Connect\<close>

definition v4_will_len :: "LastWill \<Rightarrow> usize" where
  "v4_will_len will = 2 + length (will_topic will) + 2 + length (will_message will)"

definition v4_will_read :: "u8 \<Rightarrow> bytes \<Rightarrow> (LastWill option \<times> bytes) res" where
  "v4_will_read connect_flags bytes =
     (if connect_flags AND 0b100 = 0 then
        (if connect_flags AND 0b00111000 \<noteq> 0 then Err IncorrectPacketFormat
         else Ok (None, bytes))
      else
        and_then (read_mqtt_bytes bytes) (\<lambda>(w_topic, bytes).
        and_then (read_mqtt_bytes bytes) (\<lambda>(w_message, bytes).
          let qos_num = drop_bit 3 (connect_flags AND 0b11000) in
        and_then (ok_or (qos qos_num) (InvalidQoS qos_num)) (\<lambda>w_qos.
          Ok (Some \<lparr>will_topic = w_topic, will_message = w_message, will_qos = w_qos,
                    will_retain = (connect_flags AND 0b001000000 \<noteq> 0)\<rparr>, bytes)))))"

definition v4_will_write :: "LastWill \<Rightarrow> u8 wr" where
  "v4_will_write will =
     (let connect_flags = 0x04 OR push_bit 3 (qos_to_u8 (will_qos will));
          connect_flags = (if will_retain will then connect_flags OR 0x20 else connect_flags) in
      w_bind (write_mqtt_bytes (will_topic will)) (\<lambda>_.
      w_bind (write_mqtt_bytes (will_message will)) (\<lambda>_.
        w_ok connect_flags)))"

definition v4_login_read :: "u8 \<Rightarrow> bytes \<Rightarrow> (Login option \<times> bytes) res" where
  "v4_login_read connect_flags bytes =
     and_then
       (if connect_flags AND 0b10000000 = 0 then Ok ([], bytes)
        else and_then (read_mqtt_bytes bytes) (\<lambda>(u, bytes).
             and_then (from_utf8 u PayloadNotUtf8) (\<lambda>u. Ok (u, bytes)))) (\<lambda>(user, bytes).
     and_then
       (if connect_flags AND 0b01000000 = 0 then Ok ([], bytes)
        else and_then (read_mqtt_bytes bytes) (\<lambda>(p, bytes).
             and_then (from_utf8 p PayloadNotUtf8) (\<lambda>p. Ok (p, bytes)))) (\<lambda>(pass, bytes).
       if user = [] \<and> pass = [] then Ok (None, bytes)
       else Ok (Some \<lparr>username = user, password = pass\<rparr>, bytes)))"

definition v4_login_len :: "Login \<Rightarrow> usize" where
  "v4_login_len login =
     (let len = 0;
          len = (if username login \<noteq> [] then len + (2 + length (username login)) else len);
          len = (if password login \<noteq> [] then len + (2 + length (password login)) else len)
      in len)"

definition v4_login_write :: "Login \<Rightarrow> u8 wr" where
  "v4_login_write login =
     (let connect_flags = 0 in
      w_bind (if username login \<noteq> [] then
                w_bind (write_mqtt_string (username login)) (\<lambda>_. w_ok (connect_flags OR 0x80))
              else w_ok connect_flags) (\<lambda>connect_flags.
      w_bind (if password login \<noteq> [] then
                w_bind (write_mqtt_string (password login)) (\<lambda>_. w_ok (connect_flags OR 0x40))
              else w_ok connect_flags) (\<lambda>connect_flags.
        w_ok connect_flags)))"

definition v4_login_validate :: "Login \<Rightarrow> string \<Rightarrow> string \<Rightarrow> bool" where
  "v4_login_validate login user pass \<longleftrightarrow> username login = user \<and> password login = pass"

definition v4_connect_len :: "Connect \<Rightarrow> Login option \<Rightarrow> LastWill option \<Rightarrow> usize" where
  "v4_connect_len connect login will =
     (let len = 2 + length ''MQTT'' + 1 + 1 + 2;
          len = len + (2 + length (client_id connect));
          len = (case will of Some w \<Rightarrow> len + v4_will_len w | None \<Rightarrow> len);
          len = (case login of Some l \<Rightarrow> len + v4_login_len l | None \<Rightarrow> len)
      in len)"

definition v4_connect_read ::
    "FixedHeader \<Rightarrow> bytes \<Rightarrow> (u8 \<times> Connect \<times> Login option \<times> LastWill option) res" where
  "v4_connect_read fixed_header bytes =
     and_then (advance (fixed_header_len fixed_header) bytes) (\<lambda>bytes.
     and_then (read_mqtt_bytes bytes) (\<lambda>(protocol_name, bytes).
     and_then (from_utf8 protocol_name PayloadNotUtf8) (\<lambda>protocol_name.
     and_then (read_u8 bytes) (\<lambda>(protocol_level, bytes).
     if protocol_name \<noteq> ''MQTT'' then Err InvalidProtocol
     else if protocol_level \<noteq> 4 \<and> protocol_level \<noteq> 3
     then Err (InvalidProtocolLevel protocol_level)
     else
     and_then (read_u8 bytes) (\<lambda>(connect_flags, bytes).
     and_then (read_u16 bytes) (\<lambda>(ka, bytes).
     and_then (read_mqtt_bytes bytes) (\<lambda>(cid, bytes).
     and_then (from_utf8 cid PayloadNotUtf8) (\<lambda>cid.
     and_then (v4_will_read connect_flags bytes) (\<lambda>(last_will, bytes).
     and_then (v4_login_read connect_flags bytes) (\<lambda>(login, bytes).
       Ok (protocol_level,
           \<lparr>keep_alive = ka, client_id = cid, clean_session = (connect_flags AND 0b10 \<noteq> 0)\<rparr>,
           login, last_will)))))))))))"

definition v4_connect_write :: "Connect \<Rightarrow> Login option \<Rightarrow> LastWill option \<Rightarrow> usize wr" where
  "v4_connect_write connect login will =
     (let len = v4_connect_len connect login will in
      w_bind (put_u8 0b00010000) (\<lambda>_.
      w_bind (write_remaining_length len) (\<lambda>count.
      w_bind (write_mqtt_string ''MQTT'') (\<lambda>_.
      w_bind (put_u8 0x04) (\<lambda>_.
      let flags_index = 1 + count + 2 + 4 + 1;
          connect_flags = 0;
          connect_flags = (if clean_session connect then connect_flags OR 0x02 else connect_flags) in
      w_bind (put_u8 connect_flags) (\<lambda>_.
      w_bind (put_u16 (keep_alive connect)) (\<lambda>_.
      w_bind (write_mqtt_string (client_id connect)) (\<lambda>_.
      w_bind (case will of
                Some w \<Rightarrow> w_bind (v4_will_write w) (\<lambda>f. w_ok (connect_flags OR f))
              | None \<Rightarrow> w_ok connect_flags) (\<lambda>connect_flags.
      w_bind (case login of
                Some l \<Rightarrow> w_bind (v4_login_write l) (\<lambda>f. w_ok (connect_flags OR f))
              | None \<Rightarrow> w_ok connect_flags) (\<lambda>connect_flags.
      w_bind (w_set flags_index connect_flags) (\<lambda>_.
        w_ok len)))))))))))"

section \<open>Publish\<close>

definition v4_publish_read :: "FixedHeader \<Rightarrow> bytes \<Rightarrow> Publish res" where
  "v4_publish_read fixed_header bytes =
     (let qos_num = drop_bit 1 (byte1 fixed_header AND 0b0110) in
      and_then (ok_or (qos qos_num) (InvalidQoS qos_num)) (\<lambda>q.
      let d = (byte1 fixed_header AND 0b1000 \<noteq> 0);
          r = (byte1 fixed_header AND 0b0001 \<noteq> 0) in
      and_then (advance (fixed_header_len fixed_header) bytes) (\<lambda>bytes.
      and_then (read_mqtt_bytes bytes) (\<lambda>(tpc, bytes).
      and_then (case q of AtMostOnce \<Rightarrow> Ok (0, bytes) | _ \<Rightarrow> read_u16 bytes) (\<lambda>(pkid, bytes).
      if q \<noteq> AtMostOnce \<and> pkid = 0 then Err PacketIdZero
      else Ok \<lparr>dup = d, p_qos = q, p_pkid = pkid, retain = r, topic = tpc, payload = bytes\<rparr>)))))"

definition publish_byte1 :: "Publish \<Rightarrow> u8" where
  "publish_byte1 publish =
     (let d = of_bool (dup publish); q = qos_to_u8 (p_qos publish); r = of_bool (retain publish)
      in 0b00110000 OR r OR push_bit 1 q OR push_bit 3 d)"

definition v4_publish_write :: "Publish \<Rightarrow> usize wr" where
  "v4_publish_write publish =
     (let len = publish_len publish in
      w_bind (put_u8 (publish_byte1 publish)) (\<lambda>_.
      w_bind (write_remaining_length len) (\<lambda>count.
      w_bind (write_mqtt_bytes (topic publish)) (\<lambda>_.
      w_bind (if p_qos publish \<noteq> AtMostOnce then
                (if p_pkid publish = 0 then w_err PacketIdZero else put_u16 (p_pkid publish))
              else w_ok ()) (\<lambda>_.
      w_bind (put_slice (payload publish)) (\<lambda>_.
        w_ok (1 + count + len)))))))"

section \<open>PubAck, PubRec, PubRel, PubComp\<close>

definition v4_puback_read :: "FixedHeader \<Rightarrow> bytes \<Rightarrow> PubAck res" where
  "v4_puback_read fixed_header bytes =
     and_then (advance (fixed_header_len fixed_header) bytes) (\<lambda>bytes.
     if remaining_len fixed_header \<noteq> 2
     then Err (InvalidRemainingLength (remaining_len fixed_header))
     else and_then (read_u16 bytes) (\<lambda>(pkid, bytes).
       Ok \<lparr>pa_pkid = pkid, pa_reason = Some PA_Success\<rparr>))"

definition v4_puback_write :: "PubAck \<Rightarrow> usize wr" where
  "v4_puback_write puback =
     (let len = 2 in
      w_bind (put_u8 0x40) (\<lambda>_.
      w_bind (write_remaining_length len) (\<lambda>count.
      w_bind (put_u16 (pa_pkid puback)) (\<lambda>_.
        w_ok (1 + count + len)))))"

definition v4_pubrec_read :: "FixedHeader \<Rightarrow> bytes \<Rightarrow> PubRec res" where
  "v4_pubrec_read fixed_header bytes =
     and_then (advance (fixed_header_len fixed_header) bytes) (\<lambda>bytes.
     and_then (read_u16 bytes) (\<lambda>(pkid, bytes).
     if remaining_len fixed_header = 2
     then Ok \<lparr>pr_pkid = pkid, pr_reason = Some PR_Success\<rparr>
     else Err (InvalidRemainingLength (remaining_len fixed_header))))"

definition v4_pubrec_write :: "PubRec \<Rightarrow> usize wr" where
  "v4_pubrec_write pubrec =
     (let len = 2 in
      w_bind (put_u8 0x50) (\<lambda>_.
      w_bind (write_remaining_length len) (\<lambda>count.
      w_bind (put_u16 (pr_pkid pubrec)) (\<lambda>_.
        w_ok (1 + count + len)))))"

definition v4_pubrel_read :: "FixedHeader \<Rightarrow> bytes \<Rightarrow> PubRel res" where
  "v4_pubrel_read fixed_header bytes =
     and_then (advance (fixed_header_len fixed_header) bytes) (\<lambda>bytes.
     and_then (read_u16 bytes) (\<lambda>(pkid, bytes).
     if remaining_len fixed_header = 2
     then Ok \<lparr>pl_pkid = pkid, pl_reason = Some PL_Success\<rparr>
     else Err (InvalidRemainingLength (remaining_len fixed_header))))"

definition v4_pubrel_write :: "PubRel \<Rightarrow> usize wr" where
  "v4_pubrel_write pubrel =
     (let len = 2 in
      w_bind (put_u8 0x62) (\<lambda>_.
      w_bind (write_remaining_length len) (\<lambda>count.
      w_bind (put_u16 (pl_pkid pubrel)) (\<lambda>_.
        w_ok (1 + count + len)))))"

definition v4_pubcomp_read :: "FixedHeader \<Rightarrow> bytes \<Rightarrow> PubComp res" where
  "v4_pubcomp_read fixed_header bytes =
     and_then (advance (fixed_header_len fixed_header) bytes) (\<lambda>bytes.
     and_then (read_u16 bytes) (\<lambda>(pkid, bytes).
     if remaining_len fixed_header = 2
     then Ok \<lparr>pc_pkid = pkid, pc_reason = Some PC_Success\<rparr>
     else Err (InvalidRemainingLength (remaining_len fixed_header))))"

definition v4_pubcomp_write :: "PubComp \<Rightarrow> usize wr" where
  "v4_pubcomp_write pubcomp =
     (let len = 2 in
      w_bind (put_u8 0x70) (\<lambda>_.
      w_bind (write_remaining_length len) (\<lambda>count.
      w_bind (put_u16 (pc_pkid pubcomp)) (\<lambda>_.
        w_ok (1 + count + len)))))"

section \<open>Subscribe and SubAck\<close>

definition filter_len :: "Filter \<Rightarrow> usize" where
  "filter_len flt = 2 + length (path flt) + 1"

text \<open>The \<open>while bytes.has_remaining()\<close> loop of \<open>filter::read\<close>.\<close>

function v4_filter_read :: "bytes \<Rightarrow> Filter list \<Rightarrow> Filter list res" where
  "v4_filter_read bytes filters =
     (if bytes = [] then Ok filters
      else
        and_then (read_mqtt_bytes bytes) (\<lambda>(pth, bytes).
        and_then (from_utf8 pth PayloadNotUtf8) (\<lambda>pth.
        and_then (read_u8 bytes) (\<lambda>(options, bytes).
          let requested_qos = options AND 0b00000011 in
        and_then (ok_or (qos requested_qos) (InvalidQoS requested_qos)) (\<lambda>q.
          v4_filter_read bytes
            (filters @ [\<lparr>path = pth, f_qos = q, nolocal = False, preserve_retain = False,
                          retain_forward_rule = OnEverySubscribe\<rparr>]))))))"
  by pat_completeness auto
termination
  by (relation "measure (\<lambda>(bs, fs). length bs)")
     (auto dest!: read_mqtt_bytes_shrinks read_u8_shrinks)

declare v4_filter_read.simps [simp del]

definition v4_filter_write :: "Filter \<Rightarrow> unit wr" where
  "v4_filter_write flt =
     (let options = qos_to_u8 (f_qos flt) in
      w_seq [write_mqtt_string (path flt), put_u8 options])"

definition v4_subscribe_len :: "Subscribe \<Rightarrow> usize" where
  "v4_subscribe_len subscribe = 2 + foldl (\<lambda>s t. s + filter_len t) 0 (s_filters subscribe)"

definition v4_subscribe_write :: "Subscribe \<Rightarrow> usize wr" where
  "v4_subscribe_write subscribe =
     w_bind (put_u8 0x82) (\<lambda>_.
     let remaining_length = v4_subscribe_len subscribe in
     w_bind (write_remaining_length remaining_length) (\<lambda>remaining_length_bytes.
     w_bind (put_u16 (packet_identifier subscribe)) (\<lambda>_.
     w_bind (w_for (s_filters subscribe) v4_filter_write) (\<lambda>_.
       w_ok (1 + remaining_length_bytes + remaining_length)))))"

definition v4_subscribe_read :: "FixedHeader \<Rightarrow> bytes \<Rightarrow> Subscribe res" where
  "v4_subscribe_read fixed_header bytes =
     and_then (advance (fixed_header_len fixed_header) bytes) (\<lambda>bytes.
     and_then (read_u16 bytes) (\<lambda>(pkid, bytes).
     and_then (v4_filter_read bytes []) (\<lambda>filters.
       if length filters = 0 then Err EmptySubscription
       else Ok \<lparr>packet_identifier = pkid, s_filters = filters\<rparr>)))"

definition v4_suback_reason :: "u8 \<Rightarrow> SubscribeReasonCode res" where
  "v4_suback_reason code =
     (if code = 0 then Ok (SR_Success AtMostOnce)
      else if code = 1 then Ok (SR_Success AtLeastOnce)
      else if code = 2 then Ok (SR_Success ExactlyOnce)
      else if code = 128 then Ok SR_Failure
      else Err (InvalidSubscribeReasonCode code))"

primrec v4_suback_code :: "SubscribeReasonCode \<Rightarrow> u8" where
  "v4_suback_code (SR_Success q) = qos_to_u8 q"
| "v4_suback_code SR_Failure = 0x80"
| "v4_suback_code SR_QoS0 = 0"
| "v4_suback_code SR_QoS1 = 1"
| "v4_suback_code SR_QoS2 = 2"
| "v4_suback_code SR_Unspecified = 128"
| "v4_suback_code SR_ImplementationSpecific = 131"
| "v4_suback_code SR_NotAuthorized = 135"
| "v4_suback_code SR_TopicFilterInvalid = 143"
| "v4_suback_code SR_PkidInUse = 145"
| "v4_suback_code SR_QuotaExceeded = 151"
| "v4_suback_code SR_SharedSubscriptionsNotSupported = 158"
| "v4_suback_code SR_SubscriptionIdNotSupported = 161"
| "v4_suback_code SR_WildcardSubscriptionsNotSupported = 162"
| "v4_suback_code SR_ExclusiveSubscriptionDisabled = 143"
| "v4_suback_code SR_TopicSubscribed = 151"

definition v4_suback_write :: "SubAck \<Rightarrow> usize wr" where
  "v4_suback_write suback =
     w_bind (put_u8 0x90) (\<lambda>_.
     let remaining_len = suback_len suback in
     w_bind (write_remaining_length remaining_len) (\<lambda>remaining_len_bytes.
     w_bind (put_u16 (sa_pkid suback)) (\<lambda>_.
     w_bind (put_slice (map v4_suback_code (return_codes suback))) (\<lambda>_.
       w_ok (1 + remaining_len_bytes + remaining_len)))))"

definition v4_suback_read :: "FixedHeader \<Rightarrow> bytes \<Rightarrow> SubAck res" where
  "v4_suback_read fixed_header bytes =
     and_then (advance (fixed_header_len fixed_header) bytes) (\<lambda>bytes.
     and_then (read_u16 bytes) (\<lambda>(pkid, bytes).
     if bytes = [] then Err MalformedPacket
     else and_then (read_codes v4_suback_reason bytes []) (\<lambda>codes.
       Ok \<lparr>sa_pkid = pkid, return_codes = codes\<rparr>)))"

section \<open>Unsubscribe and UnsubAck\<close>

definition v4_unsubscribe_len :: "Unsubscribe \<Rightarrow> usize" where
  "v4_unsubscribe_len unsubscribe =
     2 + foldl (\<lambda>s topic. s + length topic + 2) 0 (u_filters unsubscribe)"

definition v4_unsubscribe_write :: "Unsubscribe \<Rightarrow> usize wr" where
  "v4_unsubscribe_write unsubscribe =
     (let remaining_len = v4_unsubscribe_len unsubscribe in
      w_bind (put_u8 0xA2) (\<lambda>_.
      w_bind (write_remaining_length remaining_len) (\<lambda>remaining_len_bytes.
      w_bind (put_u16 (u_pkid unsubscribe)) (\<lambda>_.
      w_bind (w_for (u_filters unsubscribe) write_mqtt_string) (\<lambda>_.
        w_ok (1 + remaining_len_bytes + remaining_len))))))"

text \<open>The \<open>while payload_bytes > 0\<close> loop; the subtraction panics when it underflows.\<close>

function v4_unsubscribe_filters :: "usize \<Rightarrow> bytes \<Rightarrow> string list \<Rightarrow> string list res" where
  "v4_unsubscribe_filters payload_bytes bytes filters =
     (if payload_bytes > 0 then
        and_then (read_mqtt_string bytes) (\<lambda>(topic_filter, bytes).
        and_then (checked_sub payload_bytes (length topic_filter + 2)) (\<lambda>payload_bytes.
          v4_unsubscribe_filters payload_bytes bytes (filters @ [topic_filter])))
      else Ok filters)"
  by pat_completeness auto
termination
  by (relation "measure (\<lambda>(n, bs, fs). length bs)") (auto dest!: read_mqtt_string_shrinks)

declare v4_unsubscribe_filters.simps [simp del]

definition v4_unsubscribe_read :: "FixedHeader \<Rightarrow> bytes \<Rightarrow> Unsubscribe res" where
  "v4_unsubscribe_read fixed_header bytes =
     and_then (advance (fixed_header_len fixed_header) bytes) (\<lambda>bytes.
     and_then (read_u16 bytes) (\<lambda>(pkid, bytes).
     and_then (checked_sub (remaining_len fixed_header) 2) (\<lambda>payload_bytes.
     and_then (v4_unsubscribe_filters payload_bytes bytes []) (\<lambda>filters.
       Ok \<lparr>u_pkid = pkid, u_filters = filters\<rparr>))))"

definition v4_unsuback_write :: "UnsubAck \<Rightarrow> usize wr" where
  "v4_unsuback_write unsuback =
     w_bind (put_slice [0xB0, 0x02]) (\<lambda>_.
     w_bind (put_u16 (ua_pkid unsuback)) (\<lambda>_.
       w_ok 4))"

definition v4_unsuback_read :: "FixedHeader \<Rightarrow> bytes \<Rightarrow> UnsubAck res" where
  "v4_unsuback_read fixed_header bytes =
     (if remaining_len fixed_header \<noteq> 2 then Err PayloadSizeIncorrect
      else
        and_then (advance (fixed_header_len fixed_header) bytes) (\<lambda>bytes.
        and_then (read_u16 bytes) (\<lambda>(pkid, bytes).
          Ok \<lparr>ua_pkid = pkid, ua_reasons = []\<rparr>)))"

section \<open>Ping and Disconnect\<close>

definition pingreq_write :: "usize wr" where
  "pingreq_write = w_bind (put_slice [0xC0, 0x00]) (\<lambda>_. w_ok 2)"

definition pingresp_write :: "usize wr" where
  "pingresp_write = w_bind (put_slice [0xD0, 0x00]) (\<lambda>_. w_ok 2)"

definition v4_disconnect_write :: "Disconnect \<Rightarrow> usize wr" where
  "v4_disconnect_write disconnect = w_bind (put_slice [0xE0, 0x00]) (\<lambda>_. w_ok 2)"

section \<open>Round trips\<close>

interpretation v4_puback: packet_codec v4_puback_write v4_puback_read
  "\<lambda>_. 0x40" "\<lambda>p. be16 (pa_pkid p)" "\<lambda>_. True" 
  "\<lambda>p. \<lparr>pa_pkid = pa_pkid p, pa_reason = Some PA_Success\<rparr>"
  by unfold_locales
     (auto intro!: emits_frameI simp: v4_puback_write_def v4_puback_read_def w_simps wire_simps)

interpretation v4_pubrec: packet_codec v4_pubrec_write v4_pubrec_read
  "\<lambda>_. 0x50" "\<lambda>p. be16 (pr_pkid p)" "\<lambda>_. True" 
  "\<lambda>p. \<lparr>pr_pkid = pr_pkid p, pr_reason = Some PR_Success\<rparr>"
  by unfold_locales
     (auto intro!: emits_frameI simp: v4_pubrec_write_def v4_pubrec_read_def w_simps wire_simps)

interpretation v4_pubrel: packet_codec v4_pubrel_write v4_pubrel_read
  "\<lambda>_. 0x62" "\<lambda>p. be16 (pl_pkid p)" "\<lambda>_. True" 
  "\<lambda>p. \<lparr>pl_pkid = pl_pkid p, pl_reason = Some PL_Success\<rparr>"
  by unfold_locales
     (auto intro!: emits_frameI simp: v4_pubrel_write_def v4_pubrel_read_def w_simps wire_simps)

interpretation v4_pubcomp: packet_codec v4_pubcomp_write v4_pubcomp_read
  "\<lambda>_. 0x70" "\<lambda>p. be16 (pc_pkid p)" "\<lambda>_. True" 
  "\<lambda>p. \<lparr>pc_pkid = pc_pkid p, pc_reason = Some PC_Success\<rparr>"
  by unfold_locales
     (auto intro!: emits_frameI simp: v4_pubcomp_write_def v4_pubcomp_read_def w_simps wire_simps)

interpretation v4_unsuback: packet_codec v4_unsuback_write v4_unsuback_read
  "\<lambda>_. 0xB0" "\<lambda>p. be16 (ua_pkid p)" "\<lambda>_. True" 
  "\<lambda>p. \<lparr>ua_pkid = ua_pkid p, ua_reasons = []\<rparr>"
  by unfold_locales
     (auto intro!: emits_frameI simp: v4_unsuback_write_def v4_unsuback_read_def w_simps wire_simps
       vbi_small len_len_def)

definition v4_connack_codes :: "ConnectReturnCode set" where
  "v4_connack_codes = {CR_Success, CR_RefusedProtocolVersion, CR_BadClientId,
     CR_ServiceUnavailable, CR_BadUserNamePassword, CR_NotAuthorized}"

lemma v4_connect_code_return:
  "v4_connect_code c = Ok n \<Longrightarrow> v4_connect_return n = Ok c"
  by (cases c) (auto simp: v4_connect_code_def v4_connect_return_def)

lemma v4_connect_code_Ok: "c \<in> v4_connack_codes \<longleftrightarrow> (\<exists>n. v4_connect_code c = Ok n)"
  by (cases c) (auto simp: v4_connect_code_def v4_connack_codes_def)

definition v4_connack_body :: "ConnAck \<Rightarrow> bytes" where
  "v4_connack_body p =
     (case v4_connect_code (ca_code p) of Ok n \<Rightarrow> [of_bool (session_present p), n] | _ \<Rightarrow> [])"

interpretation v4_connack: packet_codec v4_connack_write v4_connack_read
  "\<lambda>_. 0x20" v4_connack_body "\<lambda>p. ca_code p \<in> v4_connack_codes" "\<lambda>p. p"
proof unfold_locales
  fix p :: ConnAck
  assume "ca_code p \<in> v4_connack_codes"
  then obtain n where n: "v4_connect_code (ca_code p) = Ok n"
    by (auto simp: v4_connect_code_Ok)
  then show "emits (v4_connack_write p) (length (frame 0x20 (v4_connack_body p))) (frame 0x20 (v4_connack_body p))"
    by (auto intro!: emits_frameI simp: v4_connack_write_def v4_connack_body_def w_simps)
  show "v4_connack_read (frame_header 0x20 (v4_connack_body p)) (frame 0x20 (v4_connack_body p)) = Ok p"
    using n v4_connect_code_return [OF n]
    by (cases p) (simp add: v4_connack_read_def v4_connack_body_def wire_simps)
  show "length (v4_connack_body p) \<le> 268435455"
    using n by (simp add: v4_connack_body_def)
qed

subsection \<open>Publish\<close>

definition publish_wf :: "Publish \<Rightarrow> bool" where
  "publish_wf p \<longleftrightarrow> length (topic p) < 65536 \<and> publish_len p \<le> 268435455 \<and>
     (p_qos p = AtMostOnce \<longleftrightarrow> p_pkid p = 0)"

definition v4_publish_body :: "Publish \<Rightarrow> bytes" where
  "v4_publish_body p =
     mbytes (topic p) @ (if p_qos p = AtMostOnce then [] else be16 (p_pkid p)) @ payload p"

lemma publish_byte1_bits:
  "drop_bit (Suc 0) (publish_byte1 p) AND 3 = qos_to_u8 (p_qos p)"
  "(publish_byte1 p AND 8 \<noteq> 0) = dup p"
  "(publish_byte1 p AND 1 \<noteq> 0) = retain p"
  "drop_bit 4 (publish_byte1 p) = 3"
  by (cases "p_qos p"; cases "dup p"; cases "retain p"; simp add: publish_byte1_def)+

interpretation v4_publish: packet_codec v4_publish_write v4_publish_read
  publish_byte1 v4_publish_body publish_wf "\<lambda>p. p"
proof unfold_locales
  fix p
  assume wf: "publish_wf p"
  then have len: "length (v4_publish_body p) = publish_len p"
    by (auto simp: v4_publish_body_def publish_len_def)
  show "emits (v4_publish_write p) (length (frame (publish_byte1 p) (v4_publish_body p)))
      (frame (publish_byte1 p) (v4_publish_body p))"
  proof (rule emits_frameI)
    show "v4_publish_write p buf = (Ok (1 + len_len (publish_len p) + publish_len p),
        buf @ publish_byte1 p # vbi (length (v4_publish_body p)) @ v4_publish_body p)" for buf
      using wf len by (auto simp: v4_publish_write_def v4_publish_body_def publish_wf_def w_simps Let_def)
  qed (use wf len in \<open>auto simp: publish_wf_def\<close>)
  show "length (v4_publish_body p) \<le> 268435455"
    using wf len by (simp add: publish_wf_def)
  then show "v4_publish_read (frame_header (publish_byte1 p) (v4_publish_body p))
      (frame (publish_byte1 p) (v4_publish_body p)) = Ok p"
    using wf by (cases "p_qos p")
      (auto simp: v4_publish_read_def publish_byte1_bits v4_publish_body_def publish_wf_def wire_simps Let_def
        qos_def)
qed

subsection \<open>Subscribe\<close>

definition v4_filter_enc :: "Filter \<Rightarrow> bytes" where
  "v4_filter_enc f = mstring (path f) @ [qos_to_u8 (f_qos f)]"

definition v4_filter_norm :: "Filter \<Rightarrow> Filter" where
  "v4_filter_norm f = \<lparr>path = path f, f_qos = f_qos f, nolocal = False, preserve_retain = False,
     retain_forward_rule = OnEverySubscribe\<rparr>"

lemma emits_v4_filter: "emits (v4_filter_write f) () (v4_filter_enc f)"
  unfolding v4_filter_write_def v4_filter_enc_def Let_def
  by (rule emits_cong, (rule emit_rules)+, simp)

lemma v4_filter_read_enc:
  "\<forall>f \<in> set fs. str_wf (path f) \<Longrightarrow>
   v4_filter_read (concat (map v4_filter_enc fs)) acc = Ok (acc @ map v4_filter_norm fs)"
proof (induction fs arbitrary: acc)
  case Nil
  then show ?case by (simp add: v4_filter_read.simps)
next
  case (Cons f fs)
  then have wf: "valid_str (path f)" "length (path f) < 65536" by (simp_all add: str_wf_def)
  show ?case
    using Cons wf
    by (simp add: v4_filter_read.simps [of "_ @ _"] v4_filter_enc_def mstring_def wire_simps
        from_utf8_as_bytes v4_filter_norm_def)
qed

definition v4_subscribe_body :: "Subscribe \<Rightarrow> bytes" where
  "v4_subscribe_body p = be16 (packet_identifier p) @ concat (map v4_filter_enc (s_filters p))"

definition v4_subscribe_wf :: "Subscribe \<Rightarrow> bool" where
  "v4_subscribe_wf p \<longleftrightarrow> s_filters p \<noteq> [] \<and> (\<forall>f \<in> set (s_filters p). str_wf (path f)) \<and>
     v4_subscribe_len p \<le> 268435455"

lemma length_v4_subscribe_body: "length (v4_subscribe_body p) = v4_subscribe_len p"
  by (simp only: v4_subscribe_body_def v4_subscribe_len_def foldl_plus_map length_concat_map
      v4_filter_enc_def filter_len_def length_append length_be16 length_mstring list.size) simp

interpretation v4_subscribe: packet_codec v4_subscribe_write v4_subscribe_read
  "\<lambda>_. 0x82" v4_subscribe_body v4_subscribe_wf
  "\<lambda>p. \<lparr>packet_identifier = packet_identifier p, s_filters = map v4_filter_norm (s_filters p)\<rparr>"
proof unfold_locales
  fix p
  assume wf: "v4_subscribe_wf p"
  show bound: "length (v4_subscribe_body p) \<le> 268435455"
    using wf by (simp add: length_v4_subscribe_body v4_subscribe_wf_def)
  show "emits (v4_subscribe_write p) (length (frame 0x82 (v4_subscribe_body p)))
      (frame 0x82 (v4_subscribe_body p))"
  proof (rule emits_frameI)
    show "v4_subscribe_write p buf = (Ok (1 + len_len (v4_subscribe_len p) + v4_subscribe_len p),
        buf @ 0x82 # vbi (length (v4_subscribe_body p)) @ v4_subscribe_body p)" for buf
      using wf
      by (simp add: v4_subscribe_write_def length_v4_subscribe_body v4_subscribe_wf_def w_simps Let_def
          w_for_buf [OF emits_v4_filter])
         (simp add: v4_subscribe_body_def)
  qed (use bound in \<open>simp_all add: length_v4_subscribe_body\<close>)
  show "v4_subscribe_read (frame_header 0x82 (v4_subscribe_body p)) (frame 0x82 (v4_subscribe_body p)) =
      Ok \<lparr>packet_identifier = packet_identifier p, s_filters = map v4_filter_norm (s_filters p)\<rparr>"
    using wf bound
    by (simp add: v4_subscribe_read_def v4_subscribe_body_def v4_subscribe_wf_def wire_simps
        v4_filter_read_enc)
qed

subsection \<open>SubAck\<close>

primrec v4_suback_norm :: "SubscribeReasonCode \<Rightarrow> SubscribeReasonCode option" where
  "v4_suback_norm (SR_Success q) = Some (SR_Success q)"
| "v4_suback_norm SR_Failure = Some SR_Failure"
| "v4_suback_norm SR_QoS0 = Some (SR_Success AtMostOnce)"
| "v4_suback_norm SR_QoS1 = Some (SR_Success AtLeastOnce)"
| "v4_suback_norm SR_QoS2 = Some (SR_Success ExactlyOnce)"
| "v4_suback_norm SR_Unspecified = Some SR_Failure"
| "v4_suback_norm SR_ImplementationSpecific = None"
| "v4_suback_norm SR_NotAuthorized = None"
| "v4_suback_norm SR_TopicFilterInvalid = None"
| "v4_suback_norm SR_PkidInUse = None"
| "v4_suback_norm SR_QuotaExceeded = None"
| "v4_suback_norm SR_SharedSubscriptionsNotSupported = None"
| "v4_suback_norm SR_SubscriptionIdNotSupported = None"
| "v4_suback_norm SR_WildcardSubscriptionsNotSupported = None"
| "v4_suback_norm SR_ExclusiveSubscriptionDisabled = None"
| "v4_suback_norm SR_TopicSubscribed = None"

lemma v4_suback_reason_code:
  "v4_suback_reason (v4_suback_code c) =
     (case v4_suback_norm c of Some d \<Rightarrow> Ok d | None \<Rightarrow> Err (InvalidSubscribeReasonCode (v4_suback_code c)))"
proof (cases c)
  case (SR_Success q)
  then show ?thesis by (cases q) (simp_all add: v4_suback_reason_def)
qed (simp_all add: v4_suback_reason_def)

definition v4_suback_body :: "SubAck \<Rightarrow> bytes" where
  "v4_suback_body p = be16 (sa_pkid p) @ map v4_suback_code (return_codes p)"

definition v4_suback_wf :: "SubAck \<Rightarrow> bool" where
  "v4_suback_wf p \<longleftrightarrow> return_codes p \<noteq> [] \<and> (\<forall>c \<in> set (return_codes p). v4_suback_norm c \<noteq> None) \<and>
     suback_len p \<le> 268435455"

lemma length_v4_suback_body: "length (v4_suback_body p) = suback_len p"
  by (simp add: v4_suback_body_def suback_len_def)

interpretation v4_suback: packet_codec v4_suback_write v4_suback_read
  "\<lambda>_. 0x90" v4_suback_body v4_suback_wf
  "\<lambda>p. \<lparr>sa_pkid = sa_pkid p, return_codes = map (the \<circ> v4_suback_norm) (return_codes p)\<rparr>"
proof unfold_locales
  fix p
  assume wf: "v4_suback_wf p"
  show bound: "length (v4_suback_body p) \<le> 268435455"
    using wf by (simp add: length_v4_suback_body v4_suback_wf_def)
  show "emits (v4_suback_write p) (length (frame 0x90 (v4_suback_body p))) (frame 0x90 (v4_suback_body p))"
  proof (rule emits_frameI)
    show "v4_suback_write p buf = (Ok (1 + len_len (suback_len p) + suback_len p),
        buf @ 0x90 # vbi (length (v4_suback_body p)) @ v4_suback_body p)" for buf
      using wf by (simp add: v4_suback_write_def length_v4_suback_body v4_suback_wf_def w_simps)
         (simp add: v4_suback_body_def)
  qed (use bound in \<open>simp_all add: length_v4_suback_body\<close>)
  have "\<forall>c \<in> set (return_codes p). v4_suback_reason (v4_suback_code c) = Ok ((the \<circ> v4_suback_norm) c)"
    using wf by (auto simp: v4_suback_wf_def v4_suback_reason_code)
  from read_codes_map [OF this, of "[]"]
  show "v4_suback_read (frame_header 0x90 (v4_suback_body p)) (frame 0x90 (v4_suback_body p)) =
      Ok \<lparr>sa_pkid = sa_pkid p, return_codes = map (the \<circ> v4_suback_norm) (return_codes p)\<rparr>"
    using wf bound
    by (simp add: v4_suback_read_def v4_suback_body_def v4_suback_wf_def wire_simps)
qed

subsection \<open>Unsubscribe\<close>

definition v4_unsubscribe_body :: "Unsubscribe \<Rightarrow> bytes" where
  "v4_unsubscribe_body p = be16 (u_pkid p) @ concat (map mstring (u_filters p))"

definition v4_unsubscribe_wf :: "Unsubscribe \<Rightarrow> bool" where
  "v4_unsubscribe_wf p \<longleftrightarrow> (\<forall>f \<in> set (u_filters p). str_wf f) \<and> v4_unsubscribe_len p \<le> 268435455"

lemma v4_unsubscribe_len_sum:
  "v4_unsubscribe_len p = 2 + length (concat (map mstring (u_filters p)))"
proof -
  have "foldl (\<lambda>s topic. s + length topic + 2) a fs = a + length (concat (map mstring fs))" for a fs
    by (induction fs arbitrary: a) (simp_all add: length_mstring)
  then show ?thesis by (simp add: v4_unsubscribe_len_def)
qed

lemma v4_unsubscribe_filters_enc:
  "\<forall>f \<in> set fs. str_wf f \<Longrightarrow>
   v4_unsubscribe_filters (length (concat (map mstring fs))) (concat (map mstring fs)) acc = Ok (acc @ fs)"
proof (induction fs arbitrary: acc)
  case Nil
  then show ?case by (simp add: v4_unsubscribe_filters.simps)
next
  case (Cons f fs)
  then have "valid_str f" "length f < 65536" by (simp_all add: str_wf_def)
  with Cons show ?case
    by (simp add: v4_unsubscribe_filters.simps [of "Suc _"] wire_simps checked_sub_def)
qed

lemma length_v4_unsubscribe_body: "length (v4_unsubscribe_body p) = v4_unsubscribe_len p"
  by (simp add: v4_unsubscribe_body_def v4_unsubscribe_len_sum)

interpretation v4_unsubscribe: packet_codec v4_unsubscribe_write v4_unsubscribe_read
  "\<lambda>_. 0xA2" v4_unsubscribe_body v4_unsubscribe_wf "\<lambda>p. p"
proof unfold_locales
  fix p
  assume wf: "v4_unsubscribe_wf p"
  show bound: "length (v4_unsubscribe_body p) \<le> 268435455"
    using wf by (simp add: length_v4_unsubscribe_body v4_unsubscribe_wf_def)
  show "emits (v4_unsubscribe_write p) (length (frame 0xA2 (v4_unsubscribe_body p)))
      (frame 0xA2 (v4_unsubscribe_body p))"
  proof (rule emits_frameI)
    show "v4_unsubscribe_write p buf = (Ok (1 + len_len (v4_unsubscribe_len p) + v4_unsubscribe_len p),
        buf @ 0xA2 # vbi (length (v4_unsubscribe_body p)) @ v4_unsubscribe_body p)" for buf
      using wf
      by (simp add: v4_unsubscribe_write_def length_v4_unsubscribe_body v4_unsubscribe_wf_def w_simps
          w_for_buf [OF emits_mqtt_string])
         (simp add: v4_unsubscribe_body_def)
  qed (use bound in \<open>simp_all add: length_v4_unsubscribe_body\<close>)
  show "v4_unsubscribe_read (frame_header 0xA2 (v4_unsubscribe_body p))
      (frame 0xA2 (v4_unsubscribe_body p)) = Ok p"
    using wf bound v4_unsubscribe_filters_enc [of "u_filters p" "[]"]
    by (simp add: v4_unsubscribe_read_def v4_unsubscribe_body_def v4_unsubscribe_wf_def wire_simps
        checked_sub_def)
qed

subsection \<open>Connect\<close>

text \<open>
  What \<open>connect::write\<close> puts on the wire when the buffer is empty: the flags byte, which
  it patches in at the end, and the will and login fields.
\<close>

definition will_flags :: "QoS \<Rightarrow> bool \<Rightarrow> u8" where
  "will_flags q r = 0x04 OR push_bit 3 (qos_to_u8 q) OR (if r then 0x20 else 0)"

definition login_flags :: "Login \<Rightarrow> u8" where
  "login_flags l = (if username l \<noteq> [] then 0x80 else 0) OR (if password l \<noteq> [] then 0x40 else 0)"

definition login_enc :: "Login \<Rightarrow> bytes" where
  "login_enc l = (if username l \<noteq> [] then mstring (username l) else []) @
     (if password l \<noteq> [] then mstring (password l) else [])"

definition login_wf :: "Login \<Rightarrow> bool" where
  "login_wf l \<longleftrightarrow> str_wf (username l) \<and> str_wf (password l)"

definition login_norm :: "Login \<Rightarrow> Login option" where
  "login_norm l = (if username l = [] \<and> password l = [] then None else Some l)"

definition v4_will_enc :: "LastWill \<Rightarrow> bytes" where
  "v4_will_enc w = mbytes (will_topic w) @ mbytes (will_message w)"

definition flags_byte :: "bool \<Rightarrow> (QoS \<times> bool) option \<Rightarrow> Login option \<Rightarrow> u8" where
  "flags_byte clean w l =
     (if clean then 0x02 else 0) OR
     (case w of None \<Rightarrow> 0 | Some (q, r) \<Rightarrow> will_flags q r) OR
     (case l of None \<Rightarrow> 0 | Some l \<Rightarrow> login_flags l)"

definition v4_connect_flags :: "Connect \<Rightarrow> Login option \<Rightarrow> LastWill option \<Rightarrow> u8" where
  "v4_connect_flags c l w =
     flags_byte (clean_session c) (map_option (\<lambda>w. (will_qos w, will_retain w)) w) l"

definition v4_connect_tail :: "Connect \<Rightarrow> Login option \<Rightarrow> LastWill option \<Rightarrow> bytes" where
  "v4_connect_tail c l w = be16 (keep_alive c) @ mstring (client_id c) @
     (case w of None \<Rightarrow> [] | Some w \<Rightarrow> v4_will_enc w) @
     (case l of None \<Rightarrow> [] | Some l \<Rightarrow> login_enc l)"

definition v4_connect_body :: "Connect \<Rightarrow> Login option \<Rightarrow> LastWill option \<Rightarrow> bytes" where
  "v4_connect_body c l w =
     mstring ''MQTT'' @ [4, v4_connect_flags c l w] @ v4_connect_tail c l w"

definition v4_connect_wf :: "Connect \<Rightarrow> Login option \<Rightarrow> LastWill option \<Rightarrow> bool" where
  "v4_connect_wf c l w \<longleftrightarrow> str_wf (client_id c) \<and> (\<forall>l' \<in> set_option l. login_wf l') \<and>
     (\<forall>w' \<in> set_option w. length (will_topic w') < 65536 \<and> length (will_message w') < 65536)"

lemma length_login_enc: "length (login_enc l) = v4_login_len l"
  by (simp add: login_enc_def v4_login_len_def)

lemma length_v4_connect_body: "length (v4_connect_body c l w) = v4_connect_len c l w"
  by (simp add: v4_connect_body_def v4_connect_tail_def v4_connect_len_def length_login_enc
      v4_will_enc_def v4_will_len_def split: option.split)

lemma v4_connect_len_bound: "v4_connect_wf c l w \<Longrightarrow> v4_connect_len c l w \<le> 268435455"
  by (cases w; cases l)
     (auto simp: v4_connect_wf_def v4_connect_len_def v4_login_len_def v4_will_len_def login_wf_def
      str_wf_def Let_def)

lemma v4_will_write_buf [w_simps]:
  "v4_will_write w buf = (Ok (will_flags (will_qos w) (will_retain w)), buf @ v4_will_enc w)"
  by (simp add: v4_will_write_def v4_will_enc_def will_flags_def w_simps ac_simps)

lemma v4_login_write_buf [w_simps]:
  "v4_login_write l buf = (Ok (login_flags l), buf @ login_enc l)"
  by (simp add: v4_login_write_def login_enc_def login_flags_def w_simps)

text \<open>For any buffer: the frame with a provisional flags byte, then one byte is patched.\<close>

lemma v4_connect_write_buf:
  assumes "v4_connect_wf c l w"
  shows "v4_connect_write c l w buf =
    (Ok (v4_connect_len c l w),
     (buf @ 0x10 # vbi (v4_connect_len c l w) @ mstring ''MQTT'' @
        [4, if clean_session c then 2 else 0] @ v4_connect_tail c l w)
     [len_len (v4_connect_len c l w) + 8 := v4_connect_flags c l w])"
  using v4_connect_len_bound [OF assms]
  by (cases w; cases l)
     (simp_all add: v4_connect_write_def w_simps w_set_def length_vbi v4_connect_tail_def
      v4_connect_flags_def flags_byte_def ac_simps)

lemma v4_connect_write_empty:
  assumes "v4_connect_wf c l w"
  shows "v4_connect_write c l w [] = (Ok (v4_connect_len c l w), frame 0x10 (v4_connect_body c l w))"
proof -
  let ?n = "v4_connect_len c l w"
  let ?pre = "0x10 # vbi ?n @ mstring ''MQTT'' @ [4]"
  have len: "length ?pre = len_len ?n + 8"
    using v4_connect_len_bound [OF assms] by (simp add: length_vbi)
  have "(0x10 # vbi ?n @ mstring ''MQTT'' @ [4, x] @ t)[len_len ?n + 8 := y] =
      0x10 # vbi ?n @ mstring ''MQTT'' @ [4, y] @ t" for x y t
    using list_update_length [of ?pre x t y] unfolding len by (simp only: append.simps append_assoc)
  then show ?thesis
    unfolding v4_connect_write_buf [OF assms] frame_def length_v4_connect_body
    by (simp only: append_Nil v4_connect_body_def)
qed

lemma flags_byte_bits:
  "(flags_byte clean w l AND 2 = 0) = (\<not> clean)"
  "(flags_byte clean w l AND 4 = 0) = (w = None)"
  "drop_bit 3 (flags_byte clean w l) AND 3 = (case w of None \<Rightarrow> 0 | Some (q, r) \<Rightarrow> qos_to_u8 q)"
  "(flags_byte clean w l AND 32 = 0) = (case w of None \<Rightarrow> True | Some (q, r) \<Rightarrow> \<not> r)"
  "(flags_byte clean w l AND 128 = 0) = (case l of None \<Rightarrow> True | Some l \<Rightarrow> username l = [])"
  "(flags_byte clean w l AND 64 = 0) = (case l of None \<Rightarrow> True | Some l \<Rightarrow> password l = [])"
proof -
  obtain q r where w: "w = None \<or> w = Some (q, r)" by (cases w) auto
  show "(flags_byte clean w l AND 2 = 0) = (\<not> clean)"
  "(flags_byte clean w l AND 4 = 0) = (w = None)"
  "drop_bit 3 (flags_byte clean w l) AND 3 = (case w of None \<Rightarrow> 0 | Some (q, r) \<Rightarrow> qos_to_u8 q)"
  "(flags_byte clean w l AND 32 = 0) = (case w of None \<Rightarrow> True | Some (q, r) \<Rightarrow> \<not> r)"
  "(flags_byte clean w l AND 128 = 0) = (case l of None \<Rightarrow> True | Some l \<Rightarrow> username l = [])"
  "(flags_byte clean w l AND 64 = 0) = (case l of None \<Rightarrow> True | Some l \<Rightarrow> password l = [])"
    using w unfolding flags_byte_def will_flags_def login_flags_def
    by (cases clean; cases q; cases r; cases l; auto)+
qed

lemma flags_byte_no_will: "flags_byte clean None l AND 56 = 0"
  unfolding flags_byte_def login_flags_def by (cases clean; cases l; auto)

definition v4_will_norm :: "Login option \<Rightarrow> LastWill \<Rightarrow> LastWill" where
  "v4_will_norm l w = w\<lparr>will_retain := (case l of None \<Rightarrow> False | Some l \<Rightarrow> password l \<noteq> [])\<rparr>"

lemma v4_will_read_enc:
  assumes "v4_connect_wf c l w"
  shows "v4_will_read (v4_connect_flags c l w) ((case w of None \<Rightarrow> [] | Some w \<Rightarrow> v4_will_enc w) @ rest)
     = Ok (map_option (v4_will_norm l) w, rest)"
  using assms
  by (cases w)
     (auto simp: v4_will_read_def v4_connect_flags_def flags_byte_bits flags_byte_no_will
      v4_will_enc_def v4_connect_wf_def wire_simps
      v4_will_norm_def split: option.split)

lemma v4_login_read_enc:
  assumes "v4_connect_wf c l w"
  shows "v4_login_read (v4_connect_flags c l w) (case l of None \<Rightarrow> [] | Some l \<Rightarrow> login_enc l)
     = Ok (Option.bind l login_norm, [])"
  using assms
  by (cases l)
     (auto simp: v4_login_read_def v4_connect_flags_def flags_byte_bits login_enc_def v4_connect_wf_def wire_simps
      mstring_def from_utf8_as_bytes login_wf_def str_wf_def login_norm_def)

lemma v4_connect_read_body:
  assumes "v4_connect_wf c l w"
  shows "v4_connect_read (frame_header 0x10 (v4_connect_body c l w)) (frame 0x10 (v4_connect_body c l w)) =
    Ok (4, c, Option.bind l login_norm, map_option (v4_will_norm l) w)"
proof -
  have "length (v4_connect_body c l w) \<le> 268435455"
    using v4_connect_len_bound [OF assms] by (simp add: length_v4_connect_body)
  moreover have "valid_str ''MQTT''" by code_simp
  moreover have "valid_str (client_id c)" "length (client_id c) < 65536"
    using assms by (simp_all add: v4_connect_wf_def str_wf_def)
  ultimately show ?thesis
    using v4_login_read_enc [OF assms]
    apply (simp add: v4_connect_read_def)
    apply (simp add: v4_connect_body_def v4_connect_tail_def mstring_def wire_simps
        from_utf8_as_bytes v4_will_read_enc [OF assms])
    apply (simp add: v4_connect_flags_def flags_byte_bits)
    done
qed

section \<open>No panics\<close>

lemma v4_filter_read_not_Panic [simp]: "v4_filter_read bs acc \<noteq> Panic"
proof (induction bs arbitrary: acc rule: length_induct)
  case (1 bs)
  then show ?case
    unfolding v4_filter_read.simps [of bs acc]
    by (auto simp: and_then_eq_Panic Let_def dest!: read_mqtt_bytes_shrinks read_u8_shrinks)
qed

lemma v4_unsubscribe_filters_not_Panic:
  "n = length bs \<Longrightarrow> v4_unsubscribe_filters n bs acc \<noteq> Panic"
proof (induction n bs acc rule: v4_unsubscribe_filters.induct)
  case (1 n bs acc)
  show ?case
  proof
    assume "v4_unsubscribe_filters n bs acc = Panic"
    then obtain f r where r: "0 < n" "read_mqtt_string bs = Ok (f, r)"
      and p: "and_then (checked_sub n (length f + 2))
        (\<lambda>n. v4_unsubscribe_filters n r (acc @ [f])) = Panic"
      by (subst (asm) v4_unsubscribe_filters.simps) (auto simp: and_then_eq_Panic split: if_splits)
    have c: "checked_sub n (length f + 2) = (Ok (length r) :: usize res)"
      using read_mqtt_string_length [OF r(2)] "1.prems" by (simp add: checked_sub_def)
    with "1.IH" [OF r(1) r(2) refl c refl] p show False by simp
  qed
qed

lemma v4_readers_not_Panic:
  assumes "length packet = fixed_header_len h + remaining_len h"
  shows "v4_connect_read h packet \<noteq> Panic" "v4_connack_read h packet \<noteq> Panic"
    "v4_publish_read h packet \<noteq> Panic" "v4_puback_read h packet \<noteq> Panic"
    "v4_pubrec_read h packet \<noteq> Panic" "v4_pubrel_read h packet \<noteq> Panic"
    "v4_pubcomp_read h packet \<noteq> Panic" "v4_subscribe_read h packet \<noteq> Panic"
    "v4_suback_read h packet \<noteq> Panic" "v4_unsubscribe_read h packet \<noteq> Panic"
    "v4_unsuback_read h packet \<noteq> Panic"
proof -
  have adv: "advance (fixed_header_len h) packet = Ok (drop (fixed_header_len h) packet)"
    using assms by (simp add: advance_def)
  show "v4_connect_read h packet \<noteq> Panic"
    by (auto simp: v4_connect_read_def v4_will_read_def v4_login_read_def adv and_then_eq_Panic Let_def
        split: if_splits)
  show "v4_connack_read h packet \<noteq> Panic"
    by (auto simp: v4_connack_read_def v4_connect_return_def adv and_then_eq_Panic)
  show "v4_publish_read h packet \<noteq> Panic"
    by (auto simp: v4_publish_read_def adv and_then_eq_Panic Let_def split: QoS.splits if_splits)
  show "v4_puback_read h packet \<noteq> Panic" "v4_pubrec_read h packet \<noteq> Panic"
    "v4_pubrel_read h packet \<noteq> Panic" "v4_pubcomp_read h packet \<noteq> Panic"
    "v4_subscribe_read h packet \<noteq> Panic" "v4_unsuback_read h packet \<noteq> Panic"
    by (auto simp: v4_puback_read_def v4_pubrec_read_def v4_pubrel_read_def v4_pubcomp_read_def
        v4_subscribe_read_def v4_unsuback_read_def adv and_then_eq_Panic)
  show "v4_suback_read h packet \<noteq> Panic"
    by (auto simp: v4_suback_read_def adv and_then_eq_Panic)
       (auto simp: v4_suback_reason_def dest!: read_codes_not_Panic [THEN notE, rotated] split: if_splits)
  have "v4_unsubscribe_filters (length r) r acc \<noteq> Panic" for r acc
    by (rule v4_unsubscribe_filters_not_Panic) simp
  then show "v4_unsubscribe_read h packet \<noteq> Panic"
    using assms
    by (auto simp: v4_unsubscribe_read_def adv and_then_eq_Panic checked_sub_def dest!: read_u16_length
        split: if_splits)
qed
end
