(* ===== verification/Mqtt_Props.thy ===== *)
theory Mqtt_Props
  imports Mqtt_Wire
begin

text \<open>
  MQTT 5 properties: \<open>src/protocol/src/mqtt/mqttv5/mod.rs\<close> and the loop that every
  \<open>properties::read\<close> of the v5 packet modules has.  The loop is written once, over the
  \<open>match\<close> of the packet (\<open>step\<close>), and so are the arms of the matches and the statements of
  the writers.  The locale \<open>props_codec\<close> is what a packet module relies on: the
  properties it writes have the length it announces, and reading them gives them back.
\<close>

section \<open>Property identifiers\<close>

datatype PropertyType =
    PayloadFormatIndicator | MessageExpiryInterval | ContentType | ResponseTopic
  | CorrelationData | SubscriptionIdentifier | SessionExpiryInterval
  | AssignedClientIdentifier | ServerKeepAlive | AuthenticationMethod | AuthenticationData
  | RequestProblemInformation | WillDelayInterval | RequestResponseInformation
  | ResponseInformation | ServerReference | ReasonString | ReceiveMaximum
  | TopicAliasMaximum | TopicAlias | MaximumQos | RetainAvailable | UserProperty
  | MaximumPacketSize | WildcardSubscriptionAvailable | SubscriptionIdentifierAvailable
  | SharedSubscriptionAvailable

primrec property_code :: "PropertyType \<Rightarrow> u8" where
  "property_code PayloadFormatIndicator = 1"
| "property_code MessageExpiryInterval = 2"
| "property_code ContentType = 3"
| "property_code ResponseTopic = 8"
| "property_code CorrelationData = 9"
| "property_code SubscriptionIdentifier = 11"
| "property_code SessionExpiryInterval = 17"
| "property_code AssignedClientIdentifier = 18"
| "property_code ServerKeepAlive = 19"
| "property_code AuthenticationMethod = 21"
| "property_code AuthenticationData = 22"
| "property_code RequestProblemInformation = 23"
| "property_code WillDelayInterval = 24"
| "property_code RequestResponseInformation = 25"
| "property_code ResponseInformation = 26"
| "property_code ServerReference = 28"
| "property_code ReasonString = 31"
| "property_code ReceiveMaximum = 33"
| "property_code TopicAliasMaximum = 34"
| "property_code TopicAlias = 35"
| "property_code MaximumQos = 36"
| "property_code RetainAvailable = 37"
| "property_code UserProperty = 38"
| "property_code MaximumPacketSize = 39"
| "property_code WildcardSubscriptionAvailable = 40"
| "property_code SubscriptionIdentifierAvailable = 41"
| "property_code SharedSubscriptionAvailable = 42"

definition property :: "u8 \<Rightarrow> PropertyType res" where
  "property num =
     (if num = 1 then Ok PayloadFormatIndicator
      else if num = 2 then Ok MessageExpiryInterval
      else if num = 3 then Ok ContentType
      else if num = 8 then Ok ResponseTopic
      else if num = 9 then Ok CorrelationData
      else if num = 11 then Ok SubscriptionIdentifier
      else if num = 17 then Ok SessionExpiryInterval
      else if num = 18 then Ok AssignedClientIdentifier
      else if num = 19 then Ok ServerKeepAlive
      else if num = 21 then Ok AuthenticationMethod
      else if num = 22 then Ok AuthenticationData
      else if num = 23 then Ok RequestProblemInformation
      else if num = 24 then Ok WillDelayInterval
      else if num = 25 then Ok RequestResponseInformation
      else if num = 26 then Ok ResponseInformation
      else if num = 28 then Ok ServerReference
      else if num = 31 then Ok ReasonString
      else if num = 33 then Ok ReceiveMaximum
      else if num = 34 then Ok TopicAliasMaximum
      else if num = 35 then Ok TopicAlias
      else if num = 36 then Ok MaximumQos
      else if num = 37 then Ok RetainAvailable
      else if num = 38 then Ok UserProperty
      else if num = 39 then Ok MaximumPacketSize
      else if num = 40 then Ok WildcardSubscriptionAvailable
      else if num = 41 then Ok SubscriptionIdentifierAvailable
      else if num = 42 then Ok SharedSubscriptionAvailable
      else Err (InvalidPropertyType num))"

section \<open>Reading\<close>

text \<open>
  An iteration of the loop: the arm of the match gets the property, the bytes after its
  identifier and the properties read so far, and returns by how much it moves the cursor,
  the rest of the bytes and the new properties.
\<close>

type_synonym 's prop_arm = "(usize \<times> bytes \<times> 's) res"
type_synonym 's prop_step = "u8 \<Rightarrow> bytes \<Rightarrow> 's \<Rightarrow> 's prop_arm"

function prop_loop :: "'s prop_step \<Rightarrow> usize \<Rightarrow> usize \<Rightarrow> bytes \<Rightarrow> 's \<Rightarrow> ('s \<times> bytes) res" where
  "prop_loop step properties_len cursor bytes st =
     (if cursor < properties_len then
        and_then (read_u8 bytes) (\<lambda>(prop, bytes).
        and_then (step prop bytes st) (\<lambda>(n, bytes, st).
          prop_loop step properties_len (cursor + 1 + n) bytes st))
      else Ok (st, bytes))"
  by pat_completeness auto
termination
  by (relation "measure (\<lambda>(step, n, cursor, bytes, st). n - cursor)") auto

declare prop_loop.simps [simp del]

definition props_read :: "'s prop_step \<Rightarrow> 's \<Rightarrow> bytes \<Rightarrow> ('s option \<times> bytes) res" where
  "props_read step init bytes =
     and_then (read_length bytes) (\<lambda>(properties_len_len, properties_len).
     and_then (advance properties_len_len bytes) (\<lambda>bytes.
       if properties_len = 0 then Ok (None, bytes)
       else
         and_then (prop_loop step properties_len 0 bytes init) (\<lambda>(st, bytes).
           Ok (Some st, bytes))))"

text \<open>The arms of the matches, by the type of the property.\<close>

definition arm_u8 :: "bytes \<Rightarrow> (u8 \<Rightarrow> 's) \<Rightarrow> 's prop_arm" where
  "arm_u8 bytes upd = and_then (read_u8 bytes) (\<lambda>(x, bytes). Ok (1, bytes, upd x))"

definition arm_u16 :: "bytes \<Rightarrow> (u16 \<Rightarrow> 's) \<Rightarrow> 's prop_arm" where
  "arm_u16 bytes upd = and_then (read_u16 bytes) (\<lambda>(x, bytes). Ok (2, bytes, upd x))"

definition arm_u32 :: "bytes \<Rightarrow> (u32 \<Rightarrow> 's) \<Rightarrow> 's prop_arm" where
  "arm_u32 bytes upd = and_then (read_u32 bytes) (\<lambda>(x, bytes). Ok (4, bytes, upd x))"

definition arm_str :: "bytes \<Rightarrow> (string \<Rightarrow> 's) \<Rightarrow> 's prop_arm" where
  "arm_str bytes upd =
     and_then (read_mqtt_string bytes) (\<lambda>(s, bytes). Ok (2 + length s, bytes, upd s))"

definition arm_bytes :: "bytes \<Rightarrow> (bytes \<Rightarrow> 's) \<Rightarrow> 's prop_arm" where
  "arm_bytes bytes upd =
     and_then (read_mqtt_bytes bytes) (\<lambda>(b, bytes). Ok (2 + length b, bytes, upd b))"

definition arm_user :: "bytes \<Rightarrow> (string \<times> string \<Rightarrow> 's) \<Rightarrow> 's prop_arm" where
  "arm_user bytes upd =
     and_then (read_mqtt_string bytes) (\<lambda>(key, bytes).
     and_then (read_mqtt_string bytes) (\<lambda>(value, bytes).
       Ok (2 + length key + 2 + length value, bytes, upd (key, value))))"

text \<open>\<open>cursor += 1 + id_len; bytes.advance(id_len)\<close>: one more than was read.\<close>

definition arm_sub_id :: "bytes \<Rightarrow> (usize \<Rightarrow> 's) \<Rightarrow> 's prop_arm" where
  "arm_sub_id bytes upd =
     and_then (read_length bytes) (\<lambda>(id_len, id).
     and_then (advance id_len bytes) (\<lambda>bytes.
       Ok (1 + id_len, bytes, upd id)))"

section \<open>Writing\<close>

definition put_prop_u8 :: "PropertyType \<Rightarrow> u8 \<Rightarrow> unit wr" where
  "put_prop_u8 ty x = w_seq [put_u8 (property_code ty), put_u8 x]"

definition put_prop_u16 :: "PropertyType \<Rightarrow> u16 \<Rightarrow> unit wr" where
  "put_prop_u16 ty x = w_seq [put_u8 (property_code ty), put_u16 x]"

definition put_prop_u32 :: "PropertyType \<Rightarrow> u32 \<Rightarrow> unit wr" where
  "put_prop_u32 ty x = w_seq [put_u8 (property_code ty), put_u32 x]"

definition put_prop_str :: "PropertyType \<Rightarrow> string \<Rightarrow> unit wr" where
  "put_prop_str ty s = w_seq [put_u8 (property_code ty), write_mqtt_string s]"

definition put_prop_bytes :: "PropertyType \<Rightarrow> bytes \<Rightarrow> unit wr" where
  "put_prop_bytes ty b = w_seq [put_u8 (property_code ty), write_mqtt_bytes b]"

definition put_prop_len :: "PropertyType \<Rightarrow> usize \<Rightarrow> unit wr" where
  "put_prop_len ty n =
     w_bind (put_u8 (property_code ty)) (\<lambda>_.
     w_bind (write_remaining_length n) (\<lambda>_. w_ok ()))"

definition put_user_property :: "string \<times> string \<Rightarrow> unit wr" where
  "put_user_property kv =
     w_seq [put_u8 (property_code UserProperty), write_mqtt_string (fst kv),
            write_mqtt_string (snd kv)]"

definition user_props_len :: "user_props \<Rightarrow> usize" where
  "user_props_len ups = foldl (\<lambda>len kv. len + (1 + 2 + length (fst kv) + 2 + length (snd kv))) 0 ups"

definition opt_len :: "'a option \<Rightarrow> ('a \<Rightarrow> usize) \<Rightarrow> usize" where
  "opt_len v f = (case v of None \<Rightarrow> 0 | Some x \<Rightarrow> f x)"

text \<open>
  Every packet writes its optional properties, or one zero byte for their absence, and
  counts them so.
\<close>

definition opt_props_write :: "('p \<Rightarrow> unit wr) \<Rightarrow> 'p option \<Rightarrow> unit wr" where
  "opt_props_write pwrite properties =
     (case properties of
        Some p \<Rightarrow> pwrite p
      | None \<Rightarrow> w_bind (write_remaining_length 0) (\<lambda>_. w_ok ()))"

definition opt_props_len :: "('p \<Rightarrow> usize) \<Rightarrow> 'p option \<Rightarrow> usize" where
  "opt_props_len plen properties =
     (case properties of
        Some p \<Rightarrow> (let properties_len = plen p in len_len properties_len + properties_len)
      | None \<Rightarrow> 1)"

section \<open>Facts about single properties\<close>

lemma property_property_code [simp]: "property (property_code ty) = Ok ty"
  by (cases ty) (simp_all add: property_def)

lemma property_not_Panic [simp]: "property num \<noteq> Panic"
  by (simp add: property_def)

declare property_code.simps [simp del]

text \<open>The encodings, and that the writers emit them.\<close>

definition penc_u8 :: "PropertyType \<Rightarrow> u8 \<Rightarrow> bytes" where "penc_u8 ty x = [property_code ty, x]"

definition penc_u16 :: "PropertyType \<Rightarrow> u16 \<Rightarrow> bytes" where "penc_u16 ty x = property_code ty # be16 x"

definition penc_u32 :: "PropertyType \<Rightarrow> u32 \<Rightarrow> bytes" where "penc_u32 ty x = property_code ty # be32 x"

definition penc_str :: "PropertyType \<Rightarrow> string \<Rightarrow> bytes" where
  "penc_str ty s = property_code ty # mstring s"

definition penc_bytes :: "PropertyType \<Rightarrow> bytes \<Rightarrow> bytes" where
  "penc_bytes ty b = property_code ty # mbytes b"

definition penc_len :: "PropertyType \<Rightarrow> usize \<Rightarrow> bytes" where
  "penc_len ty n = property_code ty # vbi n"

definition penc_user :: "string \<times> string \<Rightarrow> bytes" where
  "penc_user kv = property_code UserProperty # mstring (fst kv) @ mstring (snd kv)"

definition users_enc :: "user_props \<Rightarrow> bytes" where
  "users_enc ups = concat (map penc_user ups)"

definition opt_enc :: "'a option \<Rightarrow> ('a \<Rightarrow> bytes) \<Rightarrow> bytes" where
  "opt_enc v enc = (case v of None \<Rightarrow> [] | Some x \<Rightarrow> enc x)"

definition users_wf :: "user_props \<Rightarrow> bool" where
  "users_wf ups \<longleftrightarrow> (\<forall>kv \<in> set ups. str_wf (fst kv) \<and> str_wf (snd kv))"

lemma length_penc [simp]:
  "length (penc_u8 ty x8) = 1 + 1" "length (penc_u16 ty x16) = 1 + 2" "length (penc_u32 ty x32) = 1 + 4"
  "length (penc_str ty s) = 1 + 2 + length s" "length (penc_bytes ty b) = 1 + 2 + length b"
  "length (penc_user kv) = 1 + 2 + length (fst kv) + 2 + length (snd kv)"
  by (simp_all add: penc_u8_def penc_u16_def penc_u32_def penc_str_def penc_bytes_def penc_user_def)

lemma length_penc_len [simp]: "n \<le> 268435455 \<Longrightarrow> length (penc_len ty n) = 1 + len_len n"
  by (simp add: penc_len_def length_vbi)

lemma length_opt_enc [simp]: "length (opt_enc v enc) = opt_len v (\<lambda>x. length (enc x))"
  by (simp add: opt_enc_def opt_len_def split: option.split)

lemma length_users_enc [simp]: "length (users_enc ups) = user_props_len ups"
  by (simp only: users_enc_def user_props_len_def foldl_plus_map length_concat_map length_penc add_0)

lemma opt_len_cong:
  "(\<And>x. v = Some x \<Longrightarrow> f x = g x) \<Longrightarrow> opt_len v f = opt_len v g"
  by (simp add: opt_len_def split: option.split)

lemma emits_prop [emit_rules]:
  "emits (put_prop_u8 ty x8) () (penc_u8 ty x8)" "emits (put_prop_u16 ty x16) () (penc_u16 ty x16)"
  "emits (put_prop_u32 ty x32) () (penc_u32 ty x32)" "emits (put_prop_str ty s) () (penc_str ty s)"
  "emits (put_prop_bytes ty b) () (penc_bytes ty b)" "emits (put_user_property kv) () (penc_user kv)"
  unfolding put_prop_u8_def put_prop_u16_def put_prop_u32_def put_prop_str_def put_prop_bytes_def
    put_user_property_def penc_u8_def penc_u16_def penc_u32_def penc_str_def penc_bytes_def penc_user_def
  by ((rule emits_cong, (rule emit_rules)+, simp; fail)+)

lemma emits_prop_len: "n \<le> 268435455 \<Longrightarrow> emits (put_prop_len ty n) () (penc_len ty n)"
  by (simp add: emits_def put_prop_len_def penc_len_def w_simps)

lemma emits_opt_enc:
  "(\<And>x. v = Some x \<Longrightarrow> emits (f x) () (enc x)) \<Longrightarrow> emits (w_some v f) () (opt_enc v enc)"
  unfolding opt_enc_def by (rule emits_some)

lemma emits_opt_prop [emit_rules]:
  "emits (w_some v8 (put_prop_u8 ty)) () (opt_enc v8 (penc_u8 ty))"
  "emits (w_some v16 (put_prop_u16 ty)) () (opt_enc v16 (penc_u16 ty))"
  "emits (w_some v32 (put_prop_u32 ty)) () (opt_enc v32 (penc_u32 ty))"
  "emits (w_some s (put_prop_str ty)) () (opt_enc s (penc_str ty))"
  "emits (w_some b (put_prop_bytes ty)) () (opt_enc b (penc_bytes ty))"
  by (rule emits_opt_enc, rule emit_rules)+

lemma emits_users [emit_rules]: "emits (w_for ups put_user_property) () (users_enc ups)"
  unfolding users_enc_def by (rule emits_for) (rule emit_rules)

section \<open>Running the loop over encoded properties\<close>

text \<open>
  \<open>runs step bs st st'\<close>: as long as \<open>bs\<close> lies within the announced length, the loop
  consumes it, moves the cursor by its length, and takes \<open>st\<close> to \<open>st'\<close>.
\<close>

definition runs :: "'s prop_step \<Rightarrow> bytes \<Rightarrow> 's \<Rightarrow> 's \<Rightarrow> bool" where
  "runs step bs st st' \<longleftrightarrow>
     (\<forall>n cursor rest. cursor + length bs \<le> n \<longrightarrow>
        prop_loop step n cursor (bs @ rest) st = prop_loop step n (cursor + length bs) rest st')"

lemma runs_Nil: "runs step [] st st"
  by (simp add: runs_def)

lemma runs_append:
  assumes "runs step bs st st'" and "runs step cs st' st''"
  shows "runs step (bs @ cs) st st''"
  unfolding runs_def
proof (intro allI impI)
  fix n cursor rest
  assume le: "cursor + length (bs @ cs) \<le> n"
  have "prop_loop step n cursor (bs @ cs @ rest) st =
      prop_loop step n (cursor + length bs) (cs @ rest) st'"
    using assms(1) le by (simp add: runs_def)
  also have "\<dots> = prop_loop step n (cursor + length bs + length cs) rest st''"
    using assms(2) le by (simp add: runs_def)
  finally show "prop_loop step n cursor ((bs @ cs) @ rest) st =
      prop_loop step n (cursor + length (bs @ cs)) rest st''"
    by (simp add: add.assoc)
qed

lemma runs_one:
  assumes "\<And>rest. step c (q @ rest) st = Ok (length q, rest, st')"
  shows "runs step (c # q) st st'"
  using assms by (simp add: runs_def prop_loop.simps [of step _ _ "c # _"] read_u8_def)

lemma runs_cong: "runs step bs st st1 \<Longrightarrow> st1 = st' \<Longrightarrow> runs step bs st st'"
  by simp

lemma runs_opt:
  assumes "\<And>x. v = Some x \<Longrightarrow> runs step (enc x) st (upd (\<lambda>_. Some x) st)"
    and "upd (\<lambda>_. None) st = st"
  shows "runs step (opt_enc v enc) st (upd (\<lambda>_. v) st)"
  using assms by (cases v) (simp_all add: opt_enc_def runs_Nil)

lemma arm_enc:
  "arm_u8 (x8 # rest) upd8 = Ok (1, rest, upd8 x8)"
  "arm_u16 (be16 x16 @ rest) upd16 = Ok (2, rest, upd16 x16)"
  "arm_u32 (be32 x32 @ rest) upd32 = Ok (4, rest, upd32 x32)"
  "str_wf s \<Longrightarrow> arm_str (mstring s @ rest) upds = Ok (2 + length s, rest, upds s)"
  "length b < 65536 \<Longrightarrow> arm_bytes (mbytes b @ rest) updb = Ok (2 + length b, rest, updb b)"
  "str_wf k \<Longrightarrow> str_wf v \<Longrightarrow> arm_user (mstring k @ mstring v @ rest) updu =
     Ok (2 + length k + 2 + length v, rest, updu (k, v))"
  "sid \<le> 268435455 \<Longrightarrow> arm_sub_id (vbi sid @ rest) updi = Ok (1 + len_len sid, rest, updi sid)"
  by (simp_all add: arm_u8_def arm_u16_def arm_u32_def arm_str_def arm_bytes_def arm_user_def
      arm_sub_id_def str_wf_def wire_simps read_length_vbi advance_def length_vbi [symmetric])

lemma runs_u8:
  assumes "\<And>bytes st. step (property_code ty) bytes st = arm_u8 bytes (\<lambda>x. upd (\<lambda>_. Some x) st)"
    and "upd (\<lambda>_. None) st = st"
  shows "runs step (opt_enc v (penc_u8 ty)) st (upd (\<lambda>_. v) st)"
  using assms(2) by (rule runs_opt [rotated]) (simp add: penc_u8_def runs_one assms(1) arm_enc)

lemma runs_u16:
  assumes "\<And>bytes st. step (property_code ty) bytes st = arm_u16 bytes (\<lambda>x. upd (\<lambda>_. Some x) st)"
    and "upd (\<lambda>_. None) st = st"
  shows "runs step (opt_enc v (penc_u16 ty)) st (upd (\<lambda>_. v) st)"
  using assms(2) by (rule runs_opt [rotated]) (simp add: penc_u16_def runs_one assms(1) arm_enc)

lemma runs_u32:
  assumes "\<And>bytes st. step (property_code ty) bytes st = arm_u32 bytes (\<lambda>x. upd (\<lambda>_. Some x) st)"
    and "upd (\<lambda>_. None) st = st"
  shows "runs step (opt_enc v (penc_u32 ty)) st (upd (\<lambda>_. v) st)"
  using assms(2) by (rule runs_opt [rotated]) (simp add: penc_u32_def runs_one assms(1) arm_enc)

lemma runs_str:
  assumes "\<And>bytes st. step (property_code ty) bytes st = arm_str bytes (\<lambda>x. upd (\<lambda>_. Some x) st)"
    and "upd (\<lambda>_. None) st = st" and "pred_option str_wf v"
  shows "runs step (opt_enc v (penc_str ty)) st (upd (\<lambda>_. v) st)"
  using assms(2) by (rule runs_opt [rotated])
    (use assms(3) in \<open>simp add: penc_str_def runs_one assms(1) arm_enc\<close>)

lemma runs_bytes:
  assumes "\<And>bytes st. step (property_code ty) bytes st = arm_bytes bytes (\<lambda>x. upd (\<lambda>_. Some x) st)"
    and "upd (\<lambda>_. None) st = st" and "pred_option (\<lambda>b. length b < 65536) v"
  shows "runs step (opt_enc v (penc_bytes ty)) st (upd (\<lambda>_. v) st)"
  using assms(2) by (rule runs_opt [rotated])
    (use assms(3) in \<open>simp add: penc_bytes_def runs_one assms(1) arm_enc\<close>)

lemma runs_users:
  assumes "\<And>bytes st. step (property_code UserProperty) bytes st =
      arm_user bytes (\<lambda>kv. upd (\<lambda>_. get st @ [kv]) st)"
    and "\<And>st. upd (\<lambda>_. get st) st = st"
    and "\<And>x y st. upd (\<lambda>_. x) (upd (\<lambda>_. y) st) = upd (\<lambda>_. x) st"
    and "\<And>x st. get (upd (\<lambda>_. x) st) = x"
    and "users_wf ups"
  shows "runs step (users_enc ups) st (upd (\<lambda>_. get st @ ups) st)"
  using assms(5)
proof (induction ups arbitrary: st)
  case Nil
  then show ?case using assms(2) by (simp add: users_enc_def runs_Nil)
next
  case (Cons kv ups)
  then have "runs step (penc_user kv) st (upd (\<lambda>_. get st @ [kv]) st)"
    by (simp add: users_wf_def penc_user_def runs_one assms(1) arm_enc)
  from runs_append [OF this Cons.IH] Cons.prems show ?case
    by (simp add: users_enc_def users_wf_def assms(3,4))
qed

lemma prop_loop_end: "n \<le> cursor \<Longrightarrow> prop_loop step n cursor bs st = Ok (st, bs)"
  by (simp add: prop_loop.simps)

lemma props_read_vbi:
  "n \<le> 268435455 \<Longrightarrow> props_read step init (vbi n @ bs) =
     (if n = 0 then Ok (None, bs)
      else and_then (prop_loop step n 0 bs init) (\<lambda>(st, bs). Ok (Some st, bs)))"
  by (simp add: props_read_def read_length_vbi advance_def length_vbi [symmetric])

lemma props_read_runs:
  assumes "runs step bs init st" and "length bs \<le> 268435455"
  shows "props_read step init (vbi (length bs) @ bs @ rest) =
    Ok (if bs = [] then None else Some st, rest)"
  using assms by (simp add: props_read_vbi runs_def prop_loop_end)

text \<open>
  \<open>ends step bs k st st'\<close>: the same when the cursor is \<open>k\<close> ahead of the bytes and \<open>bs\<close> are
  the last bytes of the properties: the loop still consumes all of \<open>bs\<close>.
\<close>

definition ends :: "'s prop_step \<Rightarrow> bytes \<Rightarrow> nat \<Rightarrow> 's \<Rightarrow> 's \<Rightarrow> bool" where
  "ends step bs k st st' \<longleftrightarrow>
     (\<forall>n cursor rest. cursor + length bs = n + k \<longrightarrow>
        prop_loop step n cursor (bs @ rest) st = Ok (st', rest))"

lemma ends_Nil: "ends step [] k st st"
  by (simp add: ends_def prop_loop_end)

lemma ends_Cons:
  assumes "\<And>rest. step c (q @ rest) st = Ok (length q + e, rest, st1)"
    and "k \<le> length q + length bs" and "ends step bs (k + e) st1 st'"
  shows "ends step (c # q @ bs) k st st'"
  using assms by (simp add: ends_def prop_loop.simps [of step _ _ "c # _"] read_u8_def)

lemma runs_ends:
  assumes "runs step bs st st1" and "k \<le> length cs" and "ends step cs k st1 st'"
  shows "ends step (bs @ cs) k st st'"
  using assms by (simp add: ends_def runs_def)

lemma ends_cong: "ends step bs k st st1 \<Longrightarrow> st1 = st' \<Longrightarrow> ends step bs k st st'"
  by simp

lemma props_read_ends:
  assumes "ends step bs 0 init st" and "length bs \<le> 268435455"
  shows "props_read step init (vbi (length bs) @ bs @ rest) =
    Ok (if bs = [] then None else Some st, rest)"
proof -
  have "prop_loop step (length bs) 0 (bs @ rest) init = Ok (st, rest)"
    using assms(1) [unfolded ends_def, rule_format, of 0 "length bs" rest] by simp
  then show ?thesis using assms(2) by (simp add: props_read_vbi)
qed

lemma ends_users:
  assumes "\<And>bytes st. step (property_code UserProperty) bytes st =
      arm_user bytes (\<lambda>kv. upd (\<lambda>_. get st @ [kv]) st)"
    and "\<And>st. upd (\<lambda>_. get st) st = st"
    and "\<And>x y st. upd (\<lambda>_. x) (upd (\<lambda>_. y) st) = upd (\<lambda>_. x) st"
    and "\<And>x st. get (upd (\<lambda>_. x) st) = x"
    and "users_wf ups" and "k \<le> 4"
  shows "ends step (users_enc ups) k st (upd (\<lambda>_. get st @ ups) st)"
  using assms(5)
proof (induction ups arbitrary: st)
  case Nil
  then show ?case using assms(2) by (simp add: users_enc_def ends_Nil)
next
  case (Cons kv ups)
  let ?q = "mstring (fst kv) @ mstring (snd kv)"
  have "ends step (property_code UserProperty # ?q @ users_enc ups) k st
      (upd (\<lambda>_. get (upd (\<lambda>_. get st @ [kv]) st) @ ups) (upd (\<lambda>_. get st @ [kv]) st))"
  proof (rule ends_Cons)
    show "ends step (users_enc ups) (k + 0) (upd (\<lambda>_. get st @ [kv]) st)
        (upd (\<lambda>_. get (upd (\<lambda>_. get st @ [kv]) st) @ ups) (upd (\<lambda>_. get st @ [kv]) st))"
      using Cons by (simp add: users_wf_def)
  qed (use Cons.prems assms(1,6) in \<open>simp_all add: users_wf_def arm_enc\<close>)
  then show ?case by (simp add: users_enc_def penc_user_def assms(3,4))
qed

section \<open>The contract of a properties module\<close>

definition opt_props_enc :: "('p \<Rightarrow> bytes) \<Rightarrow> 'p option \<Rightarrow> bytes" where
  "opt_props_enc enc properties =
     (case properties of None \<Rightarrow> [0] | Some p \<Rightarrow> vbi (length (enc p)) @ enc p)"

lemma opt_props_enc_not_Nil [simp]: "opt_props_enc enc properties \<noteq> []"
  by (simp add: opt_props_enc_def split: option.split)

text \<open>Empty properties come back as no properties.\<close>

definition opt_props_norm :: "('p \<Rightarrow> bytes) \<Rightarrow> 'p option \<Rightarrow> 'p option" where
  "opt_props_norm enc properties =
     (case properties of None \<Rightarrow> None | Some p \<Rightarrow> if enc p = [] then None else Some p)"

definition opt_props_wf :: "('p \<Rightarrow> bool) \<Rightarrow> ('p \<Rightarrow> bytes) \<Rightarrow> 'p option \<Rightarrow> bool" where
  "opt_props_wf pwf enc properties \<longleftrightarrow>
     (case properties of None \<Rightarrow> True | Some p \<Rightarrow> pwf p \<and> length (enc p) \<le> 268435455)"

locale props_codec =
  fixes pwrite :: "'p \<Rightarrow> unit wr"
    and plen :: "'p \<Rightarrow> usize"
    and pread :: "bytes \<Rightarrow> ('p option \<times> bytes) res"
    and penc :: "'p \<Rightarrow> bytes"
    and pwf :: "'p \<Rightarrow> bool"
  assumes plen: "pwf p \<Longrightarrow> length (penc p) \<le> 268435455 \<Longrightarrow> plen p = length (penc p)"
    and pwrite: "pwf p \<Longrightarrow> length (penc p) \<le> 268435455 \<Longrightarrow>
      emits (pwrite p) () (vbi (length (penc p)) @ penc p)"
    and pread: "pwf p \<Longrightarrow> length (penc p) \<le> 268435455 \<Longrightarrow>
      pread (vbi (length (penc p)) @ penc p @ rest) =
        Ok (if penc p = [] then None else Some p, rest)"
    and pread_zero: "pread (0 # rest) = Ok (None, rest)"
begin

lemma opt_write:
  "opt_props_wf pwf penc properties \<Longrightarrow>
   opt_props_write pwrite properties buf = (Ok (), buf @ opt_props_enc penc properties)"
  by (cases properties)
     (auto simp: opt_props_wf_def opt_props_write_def opt_props_enc_def w_simps vbi_small emitsD [OF pwrite])

lemma opt_length:
  "opt_props_wf pwf penc properties \<Longrightarrow>
   length (opt_props_enc penc properties) = opt_props_len plen properties"
  by (cases properties)
     (auto simp: opt_props_wf_def opt_props_len_def opt_props_enc_def plen length_vbi Let_def)

lemma opt_read:
  "opt_props_wf pwf penc properties \<Longrightarrow>
   pread (opt_props_enc penc properties @ rest) = Ok (opt_props_norm penc properties, rest)"
  by (cases properties)
     (simp_all add: opt_props_wf_def opt_props_norm_def opt_props_enc_def pread pread_zero)

end

lemma props_read_zero: "props_read step init (0 # rest) = Ok (None, rest)"
  using props_read_vbi [of 0 step init rest] by (simp add: vbi_small)

section \<open>No panics\<close>

lemma arm_not_Panic [simp]:
  "arm_u8 bs upd \<noteq> Panic" "arm_u16 bs upd16 \<noteq> Panic" "arm_u32 bs upd32 \<noteq> Panic"
  "arm_str bs upds \<noteq> Panic" "arm_bytes bs updb \<noteq> Panic" "arm_user bs updu \<noteq> Panic"
  "arm_sub_id bs updi \<noteq> Panic"
  by (auto simp: arm_u8_def arm_u16_def arm_u32_def arm_str_def arm_bytes_def arm_user_def
      arm_sub_id_def and_then_eq_Panic dest: read_length_bounds)

lemma prop_loop_not_Panic:
  assumes "\<And>b bs st. step b bs st \<noteq> Panic"
  shows "prop_loop step n cursor bs st \<noteq> Panic"
proof -
  have "\<forall>bs st. prop_loop step n cursor bs st \<noteq> Panic"
  proof (induction "n - cursor" arbitrary: cursor rule: less_induct)
    case less
    have "prop_loop step n (Suc (cursor + m)) bs st \<noteq> Panic" if "cursor < n" for m bs st
      using less [of "Suc (cursor + m)"] that by simp
    then show ?case
      by (simp add: prop_loop.simps [of step n cursor] and_then_eq_Panic assms)
  qed
  then show ?thesis by blast
qed

lemma props_read_not_Panic:
  "(\<And>b bs st. step b bs st \<noteq> Panic) \<Longrightarrow> props_read step init bs \<noteq> Panic"
  by (auto simp: props_read_def and_then_eq_Panic prop_loop_not_Panic dest: read_length_bounds)

end
