(* ===== verification/Mqtt_V5_Acks.thy ===== *)
theory Mqtt_V5_Acks
  imports Mqtt_Props
begin

text \<open>
  The MQTT 5 acknowledgements of a publish: \<open>puback.rs\<close>, \<open>pubrec.rs\<close>, \<open>pubrel.rs\<close> and
  \<open>pubcomp.rs\<close> under \<open>src/protocol/src/mqtt/mqttv5/\<close>, with their properties modules.
  \<open>reason.unwrap()\<close> is a panic of the model when the reason is \<open>None\<close>.  Then: each
  properties module keeps the contract \<open>props_codec\<close>, each packet module the contract
  \<open>packet_codec\<close>, and no reader panics on a frame.
\<close>

section \<open>PubAck\<close>

definition v5_puback_reason :: "u8 \<Rightarrow> PubAckReason res" where
  "v5_puback_reason num =
     (if num = 0 then Ok PA_Success
      else if num = 16 then Ok PA_NoMatchingSubscribers
      else if num = 128 then Ok PA_UnspecifiedError
      else if num = 131 then Ok PA_ImplementationSpecificError
      else if num = 135 then Ok PA_NotAuthorized
      else if num = 144 then Ok PA_TopicNameInvalid
      else if num = 145 then Ok PA_PacketIdentifierInUse
      else if num = 151 then Ok PA_QuotaExceeded
      else if num = 153 then Ok PA_PayloadFormatInvalid
      else Err (InvalidConnectReturnCode num))"

primrec v5_puback_code :: "PubAckReason \<Rightarrow> u8" where
  "v5_puback_code PA_Success = 0"
| "v5_puback_code PA_NoMatchingSubscribers = 16"
| "v5_puback_code PA_UnspecifiedError = 128"
| "v5_puback_code PA_ImplementationSpecificError = 131"
| "v5_puback_code PA_NotAuthorized = 135"
| "v5_puback_code PA_TopicNameInvalid = 144"
| "v5_puback_code PA_PacketIdentifierInUse = 145"
| "v5_puback_code PA_QuotaExceeded = 151"
| "v5_puback_code PA_PayloadFormatInvalid = 153"

definition v5_puback_properties_len :: "PubAckProperties \<Rightarrow> usize" where
  "v5_puback_properties_len properties =
     opt_len (pa_reason_string properties) (\<lambda>reason. 1 + 2 + length reason) +
     user_props_len (pa_user_properties properties)"

definition v5_puback_properties_write :: "PubAckProperties \<Rightarrow> unit wr" where
  "v5_puback_properties_write properties =
     w_bind (write_remaining_length (v5_puback_properties_len properties)) (\<lambda>_.
     w_seq [w_some (pa_reason_string properties) (put_prop_str ReasonString),
            w_for (pa_user_properties properties) put_user_property])"

definition v5_puback_prop :: "PubAckProperties prop_step" where
  "v5_puback_prop prop bytes st =
     and_then (property prop) (\<lambda>ty.
     case ty of
       ReasonString \<Rightarrow> arm_str bytes (\<lambda>reason. st\<lparr>pa_reason_string := Some reason\<rparr>)
     | UserProperty \<Rightarrow>
         arm_user bytes (\<lambda>kv. st\<lparr>pa_user_properties := pa_user_properties st @ [kv]\<rparr>)
     | _ \<Rightarrow> Err (InvalidPropertyType prop))"

definition v5_puback_properties_read :: "bytes \<Rightarrow> (PubAckProperties option \<times> bytes) res" where
  "v5_puback_properties_read =
     props_read v5_puback_prop \<lparr>pa_reason_string = None, pa_user_properties = []\<rparr>"

definition v5_puback_len :: "PubAck \<Rightarrow> PubAckProperties option \<Rightarrow> usize res" where
  "v5_puback_len puback properties =
     and_then (unwrap (pa_reason puback)) (\<lambda>reason.
     if reason = PA_Success \<and> properties = None then Ok 2
     else Ok (2 + 1 + opt_props_len v5_puback_properties_len properties))"

definition v5_puback_write :: "PubAck \<Rightarrow> PubAckProperties option \<Rightarrow> usize wr" where
  "v5_puback_write puback properties =
     w_bind (w_lift (v5_puback_len puback properties)) (\<lambda>len.
     w_bind (put_u8 0x40) (\<lambda>_.
     w_bind (write_remaining_length len) (\<lambda>count.
     w_bind (put_u16 (pa_pkid puback)) (\<lambda>_.
     w_bind (w_lift (unwrap (pa_reason puback))) (\<lambda>reason.
     if reason = PA_Success \<and> properties = None then w_ok 4
     else
       w_bind (put_u8 (v5_puback_code reason)) (\<lambda>_.
       w_bind (opt_props_write v5_puback_properties_write properties) (\<lambda>_.
         w_ok (1 + count + len))))))))"

definition v5_puback_read :: "FixedHeader \<Rightarrow> bytes \<Rightarrow> (PubAck \<times> PubAckProperties option) res" where
  "v5_puback_read fixed_header bytes =
     and_then (advance (fixed_header_len fixed_header) bytes) (\<lambda>bytes.
     and_then (read_u16 bytes) (\<lambda>(pkid, bytes).
     if remaining_len fixed_header = 2
     then Ok (\<lparr>pa_pkid = pkid, pa_reason = Some PA_Success\<rparr>, None)
     else
       and_then (read_u8 bytes) (\<lambda>(ack_reason, bytes).
       if remaining_len fixed_header < 4
       then
         and_then (v5_puback_reason ack_reason) (\<lambda>r.
           Ok (\<lparr>pa_pkid = pkid, pa_reason = Some r\<rparr>, None))
       else
         and_then (v5_puback_reason ack_reason) (\<lambda>r.
         and_then (v5_puback_properties_read bytes) (\<lambda>(properties, bytes).
           Ok (\<lparr>pa_pkid = pkid, pa_reason = Some r\<rparr>, properties))))))"

section \<open>PubRec\<close>

definition v5_pubrec_reason :: "u8 \<Rightarrow> PubRecReason res" where
  "v5_pubrec_reason num =
     (if num = 0 then Ok PR_Success
      else if num = 16 then Ok PR_NoMatchingSubscribers
      else if num = 128 then Ok PR_UnspecifiedError
      else if num = 131 then Ok PR_ImplementationSpecificError
      else if num = 135 then Ok PR_NotAuthorized
      else if num = 144 then Ok PR_TopicNameInvalid
      else if num = 145 then Ok PR_PacketIdentifierInUse
      else if num = 151 then Ok PR_QuotaExceeded
      else if num = 153 then Ok PR_PayloadFormatInvalid
      else Err (InvalidConnectReturnCode num))"

primrec v5_pubrec_code :: "PubRecReason \<Rightarrow> u8" where
  "v5_pubrec_code PR_Success = 0"
| "v5_pubrec_code PR_NoMatchingSubscribers = 16"
| "v5_pubrec_code PR_UnspecifiedError = 128"
| "v5_pubrec_code PR_ImplementationSpecificError = 131"
| "v5_pubrec_code PR_NotAuthorized = 135"
| "v5_pubrec_code PR_TopicNameInvalid = 144"
| "v5_pubrec_code PR_PacketIdentifierInUse = 145"
| "v5_pubrec_code PR_QuotaExceeded = 151"
| "v5_pubrec_code PR_PayloadFormatInvalid = 153"

definition v5_pubrec_properties_len :: "PubRecProperties \<Rightarrow> usize" where
  "v5_pubrec_properties_len properties =
     opt_len (pr_reason_string properties) (\<lambda>reason. 1 + 2 + length reason) +
     user_props_len (pr_user_properties properties)"

definition v5_pubrec_properties_write :: "PubRecProperties \<Rightarrow> unit wr" where
  "v5_pubrec_properties_write properties =
     w_bind (write_remaining_length (v5_pubrec_properties_len properties)) (\<lambda>_.
     w_seq [w_some (pr_reason_string properties) (put_prop_str ReasonString),
            w_for (pr_user_properties properties) put_user_property])"

definition v5_pubrec_prop :: "PubRecProperties prop_step" where
  "v5_pubrec_prop prop bytes st =
     and_then (property prop) (\<lambda>ty.
     case ty of
       ReasonString \<Rightarrow> arm_str bytes (\<lambda>reason. st\<lparr>pr_reason_string := Some reason\<rparr>)
     | UserProperty \<Rightarrow>
         arm_user bytes (\<lambda>kv. st\<lparr>pr_user_properties := pr_user_properties st @ [kv]\<rparr>)
     | _ \<Rightarrow> Err (InvalidPacketType prop))"

definition v5_pubrec_properties_read :: "bytes \<Rightarrow> (PubRecProperties option \<times> bytes) res" where
  "v5_pubrec_properties_read =
     props_read v5_pubrec_prop \<lparr>pr_reason_string = None, pr_user_properties = []\<rparr>"

definition v5_pubrec_len :: "PubRec \<Rightarrow> PubRecProperties option \<Rightarrow> usize res" where
  "v5_pubrec_len pubrec properties =
     and_then (unwrap (pr_reason pubrec)) (\<lambda>reason.
     if reason = PR_Success \<and> properties = None then Ok 2
     else Ok (2 + 1 + opt_props_len v5_pubrec_properties_len properties))"

definition v5_pubrec_write :: "PubRec \<Rightarrow> PubRecProperties option \<Rightarrow> usize wr" where
  "v5_pubrec_write pubrec properties =
     w_bind (w_lift (v5_pubrec_len pubrec properties)) (\<lambda>len.
     w_bind (put_u8 0x50) (\<lambda>_.
     w_bind (write_remaining_length len) (\<lambda>count.
     w_bind (put_u16 (pr_pkid pubrec)) (\<lambda>_.
     w_bind (w_lift (unwrap (pr_reason pubrec))) (\<lambda>reason.
     if reason = PR_Success \<and> properties = None then w_ok 4
     else
       w_bind (put_u8 (v5_pubrec_code reason)) (\<lambda>_.
       w_bind (opt_props_write v5_pubrec_properties_write properties) (\<lambda>_.
         w_ok (1 + count + len))))))))"

definition v5_pubrec_read :: "FixedHeader \<Rightarrow> bytes \<Rightarrow> (PubRec \<times> PubRecProperties option) res" where
  "v5_pubrec_read fixed_header bytes =
     and_then (advance (fixed_header_len fixed_header) bytes) (\<lambda>bytes.
     and_then (read_u16 bytes) (\<lambda>(pkid, bytes).
     if remaining_len fixed_header = 2
     then Ok (\<lparr>pr_pkid = pkid, pr_reason = Some PR_Success\<rparr>, None)
     else
       and_then (read_u8 bytes) (\<lambda>(ack_reason, bytes).
       if remaining_len fixed_header < 4
       then
         and_then (v5_pubrec_reason ack_reason) (\<lambda>r.
           Ok (\<lparr>pr_pkid = pkid, pr_reason = Some r\<rparr>, None))
       else
         and_then (v5_pubrec_reason ack_reason) (\<lambda>r.
         and_then (v5_pubrec_properties_read bytes) (\<lambda>(properties, bytes).
           Ok (\<lparr>pr_pkid = pkid, pr_reason = Some r\<rparr>, properties))))))"

section \<open>PubRel\<close>

definition v5_pubrel_reason :: "u8 \<Rightarrow> PubRelReason res" where
  "v5_pubrel_reason num =
     (if num = 0 then Ok PL_Success
      else if num = 146 then Ok PL_PacketIdentifierNotFound
      else Err (InvalidConnectReturnCode num))"

primrec v5_pubrel_code :: "PubRelReason \<Rightarrow> u8" where
  "v5_pubrel_code PL_Success = 0"
| "v5_pubrel_code PL_PacketIdentifierNotFound = 146"

definition v5_pubrel_properties_len :: "PubRelProperties \<Rightarrow> usize" where
  "v5_pubrel_properties_len properties =
     opt_len (pl_reason_string properties) (\<lambda>reason. 1 + 2 + length reason) +
     user_props_len (pl_user_properties properties)"

definition v5_pubrel_properties_write :: "PubRelProperties \<Rightarrow> unit wr" where
  "v5_pubrel_properties_write properties =
     w_bind (write_remaining_length (v5_pubrel_properties_len properties)) (\<lambda>_.
     w_seq [w_some (pl_reason_string properties) (put_prop_str ReasonString),
            w_for (pl_user_properties properties) put_user_property])"

definition v5_pubrel_prop :: "PubRelProperties prop_step" where
  "v5_pubrel_prop prop bytes st =
     and_then (property prop) (\<lambda>ty.
     case ty of
       ReasonString \<Rightarrow> arm_str bytes (\<lambda>reason. st\<lparr>pl_reason_string := Some reason\<rparr>)
     | UserProperty \<Rightarrow>
         arm_user bytes (\<lambda>kv. st\<lparr>pl_user_properties := pl_user_properties st @ [kv]\<rparr>)
     | _ \<Rightarrow> Err (InvalidPacketType prop))"

definition v5_pubrel_properties_read :: "bytes \<Rightarrow> (PubRelProperties option \<times> bytes) res" where
  "v5_pubrel_properties_read =
     props_read v5_pubrel_prop \<lparr>pl_reason_string = None, pl_user_properties = []\<rparr>"

definition v5_pubrel_len :: "PubRel \<Rightarrow> PubRelProperties option \<Rightarrow> usize res" where
  "v5_pubrel_len pubrel properties =
     and_then (unwrap (pl_reason pubrel)) (\<lambda>reason.
     if reason = PL_Success \<and> properties = None then Ok 2
     else Ok (2 + 1 + opt_props_len v5_pubrel_properties_len properties))"

definition v5_pubrel_write :: "PubRel \<Rightarrow> PubRelProperties option \<Rightarrow> usize wr" where
  "v5_pubrel_write pubrel properties =
     w_bind (w_lift (v5_pubrel_len pubrel properties)) (\<lambda>len.
     w_bind (put_u8 0x62) (\<lambda>_.
     w_bind (write_remaining_length len) (\<lambda>count.
     w_bind (put_u16 (pl_pkid pubrel)) (\<lambda>_.
     w_bind (w_lift (unwrap (pl_reason pubrel))) (\<lambda>reason.
     if reason = PL_Success \<and> properties = None then w_ok 4
     else
       w_bind (put_u8 (v5_pubrel_code reason)) (\<lambda>_.
       w_bind (opt_props_write v5_pubrel_properties_write properties) (\<lambda>_.
         w_ok (1 + count + len))))))))"

definition v5_pubrel_read :: "FixedHeader \<Rightarrow> bytes \<Rightarrow> (PubRel \<times> PubRelProperties option) res" where
  "v5_pubrel_read fixed_header bytes =
     and_then (advance (fixed_header_len fixed_header) bytes) (\<lambda>bytes.
     and_then (read_u16 bytes) (\<lambda>(pkid, bytes).
     if remaining_len fixed_header = 2
     then Ok (\<lparr>pl_pkid = pkid, pl_reason = Some PL_Success\<rparr>, None)
     else
       and_then (read_u8 bytes) (\<lambda>(ack_reason, bytes).
       if remaining_len fixed_header < 4
       then
         and_then (v5_pubrel_reason ack_reason) (\<lambda>r.
           Ok (\<lparr>pl_pkid = pkid, pl_reason = Some r\<rparr>, None))
       else
         and_then (v5_pubrel_reason ack_reason) (\<lambda>r.
         and_then (v5_pubrel_properties_read bytes) (\<lambda>(properties, bytes).
           Ok (\<lparr>pl_pkid = pkid, pl_reason = Some r\<rparr>, properties))))))"

section \<open>PubComp\<close>

definition v5_pubcomp_reason :: "u8 \<Rightarrow> PubCompReason res" where
  "v5_pubcomp_reason num =
     (if num = 0 then Ok PC_Success
      else if num = 146 then Ok PC_PacketIdentifierNotFound
      else Err (InvalidConnectReturnCode num))"

primrec v5_pubcomp_code :: "PubCompReason \<Rightarrow> u8" where
  "v5_pubcomp_code PC_Success = 0"
| "v5_pubcomp_code PC_PacketIdentifierNotFound = 146"

definition v5_pubcomp_properties_len :: "PubCompProperties \<Rightarrow> usize" where
  "v5_pubcomp_properties_len properties =
     opt_len (pc_reason_string properties) (\<lambda>reason. 1 + 2 + length reason) +
     user_props_len (pc_user_properties properties)"

definition v5_pubcomp_properties_write :: "PubCompProperties \<Rightarrow> unit wr" where
  "v5_pubcomp_properties_write properties =
     w_bind (write_remaining_length (v5_pubcomp_properties_len properties)) (\<lambda>_.
     w_seq [w_some (pc_reason_string properties) (put_prop_str ReasonString),
            w_for (pc_user_properties properties) put_user_property])"

definition v5_pubcomp_prop :: "PubCompProperties prop_step" where
  "v5_pubcomp_prop prop bytes st =
     and_then (property prop) (\<lambda>ty.
     case ty of
       ReasonString \<Rightarrow> arm_str bytes (\<lambda>reason. st\<lparr>pc_reason_string := Some reason\<rparr>)
     | UserProperty \<Rightarrow>
         arm_user bytes (\<lambda>kv. st\<lparr>pc_user_properties := pc_user_properties st @ [kv]\<rparr>)
     | _ \<Rightarrow> Err (InvalidPropertyType prop))"

definition v5_pubcomp_properties_read :: "bytes \<Rightarrow> (PubCompProperties option \<times> bytes) res" where
  "v5_pubcomp_properties_read =
     props_read v5_pubcomp_prop \<lparr>pc_reason_string = None, pc_user_properties = []\<rparr>"

definition v5_pubcomp_len :: "PubComp \<Rightarrow> PubCompProperties option \<Rightarrow> usize res" where
  "v5_pubcomp_len pubcomp properties =
     and_then (unwrap (pc_reason pubcomp)) (\<lambda>reason.
     if reason = PC_Success \<and> properties = None then Ok 2
     else Ok (2 + 1 + opt_props_len v5_pubcomp_properties_len properties))"

definition v5_pubcomp_write :: "PubComp \<Rightarrow> PubCompProperties option \<Rightarrow> usize wr" where
  "v5_pubcomp_write pubcomp properties =
     w_bind (w_lift (v5_pubcomp_len pubcomp properties)) (\<lambda>len.
     w_bind (put_u8 0x70) (\<lambda>_.
     w_bind (write_remaining_length len) (\<lambda>count.
     w_bind (put_u16 (pc_pkid pubcomp)) (\<lambda>_.
     w_bind (w_lift (unwrap (pc_reason pubcomp))) (\<lambda>reason.
     if reason = PC_Success \<and> properties = None then w_ok 4
     else
       w_bind (put_u8 (v5_pubcomp_code reason)) (\<lambda>_.
       w_bind (opt_props_write v5_pubcomp_properties_write properties) (\<lambda>_.
         w_ok (1 + count + len))))))))"

definition v5_pubcomp_read :: "FixedHeader \<Rightarrow> bytes \<Rightarrow> (PubComp \<times> PubCompProperties option) res" where
  "v5_pubcomp_read fixed_header bytes =
     and_then (advance (fixed_header_len fixed_header) bytes) (\<lambda>bytes.
     and_then (read_u16 bytes) (\<lambda>(pkid, bytes).
     if remaining_len fixed_header = 2
     then Ok (\<lparr>pc_pkid = pkid, pc_reason = Some PC_Success\<rparr>, None)
     else
       and_then (read_u8 bytes) (\<lambda>(ack_reason, bytes).
       if remaining_len fixed_header < 4
       then
         and_then (v5_pubcomp_reason ack_reason) (\<lambda>r.
           Ok (\<lparr>pc_pkid = pkid, pc_reason = Some r\<rparr>, None))
       else
         and_then (v5_pubcomp_reason ack_reason) (\<lambda>r.
         and_then (v5_pubcomp_properties_read bytes) (\<lambda>(properties, bytes).
           Ok (\<lparr>pc_pkid = pkid, pc_reason = Some r\<rparr>, properties))))))"

section \<open>PubAck: correctness\<close>

definition v5_puback_penc :: "PubAckProperties \<Rightarrow> bytes" where
  "v5_puback_penc p = opt_enc (pa_reason_string p) (penc_str ReasonString) @ users_enc (pa_user_properties p)"

definition v5_puback_pwf :: "PubAckProperties \<Rightarrow> bool" where
  "v5_puback_pwf p \<longleftrightarrow> pred_option str_wf (pa_reason_string p) \<and> users_wf (pa_user_properties p)"

lemma runs_v5_puback:
  assumes "v5_puback_pwf p"
  shows "runs v5_puback_prop (v5_puback_penc p) \<lparr>pa_reason_string = None, pa_user_properties = []\<rparr> p"
  unfolding v5_puback_penc_def
  by (rule runs_cong,
      (rule runs_append runs_str [where ty = ReasonString and upd = pa_reason_string_update]
        runs_users [where get = pa_user_properties and upd = pa_user_properties_update]
       | (use assms in \<open>simp add: v5_puback_prop_def v5_puback_pwf_def; fail\<close>))+)

interpretation v5_puback_props: props_codec v5_puback_properties_write v5_puback_properties_len
  v5_puback_properties_read v5_puback_penc v5_puback_pwf
proof unfold_locales
  fix p rest
  show len: "v5_puback_properties_len p = length (v5_puback_penc p)"
    by (simp add: v5_puback_properties_len_def v5_puback_penc_def)
  assume bound: "length (v5_puback_penc p) \<le> 268435455" and wf: "v5_puback_pwf p"
  show "emits (v5_puback_properties_write p) () (vbi (length (v5_puback_penc p)) @ v5_puback_penc p)"
    unfolding v5_puback_properties_write_def len
    by (rule emits_cong, (rule emit_rules bound)+) (simp add: v5_puback_penc_def)
  show "v5_puback_properties_read (vbi (length (v5_puback_penc p)) @ v5_puback_penc p @ rest) =
      Ok (if v5_puback_penc p = [] then None else Some p, rest)"
    unfolding v5_puback_properties_read_def by (rule props_read_runs [OF runs_v5_puback [OF wf] bound])
qed (simp add: v5_puback_properties_read_def props_read_zero)

lemma v5_puback_reason_code [simp]: "v5_puback_reason (v5_puback_code r) = Ok r"
  by (cases r) (simp_all add: v5_puback_reason_def)

definition v5_puback_body :: "PubAck \<times> PubAckProperties option \<Rightarrow> bytes" where
  "v5_puback_body x = be16 (pa_pkid (fst x)) @
     (if pa_reason (fst x) = Some PA_Success \<and> snd x = None then []
      else v5_puback_code (the (pa_reason (fst x))) # opt_props_enc v5_puback_penc (snd x))"

definition v5_puback_wf :: "PubAck \<times> PubAckProperties option \<Rightarrow> bool" where
  "v5_puback_wf x \<longleftrightarrow> pa_reason (fst x) \<noteq> None \<and> opt_props_wf v5_puback_pwf v5_puback_penc (snd x) \<and>
     length (v5_puback_body x) \<le> 268435455"

interpretation v5_puback: packet_codec "\<lambda>x. v5_puback_write (fst x) (snd x)" v5_puback_read
  "\<lambda>_. 0x40" v5_puback_body v5_puback_wf "\<lambda>x. (fst x, opt_props_norm v5_puback_penc (snd x))"
proof unfold_locales
  fix x
  assume wf: "v5_puback_wf x"
  then obtain p props r where x: "x = (p, props)" and r: "pa_reason p = Some r"
    and props: "opt_props_wf v5_puback_pwf v5_puback_penc props"
    and bound: "length (v5_puback_body x) \<le> 268435455"
    by (cases x) (auto simp: v5_puback_wf_def)
  show "length (v5_puback_body x) \<le> 268435455" by (rule bound)
  have len: "v5_puback_len p props = Ok (length (v5_puback_body x))"
    using r by (simp add: x v5_puback_len_def v5_puback_body_def v5_puback_props.opt_length [OF props])
  show "emits (v5_puback_write (fst x) (snd x)) (length (frame 0x40 (v5_puback_body x))) (frame 0x40 (v5_puback_body x))"
  proof (rule emits_frameI)
    show "v5_puback_write (fst x) (snd x) buf =
        (Ok (1 + len_len (length (v5_puback_body x)) + length (v5_puback_body x)),
         buf @ 0x40 # vbi (length (v5_puback_body x)) @ v5_puback_body x)" for buf
      using r bound
      by (simp add: x v5_puback_write_def len w_simps v5_puback_props.opt_write [OF props])
         (auto simp: v5_puback_body_def len_len_def)
  qed (simp_all add: bound)
  show "v5_puback_read (frame_header 0x40 (v5_puback_body x)) (frame 0x40 (v5_puback_body x)) =
      Ok (fst x, opt_props_norm v5_puback_penc (snd x))"
    using r bound v5_puback_props.opt_read [OF props, of "[]"]
    by (cases p) (auto simp: x v5_puback_read_def v5_puback_body_def wire_simps opt_props_norm_def)
qed

lemma v5_puback_read_not_Panic:
  assumes "length packet = fixed_header_len h + remaining_len h"
  shows "v5_puback_read h packet \<noteq> Panic"
proof -
  have "v5_puback_properties_read bs \<noteq> Panic" for bs
    unfolding v5_puback_properties_read_def
    by (rule props_read_not_Panic)
       (auto simp: v5_puback_prop_def and_then_eq_Panic split: PropertyType.splits)
  then show ?thesis
    using assms
    by (auto simp: v5_puback_read_def v5_puback_reason_def and_then_eq_Panic split: if_splits)
qed

section \<open>PubRec: correctness\<close>

definition v5_pubrec_penc :: "PubRecProperties \<Rightarrow> bytes" where
  "v5_pubrec_penc p = opt_enc (pr_reason_string p) (penc_str ReasonString) @ users_enc (pr_user_properties p)"

definition v5_pubrec_pwf :: "PubRecProperties \<Rightarrow> bool" where
  "v5_pubrec_pwf p \<longleftrightarrow> pred_option str_wf (pr_reason_string p) \<and> users_wf (pr_user_properties p)"

lemma runs_v5_pubrec:
  assumes "v5_pubrec_pwf p"
  shows "runs v5_pubrec_prop (v5_pubrec_penc p) \<lparr>pr_reason_string = None, pr_user_properties = []\<rparr> p"
  unfolding v5_pubrec_penc_def
  by (rule runs_cong,
      (rule runs_append runs_str [where ty = ReasonString and upd = pr_reason_string_update]
        runs_users [where get = pr_user_properties and upd = pr_user_properties_update]
       | (use assms in \<open>simp add: v5_pubrec_prop_def v5_pubrec_pwf_def; fail\<close>))+)

interpretation v5_pubrec_props: props_codec v5_pubrec_properties_write v5_pubrec_properties_len
  v5_pubrec_properties_read v5_pubrec_penc v5_pubrec_pwf
proof unfold_locales
  fix p rest
  show len: "v5_pubrec_properties_len p = length (v5_pubrec_penc p)"
    by (simp add: v5_pubrec_properties_len_def v5_pubrec_penc_def)
  assume bound: "length (v5_pubrec_penc p) \<le> 268435455" and wf: "v5_pubrec_pwf p"
  show "emits (v5_pubrec_properties_write p) () (vbi (length (v5_pubrec_penc p)) @ v5_pubrec_penc p)"
    unfolding v5_pubrec_properties_write_def len
    by (rule emits_cong, (rule emit_rules bound)+) (simp add: v5_pubrec_penc_def)
  show "v5_pubrec_properties_read (vbi (length (v5_pubrec_penc p)) @ v5_pubrec_penc p @ rest) =
      Ok (if v5_pubrec_penc p = [] then None else Some p, rest)"
    unfolding v5_pubrec_properties_read_def by (rule props_read_runs [OF runs_v5_pubrec [OF wf] bound])
qed (simp add: v5_pubrec_properties_read_def props_read_zero)

lemma v5_pubrec_reason_code [simp]: "v5_pubrec_reason (v5_pubrec_code r) = Ok r"
  by (cases r) (simp_all add: v5_pubrec_reason_def)

definition v5_pubrec_body :: "PubRec \<times> PubRecProperties option \<Rightarrow> bytes" where
  "v5_pubrec_body x = be16 (pr_pkid (fst x)) @
     (if pr_reason (fst x) = Some PR_Success \<and> snd x = None then []
      else v5_pubrec_code (the (pr_reason (fst x))) # opt_props_enc v5_pubrec_penc (snd x))"

definition v5_pubrec_wf :: "PubRec \<times> PubRecProperties option \<Rightarrow> bool" where
  "v5_pubrec_wf x \<longleftrightarrow> pr_reason (fst x) \<noteq> None \<and> opt_props_wf v5_pubrec_pwf v5_pubrec_penc (snd x) \<and>
     length (v5_pubrec_body x) \<le> 268435455"

interpretation v5_pubrec: packet_codec "\<lambda>x. v5_pubrec_write (fst x) (snd x)" v5_pubrec_read
  "\<lambda>_. 0x50" v5_pubrec_body v5_pubrec_wf "\<lambda>x. (fst x, opt_props_norm v5_pubrec_penc (snd x))"
proof unfold_locales
  fix x
  assume wf: "v5_pubrec_wf x"
  then obtain p props r where x: "x = (p, props)" and r: "pr_reason p = Some r"
    and props: "opt_props_wf v5_pubrec_pwf v5_pubrec_penc props"
    and bound: "length (v5_pubrec_body x) \<le> 268435455"
    by (cases x) (auto simp: v5_pubrec_wf_def)
  show "length (v5_pubrec_body x) \<le> 268435455" by (rule bound)
  have len: "v5_pubrec_len p props = Ok (length (v5_pubrec_body x))"
    using r by (simp add: x v5_pubrec_len_def v5_pubrec_body_def v5_pubrec_props.opt_length [OF props])
  show "emits (v5_pubrec_write (fst x) (snd x)) (length (frame 0x50 (v5_pubrec_body x))) (frame 0x50 (v5_pubrec_body x))"
  proof (rule emits_frameI)
    show "v5_pubrec_write (fst x) (snd x) buf =
        (Ok (1 + len_len (length (v5_pubrec_body x)) + length (v5_pubrec_body x)),
         buf @ 0x50 # vbi (length (v5_pubrec_body x)) @ v5_pubrec_body x)" for buf
      using r bound
      by (simp add: x v5_pubrec_write_def len w_simps v5_pubrec_props.opt_write [OF props])
         (auto simp: v5_pubrec_body_def len_len_def)
  qed (simp_all add: bound)
  show "v5_pubrec_read (frame_header 0x50 (v5_pubrec_body x)) (frame 0x50 (v5_pubrec_body x)) =
      Ok (fst x, opt_props_norm v5_pubrec_penc (snd x))"
    using r bound v5_pubrec_props.opt_read [OF props, of "[]"]
    by (cases p) (auto simp: x v5_pubrec_read_def v5_pubrec_body_def wire_simps opt_props_norm_def)
qed

lemma v5_pubrec_read_not_Panic:
  assumes "length packet = fixed_header_len h + remaining_len h"
  shows "v5_pubrec_read h packet \<noteq> Panic"
proof -
  have "v5_pubrec_properties_read bs \<noteq> Panic" for bs
    unfolding v5_pubrec_properties_read_def
    by (rule props_read_not_Panic)
       (auto simp: v5_pubrec_prop_def and_then_eq_Panic split: PropertyType.splits)
  then show ?thesis
    using assms
    by (auto simp: v5_pubrec_read_def v5_pubrec_reason_def and_then_eq_Panic split: if_splits)
qed

section \<open>PubRel: correctness\<close>

definition v5_pubrel_penc :: "PubRelProperties \<Rightarrow> bytes" where
  "v5_pubrel_penc p = opt_enc (pl_reason_string p) (penc_str ReasonString) @ users_enc (pl_user_properties p)"

definition v5_pubrel_pwf :: "PubRelProperties \<Rightarrow> bool" where
  "v5_pubrel_pwf p \<longleftrightarrow> pred_option str_wf (pl_reason_string p) \<and> users_wf (pl_user_properties p)"

lemma runs_v5_pubrel:
  assumes "v5_pubrel_pwf p"
  shows "runs v5_pubrel_prop (v5_pubrel_penc p) \<lparr>pl_reason_string = None, pl_user_properties = []\<rparr> p"
  unfolding v5_pubrel_penc_def
  by (rule runs_cong,
      (rule runs_append runs_str [where ty = ReasonString and upd = pl_reason_string_update]
        runs_users [where get = pl_user_properties and upd = pl_user_properties_update]
       | (use assms in \<open>simp add: v5_pubrel_prop_def v5_pubrel_pwf_def; fail\<close>))+)

interpretation v5_pubrel_props: props_codec v5_pubrel_properties_write v5_pubrel_properties_len
  v5_pubrel_properties_read v5_pubrel_penc v5_pubrel_pwf
proof unfold_locales
  fix p rest
  show len: "v5_pubrel_properties_len p = length (v5_pubrel_penc p)"
    by (simp add: v5_pubrel_properties_len_def v5_pubrel_penc_def)
  assume bound: "length (v5_pubrel_penc p) \<le> 268435455" and wf: "v5_pubrel_pwf p"
  show "emits (v5_pubrel_properties_write p) () (vbi (length (v5_pubrel_penc p)) @ v5_pubrel_penc p)"
    unfolding v5_pubrel_properties_write_def len
    by (rule emits_cong, (rule emit_rules bound)+) (simp add: v5_pubrel_penc_def)
  show "v5_pubrel_properties_read (vbi (length (v5_pubrel_penc p)) @ v5_pubrel_penc p @ rest) =
      Ok (if v5_pubrel_penc p = [] then None else Some p, rest)"
    unfolding v5_pubrel_properties_read_def by (rule props_read_runs [OF runs_v5_pubrel [OF wf] bound])
qed (simp add: v5_pubrel_properties_read_def props_read_zero)

lemma v5_pubrel_reason_code [simp]: "v5_pubrel_reason (v5_pubrel_code r) = Ok r"
  by (cases r) (simp_all add: v5_pubrel_reason_def)

definition v5_pubrel_body :: "PubRel \<times> PubRelProperties option \<Rightarrow> bytes" where
  "v5_pubrel_body x = be16 (pl_pkid (fst x)) @
     (if pl_reason (fst x) = Some PL_Success \<and> snd x = None then []
      else v5_pubrel_code (the (pl_reason (fst x))) # opt_props_enc v5_pubrel_penc (snd x))"

definition v5_pubrel_wf :: "PubRel \<times> PubRelProperties option \<Rightarrow> bool" where
  "v5_pubrel_wf x \<longleftrightarrow> pl_reason (fst x) \<noteq> None \<and> opt_props_wf v5_pubrel_pwf v5_pubrel_penc (snd x) \<and>
     length (v5_pubrel_body x) \<le> 268435455"

interpretation v5_pubrel: packet_codec "\<lambda>x. v5_pubrel_write (fst x) (snd x)" v5_pubrel_read
  "\<lambda>_. 0x62" v5_pubrel_body v5_pubrel_wf "\<lambda>x. (fst x, opt_props_norm v5_pubrel_penc (snd x))"
proof unfold_locales
  fix x
  assume wf: "v5_pubrel_wf x"
  then obtain p props r where x: "x = (p, props)" and r: "pl_reason p = Some r"
    and props: "opt_props_wf v5_pubrel_pwf v5_pubrel_penc props"
    and bound: "length (v5_pubrel_body x) \<le> 268435455"
    by (cases x) (auto simp: v5_pubrel_wf_def)
  show "length (v5_pubrel_body x) \<le> 268435455" by (rule bound)
  have len: "v5_pubrel_len p props = Ok (length (v5_pubrel_body x))"
    using r by (simp add: x v5_pubrel_len_def v5_pubrel_body_def v5_pubrel_props.opt_length [OF props])
  show "emits (v5_pubrel_write (fst x) (snd x)) (length (frame 0x62 (v5_pubrel_body x))) (frame 0x62 (v5_pubrel_body x))"
  proof (rule emits_frameI)
    show "v5_pubrel_write (fst x) (snd x) buf =
        (Ok (1 + len_len (length (v5_pubrel_body x)) + length (v5_pubrel_body x)),
         buf @ 0x62 # vbi (length (v5_pubrel_body x)) @ v5_pubrel_body x)" for buf
      using r bound
      by (simp add: x v5_pubrel_write_def len w_simps v5_pubrel_props.opt_write [OF props])
         (auto simp: v5_pubrel_body_def len_len_def)
  qed (simp_all add: bound)
  show "v5_pubrel_read (frame_header 0x62 (v5_pubrel_body x)) (frame 0x62 (v5_pubrel_body x)) =
      Ok (fst x, opt_props_norm v5_pubrel_penc (snd x))"
    using r bound v5_pubrel_props.opt_read [OF props, of "[]"]
    by (cases p) (auto simp: x v5_pubrel_read_def v5_pubrel_body_def wire_simps opt_props_norm_def)
qed

lemma v5_pubrel_read_not_Panic:
  assumes "length packet = fixed_header_len h + remaining_len h"
  shows "v5_pubrel_read h packet \<noteq> Panic"
proof -
  have "v5_pubrel_properties_read bs \<noteq> Panic" for bs
    unfolding v5_pubrel_properties_read_def
    by (rule props_read_not_Panic)
       (auto simp: v5_pubrel_prop_def and_then_eq_Panic split: PropertyType.splits)
  then show ?thesis
    using assms
    by (auto simp: v5_pubrel_read_def v5_pubrel_reason_def and_then_eq_Panic split: if_splits)
qed

section \<open>PubComp: correctness\<close>

definition v5_pubcomp_penc :: "PubCompProperties \<Rightarrow> bytes" where
  "v5_pubcomp_penc p = opt_enc (pc_reason_string p) (penc_str ReasonString) @ users_enc (pc_user_properties p)"

definition v5_pubcomp_pwf :: "PubCompProperties \<Rightarrow> bool" where
  "v5_pubcomp_pwf p \<longleftrightarrow> pred_option str_wf (pc_reason_string p) \<and> users_wf (pc_user_properties p)"

lemma runs_v5_pubcomp:
  assumes "v5_pubcomp_pwf p"
  shows "runs v5_pubcomp_prop (v5_pubcomp_penc p) \<lparr>pc_reason_string = None, pc_user_properties = []\<rparr> p"
  unfolding v5_pubcomp_penc_def
  by (rule runs_cong,
      (rule runs_append runs_str [where ty = ReasonString and upd = pc_reason_string_update]
        runs_users [where get = pc_user_properties and upd = pc_user_properties_update]
       | (use assms in \<open>simp add: v5_pubcomp_prop_def v5_pubcomp_pwf_def; fail\<close>))+)

interpretation v5_pubcomp_props: props_codec v5_pubcomp_properties_write v5_pubcomp_properties_len
  v5_pubcomp_properties_read v5_pubcomp_penc v5_pubcomp_pwf
proof unfold_locales
  fix p rest
  show len: "v5_pubcomp_properties_len p = length (v5_pubcomp_penc p)"
    by (simp add: v5_pubcomp_properties_len_def v5_pubcomp_penc_def)
  assume bound: "length (v5_pubcomp_penc p) \<le> 268435455" and wf: "v5_pubcomp_pwf p"
  show "emits (v5_pubcomp_properties_write p) () (vbi (length (v5_pubcomp_penc p)) @ v5_pubcomp_penc p)"
    unfolding v5_pubcomp_properties_write_def len
    by (rule emits_cong, (rule emit_rules bound)+) (simp add: v5_pubcomp_penc_def)
  show "v5_pubcomp_properties_read (vbi (length (v5_pubcomp_penc p)) @ v5_pubcomp_penc p @ rest) =
      Ok (if v5_pubcomp_penc p = [] then None else Some p, rest)"
    unfolding v5_pubcomp_properties_read_def by (rule props_read_runs [OF runs_v5_pubcomp [OF wf] bound])
qed (simp add: v5_pubcomp_properties_read_def props_read_zero)

lemma v5_pubcomp_reason_code [simp]: "v5_pubcomp_reason (v5_pubcomp_code r) = Ok r"
  by (cases r) (simp_all add: v5_pubcomp_reason_def)

definition v5_pubcomp_body :: "PubComp \<times> PubCompProperties option \<Rightarrow> bytes" where
  "v5_pubcomp_body x = be16 (pc_pkid (fst x)) @
     (if pc_reason (fst x) = Some PC_Success \<and> snd x = None then []
      else v5_pubcomp_code (the (pc_reason (fst x))) # opt_props_enc v5_pubcomp_penc (snd x))"

definition v5_pubcomp_wf :: "PubComp \<times> PubCompProperties option \<Rightarrow> bool" where
  "v5_pubcomp_wf x \<longleftrightarrow> pc_reason (fst x) \<noteq> None \<and> opt_props_wf v5_pubcomp_pwf v5_pubcomp_penc (snd x) \<and>
     length (v5_pubcomp_body x) \<le> 268435455"

interpretation v5_pubcomp: packet_codec "\<lambda>x. v5_pubcomp_write (fst x) (snd x)" v5_pubcomp_read
  "\<lambda>_. 0x70" v5_pubcomp_body v5_pubcomp_wf "\<lambda>x. (fst x, opt_props_norm v5_pubcomp_penc (snd x))"
proof unfold_locales
  fix x
  assume wf: "v5_pubcomp_wf x"
  then obtain p props r where x: "x = (p, props)" and r: "pc_reason p = Some r"
    and props: "opt_props_wf v5_pubcomp_pwf v5_pubcomp_penc props"
    and bound: "length (v5_pubcomp_body x) \<le> 268435455"
    by (cases x) (auto simp: v5_pubcomp_wf_def)
  show "length (v5_pubcomp_body x) \<le> 268435455" by (rule bound)
  have len: "v5_pubcomp_len p props = Ok (length (v5_pubcomp_body x))"
    using r by (simp add: x v5_pubcomp_len_def v5_pubcomp_body_def v5_pubcomp_props.opt_length [OF props])
  show "emits (v5_pubcomp_write (fst x) (snd x)) (length (frame 0x70 (v5_pubcomp_body x))) (frame 0x70 (v5_pubcomp_body x))"
  proof (rule emits_frameI)
    show "v5_pubcomp_write (fst x) (snd x) buf =
        (Ok (1 + len_len (length (v5_pubcomp_body x)) + length (v5_pubcomp_body x)),
         buf @ 0x70 # vbi (length (v5_pubcomp_body x)) @ v5_pubcomp_body x)" for buf
      using r bound
      by (simp add: x v5_pubcomp_write_def len w_simps v5_pubcomp_props.opt_write [OF props])
         (auto simp: v5_pubcomp_body_def len_len_def)
  qed (simp_all add: bound)
  show "v5_pubcomp_read (frame_header 0x70 (v5_pubcomp_body x)) (frame 0x70 (v5_pubcomp_body x)) =
      Ok (fst x, opt_props_norm v5_pubcomp_penc (snd x))"
    using r bound v5_pubcomp_props.opt_read [OF props, of "[]"]
    by (cases p) (auto simp: x v5_pubcomp_read_def v5_pubcomp_body_def wire_simps opt_props_norm_def)
qed

lemma v5_pubcomp_read_not_Panic:
  assumes "length packet = fixed_header_len h + remaining_len h"
  shows "v5_pubcomp_read h packet \<noteq> Panic"
proof -
  have "v5_pubcomp_properties_read bs \<noteq> Panic" for bs
    unfolding v5_pubcomp_properties_read_def
    by (rule props_read_not_Panic)
       (auto simp: v5_pubcomp_prop_def and_then_eq_Panic split: PropertyType.splits)
  then show ?thesis
    using assms
    by (auto simp: v5_pubcomp_read_def v5_pubcomp_reason_def and_then_eq_Panic split: if_splits)
qed

end
