(* ===== verification/Mqtt_V5_Subs.thy ===== *)
theory Mqtt_V5_Subs
  imports Mqtt_Props
begin

text \<open>
  The MQTT 5 subscription packets: \<open>subscribe.rs\<close>, \<open>suback.rs\<close>, \<open>unsubscribe.rs\<close> and
  \<open>unsuback.rs\<close> under \<open>src/protocol/src/mqtt/mqttv5/\<close>, with their properties modules,
  and that each keeps the contracts \<open>props_codec\<close> and \<open>packet_codec\<close>.
\<close>

section \<open>SubAck\<close>

definition v5_suback_reason :: "u8 \<Rightarrow> SubscribeReasonCode res" where
  "v5_suback_reason num =
     (if num = 0 then Ok SR_QoS0
      else if num = 1 then Ok SR_QoS1
      else if num = 2 then Ok SR_QoS2
      else if num = 128 then Ok SR_Unspecified
      else if num = 131 then Ok SR_ImplementationSpecific
      else if num = 135 then Ok SR_NotAuthorized
      else if num = 143 then Ok SR_TopicFilterInvalid
      else if num = 145 then Ok SR_PkidInUse
      else if num = 151 then Ok SR_QuotaExceeded
      else if num = 158 then Ok SR_SharedSubscriptionsNotSupported
      else if num = 161 then Ok SR_SubscriptionIdNotSupported
      else if num = 162 then Ok SR_WildcardSubscriptionsNotSupported
      else Err (InvalidSubscribeReasonCode num))"

primrec v5_suback_code :: "SubscribeReasonCode \<Rightarrow> u8" where
  "v5_suback_code (SR_Success q) = qos_to_u8 q"
| "v5_suback_code SR_Failure = 0x80"
| "v5_suback_code SR_QoS0 = 0"
| "v5_suback_code SR_QoS1 = 1"
| "v5_suback_code SR_QoS2 = 2"
| "v5_suback_code SR_Unspecified = 128"
| "v5_suback_code SR_ImplementationSpecific = 131"
| "v5_suback_code SR_NotAuthorized = 135"
| "v5_suback_code SR_TopicFilterInvalid = 143"
| "v5_suback_code SR_PkidInUse = 145"
| "v5_suback_code SR_QuotaExceeded = 151"
| "v5_suback_code SR_SharedSubscriptionsNotSupported = 158"
| "v5_suback_code SR_SubscriptionIdNotSupported = 161"
| "v5_suback_code SR_WildcardSubscriptionsNotSupported = 162"
| "v5_suback_code SR_ExclusiveSubscriptionDisabled = 143"
| "v5_suback_code SR_TopicSubscribed = 151"

definition v5_suback_properties_len :: "SubAckProperties \<Rightarrow> usize" where
  "v5_suback_properties_len properties =
     opt_len (sa_reason_string properties) (\<lambda>reason. 1 + 2 + length reason) +
     user_props_len (sa_user_properties properties)"

definition v5_suback_properties_write :: "SubAckProperties \<Rightarrow> unit wr" where
  "v5_suback_properties_write properties =
     w_bind (write_remaining_length (v5_suback_properties_len properties)) (\<lambda>_.
     w_seq [w_some (sa_reason_string properties) (put_prop_str ReasonString),
            w_for (sa_user_properties properties) put_user_property])"

definition v5_suback_prop :: "SubAckProperties prop_step" where
  "v5_suback_prop prop bytes st =
     and_then (property prop) (\<lambda>ty.
     case ty of
       ReasonString \<Rightarrow> arm_str bytes (\<lambda>reason. st\<lparr>sa_reason_string := Some reason\<rparr>)
     | UserProperty \<Rightarrow>
         arm_user bytes (\<lambda>kv. st\<lparr>sa_user_properties := sa_user_properties st @ [kv]\<rparr>)
     | _ \<Rightarrow> Err (InvalidPropertyType prop))"

definition v5_suback_properties_read :: "bytes \<Rightarrow> (SubAckProperties option \<times> bytes) res" where
  "v5_suback_properties_read =
     props_read v5_suback_prop \<lparr>sa_reason_string = None, sa_user_properties = []\<rparr>"

definition v5_suback_len :: "SubAck \<Rightarrow> SubAckProperties option \<Rightarrow> usize" where
  "v5_suback_len suback properties = 2 + length (return_codes suback) + opt_props_len v5_suback_properties_len properties"

definition v5_suback_write :: "SubAck \<Rightarrow> SubAckProperties option \<Rightarrow> usize wr" where
  "v5_suback_write suback properties =
     w_bind (put_u8 0x90) (\<lambda>_.
     let remaining_len = v5_suback_len suback properties in
     w_bind (write_remaining_length remaining_len) (\<lambda>remaining_len_bytes.
     w_bind (put_u16 (sa_pkid suback)) (\<lambda>_.
     w_bind (opt_props_write v5_suback_properties_write properties) (\<lambda>_.
     w_bind (put_slice (map v5_suback_code (return_codes suback))) (\<lambda>_.
       w_ok (1 + remaining_len_bytes + remaining_len))))))"

definition v5_suback_read :: "FixedHeader \<Rightarrow> bytes \<Rightarrow> (SubAck \<times> SubAckProperties option) res" where
  "v5_suback_read fixed_header bytes =
     and_then (advance (fixed_header_len fixed_header) bytes) (\<lambda>bytes.
     and_then (read_u16 bytes) (\<lambda>(pkid, bytes).
     and_then (v5_suback_properties_read bytes) (\<lambda>(properties, bytes).
     if bytes = [] then Err MalformedPacket
     else
       and_then (read_codes v5_suback_reason bytes []) (\<lambda>codes.
         Ok (\<lparr>sa_pkid = pkid, return_codes = codes\<rparr>, properties)))))"

section \<open>UnsubAck\<close>

definition v5_unsuback_reason :: "u8 \<Rightarrow> UnsubAckReason res" where
  "v5_unsuback_reason num =
     (if num = 0x00 then Ok UR_Success
      else if num = 0x11 then Ok UR_NoSubscriptionExisted
      else if num = 0x80 then Ok UR_UnspecifiedError
      else if num = 0x83 then Ok UR_ImplementationSpecificError
      else if num = 0x87 then Ok UR_NotAuthorized
      else if num = 0x8F then Ok UR_TopicFilterInvalid
      else if num = 0x91 then Ok UR_PacketIdentifierInUse
      else Err (InvalidSubscribeReasonCode num))"

primrec v5_unsuback_code :: "UnsubAckReason \<Rightarrow> u8" where
  "v5_unsuback_code UR_Success = 0x00"
| "v5_unsuback_code UR_NoSubscriptionExisted = 0x11"
| "v5_unsuback_code UR_UnspecifiedError = 0x80"
| "v5_unsuback_code UR_ImplementationSpecificError = 0x83"
| "v5_unsuback_code UR_NotAuthorized = 0x87"
| "v5_unsuback_code UR_TopicFilterInvalid = 0x8F"
| "v5_unsuback_code UR_PacketIdentifierInUse = 0x91"

definition v5_unsuback_properties_len :: "UnsubAckProperties \<Rightarrow> usize" where
  "v5_unsuback_properties_len properties =
     opt_len (ua_reason_string properties) (\<lambda>reason. 1 + 2 + length reason) +
     user_props_len (ua_user_properties properties)"

definition v5_unsuback_properties_write :: "UnsubAckProperties \<Rightarrow> unit wr" where
  "v5_unsuback_properties_write properties =
     w_bind (write_remaining_length (v5_unsuback_properties_len properties)) (\<lambda>_.
     w_seq [w_some (ua_reason_string properties) (put_prop_str ReasonString),
            w_for (ua_user_properties properties) put_user_property])"

definition v5_unsuback_prop :: "UnsubAckProperties prop_step" where
  "v5_unsuback_prop prop bytes st =
     and_then (property prop) (\<lambda>ty.
     case ty of
       ReasonString \<Rightarrow> arm_str bytes (\<lambda>reason. st\<lparr>ua_reason_string := Some reason\<rparr>)
     | UserProperty \<Rightarrow>
         arm_user bytes (\<lambda>kv. st\<lparr>ua_user_properties := ua_user_properties st @ [kv]\<rparr>)
     | _ \<Rightarrow> Err (InvalidPacketType prop))"

definition v5_unsuback_properties_read :: "bytes \<Rightarrow> (UnsubAckProperties option \<times> bytes) res" where
  "v5_unsuback_properties_read =
     props_read v5_unsuback_prop \<lparr>ua_reason_string = None, ua_user_properties = []\<rparr>"

definition v5_unsuback_len :: "UnsubAck \<Rightarrow> UnsubAckProperties option \<Rightarrow> usize" where
  "v5_unsuback_len unsuback properties = 2 + length (ua_reasons unsuback) + opt_props_len v5_unsuback_properties_len properties"

definition v5_unsuback_write :: "UnsubAck \<Rightarrow> UnsubAckProperties option \<Rightarrow> usize wr" where
  "v5_unsuback_write unsuback properties =
     w_bind (put_u8 0xB0) (\<lambda>_.
     let remaining_len = v5_unsuback_len unsuback properties in
     w_bind (write_remaining_length remaining_len) (\<lambda>remaining_len_bytes.
     w_bind (put_u16 (ua_pkid unsuback)) (\<lambda>_.
     w_bind (opt_props_write v5_unsuback_properties_write properties) (\<lambda>_.
     w_bind (put_slice (map v5_unsuback_code (ua_reasons unsuback))) (\<lambda>_.
       w_ok (1 + remaining_len_bytes + remaining_len))))))"

definition v5_unsuback_read :: "FixedHeader \<Rightarrow> bytes \<Rightarrow> (UnsubAck \<times> UnsubAckProperties option) res" where
  "v5_unsuback_read fixed_header bytes =
     and_then (advance (fixed_header_len fixed_header) bytes) (\<lambda>bytes.
     and_then (read_u16 bytes) (\<lambda>(pkid, bytes).
     and_then (v5_unsuback_properties_read bytes) (\<lambda>(properties, bytes).
     if bytes = [] then Err MalformedPacket
     else
       and_then (read_codes v5_unsuback_reason bytes []) (\<lambda>codes.
         Ok (\<lparr>ua_pkid = pkid, ua_reasons = codes\<rparr>, properties)))))"

section \<open>SubAck: correctness\<close>

definition v5_suback_penc :: "SubAckProperties \<Rightarrow> bytes" where
  "v5_suback_penc p = opt_enc (sa_reason_string p) (penc_str ReasonString) @ users_enc (sa_user_properties p)"

definition v5_suback_pwf :: "SubAckProperties \<Rightarrow> bool" where
  "v5_suback_pwf p \<longleftrightarrow> pred_option str_wf (sa_reason_string p) \<and> users_wf (sa_user_properties p)"

lemma runs_v5_suback:
  assumes "v5_suback_pwf p"
  shows "runs v5_suback_prop (v5_suback_penc p) \<lparr>sa_reason_string = None, sa_user_properties = []\<rparr> p"
  unfolding v5_suback_penc_def
  by (rule runs_cong,
      (rule runs_append runs_str [where ty = ReasonString and upd = sa_reason_string_update]
        runs_users [where get = sa_user_properties and upd = sa_user_properties_update]
       | (use assms in \<open>simp add: v5_suback_prop_def v5_suback_pwf_def; fail\<close>))+)

interpretation v5_suback_props: props_codec v5_suback_properties_write v5_suback_properties_len
  v5_suback_properties_read v5_suback_penc v5_suback_pwf
proof unfold_locales
  fix p rest
  show len: "v5_suback_properties_len p = length (v5_suback_penc p)"
    by (simp add: v5_suback_properties_len_def v5_suback_penc_def)
  assume bound: "length (v5_suback_penc p) \<le> 268435455" and wf: "v5_suback_pwf p"
  show "emits (v5_suback_properties_write p) () (vbi (length (v5_suback_penc p)) @ v5_suback_penc p)"
    unfolding v5_suback_properties_write_def len
    by (rule emits_cong, (rule emit_rules bound)+) (simp add: v5_suback_penc_def)
  show "v5_suback_properties_read (vbi (length (v5_suback_penc p)) @ v5_suback_penc p @ rest) =
      Ok (if v5_suback_penc p = [] then None else Some p, rest)"
    unfolding v5_suback_properties_read_def by (rule props_read_runs [OF runs_v5_suback [OF wf] bound])
qed (simp add: v5_suback_properties_read_def props_read_zero)

text \<open>The reason codes that share a number come back as the one that the number stands for.\<close>

primrec v5_suback_norm :: "SubscribeReasonCode \<Rightarrow> SubscribeReasonCode" where
  "v5_suback_norm (SR_Success q) =
     (case q of AtMostOnce \<Rightarrow> SR_QoS0 | AtLeastOnce \<Rightarrow> SR_QoS1 | ExactlyOnce \<Rightarrow> SR_QoS2)"
| "v5_suback_norm SR_Failure = SR_Unspecified"
| "v5_suback_norm SR_QoS0 = SR_QoS0"
| "v5_suback_norm SR_QoS1 = SR_QoS1"
| "v5_suback_norm SR_QoS2 = SR_QoS2"
| "v5_suback_norm SR_Unspecified = SR_Unspecified"
| "v5_suback_norm SR_ImplementationSpecific = SR_ImplementationSpecific"
| "v5_suback_norm SR_NotAuthorized = SR_NotAuthorized"
| "v5_suback_norm SR_TopicFilterInvalid = SR_TopicFilterInvalid"
| "v5_suback_norm SR_PkidInUse = SR_PkidInUse"
| "v5_suback_norm SR_QuotaExceeded = SR_QuotaExceeded"
| "v5_suback_norm SR_SharedSubscriptionsNotSupported = SR_SharedSubscriptionsNotSupported"
| "v5_suback_norm SR_SubscriptionIdNotSupported = SR_SubscriptionIdNotSupported"
| "v5_suback_norm SR_WildcardSubscriptionsNotSupported = SR_WildcardSubscriptionsNotSupported"
| "v5_suback_norm SR_ExclusiveSubscriptionDisabled = SR_TopicFilterInvalid"
| "v5_suback_norm SR_TopicSubscribed = SR_QuotaExceeded"

lemma v5_suback_reason_code [simp]: "v5_suback_reason (v5_suback_code c) = Ok (v5_suback_norm c)"
proof (cases c)
  case (SR_Success q)
  then show ?thesis by (cases q) (simp_all add: v5_suback_reason_def)
qed (simp_all add: v5_suback_reason_def)

definition v5_suback_body :: "SubAck \<times> SubAckProperties option \<Rightarrow> bytes" where
  "v5_suback_body x = be16 (sa_pkid (fst x)) @ opt_props_enc v5_suback_penc (snd x) @
     map v5_suback_code (return_codes (fst x))"

definition v5_suback_wf :: "SubAck \<times> SubAckProperties option \<Rightarrow> bool" where
  "v5_suback_wf x \<longleftrightarrow> return_codes (fst x) \<noteq> [] \<and> opt_props_wf v5_suback_pwf v5_suback_penc (snd x) \<and>
     length (v5_suback_body x) \<le> 268435455"

interpretation v5_suback: packet_codec "\<lambda>x. v5_suback_write (fst x) (snd x)" v5_suback_read
  "\<lambda>_. 0x90" v5_suback_body v5_suback_wf
  "\<lambda>x. (\<lparr>sa_pkid = sa_pkid (fst x), return_codes = map v5_suback_norm (return_codes (fst x))\<rparr>,
        opt_props_norm v5_suback_penc (snd x))"
proof unfold_locales
  fix x
  assume wf: "v5_suback_wf x"
  then have props: "opt_props_wf v5_suback_pwf v5_suback_penc (snd x)" and codes: "return_codes (fst x) \<noteq> []"
    by (simp_all add: v5_suback_wf_def)
  show bound: "length (v5_suback_body x) \<le> 268435455" using wf by (simp add: v5_suback_wf_def)
  have len: "v5_suback_len (fst x) (snd x) = length (v5_suback_body x)"
    by (simp add: v5_suback_len_def v5_suback_body_def v5_suback_props.opt_length [OF props])
  show "emits (v5_suback_write (fst x) (snd x)) (length (frame 0x90 (v5_suback_body x))) (frame 0x90 (v5_suback_body x))"
  proof (rule emits_frameI)
    show "v5_suback_write (fst x) (snd x) buf =
        (Ok (1 + len_len (length (v5_suback_body x)) + length (v5_suback_body x)),
         buf @ 0x90 # vbi (length (v5_suback_body x)) @ v5_suback_body x)" for buf
      using bound
      by (simp add: v5_suback_write_def len w_simps v5_suback_props.opt_write [OF props])
         (simp add: v5_suback_body_def)
  qed (simp_all add: bound)
  have "read_codes v5_suback_reason (map v5_suback_code cs) [] = Ok (map v5_suback_norm cs)" for cs
    using read_codes_map [of cs v5_suback_reason v5_suback_code v5_suback_norm "[]"] by simp
  then show "v5_suback_read (frame_header 0x90 (v5_suback_body x)) (frame 0x90 (v5_suback_body x)) =
      Ok (\<lparr>sa_pkid = sa_pkid (fst x), return_codes = map v5_suback_norm (return_codes (fst x))\<rparr>,
          opt_props_norm v5_suback_penc (snd x))"
    using codes bound
    by (simp add: v5_suback_read_def v5_suback_body_def wire_simps v5_suback_props.opt_read [OF props])
qed

lemma v5_suback_read_not_Panic:
  assumes "length packet = fixed_header_len h + remaining_len h"
  shows "v5_suback_read h packet \<noteq> Panic"
proof -
  have "v5_suback_properties_read bs \<noteq> Panic" for bs
    unfolding v5_suback_properties_read_def
    by (rule props_read_not_Panic)
       (auto simp: v5_suback_prop_def and_then_eq_Panic split: PropertyType.splits)
  moreover have "read_codes v5_suback_reason bs acc \<noteq> Panic" for bs acc
    by (rule read_codes_not_Panic) (simp add: v5_suback_reason_def)
  ultimately show ?thesis
    using assms by (auto simp: v5_suback_read_def and_then_eq_Panic split: if_splits)
qed

section \<open>UnsubAck: correctness\<close>

definition v5_unsuback_penc :: "UnsubAckProperties \<Rightarrow> bytes" where
  "v5_unsuback_penc p = opt_enc (ua_reason_string p) (penc_str ReasonString) @ users_enc (ua_user_properties p)"

definition v5_unsuback_pwf :: "UnsubAckProperties \<Rightarrow> bool" where
  "v5_unsuback_pwf p \<longleftrightarrow> pred_option str_wf (ua_reason_string p) \<and> users_wf (ua_user_properties p)"

lemma runs_v5_unsuback:
  assumes "v5_unsuback_pwf p"
  shows "runs v5_unsuback_prop (v5_unsuback_penc p) \<lparr>ua_reason_string = None, ua_user_properties = []\<rparr> p"
  unfolding v5_unsuback_penc_def
  by (rule runs_cong,
      (rule runs_append runs_str [where ty = ReasonString and upd = ua_reason_string_update]
        runs_users [where get = ua_user_properties and upd = ua_user_properties_update]
       | (use assms in \<open>simp add: v5_unsuback_prop_def v5_unsuback_pwf_def; fail\<close>))+)

interpretation v5_unsuback_props: props_codec v5_unsuback_properties_write v5_unsuback_properties_len
  v5_unsuback_properties_read v5_unsuback_penc v5_unsuback_pwf
proof unfold_locales
  fix p rest
  show len: "v5_unsuback_properties_len p = length (v5_unsuback_penc p)"
    by (simp add: v5_unsuback_properties_len_def v5_unsuback_penc_def)
  assume bound: "length (v5_unsuback_penc p) \<le> 268435455" and wf: "v5_unsuback_pwf p"
  show "emits (v5_unsuback_properties_write p) () (vbi (length (v5_unsuback_penc p)) @ v5_unsuback_penc p)"
    unfolding v5_unsuback_properties_write_def len
    by (rule emits_cong, (rule emit_rules bound)+) (simp add: v5_unsuback_penc_def)
  show "v5_unsuback_properties_read (vbi (length (v5_unsuback_penc p)) @ v5_unsuback_penc p @ rest) =
      Ok (if v5_unsuback_penc p = [] then None else Some p, rest)"
    unfolding v5_unsuback_properties_read_def by (rule props_read_runs [OF runs_v5_unsuback [OF wf] bound])
qed (simp add: v5_unsuback_properties_read_def props_read_zero)

lemma v5_unsuback_reason_code [simp]: "v5_unsuback_reason (v5_unsuback_code r) = Ok r"
  by (cases r) (simp_all add: v5_unsuback_reason_def)

definition v5_unsuback_body :: "UnsubAck \<times> UnsubAckProperties option \<Rightarrow> bytes" where
  "v5_unsuback_body x = be16 (ua_pkid (fst x)) @ opt_props_enc v5_unsuback_penc (snd x) @
     map v5_unsuback_code (ua_reasons (fst x))"

definition v5_unsuback_wf :: "UnsubAck \<times> UnsubAckProperties option \<Rightarrow> bool" where
  "v5_unsuback_wf x \<longleftrightarrow> ua_reasons (fst x) \<noteq> [] \<and> opt_props_wf v5_unsuback_pwf v5_unsuback_penc (snd x) \<and>
     length (v5_unsuback_body x) \<le> 268435455"

interpretation v5_unsuback: packet_codec "\<lambda>x. v5_unsuback_write (fst x) (snd x)" v5_unsuback_read
  "\<lambda>_. 0xB0" v5_unsuback_body v5_unsuback_wf
  "\<lambda>x. (\<lparr>ua_pkid = ua_pkid (fst x), ua_reasons = ua_reasons (fst x)\<rparr>,
        opt_props_norm v5_unsuback_penc (snd x))"
proof unfold_locales
  fix x
  assume wf: "v5_unsuback_wf x"
  then have props: "opt_props_wf v5_unsuback_pwf v5_unsuback_penc (snd x)" and codes: "ua_reasons (fst x) \<noteq> []"
    by (simp_all add: v5_unsuback_wf_def)
  show bound: "length (v5_unsuback_body x) \<le> 268435455" using wf by (simp add: v5_unsuback_wf_def)
  have len: "v5_unsuback_len (fst x) (snd x) = length (v5_unsuback_body x)"
    by (simp add: v5_unsuback_len_def v5_unsuback_body_def v5_unsuback_props.opt_length [OF props])
  show "emits (v5_unsuback_write (fst x) (snd x)) (length (frame 0xB0 (v5_unsuback_body x))) (frame 0xB0 (v5_unsuback_body x))"
  proof (rule emits_frameI)
    show "v5_unsuback_write (fst x) (snd x) buf =
        (Ok (1 + len_len (length (v5_unsuback_body x)) + length (v5_unsuback_body x)),
         buf @ 0xB0 # vbi (length (v5_unsuback_body x)) @ v5_unsuback_body x)" for buf
      using bound
      by (simp add: v5_unsuback_write_def len w_simps v5_unsuback_props.opt_write [OF props])
         (simp add: v5_unsuback_body_def)
  qed (simp_all add: bound)
  have "read_codes v5_unsuback_reason (map v5_unsuback_code cs) [] = Ok cs" for cs
    using read_codes_map [of cs v5_unsuback_reason v5_unsuback_code "\<lambda>r. r" "[]"] by simp
  then show "v5_unsuback_read (frame_header 0xB0 (v5_unsuback_body x)) (frame 0xB0 (v5_unsuback_body x)) =
      Ok (\<lparr>ua_pkid = ua_pkid (fst x), ua_reasons = ua_reasons (fst x)\<rparr>,
          opt_props_norm v5_unsuback_penc (snd x))"
    using codes bound
    by (simp add: v5_unsuback_read_def v5_unsuback_body_def wire_simps v5_unsuback_props.opt_read [OF props])
qed

lemma v5_unsuback_read_not_Panic:
  assumes "length packet = fixed_header_len h + remaining_len h"
  shows "v5_unsuback_read h packet \<noteq> Panic"
proof -
  have "v5_unsuback_properties_read bs \<noteq> Panic" for bs
    unfolding v5_unsuback_properties_read_def
    by (rule props_read_not_Panic)
       (auto simp: v5_unsuback_prop_def and_then_eq_Panic split: PropertyType.splits)
  moreover have "read_codes v5_unsuback_reason bs acc \<noteq> Panic" for bs acc
    by (rule read_codes_not_Panic) (simp add: v5_unsuback_reason_def)
  ultimately show ?thesis
    using assms by (auto simp: v5_unsuback_read_def and_then_eq_Panic split: if_splits)
qed

section \<open>Unsubscribe\<close>

definition v5_unsubscribe_properties_len :: "UnsubscribeProperties \<Rightarrow> usize" where
  "v5_unsubscribe_properties_len properties = user_props_len (u_user_properties properties)"

definition v5_unsubscribe_properties_write :: "UnsubscribeProperties \<Rightarrow> unit wr" where
  "v5_unsubscribe_properties_write properties =
     w_bind (write_remaining_length (v5_unsubscribe_properties_len properties)) (\<lambda>_.
     w_for (u_user_properties properties) put_user_property)"

definition v5_unsubscribe_prop :: "UnsubscribeProperties prop_step" where
  "v5_unsubscribe_prop prop bytes st =
     and_then (property prop) (\<lambda>ty.
     case ty of
       UserProperty \<Rightarrow>
         arm_user bytes (\<lambda>kv. st\<lparr>u_user_properties := u_user_properties st @ [kv]\<rparr>)
     | _ \<Rightarrow> Err (InvalidPacketType prop))"

definition v5_unsubscribe_properties_read :: "bytes \<Rightarrow> (UnsubscribeProperties option \<times> bytes) res" where
  "v5_unsubscribe_properties_read = props_read v5_unsubscribe_prop \<lparr>u_user_properties = []\<rparr>"

definition v5_unsubscribe_len :: "Unsubscribe \<Rightarrow> UnsubscribeProperties option \<Rightarrow> usize" where
  "v5_unsubscribe_len unsubscribe properties =
     2 + foldl (\<lambda>s t. 2 + s + length t) 0 (u_filters unsubscribe) +
     opt_props_len v5_unsubscribe_properties_len properties"

definition v5_unsubscribe_write :: "Unsubscribe \<Rightarrow> UnsubscribeProperties option \<Rightarrow> usize wr" where
  "v5_unsubscribe_write unsubscribe properties =
     w_bind (put_u8 0xA2) (\<lambda>_.
     let remaining_len = v5_unsubscribe_len unsubscribe properties in
     w_bind (write_remaining_length remaining_len) (\<lambda>remaining_len_bytes.
     w_bind (put_u16 (u_pkid unsubscribe)) (\<lambda>_.
     w_bind (opt_props_write v5_unsubscribe_properties_write properties) (\<lambda>_.
     w_bind (w_for (u_filters unsubscribe) write_mqtt_string) (\<lambda>_.
       w_ok (1 + remaining_len_bytes + remaining_len))))))"

text \<open>The \<open>while bytes.has_remaining()\<close> loop.\<close>

function v5_unsubscribe_filters :: "bytes \<Rightarrow> string list \<Rightarrow> string list res" where
  "v5_unsubscribe_filters bytes filters =
     (if bytes = [] then Ok filters
      else
        and_then (read_mqtt_string bytes) (\<lambda>(flt, bytes).
          v5_unsubscribe_filters bytes (filters @ [flt])))"
  by pat_completeness auto
termination
  by (relation "measure (\<lambda>(bs, fs). length bs)") (auto dest!: read_mqtt_string_shrinks)

declare v5_unsubscribe_filters.simps [simp del]

definition v5_unsubscribe_read ::
    "FixedHeader \<Rightarrow> bytes \<Rightarrow> (Unsubscribe \<times> UnsubscribeProperties option) res" where
  "v5_unsubscribe_read fixed_header bytes =
     and_then (advance (fixed_header_len fixed_header) bytes) (\<lambda>bytes.
     and_then (read_u16 bytes) (\<lambda>(pkid, bytes).
     and_then (v5_unsubscribe_properties_read bytes) (\<lambda>(properties, bytes).
     and_then (v5_unsubscribe_filters bytes []) (\<lambda>filters.
       Ok (\<lparr>u_pkid = pkid, u_filters = filters\<rparr>, properties)))))"

section \<open>Subscribe\<close>

definition v5_filter_len :: "Filter \<Rightarrow> usize" where
  "v5_filter_len flt = 2 + length (path flt) + 1"

definition v5_filter_options :: "Filter \<Rightarrow> u8" where
  "v5_filter_options flt =
     (let options = 0;
          options = options OR qos_to_u8 (f_qos flt);
          options = (if nolocal flt then options OR 0b00000100 else options);
          options = (if preserve_retain flt then options OR 0b00001000 else options)
      in options OR
         (case retain_forward_rule flt of
            OnEverySubscribe \<Rightarrow> 0b00000000
          | OnNewSubscribe \<Rightarrow> 0b00010000
          | Never \<Rightarrow> 0b00100000))"

definition v5_filter_write :: "Filter \<Rightarrow> unit wr" where
  "v5_filter_write flt = w_seq [write_mqtt_string (path flt), put_u8 (v5_filter_options flt)]"

definition v5_subscribe_properties_len :: "SubscribeProperties \<Rightarrow> usize" where
  "v5_subscribe_properties_len properties =
     opt_len (sp_subscription_identifier properties) (\<lambda>i. 1 + len_len i) +
     user_props_len (sp_user_properties properties)"

definition v5_subscribe_properties_write :: "SubscribeProperties \<Rightarrow> unit wr" where
  "v5_subscribe_properties_write properties =
     w_bind (write_remaining_length (v5_subscribe_properties_len properties)) (\<lambda>_.
     w_seq [w_some (sp_subscription_identifier properties) (put_prop_len SubscriptionIdentifier),
            w_for (sp_user_properties properties) put_user_property])"

definition v5_subscribe_prop :: "SubscribeProperties prop_step" where
  "v5_subscribe_prop prop bytes st =
     and_then (property prop) (\<lambda>ty.
     case ty of
       SubscriptionIdentifier \<Rightarrow>
         arm_sub_id bytes (\<lambda>i. st\<lparr>sp_subscription_identifier := Some i\<rparr>)
     | UserProperty \<Rightarrow>
         arm_user bytes (\<lambda>kv. st\<lparr>sp_user_properties := sp_user_properties st @ [kv]\<rparr>)
     | _ \<Rightarrow> Err (InvalidPropertyType prop))"

definition v5_subscribe_properties_read :: "bytes \<Rightarrow> (SubscribeProperties option \<times> bytes) res" where
  "v5_subscribe_properties_read =
     props_read v5_subscribe_prop \<lparr>sp_subscription_identifier = None, sp_user_properties = []\<rparr>"

definition v5_subscribe_len :: "Subscribe \<Rightarrow> SubscribeProperties option \<Rightarrow> usize" where
  "v5_subscribe_len subscribe properties =
     2 + foldl (\<lambda>s t. s + v5_filter_len t) 0 (s_filters subscribe) +
     opt_props_len v5_subscribe_properties_len properties"

function v5_filter_read :: "bytes \<Rightarrow> Filter list \<Rightarrow> Filter list res" where
  "v5_filter_read bytes filters =
     (if bytes = [] then Ok filters
      else
        and_then (read_mqtt_string bytes) (\<lambda>(pth, bytes).
        and_then (read_u8 bytes) (\<lambda>(options, bytes).
          let requested_qos = options AND 0b00000011;
              nl = drop_bit 2 options AND 0b00000001 \<noteq> 0;
              pr = drop_bit 3 options AND 0b00000001 \<noteq> 0;
              rule_num = drop_bit 4 options AND 0b00000011 in
        and_then
          (if rule_num = 0 then Ok OnEverySubscribe
           else if rule_num = 1 then Ok OnNewSubscribe
           else if rule_num = 2 then Ok Never
           else Err (InvalidRetainForwardRule rule_num)) (\<lambda>forward.
        and_then (ok_or (qos requested_qos) (InvalidQoS requested_qos)) (\<lambda>q.
          v5_filter_read bytes
            (filters @ [\<lparr>path = pth, f_qos = q, nolocal = nl, preserve_retain = pr,
                          retain_forward_rule = forward\<rparr>]))))))"
  by pat_completeness auto
termination
  by (relation "measure (\<lambda>(bs, fs). length bs)")
     (auto dest!: read_mqtt_string_shrinks read_u8_shrinks)

declare v5_filter_read.simps [simp del]

definition v5_subscribe_read ::
    "FixedHeader \<Rightarrow> bytes \<Rightarrow> (Subscribe \<times> SubscribeProperties option) res" where
  "v5_subscribe_read fixed_header bytes =
     and_then (advance (fixed_header_len fixed_header) bytes) (\<lambda>bytes.
     and_then (read_u16 bytes) (\<lambda>(pkid, bytes).
     and_then (v5_subscribe_properties_read bytes) (\<lambda>(properties, bytes).
     and_then (v5_filter_read bytes []) (\<lambda>filters.
       if length filters = 0 then Err EmptySubscription
       else Ok (\<lparr>packet_identifier = pkid, s_filters = filters\<rparr>, properties)))))"

definition v5_subscribe_write :: "Subscribe \<Rightarrow> SubscribeProperties option \<Rightarrow> usize wr" where
  "v5_subscribe_write subscribe properties =
     w_bind (put_u8 0x82) (\<lambda>_.
     let remaining_len = v5_subscribe_len subscribe properties in
     w_bind (write_remaining_length remaining_len) (\<lambda>remaining_len_bytes.
     w_bind (put_u16 (packet_identifier subscribe)) (\<lambda>_.
     w_bind (opt_props_write v5_subscribe_properties_write properties) (\<lambda>_.
     w_bind (w_for (s_filters subscribe) v5_filter_write) (\<lambda>_.
       w_ok (1 + remaining_len_bytes + remaining_len))))))"

section \<open>Unsubscribe: correctness\<close>

definition v5_unsubscribe_penc :: "UnsubscribeProperties \<Rightarrow> bytes" where
  "v5_unsubscribe_penc p = users_enc (u_user_properties p)"

definition v5_unsubscribe_pwf :: "UnsubscribeProperties \<Rightarrow> bool" where
  "v5_unsubscribe_pwf p \<longleftrightarrow> users_wf (u_user_properties p)"

lemma runs_v5_unsubscribe:
  assumes "v5_unsubscribe_pwf p"
  shows "runs v5_unsubscribe_prop (v5_unsubscribe_penc p) \<lparr>u_user_properties = []\<rparr> p"
  unfolding v5_unsubscribe_penc_def
  by (rule runs_cong,
      (rule runs_users [where get = u_user_properties and upd = u_user_properties_update]
       | (use assms in \<open>simp add: v5_unsubscribe_prop_def v5_unsubscribe_pwf_def; fail\<close>))+)

interpretation v5_unsubscribe_props: props_codec v5_unsubscribe_properties_write
  v5_unsubscribe_properties_len v5_unsubscribe_properties_read v5_unsubscribe_penc v5_unsubscribe_pwf
proof unfold_locales
  fix p rest
  show len: "v5_unsubscribe_properties_len p = length (v5_unsubscribe_penc p)"
    by (simp add: v5_unsubscribe_properties_len_def v5_unsubscribe_penc_def)
  assume bound: "length (v5_unsubscribe_penc p) \<le> 268435455" and wf: "v5_unsubscribe_pwf p"
  show "emits (v5_unsubscribe_properties_write p) () (vbi (length (v5_unsubscribe_penc p)) @ v5_unsubscribe_penc p)"
    unfolding v5_unsubscribe_properties_write_def len
    by (rule emits_cong, (rule emit_rules bound)+) (simp add: v5_unsubscribe_penc_def)
  show "v5_unsubscribe_properties_read (vbi (length (v5_unsubscribe_penc p)) @ v5_unsubscribe_penc p @ rest) =
      Ok (if v5_unsubscribe_penc p = [] then None else Some p, rest)"
    unfolding v5_unsubscribe_properties_read_def
    by (rule props_read_runs [OF runs_v5_unsubscribe [OF wf] bound])
qed (simp add: v5_unsubscribe_properties_read_def props_read_zero)

definition v5_unsubscribe_body :: "Unsubscribe \<times> UnsubscribeProperties option \<Rightarrow> bytes" where
  "v5_unsubscribe_body x = be16 (u_pkid (fst x)) @ opt_props_enc v5_unsubscribe_penc (snd x) @
     concat (map mstring (u_filters (fst x)))"

definition v5_unsubscribe_wf :: "Unsubscribe \<times> UnsubscribeProperties option \<Rightarrow> bool" where
  "v5_unsubscribe_wf x \<longleftrightarrow> (\<forall>f \<in> set (u_filters (fst x)). str_wf f) \<and>
     opt_props_wf v5_unsubscribe_pwf v5_unsubscribe_penc (snd x) \<and>
     length (v5_unsubscribe_body x) \<le> 268435455"

lemma v5_unsubscribe_filters_enc:
  "\<forall>f \<in> set fs. str_wf f \<Longrightarrow> v5_unsubscribe_filters (concat (map mstring fs)) acc = Ok (acc @ fs)"
proof (induction fs arbitrary: acc)
  case Nil
  then show ?case by (simp add: v5_unsubscribe_filters.simps)
next
  case (Cons f fs)
  then have "valid_str f" "length f < 65536" by (simp_all add: str_wf_def)
  with Cons show ?case
    by (simp add: v5_unsubscribe_filters.simps [of "_ @ _"] wire_simps)
qed

lemma v5_unsubscribe_len_filters:
  "foldl (\<lambda>s t. 2 + s + length t) a fs = a + length (concat (map mstring fs))"
  by (induction fs arbitrary: a) simp_all

interpretation v5_unsubscribe: packet_codec "\<lambda>x. v5_unsubscribe_write (fst x) (snd x)" v5_unsubscribe_read
  "\<lambda>_. 0xA2" v5_unsubscribe_body v5_unsubscribe_wf
  "\<lambda>x. (fst x, opt_props_norm v5_unsubscribe_penc (snd x))"
proof unfold_locales
  fix x
  assume wf: "v5_unsubscribe_wf x"
  then have props: "opt_props_wf v5_unsubscribe_pwf v5_unsubscribe_penc (snd x)"
    and fs: "\<forall>f \<in> set (u_filters (fst x)). str_wf f"
    by (simp_all add: v5_unsubscribe_wf_def)
  show bound: "length (v5_unsubscribe_body x) \<le> 268435455" using wf by (simp add: v5_unsubscribe_wf_def)
  have len: "v5_unsubscribe_len (fst x) (snd x) = length (v5_unsubscribe_body x)"
    by (simp add: v5_unsubscribe_len_def v5_unsubscribe_body_def v5_unsubscribe_props.opt_length [OF props]
        v5_unsubscribe_len_filters [simplified])
  show "emits (v5_unsubscribe_write (fst x) (snd x)) (length (frame 0xA2 (v5_unsubscribe_body x)))
      (frame 0xA2 (v5_unsubscribe_body x))"
  proof (rule emits_frameI)
    show "v5_unsubscribe_write (fst x) (snd x) buf =
        (Ok (1 + len_len (length (v5_unsubscribe_body x)) + length (v5_unsubscribe_body x)),
         buf @ 0xA2 # vbi (length (v5_unsubscribe_body x)) @ v5_unsubscribe_body x)" for buf
      using bound
      by (simp add: v5_unsubscribe_write_def len w_simps v5_unsubscribe_props.opt_write [OF props]
          w_for_buf [OF emits_mqtt_string])
         (simp add: v5_unsubscribe_body_def)
  qed (simp_all add: bound)
  show "v5_unsubscribe_read (frame_header 0xA2 (v5_unsubscribe_body x)) (frame 0xA2 (v5_unsubscribe_body x)) =
      Ok (fst x, opt_props_norm v5_unsubscribe_penc (snd x))"
    using bound v5_unsubscribe_filters_enc [OF fs, of "[]"]
    by (simp add: v5_unsubscribe_read_def)
       (simp add: v5_unsubscribe_body_def wire_simps v5_unsubscribe_props.opt_read [OF props])
qed

lemma v5_unsubscribe_filters_not_Panic [simp]: "v5_unsubscribe_filters bs acc \<noteq> Panic"
proof (induction bs arbitrary: acc rule: length_induct)
  case (1 bs)
  then show ?case
    unfolding v5_unsubscribe_filters.simps [of bs acc]
    by (auto simp: and_then_eq_Panic dest!: read_mqtt_string_shrinks)
qed

lemma v5_unsubscribe_read_not_Panic:
  assumes "length packet = fixed_header_len h + remaining_len h"
  shows "v5_unsubscribe_read h packet \<noteq> Panic"
proof -
  have "v5_unsubscribe_properties_read bs \<noteq> Panic" for bs
    unfolding v5_unsubscribe_properties_read_def
    by (rule props_read_not_Panic)
       (auto simp: v5_unsubscribe_prop_def and_then_eq_Panic split: PropertyType.splits)
  then show ?thesis
    using assms by (auto simp: v5_unsubscribe_read_def and_then_eq_Panic split: if_splits)
qed

section \<open>Subscribe: correctness\<close>

definition v5_subscribe_penc :: "SubscribeProperties \<Rightarrow> bytes" where
  "v5_subscribe_penc p =
     opt_enc (sp_subscription_identifier p) (penc_len SubscriptionIdentifier) @
     users_enc (sp_user_properties p)"

definition v5_subscribe_pwf :: "SubscribeProperties \<Rightarrow> bool" where
  "v5_subscribe_pwf p \<longleftrightarrow> pred_option (\<lambda>i. i \<le> 268435455) (sp_subscription_identifier p) \<and>
     users_wf (sp_user_properties p)"

text \<open>
  After a subscription identifier the cursor of \<open>properties::read\<close> is one ahead; a user
  property has at least five bytes, so no property is lost.
\<close>

lemma ends_v5_subscribe:
  assumes "v5_subscribe_pwf p"
  shows "ends v5_subscribe_prop (v5_subscribe_penc p) 0
    \<lparr>sp_subscription_identifier = None, sp_user_properties = []\<rparr> p"
proof -
  have users: "ends v5_subscribe_prop (users_enc (sp_user_properties p)) k
      \<lparr>sp_subscription_identifier = i, sp_user_properties = []\<rparr>
      \<lparr>sp_subscription_identifier = i, sp_user_properties = sp_user_properties p\<rparr>"
    if "k \<le> 4" for k i
    by (rule ends_cong, rule ends_users [where get = sp_user_properties and upd = sp_user_properties_update])
       (use assms that in \<open>simp_all add: v5_subscribe_prop_def v5_subscribe_pwf_def\<close>)
  show ?thesis
  proof (cases "sp_subscription_identifier p")
    case None
    with users [of 0 None] show ?thesis by (cases p) (simp add: v5_subscribe_penc_def opt_enc_def)
  next
    case (Some i)
    with assms have i: "i \<le> 268435455" by (simp add: v5_subscribe_pwf_def)
    have "ends v5_subscribe_prop
        (property_code SubscriptionIdentifier # vbi i @ users_enc (sp_user_properties p)) 0
        \<lparr>sp_subscription_identifier = None, sp_user_properties = []\<rparr>
        \<lparr>sp_subscription_identifier = Some i, sp_user_properties = sp_user_properties p\<rparr>"
      by (rule ends_Cons [where e = 1, OF _ _ users])
         (use i in \<open>simp_all add: v5_subscribe_prop_def arm_enc length_vbi\<close>)
    with Some show ?thesis by (cases p) (simp add: v5_subscribe_penc_def opt_enc_def penc_len_def)
  qed
qed

interpretation v5_subscribe_props: props_codec v5_subscribe_properties_write
  v5_subscribe_properties_len v5_subscribe_properties_read v5_subscribe_penc v5_subscribe_pwf
proof unfold_locales
  fix p rest
  assume bound: "length (v5_subscribe_penc p) \<le> 268435455" and wf: "v5_subscribe_pwf p"
  then have sid: "i \<le> 268435455" if "sp_subscription_identifier p = Some i" for i
    using that by (simp add: v5_subscribe_pwf_def)
  show len: "v5_subscribe_properties_len p = length (v5_subscribe_penc p)"
    using sid by (simp add: v5_subscribe_properties_len_def v5_subscribe_penc_def opt_len_def split: option.split)
  show "emits (v5_subscribe_properties_write p) () (vbi (length (v5_subscribe_penc p)) @ v5_subscribe_penc p)"
    unfolding v5_subscribe_properties_write_def len
    by (rule emits_cong, (rule emit_rules bound emits_opt_enc emits_prop_len sid | assumption)+)
       (simp add: v5_subscribe_penc_def)
  show "v5_subscribe_properties_read (vbi (length (v5_subscribe_penc p)) @ v5_subscribe_penc p @ rest) =
      Ok (if v5_subscribe_penc p = [] then None else Some p, rest)"
    unfolding v5_subscribe_properties_read_def
    by (rule props_read_ends [OF ends_v5_subscribe [OF wf] bound])
qed (simp add: v5_subscribe_properties_read_def props_read_zero)

definition v5_filter_enc :: "Filter \<Rightarrow> bytes" where
  "v5_filter_enc f = mstring (path f) @ [v5_filter_options f]"

lemma emits_v5_filter: "emits (v5_filter_write f) () (v5_filter_enc f)"
  unfolding v5_filter_write_def v5_filter_enc_def
  by (rule emits_cong, (rule emit_rules)+, simp)

lemma v5_filter_options_bits:
  "v5_filter_options f AND 3 = qos_to_u8 (f_qos f)"
  "(drop_bit 2 (v5_filter_options f) AND 1 = 0) = (\<not> nolocal f)"
  "(drop_bit 3 (v5_filter_options f) AND 1 = 0) = (\<not> preserve_retain f)"
  "drop_bit 4 (v5_filter_options f) AND 3 = retain_forward_to_u8 (retain_forward_rule f)"
  by (cases "f_qos f"; cases "nolocal f"; cases "preserve_retain f"; cases "retain_forward_rule f";
      simp add: v5_filter_options_def)+

lemma v5_filter_read_enc:
  "\<forall>f \<in> set fs. str_wf (path f) \<Longrightarrow>
   v5_filter_read (concat (map v5_filter_enc fs)) acc = Ok (acc @ fs)"
proof (induction fs arbitrary: acc)
  case Nil
  then show ?case by (simp add: v5_filter_read.simps)
next
  case (Cons f fs)
  then have wf: "valid_str (path f)" "length (path f) < 65536" by (simp_all add: str_wf_def)
  have f: "\<lparr>path = path f, f_qos = f_qos f, nolocal = nolocal f, preserve_retain = preserve_retain f,
      retain_forward_rule = r\<rparr> = f" if "retain_forward_rule f = r" for r
    using that by (cases f) simp
  show ?case
    using Cons wf
    by (cases "retain_forward_rule f")
       (simp_all add: v5_filter_read.simps [of "_ @ _"] v5_filter_enc_def wire_simps Let_def
        v5_filter_options_bits f)
qed

definition v5_subscribe_body :: "Subscribe \<times> SubscribeProperties option \<Rightarrow> bytes" where
  "v5_subscribe_body x = be16 (packet_identifier (fst x)) @ opt_props_enc v5_subscribe_penc (snd x) @
     concat (map v5_filter_enc (s_filters (fst x)))"

definition v5_subscribe_wf :: "Subscribe \<times> SubscribeProperties option \<Rightarrow> bool" where
  "v5_subscribe_wf x \<longleftrightarrow> s_filters (fst x) \<noteq> [] \<and> (\<forall>f \<in> set (s_filters (fst x)). str_wf (path f)) \<and>
     opt_props_wf v5_subscribe_pwf v5_subscribe_penc (snd x) \<and>
     length (v5_subscribe_body x) \<le> 268435455"

lemma v5_subscribe_len_filters:
  "foldl (\<lambda>s t. s + v5_filter_len t) a fs = a + length (concat (map v5_filter_enc fs))"
  by (induction fs arbitrary: a) (simp_all add: v5_filter_len_def v5_filter_enc_def)

interpretation v5_subscribe: packet_codec "\<lambda>x. v5_subscribe_write (fst x) (snd x)" v5_subscribe_read
  "\<lambda>_. 0x82" v5_subscribe_body v5_subscribe_wf
  "\<lambda>x. (fst x, opt_props_norm v5_subscribe_penc (snd x))"
proof unfold_locales
  fix x
  assume wf: "v5_subscribe_wf x"
  then have props: "opt_props_wf v5_subscribe_pwf v5_subscribe_penc (snd x)"
    and fs: "\<forall>f \<in> set (s_filters (fst x)). str_wf (path f)" and ne: "s_filters (fst x) \<noteq> []"
    by (simp_all add: v5_subscribe_wf_def)
  show bound: "length (v5_subscribe_body x) \<le> 268435455" using wf by (simp add: v5_subscribe_wf_def)
  have len: "v5_subscribe_len (fst x) (snd x) = length (v5_subscribe_body x)"
    by (simp add: v5_subscribe_len_def v5_subscribe_body_def v5_subscribe_props.opt_length [OF props]
        v5_subscribe_len_filters)
  show "emits (v5_subscribe_write (fst x) (snd x)) (length (frame 0x82 (v5_subscribe_body x)))
      (frame 0x82 (v5_subscribe_body x))"
  proof (rule emits_frameI)
    show "v5_subscribe_write (fst x) (snd x) buf =
        (Ok (1 + len_len (length (v5_subscribe_body x)) + length (v5_subscribe_body x)),
         buf @ 0x82 # vbi (length (v5_subscribe_body x)) @ v5_subscribe_body x)" for buf
      using bound
      by (simp add: v5_subscribe_write_def len w_simps v5_subscribe_props.opt_write [OF props]
          w_for_buf [OF emits_v5_filter])
         (simp add: v5_subscribe_body_def)
  qed (simp_all add: bound)
  show "v5_subscribe_read (frame_header 0x82 (v5_subscribe_body x)) (frame 0x82 (v5_subscribe_body x)) =
      Ok (fst x, opt_props_norm v5_subscribe_penc (snd x))"
    using bound ne v5_filter_read_enc [OF fs, of "[]"]
    by (simp add: v5_subscribe_read_def)
       (simp add: v5_subscribe_body_def wire_simps v5_subscribe_props.opt_read [OF props])
qed

lemma v5_filter_read_not_Panic [simp]: "v5_filter_read bs acc \<noteq> Panic"
proof (induction bs arbitrary: acc rule: length_induct)
  case (1 bs)
  then show ?case
    unfolding v5_filter_read.simps [of bs acc]
    by (auto simp: and_then_eq_Panic Let_def split: if_splits
        dest!: read_mqtt_string_shrinks read_u8_shrinks)
qed

lemma v5_subscribe_read_not_Panic:
  assumes "length packet = fixed_header_len h + remaining_len h"
  shows "v5_subscribe_read h packet \<noteq> Panic"
proof -
  have "v5_subscribe_properties_read bs \<noteq> Panic" for bs
    unfolding v5_subscribe_properties_read_def
    by (rule props_read_not_Panic)
       (auto simp: v5_subscribe_prop_def and_then_eq_Panic split: PropertyType.splits)
  then show ?thesis
    using assms by (auto simp: v5_subscribe_read_def and_then_eq_Panic split: if_splits)
qed

end
