(* ===== verification/Mqtt_V5_Publish.thy ===== *)
theory Mqtt_V5_Publish
  imports Mqtt_V4 Mqtt_Props
begin

text \<open>
  The MQTT 5 publish packet: \<open>src/protocol/src/mqtt/mqttv5/publish.rs\<close>.  The contracts hold
  for publishes without a topic alias and with at most two subscription identifiers;
  what happens beyond is proved in the last section: \<open>properties::len\<close> counts a topic alias
  one byte short, and the cursor of \<open>properties::read\<close> runs ahead by one per subscription
  identifier.
\<close>

section \<open>Properties\<close>

definition v5_publish_properties_len :: "PublishProperties \<Rightarrow> usize" where
  "v5_publish_properties_len properties =
     opt_len (pp_payload_format_indicator properties) (\<lambda>_. 1 + 1) +
     opt_len (pp_message_expiry_interval properties) (\<lambda>_. 1 + 4) +
     opt_len (pp_topic_alias properties) (\<lambda>_. 1 + 1) +
     opt_len (pp_response_topic properties) (\<lambda>topic. 1 + 2 + length topic) +
     opt_len (pp_correlation_data properties) (\<lambda>data. 1 + 2 + length data) +
     user_props_len (pp_user_properties properties) +
     foldl (\<lambda>len i. len + (1 + len_len i)) 0 (pp_subscription_identifiers properties) +
     opt_len (pp_content_type properties) (\<lambda>content_type. 1 + 2 + length content_type)"

definition v5_publish_properties_write :: "PublishProperties \<Rightarrow> unit wr" where
  "v5_publish_properties_write properties =
     w_bind (write_remaining_length (v5_publish_properties_len properties)) (\<lambda>_.
     w_seq [w_some (pp_payload_format_indicator properties) (put_prop_u8 PayloadFormatIndicator),
            w_some (pp_message_expiry_interval properties) (put_prop_u32 MessageExpiryInterval),
            w_some (pp_topic_alias properties) (put_prop_u16 TopicAlias),
            w_some (pp_response_topic properties) (put_prop_str ResponseTopic),
            w_some (pp_correlation_data properties) (put_prop_bytes CorrelationData),
            w_for (pp_user_properties properties) put_user_property,
            w_for (pp_subscription_identifiers properties) (put_prop_len SubscriptionIdentifier),
            w_some (pp_content_type properties) (put_prop_str ContentType)])"

definition v5_publish_prop :: "PublishProperties prop_step" where
  "v5_publish_prop prop bytes st =
     and_then (property prop) (\<lambda>ty.
     case ty of
       PayloadFormatIndicator \<Rightarrow> arm_u8 bytes (\<lambda>x. st\<lparr>pp_payload_format_indicator := Some x\<rparr>)
     | MessageExpiryInterval \<Rightarrow> arm_u32 bytes (\<lambda>x. st\<lparr>pp_message_expiry_interval := Some x\<rparr>)
     | TopicAlias \<Rightarrow> arm_u16 bytes (\<lambda>x. st\<lparr>pp_topic_alias := Some x\<rparr>)
     | ResponseTopic \<Rightarrow> arm_str bytes (\<lambda>topic. st\<lparr>pp_response_topic := Some topic\<rparr>)
     | CorrelationData \<Rightarrow> arm_bytes bytes (\<lambda>data. st\<lparr>pp_correlation_data := Some data\<rparr>)
     | UserProperty \<Rightarrow>
         arm_user bytes (\<lambda>kv. st\<lparr>pp_user_properties := pp_user_properties st @ [kv]\<rparr>)
     | SubscriptionIdentifier \<Rightarrow>
         arm_sub_id bytes (\<lambda>i. st\<lparr>pp_subscription_identifiers := pp_subscription_identifiers st @ [i]\<rparr>)
     | ContentType \<Rightarrow> arm_str bytes (\<lambda>typ. st\<lparr>pp_content_type := Some typ\<rparr>)
     | _ \<Rightarrow> Err (InvalidPropertyType prop))"

definition v5_publish_properties_init :: PublishProperties where
  "v5_publish_properties_init =
     \<lparr>pp_payload_format_indicator = None, pp_message_expiry_interval = None, pp_topic_alias = None,
      pp_response_topic = None, pp_correlation_data = None, pp_user_properties = [],
      pp_subscription_identifiers = [], pp_content_type = None\<rparr>"

definition v5_publish_properties_read :: "bytes \<Rightarrow> (PublishProperties option \<times> bytes) res" where
  "v5_publish_properties_read = props_read v5_publish_prop v5_publish_properties_init"

section \<open>The packet\<close>

definition v5_publish_len :: "Publish \<Rightarrow> PublishProperties option \<Rightarrow> usize" where
  "v5_publish_len publish properties =
     (let len = 2 + length (topic publish);
          len = (if p_qos publish \<noteq> AtMostOnce \<and> p_pkid publish \<noteq> 0 then len + 2 else len);
          len = len + opt_props_len v5_publish_properties_len properties
      in len + length (payload publish))"

definition v5_publish_write :: "Publish \<Rightarrow> PublishProperties option \<Rightarrow> usize wr" where
  "v5_publish_write publish properties =
     (let len = v5_publish_len publish properties in
      w_bind (put_u8 (0b00110000 OR of_bool (retain publish) OR push_bit 1 (qos_to_u8 (p_qos publish)) OR
                      push_bit 3 (of_bool (dup publish)))) (\<lambda>_.
      w_bind (write_remaining_length len) (\<lambda>count.
      w_bind (write_mqtt_bytes (topic publish)) (\<lambda>_.
      w_bind (if p_qos publish \<noteq> AtMostOnce then
                (let pkid = p_pkid publish in
                 if pkid = 0 then w_err PacketIdZero else put_u16 pkid)
              else w_ok ()) (\<lambda>_.
      w_bind (case properties of
                Some p \<Rightarrow> v5_publish_properties_write p
              | None \<Rightarrow> w_bind (write_remaining_length 0) (\<lambda>_. w_ok ())) (\<lambda>_.
      w_bind (put_slice (payload publish)) (\<lambda>_.
        w_ok (1 + count + len))))))))"

definition v5_publish_read :: "FixedHeader \<Rightarrow> bytes \<Rightarrow> (Publish \<times> PublishProperties option) res" where
  "v5_publish_read fixed_header bytes =
     (let qos_num = drop_bit 1 (byte1 fixed_header AND 0b0110) in
      and_then (ok_or (qos qos_num) (InvalidQoS qos_num)) (\<lambda>q.
      let d = (byte1 fixed_header AND 0b1000 \<noteq> 0);
          r = (byte1 fixed_header AND 0b0001 \<noteq> 0) in
      and_then (advance (fixed_header_len fixed_header) bytes) (\<lambda>bytes.
      and_then (read_mqtt_bytes bytes) (\<lambda>(tpc, bytes).
      and_then (case q of AtMostOnce \<Rightarrow> Ok (0, bytes) | _ \<Rightarrow> read_u16 bytes) (\<lambda>(pkid, bytes).
      if q \<noteq> AtMostOnce \<and> pkid = 0 then Err PacketIdZero
      else
        and_then (v5_publish_properties_read bytes) (\<lambda>(properties, bytes).
          Ok (\<lparr>dup = d, p_qos = q, p_pkid = pkid, retain = r, topic = tpc, payload = bytes\<rparr>,
              properties)))))))"

section \<open>Correctness\<close>

definition v5_publish_head_enc :: "PublishProperties \<Rightarrow> bytes" where
  "v5_publish_head_enc p =
     opt_enc (pp_payload_format_indicator p) (penc_u8 PayloadFormatIndicator) @
     opt_enc (pp_message_expiry_interval p) (penc_u32 MessageExpiryInterval) @
     opt_enc (pp_topic_alias p) (penc_u16 TopicAlias) @
     opt_enc (pp_response_topic p) (penc_str ResponseTopic) @
     opt_enc (pp_correlation_data p) (penc_bytes CorrelationData) @
     users_enc (pp_user_properties p)"

definition v5_publish_penc :: "PublishProperties \<Rightarrow> bytes" where
  "v5_publish_penc p = v5_publish_head_enc p @
     concat (map (penc_len SubscriptionIdentifier) (pp_subscription_identifiers p)) @
     opt_enc (pp_content_type p) (penc_str ContentType)"

text \<open>What the fields must satisfy to be encodable at all.\<close>

definition v5_publish_fields_wf :: "PublishProperties \<Rightarrow> bool" where
  "v5_publish_fields_wf p \<longleftrightarrow>
     pred_option str_wf (pp_response_topic p) \<and>
     pred_option (\<lambda>b. length b < 65536) (pp_correlation_data p) \<and>
     users_wf (pp_user_properties p) \<and>
     (\<forall>i \<in> set (pp_subscription_identifiers p). i \<le> 268435455) \<and>
     pred_option str_wf (pp_content_type p)"

definition v5_publish_pwf :: "PublishProperties \<Rightarrow> bool" where
  "v5_publish_pwf p \<longleftrightarrow> v5_publish_fields_wf p \<and> pp_topic_alias p = None \<and>
     length (pp_subscription_identifiers p) \<le> 2"

lemma runs_v5_publish_head:
  assumes "v5_publish_fields_wf p"
  shows "runs v5_publish_prop (v5_publish_head_enc p) v5_publish_properties_init
    (p\<lparr>pp_subscription_identifiers := [], pp_content_type := None\<rparr>)"
  unfolding v5_publish_head_enc_def v5_publish_properties_init_def
  by (rule runs_cong,
      (rule runs_append
        runs_u8 [where ty = PayloadFormatIndicator and upd = pp_payload_format_indicator_update]
        runs_u32 [where ty = MessageExpiryInterval and upd = pp_message_expiry_interval_update]
        runs_u16 [where ty = TopicAlias and upd = pp_topic_alias_update]
        runs_str [where ty = ResponseTopic and upd = pp_response_topic_update]
        runs_bytes [where ty = CorrelationData and upd = pp_correlation_data_update]
        runs_users [where get = pp_user_properties and upd = pp_user_properties_update]
       | (use assms in \<open>simp add: v5_publish_prop_def v5_publish_fields_wf_def; fail\<close>))+)

lemma ends_v5_publish_content_type:
  assumes "pred_option str_wf ct" and "k \<le> 2" and "pp_content_type st = None"
  shows "ends v5_publish_prop (opt_enc ct (penc_str ContentType)) k st (st\<lparr>pp_content_type := ct\<rparr>)"
proof (cases ct)
  case None
  then have "st\<lparr>pp_content_type := ct\<rparr> = st" using assms(3) by (cases st) simp
  with None show ?thesis by (simp add: opt_enc_def ends_Nil)
next
  case (Some s)
  have "ends v5_publish_prop (property_code ContentType # mstring s @ []) k st (st\<lparr>pp_content_type := ct\<rparr>)"
    by (rule ends_Cons [where e = 0 and bs = "[]" and q = "mstring s", OF _ _ ends_Nil])
       (use assms Some in \<open>simp_all add: v5_publish_prop_def arm_enc\<close>)
  with Some show ?thesis by (simp add: opt_enc_def penc_str_def)
qed

lemma ends_v5_publish_ids:
  assumes "pred_option str_wf ct" and "k + length ids \<le> 2" and "\<forall>i \<in> set ids. i \<le> 268435455"
    and "pp_content_type st = None"
  shows "ends v5_publish_prop
    (concat (map (penc_len SubscriptionIdentifier) ids) @ opt_enc ct (penc_str ContentType)) k st
    (st\<lparr>pp_subscription_identifiers := pp_subscription_identifiers st @ ids, pp_content_type := ct\<rparr>)"
  using assms(2-4)
proof (induction ids arbitrary: k st)
  case Nil
  then show ?case using ends_v5_publish_content_type [OF assms(1), of k st] by simp
next
  case (Cons i ids)
  let ?st = "st\<lparr>pp_subscription_identifiers := pp_subscription_identifiers st @ [i]\<rparr>"
  have "ends v5_publish_prop
      (property_code SubscriptionIdentifier # vbi i @
        concat (map (penc_len SubscriptionIdentifier) ids) @ opt_enc ct (penc_str ContentType)) k st
      (?st\<lparr>pp_subscription_identifiers := pp_subscription_identifiers ?st @ ids, pp_content_type := ct\<rparr>)"
    by (rule ends_Cons [where e = 1, OF _ _ Cons.IH [of "k + 1" ?st]])
       (use Cons.prems in \<open>simp_all add: v5_publish_prop_def arm_enc length_vbi len_len_def\<close>)
  then show ?case by (simp add: penc_len_def [of _ i])
qed

lemma ends_v5_publish:
  assumes "v5_publish_pwf p"
  shows "ends v5_publish_prop (v5_publish_penc p) 0 v5_publish_properties_init p"
  unfolding v5_publish_penc_def
  by (rule runs_ends [OF runs_v5_publish_head], use assms in \<open>simp add: v5_publish_pwf_def\<close>, simp,
      rule ends_cong [OF ends_v5_publish_ids])
     (use assms in \<open>simp_all add: v5_publish_pwf_def v5_publish_fields_wf_def\<close>)

lemma length_sub_ids:
  "\<forall>i \<in> set ids. i \<le> 268435455 \<Longrightarrow>
   foldl (\<lambda>len i. len + (1 + len_len i)) a ids =
     a + length (concat (map (penc_len SubscriptionIdentifier) ids))"
  by (induction ids arbitrary: a) simp_all

text \<open>The announced length is one short of the encoding exactly when there is a topic alias.\<close>

lemma length_v5_publish_penc:
  assumes "v5_publish_fields_wf p"
  shows "length (v5_publish_penc p) =
    v5_publish_properties_len p + (if pp_topic_alias p = None then 0 else 1)"
  using length_sub_ids [of "pp_subscription_identifiers p" 0] assms
  by (auto simp: v5_publish_penc_def v5_publish_head_enc_def v5_publish_properties_len_def
      v5_publish_fields_wf_def opt_len_def split: option.split)

lemma v5_publish_properties_write_buf:
  assumes "v5_publish_fields_wf p" and "v5_publish_properties_len p \<le> 268435455"
  shows "emits (v5_publish_properties_write p) () (vbi (v5_publish_properties_len p) @ v5_publish_penc p)"
proof -
  have ids: "i \<le> 268435455" if "i \<in> set (pp_subscription_identifiers p)" for i
    using assms(1) that by (simp add: v5_publish_fields_wf_def)
  show ?thesis
    unfolding v5_publish_properties_write_def
    by (rule emits_cong, (rule emit_rules assms(2) emits_for emits_prop_len ids | assumption)+)
       (simp add: v5_publish_penc_def v5_publish_head_enc_def)
qed

interpretation v5_publish_props: props_codec v5_publish_properties_write
  v5_publish_properties_len v5_publish_properties_read v5_publish_penc v5_publish_pwf
proof unfold_locales
  fix p rest
  assume bound: "length (v5_publish_penc p) \<le> 268435455" and wf: "v5_publish_pwf p"
  then have f: "v5_publish_fields_wf p" and a: "pp_topic_alias p = None" by (simp_all add: v5_publish_pwf_def)
  show len: "v5_publish_properties_len p = length (v5_publish_penc p)"
    using a by (simp add: length_v5_publish_penc [OF f])
  show "emits (v5_publish_properties_write p) () (vbi (length (v5_publish_penc p)) @ v5_publish_penc p)"
    using v5_publish_properties_write_buf [OF f] bound by (simp add: len)
  show "v5_publish_properties_read (vbi (length (v5_publish_penc p)) @ v5_publish_penc p @ rest) =
      Ok (if v5_publish_penc p = [] then None else Some p, rest)"
    unfolding v5_publish_properties_read_def
    by (rule props_read_ends [OF ends_v5_publish [OF wf] bound])
qed (simp add: v5_publish_properties_read_def props_read_zero)

definition v5_publish_body :: "Publish \<times> PublishProperties option \<Rightarrow> bytes" where
  "v5_publish_body x = mbytes (topic (fst x)) @
     (if p_qos (fst x) = AtMostOnce then [] else be16 (p_pkid (fst x))) @
     opt_props_enc v5_publish_penc (snd x) @ payload (fst x)"

definition v5_publish_wf :: "Publish \<times> PublishProperties option \<Rightarrow> bool" where
  "v5_publish_wf x \<longleftrightarrow> length (topic (fst x)) < 65536 \<and>
     (p_qos (fst x) = AtMostOnce \<longleftrightarrow> p_pkid (fst x) = 0) \<and>
     opt_props_wf v5_publish_pwf v5_publish_penc (snd x) \<and>
     length (v5_publish_body x) \<le> 268435455"

lemma v5_publish_write_eq:
  "v5_publish_write publish properties =
     (let len = v5_publish_len publish properties in
      w_bind (put_u8 (publish_byte1 publish)) (\<lambda>_.
      w_bind (write_remaining_length len) (\<lambda>count.
      w_bind (write_mqtt_bytes (topic publish)) (\<lambda>_.
      w_bind (if p_qos publish \<noteq> AtMostOnce then
                (if p_pkid publish = 0 then w_err PacketIdZero else put_u16 (p_pkid publish))
              else w_ok ()) (\<lambda>_.
      w_bind (opt_props_write v5_publish_properties_write properties) (\<lambda>_.
      w_bind (put_slice (payload publish)) (\<lambda>_.
        w_ok (1 + count + len))))))))"
  by (simp add: v5_publish_write_def publish_byte1_def opt_props_write_def Let_def)

lemma v5_publish_read_header:
  assumes "byte1 h = publish_byte1 p"
  shows "v5_publish_read h bytes =
    and_then (advance (fixed_header_len h) bytes) (\<lambda>bytes.
    and_then (read_mqtt_bytes bytes) (\<lambda>(tpc, bytes).
    and_then (case p_qos p of AtMostOnce \<Rightarrow> Ok (0, bytes) | _ \<Rightarrow> read_u16 bytes) (\<lambda>(pkid, bytes).
    if p_qos p \<noteq> AtMostOnce \<and> pkid = 0 then Err PacketIdZero
    else
      and_then (v5_publish_properties_read bytes) (\<lambda>(properties, bytes).
        Ok (\<lparr>dup = dup p, p_qos = p_qos p, p_pkid = pkid, retain = retain p, topic = tpc,
             payload = bytes\<rparr>, properties)))))"
  using assms by (simp add: v5_publish_read_def publish_byte1_bits Let_def)

interpretation v5_publish: packet_codec "\<lambda>x. v5_publish_write (fst x) (snd x)" v5_publish_read
  "\<lambda>x. publish_byte1 (fst x)" v5_publish_body v5_publish_wf
  "\<lambda>x. (fst x, opt_props_norm v5_publish_penc (snd x))"
proof unfold_locales
  fix x
  assume wf: "v5_publish_wf x"
  then have props: "opt_props_wf v5_publish_pwf v5_publish_penc (snd x)"
    and pk: "p_qos (fst x) = AtMostOnce \<longleftrightarrow> p_pkid (fst x) = 0" and top: "length (topic (fst x)) < 65536"
    by (simp_all add: v5_publish_wf_def)
  show bound: "length (v5_publish_body x) \<le> 268435455" using wf by (simp add: v5_publish_wf_def)
  have len: "v5_publish_len (fst x) (snd x) = length (v5_publish_body x)"
    using pk by (auto simp: v5_publish_len_def v5_publish_body_def v5_publish_props.opt_length [OF props] Let_def)
  show "emits (v5_publish_write (fst x) (snd x)) (length (frame (publish_byte1 (fst x)) (v5_publish_body x)))
      (frame (publish_byte1 (fst x)) (v5_publish_body x))"
  proof (rule emits_frameI)
    show "v5_publish_write (fst x) (snd x) buf =
        (Ok (1 + len_len (length (v5_publish_body x)) + length (v5_publish_body x)),
         buf @ publish_byte1 (fst x) # vbi (length (v5_publish_body x)) @ v5_publish_body x)" for buf
      using bound pk
      by (simp add: v5_publish_write_eq len w_simps v5_publish_props.opt_write [OF props])
         (simp add: v5_publish_body_def)
  qed (simp_all add: bound)
  show "v5_publish_read (frame_header (publish_byte1 (fst x)) (v5_publish_body x))
      (frame (publish_byte1 (fst x)) (v5_publish_body x)) =
      Ok (fst x, opt_props_norm v5_publish_penc (snd x))"
    using bound top pk
    by (simp add: v5_publish_read_header)
       (cases "p_qos (fst x)"; simp add: v5_publish_body_def wire_simps v5_publish_props.opt_read [OF props])
qed

lemma v5_publish_read_not_Panic:
  assumes "length packet = fixed_header_len h + remaining_len h"
  shows "v5_publish_read h packet \<noteq> Panic"
proof -
  have "v5_publish_properties_read bs \<noteq> Panic" for bs
    unfolding v5_publish_properties_read_def
    by (rule props_read_not_Panic)
       (auto simp: v5_publish_prop_def and_then_eq_Panic split: PropertyType.splits)
  then show ?thesis
    using assms by (auto simp: v5_publish_read_def and_then_eq_Panic Let_def split: if_splits QoS.splits)
qed

section \<open>Beyond the contract\<close>

text \<open>
  C18: a QoS 0 publish with a payload whose only property is a topic alias is framed one byte short.
  \<open>publish::write\<close> appends the frame of the same publish without the last byte of its
  payload, followed by that byte: a reader of the stream gets a truncated payload and starts
  the next packet at the lost byte.
\<close>

theorem v5_publish_topic_alias_truncates:
  assumes "length (topic p) < 65536" and "length (topic p) + length xs \<le> 1000000"
    and "p_qos p = AtMostOnce" and "p_pkid p = 0" and "payload p = xs @ [b]"
    and "props = v5_publish_properties_init\<lparr>pp_topic_alias := Some a\<rparr>"
  shows "\<exists>fr h. snd (v5_publish_write p (Some props) buf) = buf @ fr @ [b] \<and>
    (\<forall>rest. take_frame 1048576 (fr @ b # rest) = Ok (h, fr, b # rest)) \<and>
    v5_publish_read h fr = Ok (p\<lparr>payload := xs\<rparr>, Some props)"
proof (intro exI conjI allI)
  let ?body = "mbytes (topic p) @ [2] @ penc_u16 TopicAlias a @ xs"
  let ?fr = "frame (publish_byte1 p) ?body" and ?h = "frame_header (publish_byte1 p) ?body"
  have wf: "v5_publish_fields_wf props" and plen: "v5_publish_properties_len props = 2"
    and penc: "v5_publish_penc props = penc_u16 TopicAlias a"
    by (simp_all add: assms(6) v5_publish_properties_init_def v5_publish_fields_wf_def users_wf_def
        v5_publish_properties_len_def opt_len_def user_props_len_def v5_publish_penc_def
        v5_publish_head_enc_def opt_enc_def users_enc_def)
  have len: "v5_publish_len p (Some props) = length ?body"
    using assms(3-5) by (simp add: v5_publish_len_def opt_props_len_def plen len_len_def)
  have bound: "length ?body \<le> 268435455" "length ?body \<le> 1048576" using assms by simp_all
  show "snd (v5_publish_write p (Some props) buf) = buf @ ?fr @ [b]"
    using assms(3-5) bound emitsD [OF v5_publish_properties_write_buf [OF wf]]
    by (simp add: v5_publish_write_eq len w_simps opt_props_write_def plen penc frame_def vbi_small)
  show "take_frame 1048576 (?fr @ b # rest) = Ok (?h, ?fr, b # rest)" for rest
    using bound by (simp only: take_frame_frame)
  have "v5_publish_properties_read (2 # penc_u16 TopicAlias a @ xs) = Ok (Some props, xs)"
    using props_read_vbi [of 2 v5_publish_prop v5_publish_properties_init "penc_u16 TopicAlias a @ xs"]
    by (simp add: v5_publish_properties_read_def vbi_small penc_u16_def prop_loop.simps read_u8_def
        v5_publish_prop_def arm_enc prop_loop_end assms(6))
  then show "v5_publish_read ?h ?fr = Ok (p\<lparr>payload := xs\<rparr>, Some props)"
    using assms bound by (cases p) (simp add: v5_publish_read_header wire_simps)
qed

theorem v5_publish_topic_alias_truncates_witness:
  "\<exists>fr h. snd (v5_publish_write \<lparr>dup = False, p_qos = AtMostOnce, p_pkid = 0, retain = False,
        topic = [97], payload = [1, 2]\<rparr>
      (Some (v5_publish_properties_init\<lparr>pp_topic_alias := Some 7\<rparr>)) []) = [] @ fr @ [2] \<and>
    (\<forall>rest. take_frame 1048576 (fr @ 2 # rest) = Ok (h, fr, 2 # rest)) \<and>
    v5_publish_read h fr =
      Ok (\<lparr>dup = False, p_qos = AtMostOnce, p_pkid = 0, retain = False, topic = [97],
           payload = [1, 2]\<rparr>\<lparr>payload := [1]\<rparr>,
          Some (v5_publish_properties_init\<lparr>pp_topic_alias := Some 7\<rparr>))"
  by (rule v5_publish_topic_alias_truncates) simp_all

text \<open>
  Of three one-byte subscription identifiers the reader drops the last: it is left in
  front of the payload, because every identifier moves the cursor one too far.
\<close>

theorem v5_publish_three_ids_leak:
  assumes "i < 128" and "j < 128" and "k < 128"
    and "props = v5_publish_properties_init\<lparr>pp_subscription_identifiers := [i, j, k]\<rparr>"
  shows "v5_publish_properties_read (opt_props_enc v5_publish_penc (Some props) @ data) =
    Ok (Some (props\<lparr>pp_subscription_identifiers := [i, j]\<rparr>), [11, word_of_nat k] @ data)"
proof -
  have p: "v5_publish_penc props =
      [11, word_of_nat i, 11, word_of_nat j, 11, word_of_nat k]"
    using assms by (simp add: v5_publish_penc_def v5_publish_head_enc_def
        v5_publish_properties_init_def opt_enc_def users_enc_def penc_len_def vbi_small property_code.simps)
  have arm: "v5_publish_prop 11 (word_of_nat n # rest) st =
      Ok (Suc (Suc 0), rest, st\<lparr>pp_subscription_identifiers := pp_subscription_identifiers st @ [n]\<rparr>)"
    if "n < 128" for n rest st
    using arm_enc(7) [of n rest] that
    by (simp add: v5_publish_prop_def property_def vbi_small len_len_def)
  have "v5_publish_properties_read (6 # [11, word_of_nat i, 11, word_of_nat j, 11, word_of_nat k] @ data) =
      Ok (Some (v5_publish_properties_init\<lparr>pp_subscription_identifiers := [i, j]\<rparr>),
          [11, word_of_nat k] @ data)"
    using props_read_vbi [of 6 v5_publish_prop v5_publish_properties_init
        "[11, word_of_nat i, 11, word_of_nat j, 11, word_of_nat k] @ data"] assms(1-3)
    by (simp add: v5_publish_properties_read_def vbi_small prop_loop.simps read_u8_def arm prop_loop_end)
       (simp add: v5_publish_properties_init_def)
  then show ?thesis
    by (simp add: opt_props_enc_def p vbi_small) (simp add: assms(4))
qed

theorem v5_publish_three_ids_leak_witness:
  "v5_publish_properties_read (opt_props_enc v5_publish_penc
      (Some (v5_publish_properties_init\<lparr>pp_subscription_identifiers := [1, 2, 3]\<rparr>)) @ [42]) =
    Ok (Some (v5_publish_properties_init\<lparr>pp_subscription_identifiers := [1, 2, 3]\<rparr>
          \<lparr>pp_subscription_identifiers := [1, 2]\<rparr>), [11, word_of_nat 3] @ [42])"
  by (rule v5_publish_three_ids_leak) simp_all

end
