(* ===== verification/Mqtt_V5_Disconnect.thy ===== *)
theory Mqtt_V5_Disconnect
  imports Mqtt_Props
begin

text \<open>
  The MQTT 5 packets \<open>disconnect.rs\<close>, \<open>auth.rs\<close> and \<open>ping.rs\<close> under
  \<open>src/protocol/src/mqtt/mqttv5/\<close>.  \<open>disconnect\<close> keeps its contract for a normal
  disconnection without properties and for a reason with non-empty properties; the last
  section shows what it writes otherwise, and that the length \<open>auth::write\<close> announces is
  one byte short.
\<close>

section \<open>Ping\<close>

definition v5_pingreq_write :: "usize wr" where
  "v5_pingreq_write = w_bind (put_slice [0xC0, 0x00]) (\<lambda>_. w_ok 2)"

definition v5_pingresp_write :: "usize wr" where
  "v5_pingresp_write = w_bind (put_slice [0xD0, 0x00]) (\<lambda>_. w_ok 2)"

section \<open>Disconnect\<close>

primrec v5_disconnect_code :: "DisconnectReasonCode \<Rightarrow> u8" where
  "v5_disconnect_code DR_NormalDisconnection = 0x00"
| "v5_disconnect_code DR_DisconnectWithWillMessage = 0x04"
| "v5_disconnect_code DR_UnspecifiedError = 0x80"
| "v5_disconnect_code DR_MalformedPacket = 0x81"
| "v5_disconnect_code DR_ProtocolError = 0x82"
| "v5_disconnect_code DR_ImplementationSpecificError = 0x83"
| "v5_disconnect_code DR_NotAuthorized = 0x87"
| "v5_disconnect_code DR_ServerBusy = 0x89"
| "v5_disconnect_code DR_ServerShuttingDown = 0x8B"
| "v5_disconnect_code DR_KeepAliveTimeout = 0x8D"
| "v5_disconnect_code DR_SessionTakenOver = 0x8E"
| "v5_disconnect_code DR_TopicFilterInvalid = 0x8F"
| "v5_disconnect_code DR_TopicNameInvalid = 0x90"
| "v5_disconnect_code DR_ReceiveMaximumExceeded = 0x93"
| "v5_disconnect_code DR_TopicAliasInvalid = 0x94"
| "v5_disconnect_code DR_PacketTooLarge = 0x95"
| "v5_disconnect_code DR_MessageRateTooHigh = 0x96"
| "v5_disconnect_code DR_QuotaExceeded = 0x97"
| "v5_disconnect_code DR_AdministrativeAction = 0x98"
| "v5_disconnect_code DR_PayloadFormatInvalid = 0x99"
| "v5_disconnect_code DR_RetainNotSupported = 0x9A"
| "v5_disconnect_code DR_QoSNotSupported = 0x9B"
| "v5_disconnect_code DR_UseAnotherServer = 0x9C"
| "v5_disconnect_code DR_ServerMoved = 0x9D"
| "v5_disconnect_code DR_SharedSubscriptionNotSupported = 0x9E"
| "v5_disconnect_code DR_ConnectionRateExceeded = 0x9F"
| "v5_disconnect_code DR_MaximumConnectTime = 0xA0"
| "v5_disconnect_code DR_SubscriptionIdentifiersNotSupported = 0xA1"
| "v5_disconnect_code DR_WildcardSubscriptionsNotSupported = 0xA2"

definition v5_disconnect_reason :: "u8 \<Rightarrow> DisconnectReasonCode res" where
  "v5_disconnect_reason code =
     (if code = 0x00 then Ok DR_NormalDisconnection
      else if code = 0x04 then Ok DR_DisconnectWithWillMessage
      else if code = 0x80 then Ok DR_UnspecifiedError
      else if code = 0x81 then Ok DR_MalformedPacket
      else if code = 0x82 then Ok DR_ProtocolError
      else if code = 0x83 then Ok DR_ImplementationSpecificError
      else if code = 0x87 then Ok DR_NotAuthorized
      else if code = 0x89 then Ok DR_ServerBusy
      else if code = 0x8B then Ok DR_ServerShuttingDown
      else if code = 0x8D then Ok DR_KeepAliveTimeout
      else if code = 0x8E then Ok DR_SessionTakenOver
      else if code = 0x8F then Ok DR_TopicFilterInvalid
      else if code = 0x90 then Ok DR_TopicNameInvalid
      else if code = 0x93 then Ok DR_ReceiveMaximumExceeded
      else if code = 0x94 then Ok DR_TopicAliasInvalid
      else if code = 0x95 then Ok DR_PacketTooLarge
      else if code = 0x96 then Ok DR_MessageRateTooHigh
      else if code = 0x97 then Ok DR_QuotaExceeded
      else if code = 0x98 then Ok DR_AdministrativeAction
      else if code = 0x99 then Ok DR_PayloadFormatInvalid
      else if code = 0x9A then Ok DR_RetainNotSupported
      else if code = 0x9B then Ok DR_QoSNotSupported
      else if code = 0x9C then Ok DR_UseAnotherServer
      else if code = 0x9D then Ok DR_ServerMoved
      else if code = 0x9E then Ok DR_SharedSubscriptionNotSupported
      else if code = 0x9F then Ok DR_ConnectionRateExceeded
      else if code = 0xA0 then Ok DR_MaximumConnectTime
      else if code = 0xA1 then Ok DR_SubscriptionIdentifiersNotSupported
      else if code = 0xA2 then Ok DR_WildcardSubscriptionsNotSupported
      else Err (InvalidConnectReturnCode code))"

definition v5_disconnect_properties_len :: "DisconnectProperties \<Rightarrow> usize" where
  "v5_disconnect_properties_len properties =
     opt_len (d_session_expiry_interval properties) (\<lambda>_. 1 + 4) +
     opt_len (d_reason_string properties) (\<lambda>reason. 1 + 2 + length reason) +
     user_props_len (d_user_properties properties) +
     opt_len (d_server_reference properties) (\<lambda>reference. 1 + 2 + length reference)"

definition v5_disconnect_properties_write :: "DisconnectProperties \<Rightarrow> unit wr" where
  "v5_disconnect_properties_write properties =
     w_bind (write_remaining_length (v5_disconnect_properties_len properties)) (\<lambda>_.
     w_seq [w_some (d_session_expiry_interval properties) (put_prop_u32 SessionExpiryInterval),
            w_some (d_reason_string properties) (put_prop_str ReasonString),
            w_for (d_user_properties properties) put_user_property,
            w_some (d_server_reference properties) (put_prop_str ServerReference)])"

definition v5_disconnect_prop :: "DisconnectProperties prop_step" where
  "v5_disconnect_prop prop bytes st =
     and_then (property prop) (\<lambda>ty.
     case ty of
       SessionExpiryInterval \<Rightarrow> arm_u32 bytes (\<lambda>x. st\<lparr>d_session_expiry_interval := Some x\<rparr>)
     | ReasonString \<Rightarrow> arm_str bytes (\<lambda>reason. st\<lparr>d_reason_string := Some reason\<rparr>)
     | UserProperty \<Rightarrow>
         arm_user bytes (\<lambda>kv. st\<lparr>d_user_properties := d_user_properties st @ [kv]\<rparr>)
     | ServerReference \<Rightarrow> arm_str bytes (\<lambda>reference. st\<lparr>d_server_reference := Some reference\<rparr>)
     | _ \<Rightarrow> Err (InvalidPacketType prop))"

definition v5_disconnect_properties_read :: "bytes \<Rightarrow> (DisconnectProperties option \<times> bytes) res" where
  "v5_disconnect_properties_read =
     props_read v5_disconnect_prop
       \<lparr>d_session_expiry_interval = None, d_reason_string = None, d_user_properties = [],
        d_server_reference = None\<rparr>"

definition v5_disconnect_len :: "Disconnect \<Rightarrow> DisconnectProperties option \<Rightarrow> usize" where
  "v5_disconnect_len disconnect properties =
     (case reason_code disconnect of
        None \<Rightarrow> 0
      | Some reason \<Rightarrow>
          if reason = DR_NormalDisconnection \<and> properties = None then 2
          else
            (case properties of
               Some p \<Rightarrow> 1 + (len_len (v5_disconnect_properties_len p) + v5_disconnect_properties_len p)
             | None \<Rightarrow> 1))"

definition v5_disconnect_write :: "Disconnect \<Rightarrow> DisconnectProperties option \<Rightarrow> usize wr" where
  "v5_disconnect_write disconnect properties =
     w_bind (put_u8 0xE0) (\<lambda>_.
     let len = v5_disconnect_len disconnect properties in
     if len = 0 then w_ok 0
     else if len = 2 then w_bind (put_u8 0x00) (\<lambda>_. w_ok len)
     else
       w_bind (write_remaining_length len) (\<lambda>len_len.
       w_bind (w_lift (unwrap (reason_code disconnect))) (\<lambda>reason.
       w_bind (put_u8 (v5_disconnect_code reason)) (\<lambda>_.
       w_bind (opt_props_write v5_disconnect_properties_write properties) (\<lambda>_.
         w_ok (1 + len_len + len))))))"

definition v5_disconnect_read ::
    "FixedHeader \<Rightarrow> bytes \<Rightarrow> (Disconnect \<times> DisconnectProperties option) res" where
  "v5_disconnect_read fixed_header bytes =
     (let packet_type = drop_bit 4 (byte1 fixed_header);
          flags = byte1 fixed_header AND 0b00001111 in
      and_then (advance (fixed_header_len fixed_header) bytes) (\<lambda>bytes.
      if packet_type \<noteq> packet_type_code T_Disconnect then Err (InvalidPacketType packet_type)
      else if flags \<noteq> 0x00 then Err MalformedPacket
      else if remaining_len fixed_header = 0
      then Ok (\<lparr>reason_code = Some DR_NormalDisconnection\<rparr>, None)
      else
        and_then (read_u8 bytes) (\<lambda>(code, bytes).
        and_then (v5_disconnect_reason code) (\<lambda>reason.
        and_then (v5_disconnect_properties_read bytes) (\<lambda>(properties, bytes).
          Ok (\<lparr>reason_code = Some reason\<rparr>, properties))))))"

section \<open>Auth\<close>

primrec v5_auth_code :: "AuthReason \<Rightarrow> u8" where
  "v5_auth_code AR_Success = 0x00"
| "v5_auth_code AR_ContinueAuthentication = 0x18"
| "v5_auth_code AR_ReAuthenticate = 0x19"

definition v5_auth_reason :: "u8 \<Rightarrow> AuthReason res" where
  "v5_auth_reason code =
     (if code = 0x00 then Ok AR_Success
      else if code = 0x18 then Ok AR_ContinueAuthentication
      else if code = 0x19 then Ok AR_ReAuthenticate
      else Err (InvalidConnectReturnCode code))"

definition v5_auth_properties_len :: "AuthProperties \<Rightarrow> usize" where
  "v5_auth_properties_len properties =
     opt_len (a_authentication_method properties) (\<lambda>m. 1 + 2 + length m) +
     opt_len (a_authentication_data properties) (\<lambda>d. 1 + 2 + length d) +
     opt_len (a_reason_string properties) (\<lambda>reason. 1 + 2 + length reason) +
     user_props_len (a_user_properties properties)"

definition v5_auth_properties_write :: "AuthProperties \<Rightarrow> unit wr" where
  "v5_auth_properties_write properties =
     w_bind (write_remaining_length (v5_auth_properties_len properties)) (\<lambda>_.
     w_seq [w_some (a_authentication_method properties) (put_prop_str AuthenticationMethod),
            w_some (a_authentication_data properties) (put_prop_bytes AuthenticationData),
            w_some (a_reason_string properties) (put_prop_str ReasonString),
            w_for (a_user_properties properties) put_user_property])"

definition v5_auth_prop :: "AuthProperties prop_step" where
  "v5_auth_prop prop bytes st =
     and_then (property prop) (\<lambda>ty.
     case ty of
       AuthenticationMethod \<Rightarrow> arm_str bytes (\<lambda>m. st\<lparr>a_authentication_method := Some m\<rparr>)
     | AuthenticationData \<Rightarrow> arm_bytes bytes (\<lambda>d. st\<lparr>a_authentication_data := Some d\<rparr>)
     | ReasonString \<Rightarrow> arm_str bytes (\<lambda>reason. st\<lparr>a_reason_string := Some reason\<rparr>)
     | UserProperty \<Rightarrow>
         arm_user bytes (\<lambda>kv. st\<lparr>a_user_properties := a_user_properties st @ [kv]\<rparr>)
     | _ \<Rightarrow> Err (InvalidPropertyType prop))"

definition v5_auth_properties_read :: "bytes \<Rightarrow> (AuthProperties option \<times> bytes) res" where
  "v5_auth_properties_read =
     props_read v5_auth_prop
       \<lparr>a_authentication_method = None, a_authentication_data = None, a_reason_string = None,
        a_user_properties = []\<rparr>"

definition v5_auth_len :: "Auth \<Rightarrow> AuthProperties option \<Rightarrow> usize res" where
  "v5_auth_len auth properties =
     and_then (unwrap (a_reason auth)) (\<lambda>reason.
     if reason = AR_Success \<and> properties = None then Ok 2
     else Ok (opt_props_len v5_auth_properties_len properties))"

definition v5_auth_write :: "Auth \<Rightarrow> AuthProperties option \<Rightarrow> usize wr" where
  "v5_auth_write auth properties =
     w_bind (w_lift (v5_auth_len auth properties)) (\<lambda>len.
     w_bind (put_u8 0b11110000) (\<lambda>_.
     if len = 2 then w_bind (put_u8 0x00) (\<lambda>_. w_ok len)
     else
       w_bind (write_remaining_length len) (\<lambda>count.
       w_bind (w_lift (unwrap (a_reason auth))) (\<lambda>reason.
       w_bind (put_u8 (v5_auth_code reason)) (\<lambda>_.
       w_bind (opt_props_write v5_auth_properties_write properties) (\<lambda>_.
         w_ok (1 + count + len)))))))"

definition v5_auth_read :: "FixedHeader \<Rightarrow> bytes \<Rightarrow> (Auth \<times> AuthProperties option) res" where
  "v5_auth_read fixed_header bytes =
     (let packet_type = drop_bit 4 (byte1 fixed_header);
          flags = byte1 fixed_header AND 0b00001111 in
      and_then (advance (fixed_header_len fixed_header) bytes) (\<lambda>bytes.
      if packet_type \<noteq> packet_type_code T_Auth then Err (InvalidPacketType packet_type)
      else if flags \<noteq> 0x00 then Err MalformedPacket
      else if remaining_len fixed_header = 0 then Ok (\<lparr>a_reason = Some AR_Success\<rparr>, None)
      else
        and_then (read_u8 bytes) (\<lambda>(code, bytes).
        and_then (v5_auth_reason code) (\<lambda>reason.
        and_then (v5_auth_properties_read bytes) (\<lambda>(properties, bytes).
          Ok (\<lparr>a_reason = Some reason\<rparr>, properties))))))"

section \<open>Correctness\<close>

definition v5_disconnect_penc :: "DisconnectProperties \<Rightarrow> bytes" where
  "v5_disconnect_penc p =
     opt_enc (d_session_expiry_interval p) (penc_u32 SessionExpiryInterval) @
     opt_enc (d_reason_string p) (penc_str ReasonString) @
     users_enc (d_user_properties p) @
     opt_enc (d_server_reference p) (penc_str ServerReference)"

definition v5_disconnect_pwf :: "DisconnectProperties \<Rightarrow> bool" where
  "v5_disconnect_pwf p \<longleftrightarrow> pred_option str_wf (d_reason_string p) \<and> users_wf (d_user_properties p) \<and>
     pred_option str_wf (d_server_reference p)"

lemma runs_v5_disconnect:
  assumes "v5_disconnect_pwf p"
  shows "runs v5_disconnect_prop (v5_disconnect_penc p)
    \<lparr>d_session_expiry_interval = None, d_reason_string = None, d_user_properties = [],
     d_server_reference = None\<rparr> p"
  unfolding v5_disconnect_penc_def
  by (rule runs_cong,
      (rule runs_append
        runs_u32 [where ty = SessionExpiryInterval and upd = d_session_expiry_interval_update]
        runs_str [where ty = ReasonString and upd = d_reason_string_update]
        runs_users [where get = d_user_properties and upd = d_user_properties_update]
        runs_str [where ty = ServerReference and upd = d_server_reference_update]
       | (use assms in \<open>simp add: v5_disconnect_prop_def v5_disconnect_pwf_def; fail\<close>))+)

interpretation v5_disconnect_props: props_codec v5_disconnect_properties_write
  v5_disconnect_properties_len v5_disconnect_properties_read v5_disconnect_penc v5_disconnect_pwf
proof unfold_locales
  fix p rest
  show len: "v5_disconnect_properties_len p = length (v5_disconnect_penc p)"
    by (simp add: v5_disconnect_properties_len_def v5_disconnect_penc_def)
  assume bound: "length (v5_disconnect_penc p) \<le> 268435455" and wf: "v5_disconnect_pwf p"
  show "emits (v5_disconnect_properties_write p) () (vbi (length (v5_disconnect_penc p)) @ v5_disconnect_penc p)"
    unfolding v5_disconnect_properties_write_def len
    by (rule emits_cong, (rule emit_rules bound)+) (simp add: v5_disconnect_penc_def)
  show "v5_disconnect_properties_read (vbi (length (v5_disconnect_penc p)) @ v5_disconnect_penc p @ rest) =
      Ok (if v5_disconnect_penc p = [] then None else Some p, rest)"
    unfolding v5_disconnect_properties_read_def
    by (rule props_read_runs [OF runs_v5_disconnect [OF wf] bound])
qed (simp add: v5_disconnect_properties_read_def props_read_zero)

lemma v5_disconnect_reason_code [simp]: "v5_disconnect_reason (v5_disconnect_code r) = Ok r"
  by (cases r) (simp_all add: v5_disconnect_reason_def)

definition v5_disconnect_body :: "Disconnect \<times> DisconnectProperties option \<Rightarrow> bytes" where
  "v5_disconnect_body x =
     (case snd x of
        None \<Rightarrow> []
      | Some p \<Rightarrow> v5_disconnect_code (the (reason_code (fst x))) # opt_props_enc v5_disconnect_penc (Some p))"

definition v5_disconnect_wf :: "Disconnect \<times> DisconnectProperties option \<Rightarrow> bool" where
  "v5_disconnect_wf x \<longleftrightarrow>
     (case snd x of
        None \<Rightarrow> reason_code (fst x) = Some DR_NormalDisconnection
      | Some p \<Rightarrow> reason_code (fst x) \<noteq> None \<and> v5_disconnect_penc p \<noteq> [] \<and>
          opt_props_wf v5_disconnect_pwf v5_disconnect_penc (Some p)) \<and>
     length (v5_disconnect_body x) \<le> 268435455"

interpretation v5_disconnect: packet_codec "\<lambda>x. v5_disconnect_write (fst x) (snd x)" v5_disconnect_read
  "\<lambda>_. 0xE0" v5_disconnect_body v5_disconnect_wf "\<lambda>x. x"
proof unfold_locales
  fix x
  assume wf: "v5_disconnect_wf x"
  then show bound: "length (v5_disconnect_body x) \<le> 268435455" by (simp add: v5_disconnect_wf_def)
  have pt: "drop_bit 4 (0xE0 :: u8) = packet_type_code T_Disconnect" by simp
  have "emits (v5_disconnect_write (fst x) (snd x)) (length (frame 0xE0 (v5_disconnect_body x)))
      (frame 0xE0 (v5_disconnect_body x)) \<and>
    v5_disconnect_read (frame_header 0xE0 (v5_disconnect_body x)) (frame 0xE0 (v5_disconnect_body x)) = Ok x"
  proof (cases "snd x")
    case None
    with wf have r: "reason_code (fst x) = Some DR_NormalDisconnection" and body: "v5_disconnect_body x = []"
      by (simp_all add: v5_disconnect_wf_def v5_disconnect_body_def)
    then show ?thesis using None
      by (cases x; cases "fst x")
         (simp add: emits_def v5_disconnect_write_def v5_disconnect_len_def w_simps frame_def vbi_small
          v5_disconnect_read_def advance_def frame_header_def fixed_header_new_def len_len_def pt)
  next
    case (Some p)
    with wf obtain r where r: "reason_code (fst x) = Some r"
      and props: "opt_props_wf v5_disconnect_pwf v5_disconnect_penc (Some p)" and ne: "v5_disconnect_penc p \<noteq> []"
      by (auto simp: v5_disconnect_wf_def)
    then have body: "v5_disconnect_body x = v5_disconnect_code r # opt_props_enc v5_disconnect_penc (Some p)"
      using Some by (simp add: v5_disconnect_body_def)
    have plen: "v5_disconnect_properties_len p = length (v5_disconnect_penc p)"
      by (simp add: v5_disconnect_properties_len_def v5_disconnect_penc_def)
    have len: "v5_disconnect_len (fst x) (snd x) = length (v5_disconnect_body x)"
      using r Some v5_disconnect_props.opt_length [OF props]
      by (simp add: v5_disconnect_len_def body opt_props_len_def Let_def)
    moreover have "2 < v5_disconnect_len (fst x) (snd x)"
      using ne r Some plen by (cases "v5_disconnect_penc p") (auto simp: v5_disconnect_len_def len_len_def)
    ultimately have "emits (v5_disconnect_write (fst x) (snd x)) (length (frame 0xE0 (v5_disconnect_body x)))
        (frame 0xE0 (v5_disconnect_body x))"
      using r Some bound
      by (auto intro!: emits_frameI simp: v5_disconnect_write_def w_simps body
          v5_disconnect_props.opt_write [OF props])
    moreover have "v5_disconnect_read (frame_header 0xE0 (v5_disconnect_body x))
        (frame 0xE0 (v5_disconnect_body x)) = Ok x"
      using r Some ne bound v5_disconnect_props.opt_read [OF props, of "[]"]
      by (cases x; cases "fst x")
         (simp add: v5_disconnect_read_def v5_disconnect_body_def pt read_u8_def opt_props_norm_def)
    ultimately show ?thesis ..
  qed
  then show "emits (v5_disconnect_write (fst x) (snd x)) (length (frame 0xE0 (v5_disconnect_body x)))
      (frame 0xE0 (v5_disconnect_body x))"
    and "v5_disconnect_read (frame_header 0xE0 (v5_disconnect_body x)) (frame 0xE0 (v5_disconnect_body x)) = Ok x"
    by simp_all
qed

definition v5_auth_penc :: "AuthProperties \<Rightarrow> bytes" where
  "v5_auth_penc p =
     opt_enc (a_authentication_method p) (penc_str AuthenticationMethod) @
     opt_enc (a_authentication_data p) (penc_bytes AuthenticationData) @
     opt_enc (a_reason_string p) (penc_str ReasonString) @
     users_enc (a_user_properties p)"

definition v5_auth_pwf :: "AuthProperties \<Rightarrow> bool" where
  "v5_auth_pwf p \<longleftrightarrow> pred_option str_wf (a_authentication_method p) \<and>
     pred_option (\<lambda>b. length b < 65536) (a_authentication_data p) \<and>
     pred_option str_wf (a_reason_string p) \<and> users_wf (a_user_properties p)"

lemma runs_v5_auth:
  assumes "v5_auth_pwf p"
  shows "runs v5_auth_prop (v5_auth_penc p)
    \<lparr>a_authentication_method = None, a_authentication_data = None, a_reason_string = None,
     a_user_properties = []\<rparr> p"
  unfolding v5_auth_penc_def
  by (rule runs_cong,
      (rule runs_append
        runs_str [where ty = AuthenticationMethod and upd = a_authentication_method_update]
        runs_bytes [where ty = AuthenticationData and upd = a_authentication_data_update]
        runs_str [where ty = ReasonString and upd = a_reason_string_update]
        runs_users [where get = a_user_properties and upd = a_user_properties_update]
       | (use assms in \<open>simp add: v5_auth_prop_def v5_auth_pwf_def; fail\<close>))+)

interpretation v5_auth_props: props_codec v5_auth_properties_write v5_auth_properties_len
  v5_auth_properties_read v5_auth_penc v5_auth_pwf
proof unfold_locales
  fix p rest
  show len: "v5_auth_properties_len p = length (v5_auth_penc p)"
    by (simp add: v5_auth_properties_len_def v5_auth_penc_def)
  assume bound: "length (v5_auth_penc p) \<le> 268435455" and wf: "v5_auth_pwf p"
  show "emits (v5_auth_properties_write p) () (vbi (length (v5_auth_penc p)) @ v5_auth_penc p)"
    unfolding v5_auth_properties_write_def len
    by (rule emits_cong, (rule emit_rules bound)+) (simp add: v5_auth_penc_def)
  show "v5_auth_properties_read (vbi (length (v5_auth_penc p)) @ v5_auth_penc p @ rest) =
      Ok (if v5_auth_penc p = [] then None else Some p, rest)"
    unfolding v5_auth_properties_read_def
    by (rule props_read_runs [OF runs_v5_auth [OF wf] bound])
qed (simp add: v5_auth_properties_read_def props_read_zero)

lemma v5_disconnect_read_not_Panic:
  assumes "length packet = fixed_header_len h + remaining_len h"
  shows "v5_disconnect_read h packet \<noteq> Panic" "v5_auth_read h packet \<noteq> Panic"
proof -
  have "v5_disconnect_properties_read bs \<noteq> Panic" for bs
    unfolding v5_disconnect_properties_read_def
    by (rule props_read_not_Panic)
       (auto simp: v5_disconnect_prop_def and_then_eq_Panic split: PropertyType.splits)
  then show "v5_disconnect_read h packet \<noteq> Panic"
    using assms
    by (auto simp: v5_disconnect_read_def v5_disconnect_reason_def and_then_eq_Panic Let_def split: if_splits)
  have "v5_auth_properties_read bs \<noteq> Panic" for bs
    unfolding v5_auth_properties_read_def
    by (rule props_read_not_Panic)
       (auto simp: v5_auth_prop_def and_then_eq_Panic split: PropertyType.splits)
  then show "v5_auth_read h packet \<noteq> Panic"
    using assms
    by (auto simp: v5_auth_read_def v5_auth_reason_def and_then_eq_Panic Let_def split: if_splits)
qed

section \<open>Beyond the contracts\<close>

text \<open>
  A disconnect with a reason other than normal disconnection and no properties is not
  decodable: \<open>disconnect::write\<close> announces one body byte and writes two, and
  \<open>disconnect::read\<close> rejects the one-byte body that the announced length delimits.
\<close>

theorem v5_disconnect_reason_only:
  assumes "r \<noteq> DR_NormalDisconnection"
  shows "v5_disconnect_write \<lparr>reason_code = Some r\<rparr> None buf =
      (Ok 3, buf @ frame 0xE0 [v5_disconnect_code r] @ [0]) \<and>
    v5_disconnect_read (frame_header 0xE0 [v5_disconnect_code r]) (frame 0xE0 [v5_disconnect_code r]) =
      Err (InsufficientBytes 1)"
proof
  show "v5_disconnect_write \<lparr>reason_code = Some r\<rparr> None buf =
      (Ok 3, buf @ frame 0xE0 [v5_disconnect_code r] @ [0])"
    using assms
    by (simp add: v5_disconnect_write_def v5_disconnect_len_def w_simps opt_props_write_def vbi_small
        frame_def len_len_def)
  show "v5_disconnect_read (frame_header 0xE0 [v5_disconnect_code r]) (frame 0xE0 [v5_disconnect_code r]) =
      Err (InsufficientBytes 1)"
    by (simp add: v5_disconnect_read_def read_u8_def v5_disconnect_properties_read_def
        props_read_def read_length_def)
qed

theorem v5_disconnect_reason_only_witness:
  "v5_disconnect_write \<lparr>reason_code = Some DR_ServerBusy\<rparr> None [] =
      (Ok 3, [] @ frame 0xE0 [v5_disconnect_code DR_ServerBusy] @ [0]) \<and>
    v5_disconnect_read (frame_header 0xE0 [v5_disconnect_code DR_ServerBusy])
      (frame 0xE0 [v5_disconnect_code DR_ServerBusy]) = Err (InsufficientBytes 1)"
  by (rule v5_disconnect_reason_only) simp

text \<open>
  \<open>auth::write\<close> leaves the reason code out of the length it announces: what it appends
  for a reason with non-empty properties is the frame of the body without its last byte,
  followed by that byte.
\<close>

theorem v5_auth_write_short:
  assumes "v5_auth_pwf p" and "v5_auth_penc p \<noteq> []" and "length (v5_auth_penc p) \<le> 268435450"
    and "body = v5_auth_code r # opt_props_enc v5_auth_penc (Some p)"
  shows "snd (v5_auth_write \<lparr>a_reason = Some r\<rparr> (Some p) buf) =
    buf @ frame 0xF0 (butlast body) @ [last body]"
proof -
  have wf: "opt_props_wf v5_auth_pwf v5_auth_penc (Some p)"
    using assms(1,3) by (simp add: opt_props_wf_def)
  have plen: "v5_auth_properties_len p = length (v5_auth_penc p)"
    by (simp add: v5_auth_properties_len_def v5_auth_penc_def)
  let ?n = "opt_props_len v5_auth_properties_len (Some p)"
  have n: "length (opt_props_enc v5_auth_penc (Some p)) = ?n" by (rule v5_auth_props.opt_length [OF wf])
  have "opt_enc v (penc_str ty) = [] \<or> 3 \<le> length (opt_enc v (penc_str ty))"
    "opt_enc b (penc_bytes ty) = [] \<or> 3 \<le> length (opt_enc b (penc_bytes ty))" for v b ty
    by (cases v; cases b; simp add: opt_enc_def)+
  moreover have "users_enc ups = [] \<or> 3 \<le> length (users_enc ups)" for ups
    by (cases ups) (simp_all add: users_enc_def)
  ultimately have "3 \<le> length (v5_auth_penc p)"
    using assms(2) unfolding v5_auth_penc_def append_is_Nil_conv length_append
    by (metis add.commute trans_le_add1)
  then have nz: "?n \<noteq> 2" "0 < ?n" "?n \<le> 268435455"
    using assms(3) by (auto simp: opt_props_len_def plen len_len_def Let_def)
  then have "snd (v5_auth_write \<lparr>a_reason = Some r\<rparr> (Some p) buf) = buf @ 0xF0 # vbi ?n @ body"
    by (simp add: v5_auth_write_def v5_auth_len_def w_simps v5_auth_props.opt_write [OF wf] assms(4))
  moreover have "body \<noteq> []" "length (butlast body) = ?n" using nz(2) by (simp_all add: assms(4) n)
  ultimately show ?thesis by (simp add: frame_def)
qed

theorem v5_auth_write_short_witness:
  "snd (v5_auth_write \<lparr>a_reason = Some AR_ReAuthenticate\<rparr> (Some \<lparr>a_authentication_method = None,
        a_authentication_data = Some [7], a_reason_string = None, a_user_properties = []\<rparr>) []) =
    [] @ frame 0xF0 (butlast [0x19, 4, 22, 0, 1, 7]) @ [last [0x19, 4, 22, 0, 1, 7]]"
  by (rule v5_auth_write_short)
     (simp_all add: v5_auth_pwf_def users_wf_def v5_auth_penc_def opt_enc_def users_enc_def
      penc_bytes_def opt_props_enc_def vbi_small mbytes_def be16_def property_code.simps)

end
