(* ===== verification/Mqtt_V5_Connack.thy ===== *)
theory Mqtt_V5_Connack
  imports Mqtt_Props
begin

text \<open>
  The MQTT 5 connection acknowledgement: \<open>src/protocol/src/mqtt/mqttv5/connack.rs\<close>.
  The return codes of MQTT 3.1.1 have no number here: \<open>connect_code\<close> reaches
  \<open>unreachable!()\<close> on them, a panic of the model.
\<close>

section \<open>Return codes\<close>

definition v5_connect_return :: "u8 \<Rightarrow> ConnectReturnCode res" where
  "v5_connect_return num =
     (if num = 0 then Ok CR_Success
      else if num = 128 then Ok CR_UnspecifiedError
      else if num = 129 then Ok CR_MalformedPacket
      else if num = 130 then Ok CR_ProtocolError
      else if num = 131 then Ok CR_ImplementationSpecificError
      else if num = 132 then Ok CR_UnsupportedProtocolVersion
      else if num = 133 then Ok CR_ClientIdentifierNotValid
      else if num = 134 then Ok CR_BadUserNamePassword
      else if num = 135 then Ok CR_NotAuthorized
      else if num = 136 then Ok CR_ServerUnavailable
      else if num = 137 then Ok CR_ServerBusy
      else if num = 138 then Ok CR_Banned
      else if num = 140 then Ok CR_BadAuthenticationMethod
      else if num = 144 then Ok CR_TopicNameInvalid
      else if num = 149 then Ok CR_PacketTooLarge
      else if num = 151 then Ok CR_QuotaExceeded
      else if num = 153 then Ok CR_PayloadFormatInvalid
      else if num = 154 then Ok CR_RetainNotSupported
      else if num = 155 then Ok CR_QoSNotSupported
      else if num = 156 then Ok CR_UseAnotherServer
      else if num = 157 then Ok CR_ServerMoved
      else if num = 159 then Ok CR_ConnectionRateExceeded
      else Err (InvalidConnectReturnCode num))"

definition v5_connect_code :: "ConnectReturnCode \<Rightarrow> u8 res" where
  "v5_connect_code return_code =
     (case return_code of
        CR_Success \<Rightarrow> Ok 0
      | CR_UnspecifiedError \<Rightarrow> Ok 128
      | CR_MalformedPacket \<Rightarrow> Ok 129
      | CR_ProtocolError \<Rightarrow> Ok 130
      | CR_ImplementationSpecificError \<Rightarrow> Ok 131
      | CR_UnsupportedProtocolVersion \<Rightarrow> Ok 132
      | CR_ClientIdentifierNotValid \<Rightarrow> Ok 133
      | CR_BadUserNamePassword \<Rightarrow> Ok 134
      | CR_NotAuthorized \<Rightarrow> Ok 135
      | CR_ServerUnavailable \<Rightarrow> Ok 136
      | CR_ServerBusy \<Rightarrow> Ok 137
      | CR_Banned \<Rightarrow> Ok 138
      | CR_BadAuthenticationMethod \<Rightarrow> Ok 140
      | CR_TopicNameInvalid \<Rightarrow> Ok 144
      | CR_PacketTooLarge \<Rightarrow> Ok 149
      | CR_QuotaExceeded \<Rightarrow> Ok 151
      | CR_PayloadFormatInvalid \<Rightarrow> Ok 153
      | CR_RetainNotSupported \<Rightarrow> Ok 154
      | CR_QoSNotSupported \<Rightarrow> Ok 155
      | CR_UseAnotherServer \<Rightarrow> Ok 156
      | CR_ServerMoved \<Rightarrow> Ok 157
      | CR_ConnectionRateExceeded \<Rightarrow> Ok 159
      | _ \<Rightarrow> Panic)"

section \<open>Properties\<close>

definition v5_connack_properties_len :: "ConnAckProperties \<Rightarrow> usize" where
  "v5_connack_properties_len properties =
     opt_len (ca_session_expiry_interval properties) (\<lambda>_. 1 + 4) +
     opt_len (ca_receive_max properties) (\<lambda>_. 1 + 2) +
     opt_len (ca_max_qos properties) (\<lambda>_. 1 + 1) +
     opt_len (ca_retain_available properties) (\<lambda>_. 1 + 1) +
     opt_len (ca_max_packet_size properties) (\<lambda>_. 1 + 4) +
     opt_len (ca_assigned_client_identifier properties) (\<lambda>s. 1 + 2 + length s) +
     opt_len (ca_topic_alias_max properties) (\<lambda>_. 1 + 2) +
     opt_len (ca_reason_string properties) (\<lambda>s. 1 + 2 + length s) +
     user_props_len (ca_user_properties properties) +
     opt_len (ca_wildcard_subscription_available properties) (\<lambda>_. 1 + 1) +
     opt_len (ca_subscription_identifiers_available properties) (\<lambda>_. 1 + 1) +
     opt_len (ca_shared_subscription_available properties) (\<lambda>_. 1 + 1) +
     opt_len (ca_server_keep_alive properties) (\<lambda>_. 1 + 2) +
     opt_len (ca_response_information properties) (\<lambda>s. 1 + 2 + length s) +
     opt_len (ca_server_reference properties) (\<lambda>s. 1 + 2 + length s) +
     opt_len (ca_authentication_method properties) (\<lambda>s. 1 + 2 + length s) +
     opt_len (ca_authentication_data properties) (\<lambda>d. 1 + 2 + length d)"

definition v5_connack_properties_write :: "ConnAckProperties \<Rightarrow> unit wr" where
  "v5_connack_properties_write properties =
     w_bind (write_remaining_length (v5_connack_properties_len properties)) (\<lambda>_.
     w_seq [w_some (ca_session_expiry_interval properties) (put_prop_u32 SessionExpiryInterval),
            w_some (ca_receive_max properties) (put_prop_u16 ReceiveMaximum),
            w_some (ca_max_qos properties) (put_prop_u8 MaximumQos),
            w_some (ca_retain_available properties) (put_prop_u8 RetainAvailable),
            w_some (ca_max_packet_size properties) (put_prop_u32 MaximumPacketSize),
            w_some (ca_assigned_client_identifier properties) (put_prop_str AssignedClientIdentifier),
            w_some (ca_topic_alias_max properties) (put_prop_u16 TopicAliasMaximum),
            w_some (ca_reason_string properties) (put_prop_str ReasonString),
            w_for (ca_user_properties properties) put_user_property,
            w_some (ca_wildcard_subscription_available properties) (put_prop_u8 WildcardSubscriptionAvailable),
            w_some (ca_subscription_identifiers_available properties) (put_prop_u8 SubscriptionIdentifierAvailable),
            w_some (ca_shared_subscription_available properties) (put_prop_u8 SharedSubscriptionAvailable),
            w_some (ca_server_keep_alive properties) (put_prop_u16 ServerKeepAlive),
            w_some (ca_response_information properties) (put_prop_str ResponseInformation),
            w_some (ca_server_reference properties) (put_prop_str ServerReference),
            w_some (ca_authentication_method properties) (put_prop_str AuthenticationMethod),
            w_some (ca_authentication_data properties) (put_prop_bytes AuthenticationData)])"

definition v5_connack_properties_prop :: "ConnAckProperties prop_step" where
  "v5_connack_properties_prop prop bytes st =
     and_then (property prop) (\<lambda>ty.
     case ty of
       SessionExpiryInterval \<Rightarrow> arm_u32 bytes (\<lambda>x. st\<lparr>ca_session_expiry_interval := Some x\<rparr>)
     | ReceiveMaximum \<Rightarrow> arm_u16 bytes (\<lambda>x. st\<lparr>ca_receive_max := Some x\<rparr>)
     | MaximumQos \<Rightarrow> arm_u8 bytes (\<lambda>x. st\<lparr>ca_max_qos := Some x\<rparr>)
     | RetainAvailable \<Rightarrow> arm_u8 bytes (\<lambda>x. st\<lparr>ca_retain_available := Some x\<rparr>)
     | MaximumPacketSize \<Rightarrow> arm_u32 bytes (\<lambda>x. st\<lparr>ca_max_packet_size := Some x\<rparr>)
     | AssignedClientIdentifier \<Rightarrow> arm_str bytes (\<lambda>x. st\<lparr>ca_assigned_client_identifier := Some x\<rparr>)
     | TopicAliasMaximum \<Rightarrow> arm_u16 bytes (\<lambda>x. st\<lparr>ca_topic_alias_max := Some x\<rparr>)
     | ReasonString \<Rightarrow> arm_str bytes (\<lambda>x. st\<lparr>ca_reason_string := Some x\<rparr>)
     | UserProperty \<Rightarrow> arm_user bytes (\<lambda>kv. st\<lparr>ca_user_properties := ca_user_properties st @ [kv]\<rparr>)
     | WildcardSubscriptionAvailable \<Rightarrow> arm_u8 bytes (\<lambda>x. st\<lparr>ca_wildcard_subscription_available := Some x\<rparr>)
     | SubscriptionIdentifierAvailable \<Rightarrow> arm_u8 bytes (\<lambda>x. st\<lparr>ca_subscription_identifiers_available := Some x\<rparr>)
     | SharedSubscriptionAvailable \<Rightarrow> arm_u8 bytes (\<lambda>x. st\<lparr>ca_shared_subscription_available := Some x\<rparr>)
     | ServerKeepAlive \<Rightarrow> arm_u16 bytes (\<lambda>x. st\<lparr>ca_server_keep_alive := Some x\<rparr>)
     | ResponseInformation \<Rightarrow> arm_str bytes (\<lambda>x. st\<lparr>ca_response_information := Some x\<rparr>)
     | ServerReference \<Rightarrow> arm_str bytes (\<lambda>x. st\<lparr>ca_server_reference := Some x\<rparr>)
     | AuthenticationMethod \<Rightarrow> arm_str bytes (\<lambda>x. st\<lparr>ca_authentication_method := Some x\<rparr>)
     | AuthenticationData \<Rightarrow> arm_bytes bytes (\<lambda>x. st\<lparr>ca_authentication_data := Some x\<rparr>)
     | _ \<Rightarrow> Err (InvalidPropertyType prop))"

definition v5_connack_properties_init :: ConnAckProperties where
  "v5_connack_properties_init =
     \<lparr>ca_session_expiry_interval = None,
      ca_receive_max = None,
      ca_max_qos = None,
      ca_retain_available = None,
      ca_max_packet_size = None,
      ca_assigned_client_identifier = None,
      ca_topic_alias_max = None,
      ca_reason_string = None,
      ca_user_properties = [],
      ca_wildcard_subscription_available = None,
      ca_subscription_identifiers_available = None,
      ca_shared_subscription_available = None,
      ca_server_keep_alive = None,
      ca_response_information = None,
      ca_server_reference = None,
      ca_authentication_method = None,
      ca_authentication_data = None\<rparr>"

definition v5_connack_properties_read :: "bytes \<Rightarrow> (ConnAckProperties option \<times> bytes) res" where
  "v5_connack_properties_read = props_read v5_connack_properties_prop v5_connack_properties_init"

section \<open>The packet\<close>

definition v5_connack_len :: "ConnAckProperties option \<Rightarrow> usize" where
  "v5_connack_len properties = 1 + 1 + opt_props_len v5_connack_properties_len properties"

definition v5_connack_write :: "ConnAck \<Rightarrow> ConnAckProperties option \<Rightarrow> usize wr" where
  "v5_connack_write connack properties =
     (let len = v5_connack_len properties in
      w_bind (put_u8 0x20) (\<lambda>_.
      w_bind (write_remaining_length len) (\<lambda>count.
      w_bind (put_u8 (of_bool (session_present connack))) (\<lambda>_.
      w_bind (w_lift (v5_connect_code (ca_code connack))) (\<lambda>code.
      w_bind (put_u8 code) (\<lambda>_.
      w_bind (opt_props_write v5_connack_properties_write properties) (\<lambda>_.
        w_ok (1 + count + len))))))))"

definition v5_connack_read :: "FixedHeader \<Rightarrow> bytes \<Rightarrow> (ConnAck \<times> ConnAckProperties option) res" where
  "v5_connack_read fixed_header bytes =
     and_then (advance (fixed_header_len fixed_header) bytes) (\<lambda>bytes.
     and_then (read_u8 bytes) (\<lambda>(flags, bytes).
     and_then (read_u8 bytes) (\<lambda>(return_code, bytes).
     and_then (v5_connack_properties_read bytes) (\<lambda>(properties, bytes).
     and_then (v5_connect_return return_code) (\<lambda>code.
       Ok (\<lparr>session_present = (flags AND 0x01 = 1), ca_code = code\<rparr>, properties))))))"

section \<open>Correctness\<close>

definition v5_connack_properties_penc :: "ConnAckProperties \<Rightarrow> bytes" where
  "v5_connack_properties_penc p =
     opt_enc (ca_session_expiry_interval p) (penc_u32 SessionExpiryInterval) @
     opt_enc (ca_receive_max p) (penc_u16 ReceiveMaximum) @
     opt_enc (ca_max_qos p) (penc_u8 MaximumQos) @
     opt_enc (ca_retain_available p) (penc_u8 RetainAvailable) @
     opt_enc (ca_max_packet_size p) (penc_u32 MaximumPacketSize) @
     opt_enc (ca_assigned_client_identifier p) (penc_str AssignedClientIdentifier) @
     opt_enc (ca_topic_alias_max p) (penc_u16 TopicAliasMaximum) @
     opt_enc (ca_reason_string p) (penc_str ReasonString) @
     users_enc (ca_user_properties p) @
     opt_enc (ca_wildcard_subscription_available p) (penc_u8 WildcardSubscriptionAvailable) @
     opt_enc (ca_subscription_identifiers_available p) (penc_u8 SubscriptionIdentifierAvailable) @
     opt_enc (ca_shared_subscription_available p) (penc_u8 SharedSubscriptionAvailable) @
     opt_enc (ca_server_keep_alive p) (penc_u16 ServerKeepAlive) @
     opt_enc (ca_response_information p) (penc_str ResponseInformation) @
     opt_enc (ca_server_reference p) (penc_str ServerReference) @
     opt_enc (ca_authentication_method p) (penc_str AuthenticationMethod) @
     opt_enc (ca_authentication_data p) (penc_bytes AuthenticationData)"

definition v5_connack_properties_pwf :: "ConnAckProperties \<Rightarrow> bool" where
  "v5_connack_properties_pwf p \<longleftrightarrow>
     pred_option str_wf (ca_assigned_client_identifier p) \<and>
     pred_option str_wf (ca_reason_string p) \<and>
     users_wf (ca_user_properties p) \<and>
     pred_option str_wf (ca_response_information p) \<and>
     pred_option str_wf (ca_server_reference p) \<and>
     pred_option str_wf (ca_authentication_method p) \<and>
     pred_option (\<lambda>b. length b < 65536) (ca_authentication_data p)"

lemma runs_v5_connack_properties:
  assumes "v5_connack_properties_pwf p"
  shows "runs v5_connack_properties_prop (v5_connack_properties_penc p) v5_connack_properties_init p"
  unfolding v5_connack_properties_penc_def v5_connack_properties_init_def
  by (rule runs_cong,
      (rule runs_append
        runs_u32 [where ty = SessionExpiryInterval and upd = ca_session_expiry_interval_update]
        runs_u16 [where ty = ReceiveMaximum and upd = ca_receive_max_update]
        runs_u8 [where ty = MaximumQos and upd = ca_max_qos_update]
        runs_u8 [where ty = RetainAvailable and upd = ca_retain_available_update]
        runs_u32 [where ty = MaximumPacketSize and upd = ca_max_packet_size_update]
        runs_str [where ty = AssignedClientIdentifier and upd = ca_assigned_client_identifier_update]
        runs_u16 [where ty = TopicAliasMaximum and upd = ca_topic_alias_max_update]
        runs_str [where ty = ReasonString and upd = ca_reason_string_update]
        runs_users [where get = ca_user_properties and upd = ca_user_properties_update]
        runs_u8 [where ty = WildcardSubscriptionAvailable and upd = ca_wildcard_subscription_available_update]
        runs_u8 [where ty = SubscriptionIdentifierAvailable and upd = ca_subscription_identifiers_available_update]
        runs_u8 [where ty = SharedSubscriptionAvailable and upd = ca_shared_subscription_available_update]
        runs_u16 [where ty = ServerKeepAlive and upd = ca_server_keep_alive_update]
        runs_str [where ty = ResponseInformation and upd = ca_response_information_update]
        runs_str [where ty = ServerReference and upd = ca_server_reference_update]
        runs_str [where ty = AuthenticationMethod and upd = ca_authentication_method_update]
        runs_bytes [where ty = AuthenticationData and upd = ca_authentication_data_update]
       | (use assms in \<open>simp add: v5_connack_properties_prop_def v5_connack_properties_pwf_def; fail\<close>))+)

interpretation v5_connack_properties: props_codec v5_connack_properties_write v5_connack_properties_len v5_connack_properties_read v5_connack_properties_penc v5_connack_properties_pwf
proof unfold_locales
  fix p rest
  show len: "v5_connack_properties_len p = length (v5_connack_properties_penc p)"
    by (simp add: v5_connack_properties_len_def v5_connack_properties_penc_def)
  assume bound: "length (v5_connack_properties_penc p) \<le> 268435455" and wf: "v5_connack_properties_pwf p"
  show "emits (v5_connack_properties_write p) () (vbi (length (v5_connack_properties_penc p)) @ v5_connack_properties_penc p)"
    unfolding v5_connack_properties_write_def len
    by (rule emits_cong, (rule emit_rules bound)+) (simp add: v5_connack_properties_penc_def)
  show "v5_connack_properties_read (vbi (length (v5_connack_properties_penc p)) @ v5_connack_properties_penc p @ rest) =
      Ok (if v5_connack_properties_penc p = [] then None else Some p, rest)"
    unfolding v5_connack_properties_read_def by (rule props_read_runs [OF runs_v5_connack_properties [OF wf] bound])
qed (simp add: v5_connack_properties_read_def props_read_zero)

lemma v5_connack_properties_read_not_Panic [simp]: "v5_connack_properties_read bs \<noteq> Panic"
  unfolding v5_connack_properties_read_def
  by (rule props_read_not_Panic)
     (auto simp: v5_connack_properties_prop_def and_then_eq_Panic split: PropertyType.splits)


lemma v5_connect_code_return: "v5_connect_code c = Ok n \<Longrightarrow> v5_connect_return n = Ok c"
  by (cases c) (auto simp: v5_connect_code_def v5_connect_return_def)

definition v5_connack_code_ok :: "ConnectReturnCode \<Rightarrow> bool" where
  "v5_connack_code_ok c \<longleftrightarrow> c \<notin> {CR_RefusedProtocolVersion, CR_BadClientId, CR_ServiceUnavailable}"

lemma v5_connect_code_Ok: "v5_connack_code_ok c \<longleftrightarrow> (\<exists>n. v5_connect_code c = Ok n)"
  by (cases c) (auto simp: v5_connect_code_def v5_connack_code_ok_def)

definition v5_connack_body :: "ConnAck \<times> ConnAckProperties option \<Rightarrow> bytes" where
  "v5_connack_body x =
     (case v5_connect_code (ca_code (fst x)) of
        Ok n \<Rightarrow> [of_bool (session_present (fst x)), n] @ opt_props_enc v5_connack_properties_penc (snd x)
      | _ \<Rightarrow> [])"

definition v5_connack_wf :: "ConnAck \<times> ConnAckProperties option \<Rightarrow> bool" where
  "v5_connack_wf x \<longleftrightarrow> v5_connack_code_ok (ca_code (fst x)) \<and>
     opt_props_wf v5_connack_properties_pwf v5_connack_properties_penc (snd x) \<and>
     length (v5_connack_body x) \<le> 268435455"

interpretation v5_connack: packet_codec "\<lambda>x. v5_connack_write (fst x) (snd x)" v5_connack_read
  "\<lambda>_. 0x20" v5_connack_body v5_connack_wf
  "\<lambda>x. (fst x, opt_props_norm v5_connack_properties_penc (snd x))"
proof unfold_locales
  fix x
  assume wf: "v5_connack_wf x"
  then obtain n where n: "v5_connect_code (ca_code (fst x)) = Ok n"
    by (auto simp: v5_connack_wf_def v5_connect_code_Ok)
  have props: "opt_props_wf v5_connack_properties_pwf v5_connack_properties_penc (snd x)"
    using wf by (simp add: v5_connack_wf_def)
  have body: "v5_connack_body x =
      [of_bool (session_present (fst x)), n] @ opt_props_enc v5_connack_properties_penc (snd x)"
    using n by (simp add: v5_connack_body_def)
  show bound: "length (v5_connack_body x) \<le> 268435455" using wf by (simp add: v5_connack_wf_def)
  have len: "v5_connack_len (snd x) = length (v5_connack_body x)"
    by (simp add: v5_connack_len_def body v5_connack_properties.opt_length [OF props])
  show "emits (v5_connack_write (fst x) (snd x)) (length (frame 0x20 (v5_connack_body x)))
      (frame 0x20 (v5_connack_body x))"
  proof (rule emits_frameI)
    show "v5_connack_write (fst x) (snd x) buf =
        (Ok (1 + len_len (length (v5_connack_body x)) + length (v5_connack_body x)),
         buf @ 0x20 # vbi (length (v5_connack_body x)) @ v5_connack_body x)" for buf
      using bound n
      by (simp add: v5_connack_write_def len w_simps v5_connack_properties.opt_write [OF props])
         (simp add: body)
  qed (simp_all add: bound)
  show "v5_connack_read (frame_header 0x20 (v5_connack_body x)) (frame 0x20 (v5_connack_body x)) =
      Ok (fst x, opt_props_norm v5_connack_properties_penc (snd x))"
    using bound v5_connect_code_return [OF n] v5_connack_properties.opt_read [OF props, of "[]"]
    by (simp add: v5_connack_read_def) (simp add: body read_u8_def)
qed

lemma v5_connack_read_not_Panic:
  assumes "length packet = fixed_header_len h + remaining_len h"
  shows "v5_connack_read h packet \<noteq> Panic"
  using assms by (auto simp: v5_connack_read_def v5_connect_return_def and_then_eq_Panic)

end
