(* ===== verification/Mqtt_V5_Connect.thy ===== *)
theory Mqtt_V5_Connect
  imports Mqtt_V4 Mqtt_Props
begin

text \<open>
  The MQTT 5 connect packet: \<open>src/protocol/src/mqtt/mqttv5/connect.rs\<close>.  Like its 3.1.1
  counterpart the writer patches the flags byte at an index that counts from the start of
  the buffer, so the round trip is for an empty buffer.
\<close>

record ConnectReadOutcome =
  ro_protocol_version :: u8
  ro_connect :: Connect
  ro_properties :: "ConnectProperties option"
  ro_last_will :: "LastWill option"
  ro_last_will_properties :: "LastWillProperties option"
  ro_login :: "Login option"

section \<open>Connect properties\<close>

definition v5_connect_properties_len :: "ConnectProperties \<Rightarrow> usize" where
  "v5_connect_properties_len properties =
     opt_len (cp_session_expiry_interval properties) (\<lambda>_. 1 + 4) +
     opt_len (cp_receive_maximum properties) (\<lambda>_. 1 + 2) +
     opt_len (cp_max_packet_size properties) (\<lambda>_. 1 + 4) +
     opt_len (cp_topic_alias_max properties) (\<lambda>_. 1 + 2) +
     opt_len (cp_request_response_info properties) (\<lambda>_. 1 + 1) +
     opt_len (cp_request_problem_info properties) (\<lambda>_. 1 + 1) +
     user_props_len (cp_user_properties properties) +
     opt_len (cp_authentication_method properties) (\<lambda>s. 1 + 2 + length s) +
     opt_len (cp_authentication_data properties) (\<lambda>d. 1 + 2 + length d)"

definition v5_connect_properties_write :: "ConnectProperties \<Rightarrow> unit wr" where
  "v5_connect_properties_write properties =
     w_bind (write_remaining_length (v5_connect_properties_len properties)) (\<lambda>_.
     w_seq [w_some (cp_session_expiry_interval properties) (put_prop_u32 SessionExpiryInterval),
            w_some (cp_receive_maximum properties) (put_prop_u16 ReceiveMaximum),
            w_some (cp_max_packet_size properties) (put_prop_u32 MaximumPacketSize),
            w_some (cp_topic_alias_max properties) (put_prop_u16 TopicAliasMaximum),
            w_some (cp_request_response_info properties) (put_prop_u8 RequestResponseInformation),
            w_some (cp_request_problem_info properties) (put_prop_u8 RequestProblemInformation),
            w_for (cp_user_properties properties) put_user_property,
            w_some (cp_authentication_method properties) (put_prop_str AuthenticationMethod),
            w_some (cp_authentication_data properties) (put_prop_bytes AuthenticationData)])"

definition v5_connect_properties_prop :: "ConnectProperties prop_step" where
  "v5_connect_properties_prop prop bytes st =
     and_then (property prop) (\<lambda>ty.
     case ty of
       SessionExpiryInterval \<Rightarrow> arm_u32 bytes (\<lambda>x. st\<lparr>cp_session_expiry_interval := Some x\<rparr>)
     | ReceiveMaximum \<Rightarrow> arm_u16 bytes (\<lambda>x. st\<lparr>cp_receive_maximum := Some x\<rparr>)
     | MaximumPacketSize \<Rightarrow> arm_u32 bytes (\<lambda>x. st\<lparr>cp_max_packet_size := Some x\<rparr>)
     | TopicAliasMaximum \<Rightarrow> arm_u16 bytes (\<lambda>x. st\<lparr>cp_topic_alias_max := Some x\<rparr>)
     | RequestResponseInformation \<Rightarrow> arm_u8 bytes (\<lambda>x. st\<lparr>cp_request_response_info := Some x\<rparr>)
     | RequestProblemInformation \<Rightarrow> arm_u8 bytes (\<lambda>x. st\<lparr>cp_request_problem_info := Some x\<rparr>)
     | UserProperty \<Rightarrow> arm_user bytes (\<lambda>kv. st\<lparr>cp_user_properties := cp_user_properties st @ [kv]\<rparr>)
     | AuthenticationMethod \<Rightarrow> arm_str bytes (\<lambda>x. st\<lparr>cp_authentication_method := Some x\<rparr>)
     | AuthenticationData \<Rightarrow> arm_bytes bytes (\<lambda>x. st\<lparr>cp_authentication_data := Some x\<rparr>)
     | _ \<Rightarrow> Err (InvalidPropertyType prop))"

definition v5_connect_properties_init :: ConnectProperties where
  "v5_connect_properties_init =
     \<lparr>cp_session_expiry_interval = None,
      cp_receive_maximum = None,
      cp_max_packet_size = None,
      cp_topic_alias_max = None,
      cp_request_response_info = None,
      cp_request_problem_info = None,
      cp_user_properties = [],
      cp_authentication_method = None,
      cp_authentication_data = None\<rparr>"

definition v5_connect_properties_read :: "bytes \<Rightarrow> (ConnectProperties option \<times> bytes) res" where
  "v5_connect_properties_read = props_read v5_connect_properties_prop v5_connect_properties_init"

section \<open>Will properties and will\<close>

definition v5_willproperties_len :: "LastWillProperties \<Rightarrow> usize" where
  "v5_willproperties_len properties =
     opt_len (lw_delay_interval properties) (\<lambda>_. 1 + 4) +
     opt_len (lw_payload_format_indicator properties) (\<lambda>_. 1 + 1) +
     opt_len (lw_message_expiry_interval properties) (\<lambda>_. 1 + 4) +
     opt_len (lw_content_type properties) (\<lambda>s. 1 + 2 + length s) +
     opt_len (lw_response_topic properties) (\<lambda>s. 1 + 2 + length s) +
     opt_len (lw_correlation_data properties) (\<lambda>d. 1 + 2 + length d) +
     user_props_len (lw_user_properties properties)"

definition v5_willproperties_write :: "LastWillProperties \<Rightarrow> unit wr" where
  "v5_willproperties_write properties =
     w_bind (write_remaining_length (v5_willproperties_len properties)) (\<lambda>_.
     w_seq [w_some (lw_delay_interval properties) (put_prop_u32 WillDelayInterval),
            w_some (lw_payload_format_indicator properties) (put_prop_u8 PayloadFormatIndicator),
            w_some (lw_message_expiry_interval properties) (put_prop_u32 MessageExpiryInterval),
            w_some (lw_content_type properties) (put_prop_str ContentType),
            w_some (lw_response_topic properties) (put_prop_str ResponseTopic),
            w_some (lw_correlation_data properties) (put_prop_bytes CorrelationData),
            w_for (lw_user_properties properties) put_user_property])"

definition v5_willproperties_prop :: "LastWillProperties prop_step" where
  "v5_willproperties_prop prop bytes st =
     and_then (property prop) (\<lambda>ty.
     case ty of
       WillDelayInterval \<Rightarrow> arm_u32 bytes (\<lambda>x. st\<lparr>lw_delay_interval := Some x\<rparr>)
     | PayloadFormatIndicator \<Rightarrow> arm_u8 bytes (\<lambda>x. st\<lparr>lw_payload_format_indicator := Some x\<rparr>)
     | MessageExpiryInterval \<Rightarrow> arm_u32 bytes (\<lambda>x. st\<lparr>lw_message_expiry_interval := Some x\<rparr>)
     | ContentType \<Rightarrow> arm_str bytes (\<lambda>x. st\<lparr>lw_content_type := Some x\<rparr>)
     | ResponseTopic \<Rightarrow> arm_str bytes (\<lambda>x. st\<lparr>lw_response_topic := Some x\<rparr>)
     | CorrelationData \<Rightarrow> arm_bytes bytes (\<lambda>x. st\<lparr>lw_correlation_data := Some x\<rparr>)
     | UserProperty \<Rightarrow> arm_user bytes (\<lambda>kv. st\<lparr>lw_user_properties := lw_user_properties st @ [kv]\<rparr>)
     | _ \<Rightarrow> Err (InvalidPropertyType prop))"

definition v5_willproperties_init :: LastWillProperties where
  "v5_willproperties_init =
     \<lparr>lw_delay_interval = None,
      lw_payload_format_indicator = None,
      lw_message_expiry_interval = None,
      lw_content_type = None,
      lw_response_topic = None,
      lw_correlation_data = None,
      lw_user_properties = []\<rparr>"

definition v5_willproperties_read :: "bytes \<Rightarrow> (LastWillProperties option \<times> bytes) res" where
  "v5_willproperties_read = props_read v5_willproperties_prop v5_willproperties_init"

definition v5_will_len :: "LastWill \<Rightarrow> LastWillProperties option \<Rightarrow> usize" where
  "v5_will_len will properties =
     opt_props_len v5_willproperties_len properties +
     (2 + length (will_topic will) + 2 + length (will_message will))"

definition v5_will_read ::
    "u8 \<Rightarrow> bytes \<Rightarrow> ((LastWill option \<times> LastWillProperties option) \<times> bytes) res" where
  "v5_will_read connect_flags bytes =
     (if connect_flags AND 0b100 = 0 then
        (if connect_flags AND 0b00111000 \<noteq> 0 then Err IncorrectPacketFormat
         else Ok ((None, None), bytes))
      else
        and_then (v5_willproperties_read bytes) (\<lambda>(properties, bytes).
        and_then (read_mqtt_bytes bytes) (\<lambda>(w_topic, bytes).
        and_then (read_mqtt_bytes bytes) (\<lambda>(w_message, bytes).
          let qos_num = drop_bit 3 (connect_flags AND 0b11000) in
        and_then (ok_or (qos qos_num) (InvalidQoS qos_num)) (\<lambda>w_qos.
          Ok ((Some \<lparr>will_topic = w_topic, will_message = w_message, will_qos = w_qos,
                     will_retain = (connect_flags AND 0b00100000 \<noteq> 0)\<rparr>, properties), bytes))))))"

definition v5_will_write :: "LastWill \<Rightarrow> LastWillProperties option \<Rightarrow> u8 wr" where
  "v5_will_write will properties =
     (let connect_flags = 0x04 OR push_bit 3 (qos_to_u8 (will_qos will));
          connect_flags = (if will_retain will then connect_flags OR 0x20 else connect_flags) in
      w_bind (opt_props_write v5_willproperties_write properties) (\<lambda>_.
      w_bind (write_mqtt_bytes (will_topic will)) (\<lambda>_.
      w_bind (write_mqtt_bytes (will_message will)) (\<lambda>_.
        w_ok connect_flags))))"

section \<open>Login\<close>

definition v5_login_new :: "string \<Rightarrow> string \<Rightarrow> Login" where
  "v5_login_new u p = \<lparr>username = u, password = p\<rparr>"

definition v5_login_read :: "u8 \<Rightarrow> bytes \<Rightarrow> (Login option \<times> bytes) res" where
  "v5_login_read connect_flags bytes =
     and_then
       (if connect_flags AND 0b10000000 = 0 then Ok ([], bytes) else read_mqtt_string bytes)
       (\<lambda>(user, bytes).
     and_then
       (if connect_flags AND 0b01000000 = 0 then Ok ([], bytes) else read_mqtt_string bytes)
       (\<lambda>(pass, bytes).
       if user = [] \<and> pass = [] then Ok (None, bytes)
       else Ok (Some \<lparr>username = user, password = pass\<rparr>, bytes)))"

definition v5_login_len :: "Login \<Rightarrow> usize" where
  "v5_login_len login =
     (let len = 0;
          len = (if username login \<noteq> [] then len + (2 + length (username login)) else len);
          len = (if password login \<noteq> [] then len + (2 + length (password login)) else len)
      in len)"

definition v5_login_write :: "Login \<Rightarrow> u8 wr" where
  "v5_login_write login =
     (let connect_flags = 0 in
      w_bind (if username login \<noteq> [] then
                w_bind (write_mqtt_string (username login)) (\<lambda>_. w_ok (connect_flags OR 0x80))
              else w_ok connect_flags) (\<lambda>connect_flags.
      w_bind (if password login \<noteq> [] then
                w_bind (write_mqtt_string (password login)) (\<lambda>_. w_ok (connect_flags OR 0x40))
              else w_ok connect_flags) (\<lambda>connect_flags.
        w_ok connect_flags)))"

section \<open>The packet\<close>

definition v5_connect_len ::
    "Connect \<Rightarrow> ConnectProperties option \<Rightarrow> LastWill option \<Rightarrow> LastWillProperties option \<Rightarrow>
     Login option \<Rightarrow> usize" where
  "v5_connect_len connect properties will will_properties l =
     (let len = 2 + length ''MQTT'' + 1 + 1 + 2;
          len = len + opt_props_len v5_connect_properties_len properties;
          len = len + (2 + length (client_id connect));
          len = (case will of Some w \<Rightarrow> len + v5_will_len w will_properties | None \<Rightarrow> len);
          len = (case l of Some l \<Rightarrow> len + v5_login_len l | None \<Rightarrow> len)
      in len)"

definition v5_connect_write ::
    "Connect \<Rightarrow> ConnectProperties option \<Rightarrow> LastWill option \<Rightarrow> LastWillProperties option \<Rightarrow>
     Login option \<Rightarrow> usize wr" where
  "v5_connect_write connect properties will will_properties l =
     (let len = v5_connect_len connect properties will will_properties l in
      w_bind (put_u8 0b00010000) (\<lambda>_.
      w_bind (write_remaining_length len) (\<lambda>count.
      w_bind (write_mqtt_string ''MQTT'') (\<lambda>_.
      w_bind (put_u8 0x05) (\<lambda>_.
      let flags_index = 1 + count + 2 + 4 + 1;
          connect_flags = 0;
          connect_flags = (if clean_session connect then connect_flags OR 0x02 else connect_flags) in
      w_bind (put_u8 connect_flags) (\<lambda>_.
      w_bind (put_u16 (keep_alive connect)) (\<lambda>_.
      w_bind (opt_props_write v5_connect_properties_write properties) (\<lambda>_.
      w_bind (write_mqtt_string (client_id connect)) (\<lambda>_.
      w_bind (case will of
                Some w \<Rightarrow> w_bind (v5_will_write w will_properties) (\<lambda>f. w_ok (connect_flags OR f))
              | None \<Rightarrow> w_ok connect_flags) (\<lambda>connect_flags.
      w_bind (case l of
                Some l \<Rightarrow> w_bind (v5_login_write l) (\<lambda>f. w_ok (connect_flags OR f))
              | None \<Rightarrow> w_ok connect_flags) (\<lambda>connect_flags.
      w_bind (w_set flags_index connect_flags) (\<lambda>_.
        w_ok len))))))))))))"

definition v5_connect_read :: "FixedHeader \<Rightarrow> bytes \<Rightarrow> ConnectReadOutcome res" where
  "v5_connect_read fixed_header bytes =
     and_then (advance (fixed_header_len fixed_header) bytes) (\<lambda>bytes.
     and_then (read_mqtt_string bytes) (\<lambda>(protocol_name, bytes).
     and_then (read_u8 bytes) (\<lambda>(protocol_level, bytes).
     if protocol_name \<noteq> ''MQTT'' then Err InvalidProtocol
     else if protocol_level \<noteq> 5 then Err (InvalidProtocolLevel protocol_level)
     else
     and_then (read_u8 bytes) (\<lambda>(connect_flags, bytes).
     and_then (read_u16 bytes) (\<lambda>(ka, bytes).
     and_then (v5_connect_properties_read bytes) (\<lambda>(properties, bytes).
     and_then (read_mqtt_string bytes) (\<lambda>(cid, bytes).
     and_then (v5_will_read connect_flags bytes) (\<lambda>((will, willproperties), bytes).
     and_then (v5_login_read connect_flags bytes) (\<lambda>(login, bytes).
       Ok \<lparr>ro_protocol_version = protocol_level,
           ro_connect = \<lparr>keep_alive = ka, client_id = cid, clean_session = (connect_flags AND 0b10 \<noteq> 0)\<rparr>,
           ro_properties = properties, ro_last_will = will, ro_last_will_properties = willproperties,
           ro_login = login\<rparr>)))))))))"

section \<open>Correctness\<close>

definition v5_connect_properties_penc :: "ConnectProperties \<Rightarrow> bytes" where
  "v5_connect_properties_penc p =
     opt_enc (cp_session_expiry_interval p) (penc_u32 SessionExpiryInterval) @
     opt_enc (cp_receive_maximum p) (penc_u16 ReceiveMaximum) @
     opt_enc (cp_max_packet_size p) (penc_u32 MaximumPacketSize) @
     opt_enc (cp_topic_alias_max p) (penc_u16 TopicAliasMaximum) @
     opt_enc (cp_request_response_info p) (penc_u8 RequestResponseInformation) @
     opt_enc (cp_request_problem_info p) (penc_u8 RequestProblemInformation) @
     users_enc (cp_user_properties p) @
     opt_enc (cp_authentication_method p) (penc_str AuthenticationMethod) @
     opt_enc (cp_authentication_data p) (penc_bytes AuthenticationData)"

definition v5_connect_properties_pwf :: "ConnectProperties \<Rightarrow> bool" where
  "v5_connect_properties_pwf p \<longleftrightarrow>
     users_wf (cp_user_properties p) \<and>
     pred_option str_wf (cp_authentication_method p) \<and>
     pred_option (\<lambda>b. length b < 65536) (cp_authentication_data p)"

lemma runs_v5_connect_properties:
  assumes "v5_connect_properties_pwf p"
  shows "runs v5_connect_properties_prop (v5_connect_properties_penc p) v5_connect_properties_init p"
  unfolding v5_connect_properties_penc_def v5_connect_properties_init_def
  by (rule runs_cong,
      (rule runs_append
        runs_u32 [where ty = SessionExpiryInterval and upd = cp_session_expiry_interval_update]
        runs_u16 [where ty = ReceiveMaximum and upd = cp_receive_maximum_update]
        runs_u32 [where ty = MaximumPacketSize and upd = cp_max_packet_size_update]
        runs_u16 [where ty = TopicAliasMaximum and upd = cp_topic_alias_max_update]
        runs_u8 [where ty = RequestResponseInformation and upd = cp_request_response_info_update]
        runs_u8 [where ty = RequestProblemInformation and upd = cp_request_problem_info_update]
        runs_users [where get = cp_user_properties and upd = cp_user_properties_update]
        runs_str [where ty = AuthenticationMethod and upd = cp_authentication_method_update]
        runs_bytes [where ty = AuthenticationData and upd = cp_authentication_data_update]
       | (use assms in \<open>simp add: v5_connect_properties_prop_def v5_connect_properties_pwf_def; fail\<close>))+)

interpretation v5_connect_properties: props_codec v5_connect_properties_write v5_connect_properties_len v5_connect_properties_read v5_connect_properties_penc v5_connect_properties_pwf
proof unfold_locales
  fix p rest
  show len: "v5_connect_properties_len p = length (v5_connect_properties_penc p)"
    by (simp add: v5_connect_properties_len_def v5_connect_properties_penc_def)
  assume bound: "length (v5_connect_properties_penc p) \<le> 268435455" and wf: "v5_connect_properties_pwf p"
  show "emits (v5_connect_properties_write p) () (vbi (length (v5_connect_properties_penc p)) @ v5_connect_properties_penc p)"
    unfolding v5_connect_properties_write_def len
    by (rule emits_cong, (rule emit_rules bound)+) (simp add: v5_connect_properties_penc_def)
  show "v5_connect_properties_read (vbi (length (v5_connect_properties_penc p)) @ v5_connect_properties_penc p @ rest) =
      Ok (if v5_connect_properties_penc p = [] then None else Some p, rest)"
    unfolding v5_connect_properties_read_def by (rule props_read_runs [OF runs_v5_connect_properties [OF wf] bound])
qed (simp add: v5_connect_properties_read_def props_read_zero)

lemma v5_connect_properties_read_not_Panic [simp]: "v5_connect_properties_read bs \<noteq> Panic"
  unfolding v5_connect_properties_read_def
  by (rule props_read_not_Panic)
     (auto simp: v5_connect_properties_prop_def and_then_eq_Panic split: PropertyType.splits)

definition v5_willproperties_penc :: "LastWillProperties \<Rightarrow> bytes" where
  "v5_willproperties_penc p =
     opt_enc (lw_delay_interval p) (penc_u32 WillDelayInterval) @
     opt_enc (lw_payload_format_indicator p) (penc_u8 PayloadFormatIndicator) @
     opt_enc (lw_message_expiry_interval p) (penc_u32 MessageExpiryInterval) @
     opt_enc (lw_content_type p) (penc_str ContentType) @
     opt_enc (lw_response_topic p) (penc_str ResponseTopic) @
     opt_enc (lw_correlation_data p) (penc_bytes CorrelationData) @
     users_enc (lw_user_properties p)"

definition v5_willproperties_pwf :: "LastWillProperties \<Rightarrow> bool" where
  "v5_willproperties_pwf p \<longleftrightarrow>
     pred_option str_wf (lw_content_type p) \<and>
     pred_option str_wf (lw_response_topic p) \<and>
     pred_option (\<lambda>b. length b < 65536) (lw_correlation_data p) \<and>
     users_wf (lw_user_properties p)"

lemma runs_v5_willproperties:
  assumes "v5_willproperties_pwf p"
  shows "runs v5_willproperties_prop (v5_willproperties_penc p) v5_willproperties_init p"
  unfolding v5_willproperties_penc_def v5_willproperties_init_def
  by (rule runs_cong,
      (rule runs_append
        runs_u32 [where ty = WillDelayInterval and upd = lw_delay_interval_update]
        runs_u8 [where ty = PayloadFormatIndicator and upd = lw_payload_format_indicator_update]
        runs_u32 [where ty = MessageExpiryInterval and upd = lw_message_expiry_interval_update]
        runs_str [where ty = ContentType and upd = lw_content_type_update]
        runs_str [where ty = ResponseTopic and upd = lw_response_topic_update]
        runs_bytes [where ty = CorrelationData and upd = lw_correlation_data_update]
        runs_users [where get = lw_user_properties and upd = lw_user_properties_update]
       | (use assms in \<open>simp add: v5_willproperties_prop_def v5_willproperties_pwf_def; fail\<close>))+)

interpretation v5_willproperties: props_codec v5_willproperties_write v5_willproperties_len v5_willproperties_read v5_willproperties_penc v5_willproperties_pwf
proof unfold_locales
  fix p rest
  show len: "v5_willproperties_len p = length (v5_willproperties_penc p)"
    by (simp add: v5_willproperties_len_def v5_willproperties_penc_def)
  assume bound: "length (v5_willproperties_penc p) \<le> 268435455" and wf: "v5_willproperties_pwf p"
  show "emits (v5_willproperties_write p) () (vbi (length (v5_willproperties_penc p)) @ v5_willproperties_penc p)"
    unfolding v5_willproperties_write_def len
    by (rule emits_cong, (rule emit_rules bound)+) (simp add: v5_willproperties_penc_def)
  show "v5_willproperties_read (vbi (length (v5_willproperties_penc p)) @ v5_willproperties_penc p @ rest) =
      Ok (if v5_willproperties_penc p = [] then None else Some p, rest)"
    unfolding v5_willproperties_read_def by (rule props_read_runs [OF runs_v5_willproperties [OF wf] bound])
qed (simp add: v5_willproperties_read_def props_read_zero)

lemma v5_willproperties_read_not_Panic [simp]: "v5_willproperties_read bs \<noteq> Panic"
  unfolding v5_willproperties_read_def
  by (rule props_read_not_Panic)
     (auto simp: v5_willproperties_prop_def and_then_eq_Panic split: PropertyType.splits)

text \<open>The fields of a connect packet that fit in the wire format.\<close>

definition v5_connect_wf ::
    "Connect \<Rightarrow> ConnectProperties option \<Rightarrow> LastWill option \<Rightarrow> LastWillProperties option \<Rightarrow>
     Login option \<Rightarrow> bool" where
  "v5_connect_wf c p w wp l \<longleftrightarrow> str_wf (client_id c) \<and>
     opt_props_wf v5_connect_properties_pwf v5_connect_properties_penc p \<and>
     (\<forall>w' \<in> set_option w. length (will_topic w') < 65536 \<and> length (will_message w') < 65536) \<and>
     opt_props_wf v5_willproperties_pwf v5_willproperties_penc wp \<and>
     (\<forall>l' \<in> set_option l. login_wf l') \<and>
     v5_connect_len c p w wp l \<le> 268435455"

definition v5_will_enc :: "LastWill \<Rightarrow> LastWillProperties option \<Rightarrow> bytes" where
  "v5_will_enc w wp = opt_props_enc v5_willproperties_penc wp @ v4_will_enc w"

definition v5_connect_flags :: "Connect \<Rightarrow> LastWill option \<Rightarrow> Login option \<Rightarrow> u8" where
  "v5_connect_flags c w l =
     flags_byte (clean_session c) (map_option (\<lambda>w. (will_qos w, will_retain w)) w) l"

definition v5_connect_tail ::
    "Connect \<Rightarrow> ConnectProperties option \<Rightarrow> LastWill option \<Rightarrow> LastWillProperties option \<Rightarrow>
     Login option \<Rightarrow> bytes" where
  "v5_connect_tail c p w wp l = be16 (keep_alive c) @ opt_props_enc v5_connect_properties_penc p @
     mstring (client_id c) @ (case w of None \<Rightarrow> [] | Some w \<Rightarrow> v5_will_enc w wp) @
     (case l of None \<Rightarrow> [] | Some l \<Rightarrow> login_enc l)"

definition v5_connect_body ::
    "Connect \<Rightarrow> ConnectProperties option \<Rightarrow> LastWill option \<Rightarrow> LastWillProperties option \<Rightarrow>
     Login option \<Rightarrow> bytes" where
  "v5_connect_body c p w wp l =
     mstring ''MQTT'' @ [5, v5_connect_flags c w l] @ v5_connect_tail c p w wp l"

lemma v5_login_write_buf [w_simps]:
  "v5_login_write l buf = (Ok (login_flags l), buf @ login_enc l)"
  by (simp add: v5_login_write_def login_enc_def login_flags_def w_simps)

lemma length_v5_connect_body:
  assumes "v5_connect_wf c p w wp l"
  shows "length (v5_connect_body c p w wp l) = v5_connect_len c p w wp l"
proof -
  have p: "opt_props_wf v5_connect_properties_pwf v5_connect_properties_penc p"
    and wp: "opt_props_wf v5_willproperties_pwf v5_willproperties_penc wp"
    using assms by (simp_all add: v5_connect_wf_def)
  have login: "v5_login_len = v4_login_len"
    by (simp add: fun_eq_iff v5_login_len_def v4_login_len_def)
  show ?thesis
    by (cases w; cases l)
       (simp_all add: v5_connect_body_def v5_connect_tail_def v5_connect_len_def length_login_enc login
        v5_will_enc_def v4_will_enc_def v5_will_len_def v5_connect_properties.opt_length [OF p]
        v5_willproperties.opt_length [OF wp] Let_def)
qed

lemma v5_connect_write_buf:
  assumes "v5_connect_wf c p w wp l"
  shows "v5_connect_write c p w wp l buf =
    (Ok (v5_connect_len c p w wp l),
     (buf @ 0x10 # vbi (v5_connect_len c p w wp l) @ mstring ''MQTT'' @
        [5, if clean_session c then 2 else 0] @ v5_connect_tail c p w wp l)
     [len_len (v5_connect_len c p w wp l) + 8 := v5_connect_flags c w l])"
proof -
  have p: "opt_props_wf v5_connect_properties_pwf v5_connect_properties_penc p"
    and wp: "opt_props_wf v5_willproperties_pwf v5_willproperties_penc wp"
    and bound: "v5_connect_len c p w wp l \<le> 268435455"
    using assms by (simp_all add: v5_connect_wf_def)
  have will: "v5_will_write w wp buf = (Ok (will_flags (will_qos w) (will_retain w)), buf @ v5_will_enc w wp)"
    for w buf
    by (simp add: v5_will_write_def v5_will_enc_def v4_will_enc_def will_flags_def w_simps
        v5_willproperties.opt_write [OF wp] ac_simps)
  show ?thesis
    using bound
    by (cases w; cases l)
       (simp_all add: v5_connect_write_def w_simps w_set_def length_vbi v5_connect_tail_def
        v5_connect_properties.opt_write [OF p] will v5_connect_flags_def flags_byte_def ac_simps)
qed

lemma v5_connect_write_empty:
  assumes "v5_connect_wf c p w wp l"
  shows "v5_connect_write c p w wp l [] =
    (Ok (v5_connect_len c p w wp l), frame 0x10 (v5_connect_body c p w wp l))"
proof -
  let ?n = "v5_connect_len c p w wp l"
  let ?pre = "0x10 # vbi ?n @ mstring ''MQTT'' @ [5]"
  have len: "length ?pre = len_len ?n + 8"
    using assms by (simp add: length_vbi v5_connect_wf_def)
  have "(0x10 # vbi ?n @ mstring ''MQTT'' @ [5, x] @ t)[len_len ?n + 8 := y] =
      0x10 # vbi ?n @ mstring ''MQTT'' @ [5, y] @ t" for x y t
    using list_update_length [of ?pre x t y] unfolding len by (simp only: append.simps append_assoc)
  then show ?thesis
    unfolding v5_connect_write_buf [OF assms] frame_def length_v5_connect_body [OF assms]
    by (simp only: append_Nil v5_connect_body_def)
qed

text \<open>Will properties without a will are not written.\<close>

definition v5_connect_norm ::
    "Connect \<Rightarrow> ConnectProperties option \<Rightarrow> LastWill option \<Rightarrow> LastWillProperties option \<Rightarrow>
     Login option \<Rightarrow> ConnectReadOutcome" where
  "v5_connect_norm c p w wp l =
     \<lparr>ro_protocol_version = 5, ro_connect = c,
      ro_properties = opt_props_norm v5_connect_properties_penc p, ro_last_will = w,
      ro_last_will_properties = (if w = None then None else opt_props_norm v5_willproperties_penc wp),
      ro_login = Option.bind l login_norm\<rparr>"

lemma v5_will_read_enc:
  assumes "v5_connect_wf c p w wp l"
  shows "v5_will_read (v5_connect_flags c w l) ((case w of None \<Rightarrow> [] | Some w \<Rightarrow> v5_will_enc w wp) @ rest) =
    Ok ((w, if w = None then None else opt_props_norm v5_willproperties_penc wp), rest)"
proof -
  have wp: "opt_props_wf v5_willproperties_pwf v5_willproperties_penc wp"
    using assms by (simp add: v5_connect_wf_def)
  show ?thesis
    using assms
    by (cases w)
       (auto simp: v5_will_read_def v5_connect_flags_def flags_byte_bits flags_byte_no_will
        v5_will_enc_def v4_will_enc_def v5_connect_wf_def wire_simps v5_willproperties.opt_read [OF wp])
qed

lemma v5_login_read_enc:
  assumes "v5_connect_wf c p w wp l"
  shows "v5_login_read (v5_connect_flags c w l) (case l of None \<Rightarrow> [] | Some l \<Rightarrow> login_enc l) =
    Ok (Option.bind l login_norm, [])"
  using assms
  by (cases l)
     (auto simp: v5_login_read_def v5_connect_flags_def flags_byte_bits login_enc_def v5_connect_wf_def
      wire_simps login_wf_def str_wf_def login_norm_def)

lemma v5_connect_read_body:
  assumes "v5_connect_wf c p w wp l"
  shows "v5_connect_read (frame_header 0x10 (v5_connect_body c p w wp l))
      (frame 0x10 (v5_connect_body c p w wp l)) = Ok (v5_connect_norm c p w wp l)"
proof -
  have p: "opt_props_wf v5_connect_properties_pwf v5_connect_properties_penc p"
    and bound: "length (v5_connect_body c p w wp l) \<le> 268435455"
    using assms length_v5_connect_body [OF assms] by (simp_all add: v5_connect_wf_def)
  have valid: "valid_str ''MQTT''" "valid_str (client_id c)" "length (client_id c) < 65536"
    using assms by (code_simp, simp_all add: v5_connect_wf_def str_wf_def)
  have "advance (fixed_header_len (frame_header 0x10 (v5_connect_body c p w wp l)))
      (frame 0x10 (v5_connect_body c p w wp l)) = Ok (v5_connect_body c p w wp l)"
    using bound by simp
  moreover have "(v5_connect_flags c w l AND 2 = 0) = (\<not> clean_session c)"
    by (simp add: v5_connect_flags_def flags_byte_bits)
  ultimately show ?thesis
    using valid v5_login_read_enc [OF assms]
    by (simp add: v5_connect_read_def v5_connect_body_def v5_connect_tail_def wire_simps
        v5_connect_properties.opt_read [OF p] v5_will_read_enc [OF assms] v5_connect_norm_def)
qed

lemma v5_connect_read_not_Panic:
  assumes "length packet = fixed_header_len h + remaining_len h"
  shows "v5_connect_read h packet \<noteq> Panic"
  using assms
  by (auto simp: v5_connect_read_def v5_will_read_def v5_login_read_def and_then_eq_Panic Let_def
      split: if_splits)

section \<open>Beyond the contract\<close>

text \<open>
  C19: \<open>connect::write\<close> is correct on an empty buffer only.  Its connect flags are stored at an
  index that counts from the start of the buffer: when enough bytes were queued before,
  one of them is overwritten, and the connect packet goes out without its will and
  login flags.
\<close>

theorem v5_connect_write_corrupts:
  assumes "v5_connect_wf c p w wp l" and "len_len (v5_connect_len c p w wp l) + 8 < length buf"
  shows "snd (v5_connect_write c p w wp l buf) =
    buf[len_len (v5_connect_len c p w wp l) + 8 := v5_connect_flags c w l] @
    0x10 # vbi (v5_connect_len c p w wp l) @ mstring ''MQTT'' @
    [5, if clean_session c then 2 else 0] @ v5_connect_tail c p w wp l"
  using assms(2) by (simp add: v5_connect_write_buf [OF assms(1)] list_update_append)

theorem v5_connect_write_corrupts_witness:
  "snd (v5_connect_write \<lparr>keep_alive = 30, client_id = [], clean_session = True\<rparr> None None None None
      (replicate 10 0xC0)) =
    (replicate 10 0xC0)[len_len (v5_connect_len \<lparr>keep_alive = 30, client_id = [], clean_session = True\<rparr>
        None None None None) + 8 :=
      v5_connect_flags \<lparr>keep_alive = 30, client_id = [], clean_session = True\<rparr> None None] @
    0x10 # vbi (v5_connect_len \<lparr>keep_alive = 30, client_id = [], clean_session = True\<rparr>
        None None None None) @ mstring ''MQTT'' @
    [5, if clean_session \<lparr>keep_alive = 30, client_id = [], clean_session = True\<rparr> then 2 else 0] @
    v5_connect_tail \<lparr>keep_alive = 30, client_id = [], clean_session = True\<rparr> None None None None"
  by (rule v5_connect_write_corrupts)
     (simp_all add: v5_connect_wf_def str_wf_def valid_str_def opt_props_wf_def v5_connect_len_def
      opt_props_len_def len_len_def)

end
