(* ===== verification/Mqtt_Codec.thy ===== *)
theory Mqtt_Codec
  imports Mqtt_V4 Mqtt_V5_Acks Mqtt_V5_Subs Mqtt_V5_Publish Mqtt_V5_Disconnect Mqtt_V5_Connack
    Mqtt_V5_Connect
begin

text \<open>
  The codecs of the connections: \<open>MqttCodec\<close> of \<open>src/protocol/src/mqtt/codec.rs\<close>, which
  learns the protocol version from the first packet, \<open>connect_read\<close> of \<open>common.rs\<close>, and
  \<open>Mqtt4Codec\<close> and \<open>Mqtt5Codec\<close> of \<open>mqttv4/codec.rs\<close> and \<open>mqttv5/codec.rs\<close>.  A decoder
  takes the codec and the stream and returns the result with both as it leaves them, on
  error paths too.  The theorems are about whole streams: what the encoder appends, the
  decoder reads back, packet after packet; a decoder never panics, whatever the bytes are;
  a truncated packet leaves the stream as it was.
\<close>

section \<open>Connect packets of any version\<close>

definition connect_read :: "FixedHeader \<Rightarrow> bytes \<Rightarrow> ConnectReadOutcome res" where
  "connect_read fixed_header bytes =
     and_then (advance (fixed_header_len fixed_header) bytes) (\<lambda>bytes.
     and_then (read_mqtt_string bytes) (\<lambda>(protocol_name, bytes).
     and_then (read_u8 bytes) (\<lambda>(protocol_level, bytes).
     if protocol_name \<noteq> ''MQTT'' \<and> protocol_name \<noteq> ''MQIsdp'' then Err InvalidProtocol
     else if protocol_level = 5 then
       and_then (read_u8 bytes) (\<lambda>(connect_flags, bytes).
       and_then (read_u16 bytes) (\<lambda>(ka, bytes).
       and_then (v5_connect_properties_read bytes) (\<lambda>(properties, bytes).
       and_then (read_mqtt_string bytes) (\<lambda>(cid, bytes).
       and_then (v5_will_read connect_flags bytes) (\<lambda>((will, willproperties), bytes).
       and_then (v5_login_read connect_flags bytes) (\<lambda>(login, bytes).
         Ok \<lparr>ro_protocol_version = protocol_level,
             ro_connect = \<lparr>keep_alive = ka, client_id = cid, clean_session = (connect_flags AND 0b10 \<noteq> 0)\<rparr>,
             ro_properties = properties, ro_last_will = will, ro_last_will_properties = willproperties,
             ro_login = login\<rparr>))))))
     else if protocol_level = 4 \<or> protocol_level = 3 then
       and_then (read_u8 bytes) (\<lambda>(connect_flags, bytes).
       and_then (read_u16 bytes) (\<lambda>(ka, bytes).
       and_then (read_mqtt_bytes bytes) (\<lambda>(cid, bytes).
       and_then (from_utf8 cid PayloadNotUtf8) (\<lambda>cid.
       and_then (v4_will_read connect_flags bytes) (\<lambda>(will, bytes).
       and_then (v4_login_read connect_flags bytes) (\<lambda>(login, bytes).
         Ok \<lparr>ro_protocol_version = protocol_level,
             ro_connect = \<lparr>keep_alive = ka, client_id = cid, clean_session = (connect_flags AND 0b10 \<noteq> 0)\<rparr>,
             ro_properties = None, ro_last_will = will, ro_last_will_properties = None,
             ro_login = login\<rparr>))))))
     else Err InvalidProtocol)))"

section \<open>Decoding\<close>

record MqttCodec =
  protocol_version :: "u8 option"

definition mqtt_codec_new :: "u8 option \<Rightarrow> MqttCodec" where
  "mqtt_codec_new version = \<lparr>protocol_version = version\<rparr>"

text \<open>The two matches of \<open>decode_data\<close> on the packet type, for versions 3/4 and 5.\<close>

definition decode_v4 :: "PacketType \<Rightarrow> FixedHeader \<Rightarrow> bytes \<Rightarrow> MqttPacket res" where
  "decode_v4 ty fixed_header packet =
     (case ty of
        T_ConnAck \<Rightarrow> and_then (v4_connack_read fixed_header packet) (\<lambda>p. Ok (P_ConnAck p None))
      | T_Publish \<Rightarrow> and_then (v4_publish_read fixed_header packet) (\<lambda>p. Ok (P_Publish p None))
      | T_PubAck \<Rightarrow> and_then (v4_puback_read fixed_header packet) (\<lambda>p. Ok (P_PubAck p None))
      | T_PubRec \<Rightarrow> and_then (v4_pubrec_read fixed_header packet) (\<lambda>p. Ok (P_PubRec p None))
      | T_PubRel \<Rightarrow> and_then (v4_pubrel_read fixed_header packet) (\<lambda>p. Ok (P_PubRel p None))
      | T_PubComp \<Rightarrow> and_then (v4_pubcomp_read fixed_header packet) (\<lambda>p. Ok (P_PubComp p None))
      | T_Subscribe \<Rightarrow> and_then (v4_subscribe_read fixed_header packet) (\<lambda>p. Ok (P_Subscribe p None))
      | T_SubAck \<Rightarrow> and_then (v4_suback_read fixed_header packet) (\<lambda>p. Ok (P_SubAck p None))
      | T_Unsubscribe \<Rightarrow> and_then (v4_unsubscribe_read fixed_header packet) (\<lambda>p. Ok (P_Unsubscribe p None))
      | T_UnsubAck \<Rightarrow> and_then (v4_unsuback_read fixed_header packet) (\<lambda>p. Ok (P_UnsubAck p None))
      | T_PingReq \<Rightarrow> Ok P_PingReq
      | T_PingResp \<Rightarrow> Ok P_PingResp
      | T_Disconnect \<Rightarrow> and_then (v5_disconnect_read fixed_header packet) (\<lambda>(d, _). Ok (P_Disconnect d None))
      | _ \<Rightarrow> Panic)"

definition decode_v5 :: "PacketType \<Rightarrow> FixedHeader \<Rightarrow> bytes \<Rightarrow> MqttPacket res" where
  "decode_v5 ty fixed_header packet =
     (case ty of
        T_ConnAck \<Rightarrow> and_then (v5_connack_read fixed_header packet) (\<lambda>(p, q). Ok (P_ConnAck p q))
      | T_Publish \<Rightarrow> and_then (v5_publish_read fixed_header packet) (\<lambda>(p, q). Ok (P_Publish p q))
      | T_PubAck \<Rightarrow> and_then (v5_puback_read fixed_header packet) (\<lambda>(p, q). Ok (P_PubAck p q))
      | T_PubRec \<Rightarrow> and_then (v5_pubrec_read fixed_header packet) (\<lambda>(p, q). Ok (P_PubRec p q))
      | T_PubRel \<Rightarrow> and_then (v5_pubrel_read fixed_header packet) (\<lambda>(p, q). Ok (P_PubRel p q))
      | T_PubComp \<Rightarrow> and_then (v5_pubcomp_read fixed_header packet) (\<lambda>(p, q). Ok (P_PubComp p q))
      | T_Subscribe \<Rightarrow> and_then (v5_subscribe_read fixed_header packet) (\<lambda>(p, q). Ok (P_Subscribe p q))
      | T_SubAck \<Rightarrow> and_then (v5_suback_read fixed_header packet) (\<lambda>(p, q). Ok (P_SubAck p q))
      | T_Unsubscribe \<Rightarrow> and_then (v5_unsubscribe_read fixed_header packet) (\<lambda>(p, q). Ok (P_Unsubscribe p q))
      | T_UnsubAck \<Rightarrow> and_then (v5_unsuback_read fixed_header packet) (\<lambda>(p, q). Ok (P_UnsubAck p q))
      | T_PingReq \<Rightarrow> Ok P_PingReq
      | T_PingResp \<Rightarrow> Ok P_PingResp
      | T_Disconnect \<Rightarrow> and_then (v5_disconnect_read fixed_header packet) (\<lambda>(p, q). Ok (P_Disconnect p q))
      | _ \<Rightarrow> Panic)"

definition decode_versioned :: "u8 option \<Rightarrow> PacketType \<Rightarrow> FixedHeader \<Rightarrow> bytes \<Rightarrow> MqttPacket res" where
  "decode_versioned version ty fixed_header packet =
     (case version of
        None \<Rightarrow> Err InvalidProtocol
      | Some v \<Rightarrow>
          if v = 4 \<or> v = 3 then decode_v4 ty fixed_header packet
          else if v = 5 then decode_v5 ty fixed_header packet
          else Err InvalidProtocol)"

definition decode_data :: "MqttCodec \<Rightarrow> bytes \<Rightarrow> MqttPacket option res \<times> MqttCodec \<times> bytes" where
  "decode_data self stream =
     (case take_frame 1000000 stream of
        Err e \<Rightarrow> (Err e, self, stream)
      | Panic \<Rightarrow> (Panic, self, stream)
      | Ok (fixed_header, packet, stream) \<Rightarrow>
          (case packet_type fixed_header of
             Err e \<Rightarrow> (Err e, self, stream)
           | Panic \<Rightarrow> (Panic, self, stream)
           | Ok ty \<Rightarrow>
               if ty = T_Connect then
                 (case connect_read fixed_header packet of
                    Ok out \<Rightarrow>
                      (let v = ro_protocol_version out; self = self\<lparr>protocol_version := Some v\<rparr> in
                       if v = 4 \<or> v = 3 then
                         (Ok (Some (P_Connect v (ro_connect out) None (ro_last_will out) None (ro_login out))),
                          self, stream)
                       else if v = 5 then
                         (Ok (Some (P_Connect v (ro_connect out) (ro_properties out) (ro_last_will out)
                                      (ro_last_will_properties out) (ro_login out))), self, stream)
                       else
                         (and_then (decode_versioned (protocol_version self) ty fixed_header packet)
                            (\<lambda>p. Ok (Some p)), self, stream))
                  | Err _ \<Rightarrow> (Err InvalidProtocol, self, stream)
                  | Panic \<Rightarrow> (Panic, self, stream))
               else
                 (and_then (decode_versioned (protocol_version self) ty fixed_header packet)
                    (\<lambda>p. Ok (Some p)), self, stream)))"

section \<open>Encoding\<close>

definition write_v4 :: "MqttPacket \<Rightarrow> usize wr" where
  "write_v4 packet =
     (case packet of
        P_Connect _ connect None last_will None login \<Rightarrow> v4_connect_write connect login last_will
      | P_ConnAck connack _ \<Rightarrow> v4_connack_write connack
      | P_Publish publish None \<Rightarrow> v4_publish_write publish
      | P_PubAck puback None \<Rightarrow> v4_puback_write puback
      | P_PubRec pubrec None \<Rightarrow> v4_pubrec_write pubrec
      | P_PubRel pubrel None \<Rightarrow> v4_pubrel_write pubrel
      | P_PubComp pubcomp None \<Rightarrow> v4_pubcomp_write pubcomp
      | P_Subscribe subscribe None \<Rightarrow> v4_subscribe_write subscribe
      | P_SubAck suback None \<Rightarrow> v4_suback_write suback
      | P_Unsubscribe unsubscribe None \<Rightarrow> v4_unsubscribe_write unsubscribe
      | P_UnsubAck unsuback None \<Rightarrow> v4_unsuback_write unsuback
      | P_PingReq \<Rightarrow> pingreq_write
      | P_PingResp \<Rightarrow> pingresp_write
      | P_Disconnect disconnect None \<Rightarrow> v4_disconnect_write disconnect
      | _ \<Rightarrow> w_panic)"

definition write_v5 :: "MqttPacket \<Rightarrow> usize wr" where
  "write_v5 packet =
     (case packet of
        P_Connect _ connect properties last_will last_will_properties login \<Rightarrow>
          v5_connect_write connect properties last_will last_will_properties login
      | P_ConnAck p q \<Rightarrow> v5_connack_write p q
      | P_Publish p q \<Rightarrow> v5_publish_write p q
      | P_PubAck p q \<Rightarrow> v5_puback_write p q
      | P_PubRec p q \<Rightarrow> v5_pubrec_write p q
      | P_PubRel p q \<Rightarrow> v5_pubrel_write p q
      | P_PubComp p q \<Rightarrow> v5_pubcomp_write p q
      | P_Subscribe p q \<Rightarrow> v5_subscribe_write p q
      | P_SubAck p q \<Rightarrow> v5_suback_write p q
      | P_Unsubscribe p q \<Rightarrow> v5_unsubscribe_write p q
      | P_UnsubAck p q \<Rightarrow> v5_unsuback_write p q
      | P_PingReq \<Rightarrow> v5_pingreq_write
      | P_PingResp \<Rightarrow> v5_pingresp_write
      | P_Disconnect p q \<Rightarrow> v5_disconnect_write p q
      | P_Auth p q \<Rightarrow> v5_auth_write p q)"

record MqttPacketWrapper =
  w_protocol_version :: u8
  w_packet :: MqttPacket

definition encode_data :: "MqttPacketWrapper \<Rightarrow> unit wr" where
  "encode_data wrapper =
     (let v = w_protocol_version wrapper in
      if v = 4 \<or> v = 3 then w_bind (write_v4 (w_packet wrapper)) (\<lambda>_. w_ok ())
      else if v = 5 then w_bind (write_v5 (w_packet wrapper)) (\<lambda>_. w_ok ())
      else w_ok ())"

definition calc_mqtt_packet_len :: "MqttPacketWrapper \<Rightarrow> usize res" where
  "calc_mqtt_packet_len wrapper =
     (let v = w_protocol_version wrapper in
      if v = 4 \<or> v = 3 then fst (write_v4 (w_packet wrapper) [])
      else if v = 5 then fst (write_v5 (w_packet wrapper) [])
      else Ok 0)"

definition calc_mqtt_packet_size :: "MqttPacketWrapper \<Rightarrow> usize res" where
  "calc_mqtt_packet_size wrapper = unwrap_or (calc_mqtt_packet_len wrapper) 0"

definition parse_mqtt_packet_to_name :: "MqttPacket \<Rightarrow> string" where
  "parse_mqtt_packet_to_name packet =
     (case packet of
        P_Connect _ _ _ _ _ _ \<Rightarrow> ''connect''
      | P_ConnAck _ _ \<Rightarrow> ''conn_ack''
      | P_Publish _ _ \<Rightarrow> ''publish''
      | P_PubAck _ _ \<Rightarrow> ''pub_ack''
      | P_PubRec _ _ \<Rightarrow> ''pub_rec''
      | P_PubRel _ _ \<Rightarrow> ''pub_rel''
      | P_PubComp _ _ \<Rightarrow> ''pub_comp''
      | P_Subscribe _ _ \<Rightarrow> ''subscribe''
      | P_SubAck _ _ \<Rightarrow> ''sub_ack''
      | P_Unsubscribe _ _ \<Rightarrow> ''sub_ack''
      | P_UnsubAck _ _ \<Rightarrow> ''unsub_ack''
      | P_PingReq \<Rightarrow> ''ping''
      | P_PingResp \<Rightarrow> ''pong''
      | P_Disconnect _ _ \<Rightarrow> ''disconnect''
      | P_Auth _ _ \<Rightarrow> ''auth'')"

section \<open>The codecs of one version\<close>

definition mqtt4_encode :: "MqttPacket \<Rightarrow> unit wr" where
  "mqtt4_encode packet = w_bind (write_v4 packet) (\<lambda>_. w_ok ())"

definition mqtt5_encode :: "MqttPacket \<Rightarrow> unit wr" where
  "mqtt5_encode packet = w_bind (write_v5 packet) (\<lambda>_. w_ok ())"

definition mqtt4_decode :: "bytes \<Rightarrow> MqttPacket option res \<times> bytes" where
  "mqtt4_decode stream =
     (case take_frame 1000000 stream of
        Err e \<Rightarrow> (Err e, stream)
      | Panic \<Rightarrow> (Panic, stream)
      | Ok (fixed_header, packet, stream) \<Rightarrow>
          (and_then (packet_type fixed_header) (\<lambda>ty.
           and_then
             (case ty of
                T_Connect \<Rightarrow>
                  and_then (v4_connect_read fixed_header packet) (\<lambda>(protocol_level, connect, login, lastwill).
                    Ok (P_Connect protocol_level connect None lastwill None login))
              | T_Disconnect \<Rightarrow> Err InvalidProtocol
              | T_Auth \<Rightarrow> Err InvalidProtocol
              | _ \<Rightarrow> decode_v4 ty fixed_header packet)
             (\<lambda>p. Ok (Some p))), stream))"

definition mqtt5_decode :: "bytes \<Rightarrow> MqttPacket option res \<times> bytes" where
  "mqtt5_decode stream =
     (case take_frame 1000000 stream of
        Err e \<Rightarrow> (Err e, stream)
      | Panic \<Rightarrow> (Panic, stream)
      | Ok (fixed_header, packet, stream) \<Rightarrow>
          (and_then (packet_type fixed_header) (\<lambda>ty.
           and_then
             (case ty of
                T_Connect \<Rightarrow>
                  and_then (v5_connect_read fixed_header packet) (\<lambda>out.
                    Ok (P_Connect (ro_protocol_version out) (ro_connect out) (ro_properties out)
                          (ro_last_will out) (ro_last_will_properties out) (ro_login out)))
              | T_Auth \<Rightarrow> and_then (v5_auth_read fixed_header packet) (\<lambda>(p, q). Ok (P_Auth p q))
              | _ \<Rightarrow> decode_v5 ty fixed_header packet)
             (\<lambda>p. Ok (Some p))), stream))"

section \<open>What travels on the wire\<close>

text \<open>
  The first byte and the body of every packet but Connect and Auth, the packets that a
  version can carry, and what the decoder makes of them.
\<close>

definition packet_byte1 :: "MqttPacket \<Rightarrow> u8" where
  "packet_byte1 p =
     (case p of
        P_Connect _ _ _ _ _ _ \<Rightarrow> 0x10 | P_ConnAck _ _ \<Rightarrow> 0x20 | P_Publish q _ \<Rightarrow> publish_byte1 q
      | P_PubAck _ _ \<Rightarrow> 0x40 | P_PubRec _ _ \<Rightarrow> 0x50 | P_PubRel _ _ \<Rightarrow> 0x62 | P_PubComp _ _ \<Rightarrow> 0x70
      | P_Subscribe _ _ \<Rightarrow> 0x82 | P_SubAck _ _ \<Rightarrow> 0x90 | P_Unsubscribe _ _ \<Rightarrow> 0xA2
      | P_UnsubAck _ _ \<Rightarrow> 0xB0 | P_PingReq \<Rightarrow> 0xC0 | P_PingResp \<Rightarrow> 0xD0 | P_Disconnect _ _ \<Rightarrow> 0xE0
      | P_Auth _ _ \<Rightarrow> 0xF0)"

definition body_v4 :: "MqttPacket \<Rightarrow> bytes" where
  "body_v4 p =
     (case p of
        P_ConnAck x _ \<Rightarrow> v4_connack_body x | P_Publish x _ \<Rightarrow> v4_publish_body x
      | P_PubAck x _ \<Rightarrow> be16 (pa_pkid x) | P_PubRec x _ \<Rightarrow> be16 (pr_pkid x)
      | P_PubRel x _ \<Rightarrow> be16 (pl_pkid x) | P_PubComp x _ \<Rightarrow> be16 (pc_pkid x)
      | P_Subscribe x _ \<Rightarrow> v4_subscribe_body x | P_SubAck x _ \<Rightarrow> v4_suback_body x
      | P_Unsubscribe x _ \<Rightarrow> v4_unsubscribe_body x | P_UnsubAck x _ \<Rightarrow> be16 (ua_pkid x)
      | _ \<Rightarrow> [])"

definition wf_v4 :: "MqttPacket \<Rightarrow> bool" where
  "wf_v4 p =
     (case p of
        P_ConnAck x _ \<Rightarrow> ca_code x \<in> v4_connack_codes
      | P_Publish x None \<Rightarrow> publish_wf x
      | P_PubAck _ None \<Rightarrow> True | P_PubRec _ None \<Rightarrow> True
      | P_PubRel _ None \<Rightarrow> True | P_PubComp _ None \<Rightarrow> True
      | P_Subscribe x None \<Rightarrow> v4_subscribe_wf x | P_SubAck x None \<Rightarrow> v4_suback_wf x
      | P_Unsubscribe x None \<Rightarrow> v4_unsubscribe_wf x | P_UnsubAck _ None \<Rightarrow> True
      | P_PingReq \<Rightarrow> True | P_PingResp \<Rightarrow> True | P_Disconnect _ None \<Rightarrow> True
      | _ \<Rightarrow> False)"

definition norm_v4 :: "MqttPacket \<Rightarrow> MqttPacket" where
  "norm_v4 p =
     (case p of
        P_ConnAck x _ \<Rightarrow> P_ConnAck x None
      | P_PubAck x _ \<Rightarrow> P_PubAck \<lparr>pa_pkid = pa_pkid x, pa_reason = Some PA_Success\<rparr> None
      | P_PubRec x _ \<Rightarrow> P_PubRec \<lparr>pr_pkid = pr_pkid x, pr_reason = Some PR_Success\<rparr> None
      | P_PubRel x _ \<Rightarrow> P_PubRel \<lparr>pl_pkid = pl_pkid x, pl_reason = Some PL_Success\<rparr> None
      | P_PubComp x _ \<Rightarrow> P_PubComp \<lparr>pc_pkid = pc_pkid x, pc_reason = Some PC_Success\<rparr> None
      | P_Subscribe x _ \<Rightarrow> P_Subscribe \<lparr>packet_identifier = packet_identifier x,
          s_filters = map v4_filter_norm (s_filters x)\<rparr> None
      | P_SubAck x _ \<Rightarrow> P_SubAck \<lparr>sa_pkid = sa_pkid x,
          return_codes = map (the \<circ> v4_suback_norm) (return_codes x)\<rparr> None
      | P_UnsubAck x _ \<Rightarrow> P_UnsubAck \<lparr>ua_pkid = ua_pkid x, ua_reasons = []\<rparr> None
      | P_Disconnect x _ \<Rightarrow> P_Disconnect \<lparr>reason_code = Some DR_NormalDisconnection\<rparr> None
      | _ \<Rightarrow> p)"

definition body_v5 :: "MqttPacket \<Rightarrow> bytes" where
  "body_v5 p =
     (case p of
        P_ConnAck x y \<Rightarrow> v5_connack_body (x, y) | P_Publish x y \<Rightarrow> v5_publish_body (x, y)
      | P_PubAck x y \<Rightarrow> v5_puback_body (x, y) | P_PubRec x y \<Rightarrow> v5_pubrec_body (x, y)
      | P_PubRel x y \<Rightarrow> v5_pubrel_body (x, y) | P_PubComp x y \<Rightarrow> v5_pubcomp_body (x, y)
      | P_Subscribe x y \<Rightarrow> v5_subscribe_body (x, y) | P_SubAck x y \<Rightarrow> v5_suback_body (x, y)
      | P_Unsubscribe x y \<Rightarrow> v5_unsubscribe_body (x, y) | P_UnsubAck x y \<Rightarrow> v5_unsuback_body (x, y)
      | P_Disconnect x y \<Rightarrow> v5_disconnect_body (x, y) | _ \<Rightarrow> [])"

definition wf_v5 :: "MqttPacket \<Rightarrow> bool" where
  "wf_v5 p =
     (case p of
        P_ConnAck x y \<Rightarrow> v5_connack_wf (x, y) | P_Publish x y \<Rightarrow> v5_publish_wf (x, y)
      | P_PubAck x y \<Rightarrow> v5_puback_wf (x, y) | P_PubRec x y \<Rightarrow> v5_pubrec_wf (x, y)
      | P_PubRel x y \<Rightarrow> v5_pubrel_wf (x, y) | P_PubComp x y \<Rightarrow> v5_pubcomp_wf (x, y)
      | P_Subscribe x y \<Rightarrow> v5_subscribe_wf (x, y) | P_SubAck x y \<Rightarrow> v5_suback_wf (x, y)
      | P_Unsubscribe x y \<Rightarrow> v5_unsubscribe_wf (x, y) | P_UnsubAck x y \<Rightarrow> v5_unsuback_wf (x, y)
      | P_Disconnect x y \<Rightarrow> v5_disconnect_wf (x, y)
      | P_PingReq \<Rightarrow> True | P_PingResp \<Rightarrow> True | _ \<Rightarrow> False)"

definition norm_v5 :: "MqttPacket \<Rightarrow> MqttPacket" where
  "norm_v5 p =
     (case p of
        P_ConnAck x y \<Rightarrow> P_ConnAck x (opt_props_norm v5_connack_properties_penc y)
      | P_Publish x y \<Rightarrow> P_Publish x (opt_props_norm v5_publish_penc y)
      | P_PubAck x y \<Rightarrow> P_PubAck x (opt_props_norm v5_puback_penc y)
      | P_PubRec x y \<Rightarrow> P_PubRec x (opt_props_norm v5_pubrec_penc y)
      | P_PubRel x y \<Rightarrow> P_PubRel x (opt_props_norm v5_pubrel_penc y)
      | P_PubComp x y \<Rightarrow> P_PubComp x (opt_props_norm v5_pubcomp_penc y)
      | P_Subscribe x y \<Rightarrow> P_Subscribe x (opt_props_norm v5_subscribe_penc y)
      | P_SubAck x y \<Rightarrow> P_SubAck \<lparr>sa_pkid = sa_pkid x, return_codes = map v5_suback_norm (return_codes x)\<rparr>
          (opt_props_norm v5_suback_penc y)
      | P_Unsubscribe x y \<Rightarrow> P_Unsubscribe x (opt_props_norm v5_unsubscribe_penc y)
      | P_UnsubAck x y \<Rightarrow> P_UnsubAck x (opt_props_norm v5_unsuback_penc y)
      | _ \<Rightarrow> p)"

definition packet_body :: "u8 \<Rightarrow> MqttPacket \<Rightarrow> bytes" where
  "packet_body v p = (if v = 5 then body_v5 p else body_v4 p)"

definition packet_wf :: "u8 \<Rightarrow> MqttPacket \<Rightarrow> bool" where
  "packet_wf v p \<longleftrightarrow> (if v = 5 then wf_v5 p else (v = 4 \<or> v = 3) \<and> wf_v4 p) \<and>
     length (packet_body v p) \<le> 1000000"

definition packet_norm :: "u8 \<Rightarrow> MqttPacket \<Rightarrow> MqttPacket" where
  "packet_norm v p = (if v = 5 then norm_v5 p else norm_v4 p)"

definition packet_frame :: "u8 \<Rightarrow> MqttPacket \<Rightarrow> bytes" where
  "packet_frame v p = frame (packet_byte1 p) (packet_body v p)"

lemma emits_empty_frame:
  "emits pingreq_write (length (frame 0xC0 [])) (frame 0xC0 [])"
  "emits pingresp_write (length (frame 0xD0 [])) (frame 0xD0 [])"
  "emits v5_pingreq_write (length (frame 0xC0 [])) (frame 0xC0 [])"
  "emits v5_pingresp_write (length (frame 0xD0 [])) (frame 0xD0 [])"
  "emits (v4_disconnect_write d) (length (frame 0xE0 [])) (frame 0xE0 [])"
  by (simp_all add: emits_def frame_def vbi_small w_simps pingreq_write_def pingresp_write_def
      v5_pingreq_write_def v5_pingresp_write_def v4_disconnect_write_def)

lemma emits_write_v4:
  "wf_v4 p \<Longrightarrow> emits (write_v4 p) (length (frame (packet_byte1 p) (body_v4 p))) (frame (packet_byte1 p) (body_v4 p))"
  by (cases p)
     (auto simp: wf_v4_def write_v4_def packet_byte1_def body_v4_def
      intro: v4_connack.write_frame v4_publish.write_frame v4_puback.write_frame v4_pubrec.write_frame
        v4_pubrel.write_frame v4_pubcomp.write_frame v4_subscribe.write_frame v4_suback.write_frame
        v4_unsubscribe.write_frame v4_unsuback.write_frame emits_empty_frame
      split: option.splits)

lemma emits_write_v5:
  "wf_v5 p \<Longrightarrow> emits (write_v5 p) (length (frame (packet_byte1 p) (body_v5 p))) (frame (packet_byte1 p) (body_v5 p))"
  using v5_connack.write_frame v5_publish.write_frame v5_puback.write_frame v5_pubrec.write_frame
    v5_pubrel.write_frame v5_pubcomp.write_frame v5_subscribe.write_frame v5_suback.write_frame
    v5_unsubscribe.write_frame v5_unsuback.write_frame v5_disconnect.write_frame emits_empty_frame
  by (cases p) (fastforce simp: wf_v5_def write_v5_def packet_byte1_def body_v5_def)+

definition packet_ty :: "MqttPacket \<Rightarrow> PacketType" where
  "packet_ty p =
     (case p of
        P_Connect _ _ _ _ _ _ \<Rightarrow> T_Connect | P_ConnAck _ _ \<Rightarrow> T_ConnAck | P_Publish _ _ \<Rightarrow> T_Publish
      | P_PubAck _ _ \<Rightarrow> T_PubAck | P_PubRec _ _ \<Rightarrow> T_PubRec | P_PubRel _ _ \<Rightarrow> T_PubRel
      | P_PubComp _ _ \<Rightarrow> T_PubComp | P_Subscribe _ _ \<Rightarrow> T_Subscribe | P_SubAck _ _ \<Rightarrow> T_SubAck
      | P_Unsubscribe _ _ \<Rightarrow> T_Unsubscribe | P_UnsubAck _ _ \<Rightarrow> T_UnsubAck | P_PingReq \<Rightarrow> T_PingReq
      | P_PingResp \<Rightarrow> T_PingResp | P_Disconnect _ _ \<Rightarrow> T_Disconnect | P_Auth _ _ \<Rightarrow> T_Auth)"

lemma packet_type_frame:
  "packet_ty p \<noteq> T_Auth \<Longrightarrow> packet_type (frame_header (packet_byte1 p) b) = Ok (packet_ty p)"
  by (cases p) (simp_all add: packet_type_def packet_byte1_def packet_ty_def publish_byte1_bits Let_def)

lemma wf_packet_ty:
  "wf_v4 p \<Longrightarrow> packet_ty p \<noteq> T_Connect \<and> packet_ty p \<noteq> T_Auth"
  "wf_v5 p \<Longrightarrow> packet_ty p \<noteq> T_Connect \<and> packet_ty p \<noteq> T_Auth"
  by (cases p; simp add: wf_v4_def wf_v5_def packet_ty_def)+

lemma decode_v4_frame:
  "wf_v4 p \<Longrightarrow>
   decode_v4 (packet_ty p) (frame_header (packet_byte1 p) (body_v4 p)) (frame (packet_byte1 p) (body_v4 p)) =
     Ok (norm_v4 p)"
  using v4_connack.read_frame v4_publish.read_frame v4_puback.read_frame v4_pubrec.read_frame
    v4_pubrel.read_frame v4_pubcomp.read_frame v4_subscribe.read_frame v4_suback.read_frame
    v4_unsubscribe.read_frame v4_unsuback.read_frame
    v5_disconnect.read_frame [of "(\<lparr>reason_code = Some DR_NormalDisconnection\<rparr>, None)"]
  by (cases p)
     (auto simp: wf_v4_def packet_byte1_def body_v4_def packet_ty_def decode_v4_def norm_v4_def
      v5_disconnect_wf_def v5_disconnect_body_def split: option.splits)

lemma decode_v5_frame:
  "wf_v5 p \<Longrightarrow>
   decode_v5 (packet_ty p) (frame_header (packet_byte1 p) (body_v5 p)) (frame (packet_byte1 p) (body_v5 p)) =
     Ok (norm_v5 p)"
  using v5_connack.read_frame v5_publish.read_frame v5_puback.read_frame v5_pubrec.read_frame
    v5_pubrel.read_frame v5_pubcomp.read_frame v5_subscribe.read_frame v5_suback.read_frame
    v5_unsubscribe.read_frame v5_unsuback.read_frame v5_disconnect.read_frame
  by (cases p)
     (auto simp: wf_v5_def packet_byte1_def body_v5_def packet_ty_def decode_v5_def norm_v5_def)

lemma packet_wf_bound: "packet_wf v p \<Longrightarrow> length (packet_body v p) \<le> 268435455"
  by (simp add: packet_wf_def)

lemma emits_encode_data:
  assumes "packet_wf v p"
  shows "emits (encode_data \<lparr>w_protocol_version = v, w_packet = p\<rparr>) () (packet_frame v p)"
proof (cases "v = 5")
  case True
  with assms have "wf_v5 p" by (simp add: packet_wf_def)
  from emitsD [OF emits_write_v5 [OF this]] True show ?thesis
    by (simp add: emits_def encode_data_def packet_frame_def packet_body_def w_simps)
next
  case False
  with assms have "wf_v4 p" "v = 4 \<or> v = 3" by (auto simp: packet_wf_def)
  from emitsD [OF emits_write_v4 [OF this(1)]] this(2) False show ?thesis
    by (simp add: emits_def encode_data_def packet_frame_def packet_body_def w_simps)
qed

lemma decode_data_frame:
  assumes "packet_wf v p" and "protocol_version c = Some v"
  shows "decode_data c (packet_frame v p @ rest) = (Ok (Some (packet_norm v p)), c, rest)"
proof -
  have ty: "packet_ty p \<noteq> T_Connect" "packet_ty p \<noteq> T_Auth"
    using assms(1) wf_packet_ty [of p] by (auto simp: packet_wf_def split: if_splits)
  have "decode_versioned (Some v) (packet_ty p) (frame_header (packet_byte1 p) (packet_body v p))
      (frame (packet_byte1 p) (packet_body v p)) = Ok (packet_norm v p)"
    using assms(1) decode_v4_frame [of p] decode_v5_frame [of p]
    by (auto simp: decode_versioned_def packet_wf_def packet_body_def packet_norm_def split: if_splits)
  then show ?thesis
    using assms ty packet_type_frame [of p "packet_body v p"] packet_wf_bound [OF assms(1)]
    by (simp add: decode_data_def packet_frame_def take_frame_frame packet_wf_def)
qed
section \<open>Streams of packets\<close>

text \<open>
  \<open>decode_seq decode n s bs\<close> calls a decoder \<open>n\<close> times, as the framing loop of a connection
  does, and collects the packets.
\<close>

fun decode_seq ::
    "('s \<Rightarrow> bytes \<Rightarrow> 'q option res \<times> 's \<times> bytes) \<Rightarrow> nat \<Rightarrow> 's \<Rightarrow> bytes \<Rightarrow> 'q list res \<times> 's \<times> bytes" where
  "decode_seq decode 0 s bs = (Ok [], s, bs)"
| "decode_seq decode (Suc n) s bs =
     (case decode s bs of
        (Ok None, s, bs) \<Rightarrow> (Ok [], s, bs)
      | (Err e, s, bs) \<Rightarrow> (Err e, s, bs)
      | (Panic, s, bs) \<Rightarrow> (Panic, s, bs)
      | (Ok (Some p), s, bs) \<Rightarrow>
          (case decode_seq decode n s bs of
             (Ok ps, s, bs) \<Rightarrow> (Ok (p # ps), s, bs)
           | r \<Rightarrow> r))"

text \<open>The contract between the two ends of a connection.\<close>

locale stream_codec =
  fixes encode :: "'p \<Rightarrow> unit wr"
    and decode :: "'s \<Rightarrow> bytes \<Rightarrow> 'q option res \<times> 's \<times> bytes"
    and wf :: "'s \<Rightarrow> 'p \<Rightarrow> bool"
    and norm :: "'s \<Rightarrow> 'p \<Rightarrow> 'q"
    and frm :: "'s \<Rightarrow> 'p \<Rightarrow> bytes"
  assumes encode_frm: "wf s p \<Longrightarrow> emits (encode p) () (frm s p)"
    and decode_frm: "wf s p \<Longrightarrow> decode s (frm s p @ rest) = (Ok (Some (norm s p)), s, rest)"
begin

lemma encode_all:
  "\<forall>p \<in> set ps. wf s p \<Longrightarrow> w_for ps encode buf = (Ok (), buf @ concat (map (frm s) ps))"
  by (rule w_for_buf) (auto intro: encode_frm)

lemma decode_all:
  "\<forall>p \<in> set ps. wf s p \<Longrightarrow>
   decode_seq decode (length ps) s (concat (map (frm s) ps) @ rest) = (Ok (map (norm s) ps), s, rest)"
proof (induction ps)
  case (Cons p ps)
  then show ?case by (simp add: decode_frm)
qed simp

lemma stream_round_trip:
  assumes "\<forall>p \<in> set ps. wf s p"
  shows "\<exists>bs. w_for ps encode buf = (Ok (), buf @ bs) \<and>
    (\<forall>rest. decode_seq decode (length ps) s (bs @ rest) = (Ok (map (norm s) ps), s, rest))"
  using encode_all [OF assms] decode_all [OF assms] by blast

end

interpretation mqtt: stream_codec encode_data decode_data
  "\<lambda>c w. protocol_version c = Some (w_protocol_version w) \<and> packet_wf (w_protocol_version w) (w_packet w)"
  "\<lambda>c w. packet_norm (w_protocol_version w) (w_packet w)"
  "\<lambda>c w. packet_frame (w_protocol_version w) (w_packet w)"
proof unfold_locales
  fix c :: MqttCodec and w :: MqttPacketWrapper and rest
  assume wf: "protocol_version c = Some (w_protocol_version w) \<and>
    packet_wf (w_protocol_version w) (w_packet w)"
  then show "emits (encode_data w) () (packet_frame (w_protocol_version w) (w_packet w))"
    using emits_encode_data [of "w_protocol_version w" "w_packet w"] by (cases w) simp
  show "decode_data c (packet_frame (w_protocol_version w) (w_packet w) @ rest) =
      (Ok (Some (packet_norm (w_protocol_version w) (w_packet w))), c, rest)"
    using wf by (simp add: decode_data_frame)
qed

text \<open>The version-specific codecs have no state.\<close>

definition stateless :: "(bytes \<Rightarrow> 'q option res \<times> bytes) \<Rightarrow> unit \<Rightarrow> bytes \<Rightarrow> 'q option res \<times> unit \<times> bytes" where
  "stateless decode s bs = (case decode bs of (r, bs) \<Rightarrow> (r, (), bs))"

lemma mqtt4_decode_frame:
  assumes "packet_wf 4 p" and "packet_ty p \<noteq> T_Disconnect"
  shows "mqtt4_decode (packet_frame 4 p @ rest) = (Ok (Some (packet_norm 4 p)), rest)"
proof -
  have wf: "wf_v4 p" using assms(1) by (simp add: packet_wf_def)
  note ty = wf_packet_ty(1) [OF wf] packet_type_frame [of p "body_v4 p"]
  from assms wf ty decode_v4_frame [OF wf] packet_wf_bound [OF assms(1)] show ?thesis
    by (cases "packet_ty p")
       (simp_all add: mqtt4_decode_def packet_frame_def packet_norm_def take_frame_frame packet_wf_def
        packet_body_def)
qed

lemma mqtt5_decode_frame:
  assumes "packet_wf 5 p"
  shows "mqtt5_decode (packet_frame 5 p @ rest) = (Ok (Some (packet_norm 5 p)), rest)"
proof -
  have wf: "wf_v5 p" using assms(1) by (simp add: packet_wf_def)
  note ty = wf_packet_ty(2) [OF wf] packet_type_frame [of p "body_v5 p"]
  from assms wf ty decode_v5_frame [OF wf] packet_wf_bound [OF assms(1)] show ?thesis
    by (cases "packet_ty p")
       (simp_all add: mqtt5_decode_def packet_frame_def packet_norm_def take_frame_frame packet_wf_def
        packet_body_def)
qed

interpretation mqtt4: stream_codec mqtt4_encode "stateless mqtt4_decode"
  "\<lambda>_ p. packet_wf 4 p \<and> packet_ty p \<noteq> T_Disconnect" "\<lambda>_. packet_norm 4" "\<lambda>_. packet_frame 4"
proof unfold_locales
  fix s :: unit and p rest
  assume "packet_wf 4 p \<and> packet_ty p \<noteq> T_Disconnect"
  then show "emits (mqtt4_encode p) () (packet_frame 4 p)"
    "stateless mqtt4_decode s (packet_frame 4 p @ rest) = (Ok (Some (packet_norm 4 p)), s, rest)"
    using emits_encode_data [of 4 p]
    by (simp_all add: mqtt4_encode_def encode_data_def stateless_def mqtt4_decode_frame)
qed

interpretation mqtt5: stream_codec mqtt5_encode "stateless mqtt5_decode"
  "\<lambda>_. packet_wf 5" "\<lambda>_. packet_norm 5" "\<lambda>_. packet_frame 5"
proof unfold_locales
  fix s :: unit and p rest
  assume "packet_wf 5 p"
  then show "emits (mqtt5_encode p) () (packet_frame 5 p)"
    "stateless mqtt5_decode s (packet_frame 5 p @ rest) = (Ok (Some (packet_norm 5 p)), s, rest)"
    using emits_encode_data [of 5 p]
    by (simp_all add: mqtt5_encode_def encode_data_def stateless_def mqtt5_decode_frame)
qed

section \<open>No panics\<close>

lemma connect_read_Ok:
  "connect_read h bs = Ok out \<Longrightarrow> ro_protocol_version out \<in> {3, 4, 5}"
  by (auto simp: connect_read_def and_then_eq_Ok split: if_splits)

lemma connect_fields_not_Panic:
  "v4_will_read f bs \<noteq> Panic" "v4_login_read f bs \<noteq> Panic"
  "v5_will_read f bs \<noteq> Panic" "v5_login_read f bs \<noteq> Panic"
  by (auto simp: v4_will_read_def v4_login_read_def v5_will_read_def v5_login_read_def and_then_eq_Panic
      Let_def split: if_splits)

lemma connect_read_not_Panic:
  assumes "length packet = fixed_header_len h + remaining_len h"
  shows "connect_read h packet \<noteq> Panic"
proof -
  have adv: "advance (fixed_header_len h) packet = Ok (drop (fixed_header_len h) packet)"
    using assms by (simp add: advance_def)
  show ?thesis
    by (simp add: connect_read_def adv and_then_eq_Panic connect_fields_not_Panic split_beta)
qed

lemma packet_type_not_Panic [simp]: "packet_type h \<noteq> Panic"
  by (simp add: packet_type_def Let_def)

lemma packet_type_Ok: "packet_type h = Ok ty \<Longrightarrow> ty \<noteq> T_Auth"
  by (auto simp: packet_type_def Let_def split: if_splits)

lemma decode_v4_not_Panic:
  assumes "length packet = fixed_header_len h + remaining_len h" and "ty \<noteq> T_Connect" and "ty \<noteq> T_Auth"
  shows "decode_v4 ty h packet \<noteq> Panic"
  using assms(2,3) v4_readers_not_Panic [OF assms(1)] v5_disconnect_read_not_Panic [OF assms(1)]
  by (cases ty) (auto simp: decode_v4_def and_then_eq_Panic)

lemma decode_v5_not_Panic:
  assumes "length packet = fixed_header_len h + remaining_len h" and "ty \<noteq> T_Connect" and "ty \<noteq> T_Auth"
  shows "decode_v5 ty h packet \<noteq> Panic"
  using assms(2,3) v5_connack_read_not_Panic [OF assms(1)] v5_publish_read_not_Panic [OF assms(1)]
    v5_puback_read_not_Panic [OF assms(1)] v5_pubrec_read_not_Panic [OF assms(1)]
    v5_pubrel_read_not_Panic [OF assms(1)] v5_pubcomp_read_not_Panic [OF assms(1)]
    v5_subscribe_read_not_Panic [OF assms(1)] v5_suback_read_not_Panic [OF assms(1)]
    v5_unsubscribe_read_not_Panic [OF assms(1)] v5_unsuback_read_not_Panic [OF assms(1)]
    v5_disconnect_read_not_Panic [OF assms(1)]
  by (cases ty) (auto simp: decode_v5_def and_then_eq_Panic)

lemma decode_versioned_not_Panic:
  assumes "length packet = fixed_header_len h + remaining_len h" and "ty \<noteq> T_Connect" and "ty \<noteq> T_Auth"
  shows "decode_versioned v ty h packet \<noteq> Panic"
  using decode_v4_not_Panic [OF assms] decode_v5_not_Panic [OF assms]
  by (simp add: decode_versioned_def split: option.split)

section \<open>The connect packet opens the stream\<close>

lemma connect_read_v5:
  "v5_connect_read h bs = Ok out \<Longrightarrow> connect_read h bs = Ok out"
  by (auto simp: v5_connect_read_def connect_read_def and_then_eq_Ok split_beta split: if_splits)
     (rule exI [of _ 5], simp)

lemma connect_read_v4:
  assumes "v4_connect_read h bs = Ok (v, c, l, w)"
  shows "connect_read h bs =
    Ok \<lparr>ro_protocol_version = v, ro_connect = c, ro_properties = None, ro_last_will = w,
        ro_last_will_properties = None, ro_login = l\<rparr>"
proof -
  from assms obtain bs1 name bs2 name' bs3 where
      "advance (fixed_header_len h) bs = Ok bs1" "read_mqtt_bytes bs1 = Ok (name, bs2)"
      "from_utf8 name PayloadNotUtf8 = Ok name'" "read_u8 bs2 = Ok (v, bs3)"
      "name' = ''MQTT''" "v = 4 \<or> v = 3"
    by (fastforce simp: v4_connect_read_def and_then_eq_Ok split: if_splits)
  moreover from this have "read_mqtt_string bs1 = Ok (''MQTT'', bs2)"
    by (simp add: read_mqtt_string_def from_utf8_Ok from_utf8_as_bytes)
  ultimately show ?thesis
    using assms by (auto simp: v4_connect_read_def connect_read_def and_then_eq_Ok split_beta)
qed

lemma packet_type_connect: "packet_type (frame_header 0x10 body) = Ok T_Connect"
  by (simp add: packet_type_def)

lemma decode_connect_v5:
  assumes "v5_connect_wf c p w wp l" and "v5_connect_len c p w wp l \<le> 1000000"
  shows "decode_data codec (frame 0x10 (v5_connect_body c p w wp l) @ rest) =
    (Ok (Some (P_Connect 5 c (opt_props_norm v5_connect_properties_penc p) w
        (if w = None then None else opt_props_norm v5_willproperties_penc wp) (Option.bind l login_norm))),
     codec\<lparr>protocol_version := Some 5\<rparr>, rest)"
  using assms connect_read_v5 [OF v5_connect_read_body [OF assms(1)]]
  by (simp add: decode_data_def take_frame_frame length_v5_connect_body packet_type_connect v5_connect_norm_def)

lemma decode_connect_v4:
  assumes "v4_connect_wf c l w"
  shows "decode_data codec (frame 0x10 (v4_connect_body c l w) @ rest) =
    (Ok (Some (P_Connect 4 c None (map_option (v4_will_norm l) w) None (Option.bind l login_norm))),
     codec\<lparr>protocol_version := Some 4\<rparr>, rest)"
proof -
  have "v4_connect_len c l w \<le> 1000000"
    using assms by (cases w; cases l)
      (auto simp: v4_connect_wf_def v4_connect_len_def v4_login_len_def v4_will_len_def login_wf_def
        str_wf_def Let_def)
  then show ?thesis
    using v4_connect_len_bound [OF assms] connect_read_v4 [OF v4_connect_read_body [OF assms]]
    by (simp add: decode_data_def take_frame_frame length_v4_connect_body packet_type_connect)
qed

section \<open>Properties of the codec\<close>

text \<open>
  C2: packets written one after the other by \<open>encode_data\<close>, whatever is already in the
  buffer, are read back one after the other by \<open>decode_data\<close> of a codec that knows the version:
  the decoder returns every packet (up to the fields that the version does not carry),
  keeps the codec and consumes exactly the bytes that were written.
\<close>

theorem mqtt_stream_round_trip:
  assumes "protocol_version c = Some v" and "\<forall>p \<in> set ps. packet_wf v p"
  shows "\<exists>bs. w_for (map (\<lambda>p. \<lparr>w_protocol_version = v, w_packet = p\<rparr>) ps) encode_data buf = (Ok (), buf @ bs) \<and>
    (\<forall>rest. decode_seq decode_data (length ps) c (bs @ rest) = (Ok (map (packet_norm v) ps), c, rest))"
  using mqtt.stream_round_trip [of "map (\<lambda>p. \<lparr>w_protocol_version = v, w_packet = p\<rparr>) ps" c buf] assms
  by (simp add: comp_def)

theorem mqtt_stream_round_trip_witness:
  "\<exists>bs. w_for (map (\<lambda>p. \<lparr>w_protocol_version = 5, w_packet = p\<rparr>)
        [P_PingReq, P_PubAck \<lparr>pa_pkid = 7, pa_reason = Some PA_QuotaExceeded\<rparr> None]) encode_data [1] =
      (Ok (), [1] @ bs) \<and>
    (\<forall>rest. decode_seq decode_data
        (length [P_PingReq, P_PubAck \<lparr>pa_pkid = 7, pa_reason = Some PA_QuotaExceeded\<rparr> None])
        \<lparr>protocol_version = Some 5\<rparr> (bs @ rest) =
      (Ok (map (packet_norm 5) [P_PingReq, P_PubAck \<lparr>pa_pkid = 7, pa_reason = Some PA_QuotaExceeded\<rparr> None]),
       \<lparr>protocol_version = Some 5\<rparr>, rest))"
  by (rule mqtt_stream_round_trip)
     (simp_all add: packet_wf_def wf_v5_def packet_body_def body_v5_def v5_puback_wf_def
      v5_puback_body_def opt_props_wf_def opt_props_enc_def)

text \<open>
  C3: no sequence of bytes makes \<open>decode_data\<close> panic, in any state of the codec: neither an
  \<open>unreachable!()\<close> nor a slice out of range nor an arithmetic underflow is reached.
\<close>

theorem decode_data_no_panic: "fst (decode_data c stream) \<noteq> Panic"
proof (cases "take_frame 1000000 stream")
  case (Ok x)
  then obtain h pkt rest where x: "take_frame 1000000 stream = Ok (h, pkt, rest)" by (cases x) auto
  from take_frame_Ok [OF this] have len: "length pkt = fixed_header_len h + remaining_len h" by simp
  have "decode_versioned v ty h pkt \<noteq> Panic" if "packet_type h = Ok ty" "ty \<noteq> T_Connect" for v ty
    using decode_versioned_not_Panic [OF len that(2) packet_type_Ok [OF that(1)]] .
  then show ?thesis
    using connect_read_not_Panic [OF len] connect_read_Ok [of h pkt]
    by (auto simp: decode_data_def x Let_def and_then_eq_Panic split: result.splits)
qed (simp_all add: decode_data_def)

text \<open>
  C15: a decoder that returns a packet has cut a non-empty prefix off the stream and left the
  rest untouched; one that fails because the frame is incomplete or too large has left codec
  and stream as they were.
\<close>

theorem decode_data_progress:
  assumes "decode_data c stream = (r, c', stream')"
  shows "(\<exists>fr. stream = fr @ stream') \<and> (is_ok r \<longrightarrow> length stream' < length stream) \<and>
    (\<not> is_ok (check stream 1000000) \<longrightarrow> c' = c \<and> stream' = stream)"
proof (cases "take_frame 1000000 stream")
  case (Ok x)
  then obtain h pkt rest where x: "take_frame 1000000 stream = Ok (h, pkt, rest)" by (cases x) auto
  from take_frame_Ok [OF x] have s: "stream = pkt @ rest" and ne: "pkt \<noteq> []" by auto
  have "stream' = rest"
    using assms by (auto simp: decode_data_def x Let_def split: result.splits if_splits)
  moreover have "is_ok (check stream 1000000)"
    using x by (auto simp: take_frame_def and_then_eq_Ok)
  ultimately show ?thesis using s ne by auto
qed (use assms in \<open>auto simp: decode_data_def\<close>)

theorem decode_data_progress_witness:
  "let c = \<lparr>protocol_version = Some 4\<rparr>; full = decode_data c [0xC0, 0, 9]; part = decode_data c [0xC0] in
   full = (Ok (Some P_PingReq), c, [9]) \<and> (\<exists>fr. [0xC0, 0, 9] = fr @ snd (snd full)) \<and>
   length (snd (snd full)) < 3 \<and> snd part = (c, [0xC0])"
proof -
  have "packet_wf 4 P_PingReq" and "packet_frame 4 P_PingReq = [0xC0, 0]"
    by (simp_all add: packet_wf_def wf_v4_def packet_body_def body_v4_def packet_frame_def packet_byte1_def
        frame_def vbi_small)
  from decode_data_frame [OF this(1), of "\<lparr>protocol_version = Some 4\<rparr>" "[9]"] this(2)
  have full: "decode_data \<lparr>protocol_version = Some 4\<rparr> [0xC0, 0, 9] =
      (Ok (Some P_PingReq), \<lparr>protocol_version = Some 4\<rparr>, [9])"
    by (simp add: packet_norm_def norm_v4_def)
  obtain r c' s' where part: "decode_data \<lparr>protocol_version = Some 4\<rparr> [0xC0] = (r, c', s')"
    by (metis surj_pair)
  have "\<not> is_ok (check [0xC0] 1000000)"
    by (simp add: check_def parse_fixed_header_def)
  with decode_data_progress [OF full] decode_data_progress [OF part] full part show ?thesis
    by (simp add: Let_def)
qed

text \<open>
  C14: of an incomplete packet the decoder asks for more bytes, whatever the cut, with
  \<open>Err(InsufficientBytes(n))\<close> for some positive \<open>n\<close>, and leaves codec and stream as they were.
  (A tokio decoder would return \<open>Ok(None)\<close> here; an error ends the framed stream.)
\<close>

theorem decode_data_truncated:
  assumes "packet_wf v p" and "k < length (packet_frame v p)"
  shows "\<exists>n > 0. decode_data c (take k (packet_frame v p)) =
    (Err (InsufficientBytes n), c, take k (packet_frame v p))"
  using check_prefix [OF packet_wf_bound [OF assms(1)], of 1000000 k "packet_byte1 p"] assms
  by (auto simp: decode_data_def take_frame_def packet_frame_def packet_wf_def)

theorem decode_data_truncated_witness:
  "\<exists>n > 0. decode_data \<lparr>protocol_version = None\<rparr>
      (take 3 (packet_frame 4 (P_PubRel \<lparr>pl_pkid = 7, pl_reason = None\<rparr> None))) =
    (Err (InsufficientBytes n), \<lparr>protocol_version = None\<rparr>,
     take 3 (packet_frame 4 (P_PubRel \<lparr>pl_pkid = 7, pl_reason = None\<rparr> None)))"
  by (rule decode_data_truncated)
     (simp_all add: packet_wf_def wf_v4_def packet_body_def body_v4_def packet_frame_def frame_def vbi_small)

text \<open>
  C1: a whole session of MQTT 5.  A fresh codec reads the connect packet that
  \<open>connect::write\<close> put at the start of an empty buffer, learns version 5 from it, and then
  reads every packet that was appended after it.  The packets come back in the normal form of the
  reader: property lists without content, an empty login and the properties of a missing will
  come back as \<open>None\<close>, the codes of a SubAck as the code that shares their byte.
\<close>

theorem mqtt5_session_round_trip:
  assumes "v5_connect_wf c p w wp l" and "v5_connect_len c p w wp l \<le> 1000000"
    and "\<forall>q \<in> set ps. packet_wf 5 q"
  shows "\<exists>bs. w_for (map (\<lambda>q. \<lparr>w_protocol_version = 5, w_packet = q\<rparr>) (P_Connect 5 c p w wp l # ps))
        encode_data [] = (Ok (), bs) \<and>
    (\<forall>rest. decode_seq decode_data (Suc (length ps)) (mqtt_codec_new None) (bs @ rest) =
      (Ok (P_Connect 5 c (opt_props_norm v5_connect_properties_penc p) w
             (if w = None then None else opt_props_norm v5_willproperties_penc wp)
             (Option.bind l login_norm) # map (packet_norm 5) ps),
       mqtt_codec_new (Some 5), rest))"
proof -
  let ?ws = "map (\<lambda>q. \<lparr>w_protocol_version = 5, w_packet = q\<rparr>) ps"
  let ?fr = "frame 0x10 (v5_connect_body c p w wp l)"
  from assms(3) have wf: "\<forall>x \<in> set ?ws. protocol_version \<lparr>protocol_version = Some 5\<rparr> = Some (w_protocol_version x) \<and>
      packet_wf (w_protocol_version x) (w_packet x)" by auto
  from mqtt.stream_round_trip [OF wf, of ?fr] obtain bs
    where enc: "w_for ?ws encode_data ?fr = (Ok (), ?fr @ bs)"
      and dec: "\<And>rest. decode_seq decode_data (length ps) \<lparr>protocol_version = Some 5\<rparr> (bs @ rest) =
        (Ok (map (packet_norm 5) ps), \<lparr>protocol_version = Some 5\<rparr>, rest)"
    by (auto simp: comp_def)
  have "encode_data \<lparr>w_protocol_version = 5, w_packet = P_Connect 5 c p w wp l\<rparr> [] = (Ok (), ?fr)"
    by (simp add: encode_data_def write_v5_def w_simps v5_connect_write_empty [OF assms(1)])
  with enc have "w_for (map (\<lambda>q. \<lparr>w_protocol_version = 5, w_packet = q\<rparr>) (P_Connect 5 c p w wp l # ps))
      encode_data [] = (Ok (), ?fr @ bs)"
    by (simp add: w_for_def w_bind_def)
  with dec decode_connect_v5 [OF assms(1,2)] show ?thesis
    by (intro exI [of _ "?fr @ bs"]) (simp add: mqtt_codec_new_def)
qed

theorem mqtt5_session_round_trip_witness:
  "\<exists>bs. w_for (map (\<lambda>q. \<lparr>w_protocol_version = 5, w_packet = q\<rparr>)
        (P_Connect 5 \<lparr>keep_alive = 30, client_id = [], clean_session = True\<rparr> None None None None # [P_PingReq]))
        encode_data [] = (Ok (), bs) \<and>
    (\<forall>rest. decode_seq decode_data (Suc (length [P_PingReq])) (mqtt_codec_new None) (bs @ rest) =
      (Ok (P_Connect 5 \<lparr>keep_alive = 30, client_id = [], clean_session = True\<rparr>
             (opt_props_norm v5_connect_properties_penc None) None
             (if (None :: LastWill option) = None then None else opt_props_norm v5_willproperties_penc None)
             (Option.bind None login_norm) # map (packet_norm 5) [P_PingReq]),
       mqtt_codec_new (Some 5), rest))"
  by (rule mqtt5_session_round_trip)
     (simp_all add: v5_connect_wf_def str_wf_def valid_str_def opt_props_wf_def v5_connect_len_def
      opt_props_len_def packet_wf_def wf_v5_def packet_body_def body_v5_def)

text \<open>
  C13: a whole session of MQTT 3.1.1, likewise, up to what this version cannot carry: reasons of
  acknowledgements and of disconnect come back as success, subscription options as their defaults,
  an UnsubAck without reasons.  The retain flag of the will comes back as whether a password was
  sent (\<open>v4_will_norm\<close>).
\<close>

theorem mqtt4_session_round_trip:
  assumes "v4_connect_wf c l w" and "\<forall>q \<in> set ps. packet_wf 4 q"
  shows "\<exists>bs. w_for (map (\<lambda>q. \<lparr>w_protocol_version = 4, w_packet = q\<rparr>) (P_Connect 4 c None w None l # ps))
        encode_data [] = (Ok (), bs) \<and>
    (\<forall>rest. decode_seq decode_data (Suc (length ps)) (mqtt_codec_new None) (bs @ rest) =
      (Ok (P_Connect 4 c None (map_option (v4_will_norm l) w) None (Option.bind l login_norm) #
           map (packet_norm 4) ps), mqtt_codec_new (Some 4), rest))"
proof -
  let ?ws = "map (\<lambda>q. \<lparr>w_protocol_version = 4, w_packet = q\<rparr>) ps"
  let ?fr = "frame 0x10 (v4_connect_body c l w)"
  from assms(2) have wf: "\<forall>x \<in> set ?ws. protocol_version \<lparr>protocol_version = Some 4\<rparr> = Some (w_protocol_version x) \<and>
      packet_wf (w_protocol_version x) (w_packet x)" by auto
  from mqtt.stream_round_trip [OF wf, of ?fr] obtain bs
    where enc: "w_for ?ws encode_data ?fr = (Ok (), ?fr @ bs)"
      and dec: "\<And>rest. decode_seq decode_data (length ps) \<lparr>protocol_version = Some 4\<rparr> (bs @ rest) =
        (Ok (map (packet_norm 4) ps), \<lparr>protocol_version = Some 4\<rparr>, rest)"
    by (auto simp: comp_def)
  have "encode_data \<lparr>w_protocol_version = 4, w_packet = P_Connect 4 c None w None l\<rparr> [] = (Ok (), ?fr)"
    by (simp add: encode_data_def write_v4_def w_simps v4_connect_write_empty [OF assms(1)])
  with enc have "w_for (map (\<lambda>q. \<lparr>w_protocol_version = 4, w_packet = q\<rparr>) (P_Connect 4 c None w None l # ps))
      encode_data [] = (Ok (), ?fr @ bs)"
    by (simp add: w_for_def w_bind_def)
  with dec decode_connect_v4 [OF assms(1)] show ?thesis
    by (intro exI [of _ "?fr @ bs"]) (simp add: mqtt_codec_new_def)
qed

theorem mqtt4_session_round_trip_witness:
  "\<exists>bs. w_for (map (\<lambda>q. \<lparr>w_protocol_version = 4, w_packet = q\<rparr>)
        (P_Connect 4 \<lparr>keep_alive = 30, client_id = [], clean_session = True\<rparr> None None None None # [P_PingReq]))
        encode_data [] = (Ok (), bs) \<and>
    (\<forall>rest. decode_seq decode_data (Suc (length [P_PingReq])) (mqtt_codec_new None) (bs @ rest) =
      (Ok (P_Connect 4 \<lparr>keep_alive = 30, client_id = [], clean_session = True\<rparr> None
             (map_option (v4_will_norm None) None) None (Option.bind None login_norm) #
           map (packet_norm 4) [P_PingReq]), mqtt_codec_new (Some 4), rest))"
  by (rule mqtt4_session_round_trip)
     (simp_all add: v4_connect_wf_def str_wf_def valid_str_def packet_wf_def wf_v4_def packet_body_def body_v4_def)

text \<open>
  C16: the size that \<open>calc_mqtt_packet_size\<close> reports for the metrics is the number of bytes that
  \<open>encode_data\<close> appends, for every encodable packet but connect.
\<close>

theorem calc_mqtt_packet_size_exact:
  assumes "packet_wf v p"
  shows "calc_mqtt_packet_size \<lparr>w_protocol_version = v, w_packet = p\<rparr> = Ok (length (packet_frame v p)) \<and>
    encode_data \<lparr>w_protocol_version = v, w_packet = p\<rparr> buf = (Ok (), buf @ packet_frame v p)"
proof
  show "encode_data \<lparr>w_protocol_version = v, w_packet = p\<rparr> buf = (Ok (), buf @ packet_frame v p)"
    by (rule emitsD [OF emits_encode_data [OF assms]])
  show "calc_mqtt_packet_size \<lparr>w_protocol_version = v, w_packet = p\<rparr> = Ok (length (packet_frame v p))"
    using assms emitsD [OF emits_write_v4 [of p], of "[]"] emitsD [OF emits_write_v5 [of p], of "[]"]
    by (auto simp: calc_mqtt_packet_size_def calc_mqtt_packet_len_def packet_wf_def packet_frame_def
        packet_body_def split: if_splits)
qed

theorem calc_mqtt_packet_size_exact_witness:
  "calc_mqtt_packet_size \<lparr>w_protocol_version = 5, w_packet = P_PingResp\<rparr> = Ok (length (packet_frame 5 P_PingResp)) \<and>
    encode_data \<lparr>w_protocol_version = 5, w_packet = P_PingResp\<rparr> [] = (Ok (), [] @ packet_frame 5 P_PingResp)"
  by (rule calc_mqtt_packet_size_exact) (simp add: packet_wf_def wf_v5_def packet_body_def body_v5_def)

text \<open>
  For a connect packet the reported size leaves out the fixed header: it is two to five
  bytes smaller than what is written.
\<close>

theorem calc_mqtt_packet_size_connect:
  assumes "v5_connect_wf c p w wp l"
  shows "\<exists>n. calc_mqtt_packet_size \<lparr>w_protocol_version = 5, w_packet = P_Connect 5 c p w wp l\<rparr> = Ok n \<and>
    length (snd (encode_data \<lparr>w_protocol_version = 5, w_packet = P_Connect 5 c p w wp l\<rparr> [])) =
      n + 1 + len_len n"
proof -
  have "v5_connect_len c p w wp l \<le> 268435455" using assms by (simp add: v5_connect_wf_def)
  then show ?thesis
    using v5_connect_write_empty [OF assms] length_v5_connect_body [OF assms]
    by (simp add: calc_mqtt_packet_size_def calc_mqtt_packet_len_def encode_data_def write_v5_def w_simps
        frame_def length_vbi)
qed

theorem calc_mqtt_packet_size_connect_witness:
  "\<exists>n. calc_mqtt_packet_size \<lparr>w_protocol_version = 5, w_packet =
        P_Connect 5 \<lparr>keep_alive = 30, client_id = [], clean_session = True\<rparr> None None None None\<rparr> = Ok n \<and>
    length (snd (encode_data \<lparr>w_protocol_version = 5, w_packet =
        P_Connect 5 \<lparr>keep_alive = 30, client_id = [], clean_session = True\<rparr> None None None None\<rparr> [])) =
      n + 1 + len_len n"
  by (rule calc_mqtt_packet_size_connect)
     (simp add: v5_connect_wf_def str_wf_def valid_str_def opt_props_wf_def v5_connect_len_def opt_props_len_def)

end
