(* ===== verification/Rust_Std.thy ===== *)
theory Rust_Std
  imports Rust_Prelude "HOL-Library.AList" "HOL-Library.Sublist"
begin

text \<open>
  The parts of the Rust standard library and of its idioms that the stateful components of
  the broker use.

  \<^item> An \<open>async fn\<close> that works on shared state and returns a \<open>Result\<close> is a program
    \<open>('s, 'a, 'e) prog\<close>: it takes the state and returns the result with the state as it
    leaves it, on error paths too.  \<open>s_bind\<close> is the question mark operator.
  \<^item> \<open>DashMap<K, V>\<close> and \<open>HashMap<K, V>\<close> are association lists with distinct keys.  The
    order of the list stands for the iteration order, about which Rust promises nothing; no
    theorem relies on it.
  \<^item> Additions on \<open>u64\<close> are checked: an overflow is a panic.
  \<^item> \<open>format!\<close> of integers is written out in decimal.
\<close>

named_theorems st_simps \<open>evaluation of programs on a state\<close>
named_theorems dm_simps \<open>lookups after updates of a map\<close>

section \<open>Programs\<close>

type_synonym ('s, 'a, 'e) prog = "'s \<Rightarrow> ('a, 'e) result \<times> 's"

definition s_ok :: "'a \<Rightarrow> ('s, 'a, 'e) prog" where
  "s_ok x s = (Ok x, s)"

definition s_err :: "'e \<Rightarrow> ('s, 'a, 'e) prog" where
  "s_err e s = (Err e, s)"

definition s_lift :: "('a, 'e) result \<Rightarrow> ('s, 'a, 'e) prog" where
  "s_lift r s = (r, s)"

definition s_get :: "('s \<Rightarrow> 'a) \<Rightarrow> ('s, 'a, 'e) prog" where
  "s_get f s = (Ok (f s), s)"

definition s_upd :: "('s \<Rightarrow> 's) \<Rightarrow> ('s, unit, 'e) prog" where
  "s_upd f s = (Ok (), f s)"

definition s_bind :: "('s, 'a, 'e) prog \<Rightarrow> ('a \<Rightarrow> ('s, 'b, 'e) prog) \<Rightarrow> ('s, 'b, 'e) prog" where
  "s_bind m f s =
     (case m s of
        (Ok x, s') \<Rightarrow> f x s'
      | (Err e, s') \<Rightarrow> (Err e, s')
      | (Panic, s') \<Rightarrow> (Panic, s'))"

text \<open>\<open>match m { Ok(x) => f(x), Err(e) => h(e) }\<close>\<close>

definition s_match ::
    "('s, 'a, 'e) prog \<Rightarrow> ('a \<Rightarrow> ('s, 'b, 'd) prog) \<Rightarrow> ('e \<Rightarrow> ('s, 'b, 'd) prog) \<Rightarrow> ('s, 'b, 'd) prog" where
  "s_match m f h s =
     (case m s of
        (Ok x, s') \<Rightarrow> f x s'
      | (Err e, s') \<Rightarrow> h e s'
      | (Panic, s') \<Rightarrow> (Panic, s'))"

primrec s_for :: "'a list \<Rightarrow> ('a \<Rightarrow> ('s, unit, 'e) prog) \<Rightarrow> ('s, unit, 'e) prog" where
  "s_for [] f = s_ok ()"
| "s_for (x # xs) f = s_bind (f x) (\<lambda>_. s_for xs f)"

text \<open>A \<open>for\<close> loop with an accumulator.\<close>

primrec s_fold :: "('a \<Rightarrow> 'b \<Rightarrow> ('s, 'b, 'e) prog) \<Rightarrow> 'a list \<Rightarrow> 'b \<Rightarrow> ('s, 'b, 'e) prog" where
  "s_fold f [] acc = s_ok acc"
| "s_fold f (x # xs) acc = s_bind (f x acc) (s_fold f xs)"

lemma s_simps [st_simps]:
  "s_ok x s = (Ok x, s)" "s_err e s = (Err e, s)" "s_lift r s = (r, s)"
  "s_get g s = (Ok (g s), s)" "s_upd u s = (Ok (), u s)"
  by (simp_all add: s_ok_def s_err_def s_lift_def s_get_def s_upd_def)

lemma s_ok_eq: "s_ok x s = (r, s') \<longleftrightarrow> r = Ok x \<and> s' = s"
  by (auto simp: s_ok_def)

lemma s_err_eq: "s_err e s = (r, s') \<longleftrightarrow> r = Err e \<and> s' = s"
  by (auto simp: s_err_def)

lemma s_lift_eq: "s_lift x s = (r, s') \<longleftrightarrow> x = r \<and> s' = s"
  by (auto simp: s_lift_def)

lemma s_get_eq: "s_get g s = (r, s') \<longleftrightarrow> r = Ok (g s) \<and> s' = s"
  by (auto simp: s_get_def)

lemma s_upd_eq: "s_upd u s = (r, s') \<longleftrightarrow> r = Ok () \<and> s' = u s"
  by (auto simp: s_upd_def)

lemma s_match_eq_Ok:
  "s_match m f h s = (Ok y, s'') \<longleftrightarrow>
    (\<exists>x s'. m s = (Ok x, s') \<and> f x s' = (Ok y, s'')) \<or> (\<exists>e s'. m s = (Err e, s') \<and> h e s' = (Ok y, s''))"
  by (auto simp: s_match_def split: prod.split result.split)

lemmas s_eqs = s_ok_eq s_err_eq s_lift_eq s_get_eq s_upd_eq

lemma s_bind_simps [st_simps]:
  "m s = (Ok x, s') \<Longrightarrow> s_bind m f s = f x s'"
  "m s = (Err e, s') \<Longrightarrow> s_bind m f s = (Err e, s')"
  "m s = (Panic, s') \<Longrightarrow> s_bind m f s = (Panic, s')"
  by (simp_all add: s_bind_def)

lemma s_match_simps [st_simps]:
  "m s = (Ok x, s') \<Longrightarrow> s_match m f h s = f x s'"
  "m s = (Err e, s') \<Longrightarrow> s_match m f h s = h e s'"
  "m s = (Panic, s') \<Longrightarrow> s_match m f h s = (Panic, s')"
  by (simp_all add: s_match_def)

lemma s_bind_eq_Ok:
  "s_bind m f s = (Ok y, s'') \<longleftrightarrow> (\<exists>x s'. m s = (Ok x, s') \<and> f x s' = (Ok y, s''))"
  by (auto simp: s_bind_def split: prod.split result.split)

lemma s_bind_eq:
  "s_bind m f s = (r, s'') \<longleftrightarrow>
    (\<exists>x s'. m s = (Ok x, s') \<and> f x s' = (r, s'')) \<or>
    (\<exists>e. m s = (Err e, s'') \<and> r = Err e) \<or> (m s = (Panic, s'') \<and> r = Panic)"
  by (auto simp: s_bind_def split: prod.split result.split)

lemma unwrap_eq_Ok [simp]: "unwrap opt = Ok x \<longleftrightarrow> opt = Some x"
  by (cases opt) auto

section \<open>Maps\<close>

type_synonym ('k, 'v) dashmap = "('k \<times> 'v) list"

abbreviation dm_get :: "('k, 'v) dashmap \<Rightarrow> 'k \<Rightarrow> 'v option" where
  "dm_get \<equiv> map_of"

abbreviation dm_insert :: "'k \<Rightarrow> 'v \<Rightarrow> ('k, 'v) dashmap \<Rightarrow> ('k, 'v) dashmap" where
  "dm_insert \<equiv> AList.update"

abbreviation dm_remove :: "'k \<Rightarrow> ('k, 'v) dashmap \<Rightarrow> ('k, 'v) dashmap" where
  "dm_remove \<equiv> AList.delete"

definition dm_contains :: "('k, 'v) dashmap \<Rightarrow> 'k \<Rightarrow> bool" where
  "dm_contains m k = (dm_get m k \<noteq> None)"

definition dm_values :: "('k, 'v) dashmap \<Rightarrow> 'v list" where
  "dm_values m = map snd m"

definition dm_wf :: "('k, 'v) dashmap \<Rightarrow> bool" where
  "dm_wf m = distinct (map fst m)"

lemma dm_get_insert [dm_simps]: "dm_get (dm_insert k v m) k' = (if k' = k then Some v else dm_get m k')"
  by (simp add: update_conv')

lemma dm_get_remove [dm_simps]: "dm_get (dm_remove k m) k' = (if k' = k then None else dm_get m k')"
  by (simp add: delete_conv')

lemma dm_wf_Nil [simp]: "dm_wf []"
  by (simp add: dm_wf_def)

lemma dm_wf_insert [simp]: "dm_wf m \<Longrightarrow> dm_wf (dm_insert k v m)"
  by (simp add: dm_wf_def distinct_update)

lemma dm_wf_remove [simp]: "dm_wf m \<Longrightarrow> dm_wf (dm_remove k m)"
  by (simp add: dm_wf_def distinct_delete)

lemma dm_get_in_set: "dm_wf m \<Longrightarrow> dm_get m k = Some v \<longleftrightarrow> (k, v) \<in> set m"
  by (simp add: dm_wf_def map_of_eq_Some_iff)

lemma set_dm_values: "dm_wf m \<Longrightarrow> set (dm_values m) = ran (dm_get m)"
  by (force simp: dm_values_def dm_wf_def ran_def map_of_eq_Some_iff)

section \<open>Integers\<close>

definition u64_add :: "u64 \<Rightarrow> u64 \<Rightarrow> (u64, 'e) result" where
  "u64_add a b = (if unat a + unat b < 2 ^ 64 then Ok (a + b) else Panic)"

lemma u64_add_ok: "unat a + unat b < 2 ^ 64 \<Longrightarrow> u64_add a b = Ok (a + b)"
  by (simp add: u64_add_def)

lemma unat_u64_add: "unat a + unat b < 2 ^ 64 \<Longrightarrow> unat (a + b :: u64) = unat a + unat b"
  by (simp add: unat_word_ariths)

lemma unat_word_of_nat_u64: "n < 2 ^ 64 \<Longrightarrow> unat (word_of_nat n :: u64) = n"
  by (simp add: unat_of_nat take_bit_nat_eq_self_iff)

section \<open>Formatting\<close>

definition digit_char :: "nat \<Rightarrow> char" where
  "digit_char d = char_of (48 + d)"

fun show_nat :: "nat \<Rightarrow> string" where
  "show_nat n = (if n < 10 then [digit_char n] else show_nat (n div 10) @ [digit_char (n mod 10)])"

declare show_nat.simps [simp del]

text \<open>\<open>{:020}\<close>\<close>

definition show_020 :: "u64 \<Rightarrow> string" where
  "show_020 x = (let s = show_nat (unat x) in replicate (20 - length s) (CHR ''0'') @ s)"

lemma length_show_nat: "n < 10 ^ Suc k \<Longrightarrow> length (show_nat n) \<le> Suc k"
proof (induction k arbitrary: n)
  case 0
  then show ?case by (simp add: show_nat.simps [of n])
next
  case (Suc k)
  have "n div 10 < 10 ^ Suc k" using Suc.prems by (simp add: less_mult_imp_div_less)
  from Suc.IH [OF this] show ?case by (simp add: show_nat.simps [of n])
qed

fun read_digits :: "nat \<Rightarrow> string \<Rightarrow> nat" where
  "read_digits acc [] = acc"
| "read_digits acc (c # cs) = read_digits (10 * acc + (of_char c - 48)) cs"

lemma read_digits_append: "read_digits acc (xs @ ys) = read_digits (read_digits acc xs) ys"
  by (induction acc xs rule: read_digits.induct) simp_all

lemma of_digit_char: "d < 10 \<Longrightarrow> of_char (digit_char d) = (48 + d :: nat)"
  by (simp add: digit_char_def)

lemma digit_char_inject: "a < 10 \<Longrightarrow> b < 10 \<Longrightarrow> digit_char a = digit_char b \<longleftrightarrow> a = b"
  by (metis add_left_cancel of_digit_char)

lemma read_digits_show_nat: "read_digits 0 (show_nat n) = n"
proof (induction n rule: show_nat.induct)
  case (1 n)
  then show ?case
    by (cases "n < 10") (simp_all add: show_nat.simps [of n] read_digits_append of_digit_char)
qed

lemma read_digits_zeros: "read_digits 0 (replicate k (CHR ''0'') @ s) = read_digits 0 s"
  by (induction k) simp_all

lemma show_nat_inject: "show_nat m = show_nat n \<longleftrightarrow> m = n"
  using read_digits_show_nat by metis

lemma show_020_inject: "show_020 x = show_020 y \<longleftrightarrow> x = y"
proof
  assume "show_020 x = show_020 y"
  then have "read_digits 0 (show_020 x) = read_digits 0 (show_020 y)" by simp
  then have "unat x = unat y"
    by (simp add: show_020_def Let_def read_digits_zeros read_digits_show_nat)
  then show "x = y" by (simp add: word_unat_eq_iff)
qed simp

lemma length_show_020 [simp]: "length (show_020 x) = 20"
proof -
  have "unat x < 2 ^ LENGTH(64)" by (rule unsigned_less)
  then have "unat x < 10 ^ 20" by simp
  then have "length (show_nat (unat x)) \<le> 20" using length_show_nat [of "unat x" 19] by simp
  then show ?thesis by (simp add: show_020_def Let_def)
qed

end
