(* ===== verification/Storage_Types.thy ===== *)
theory Storage_Types
  imports Rust_Std
begin

text \<open>
  The interface of the message storage: the data of \<open>src/common/metadata-struct/src/adapter\<close>
  and of \<open>src/storage-adapter/src/storage.rs\<close>, the trait \<open>StorageAdapter\<close> as the record of its
  methods, and the contract that the components above it rely on, as the locale
  \<open>shard_log\<close>: a shard is a log that grows at its end, and a record is found at its offset.

  The checksum \<open>calc_crc32\<close>, which wraps the crate \<open>crc32fast\<close>, and the clock \<open>now_second\<close> are
  arguments.
\<close>

section \<open>Data\<close>

datatype CommonError =
    CommonError string
  | FromSerdeJsonError string
  | FromRocksdbError string
  | FromUtf8Error
  | FromParseIntError
  | TokioBroadcastSendErrorBool
  | ParameterCannotBeNull string
  | InvalidParameterFormat string string
  | NotSupportFeature string string
  | UnavailableClusterType
  | ClusterNoAvailableNode
  | RocksDBFamilyNotAvailable string
  | NoAvailableGrpcConnection string string
  | CrcCheckByMessage

record Header =
  h_name :: string
  h_value :: string

record Record =
  r_offset :: "u64 option"
  r_header :: "Header list"
  r_key :: string
  r_data :: bytes
  r_tags :: "string list"
  r_timestamp :: u64
  r_delay_timestamp :: u64
  r_crc_num :: u32

definition build_byte :: "(bytes \<Rightarrow> u32) \<Rightarrow> u64 \<Rightarrow> bytes \<Rightarrow> Record" where
  "build_byte calc_crc32 now_second data =
     \<lparr>r_offset = None, r_header = [], r_key = [], r_data = data, r_tags = [],
      r_timestamp = now_second, r_delay_timestamp = 0, r_crc_num = calc_crc32 data\<rparr>"

definition build_str :: "(bytes \<Rightarrow> u32) \<Rightarrow> u64 \<Rightarrow> string \<Rightarrow> Record" where
  "build_str calc_crc32 now_second data =
     \<lparr>r_offset = None, r_header = [], r_key = [], r_data = as_bytes data, r_tags = [],
      r_timestamp = now_second, r_delay_timestamp = 0, r_crc_num = calc_crc32 (as_bytes data)\<rparr>"

definition set_tags :: "Record \<Rightarrow> string list \<Rightarrow> Record" where
  "set_tags self tags = self\<lparr>r_tags := tags\<rparr>"

definition set_header :: "Record \<Rightarrow> Header list \<Rightarrow> Record" where
  "set_header self headers = self\<lparr>r_header := headers\<rparr>"

definition set_key :: "Record \<Rightarrow> string \<Rightarrow> Record" where
  "set_key self key = self\<lparr>r_key := key\<rparr>"

definition crc32_check :: "(bytes \<Rightarrow> u32) \<Rightarrow> Record \<Rightarrow> bool" where
  "crc32_check calc_crc32 self = (let crc_num = calc_crc32 (r_data self) in crc_num = r_crc_num self)"

record ReadConfig =
  max_record_num :: u64
  max_size :: u64

definition read_config_new :: ReadConfig where
  "read_config_new = \<lparr>max_record_num = 10, max_size = 1024 * 1024 * 1024\<rparr>"

record ShardInfo =
  si_namespace :: string
  si_shard_name :: string
  si_replica_num :: u32

record ShardOffset =
  so_namespace :: string
  so_shard_name :: string
  so_segment_no :: u32
  so_offset :: u64

text \<open>\<open>..Default::default()\<close>\<close>

definition shard_offset_default :: ShardOffset where
  "shard_offset_default = \<lparr>so_namespace = [], so_shard_name = [], so_segment_no = 0, so_offset = 0\<rparr>"

datatype StorageType = ST_Journal | ST_Memory | ST_Mysql | ST_Placement | ST_RocksDB | ST_MinIO

definition storage_type_from_str :: "string \<Rightarrow> (StorageType, unit) result" where
  "storage_type_from_str s =
     (if s = ''journal'' then Ok ST_Journal
      else if s = ''memory'' then Ok ST_Memory
      else if s = ''mysql'' then Ok ST_Mysql
      else if s = ''placement'' then Ok ST_Placement
      else if s = ''rocksdb'' then Ok ST_RocksDB
      else if s = ''minio'' then Ok ST_MinIO
      else Err ())"

section \<open>The trait\<close>

type_synonym ('s, 'a) cprog = "('s, 'a, CommonError) prog"

record 's StorageAdapter =
  sa_create_shard :: "ShardInfo \<Rightarrow> ('s, unit) cprog"
  sa_list_shard :: "string \<Rightarrow> string \<Rightarrow> ('s, ShardInfo list) cprog"
  sa_delete_shard :: "string \<Rightarrow> string \<Rightarrow> ('s, unit) cprog"
  sa_write :: "string \<Rightarrow> string \<Rightarrow> Record \<Rightarrow> ('s, u64) cprog"
  sa_batch_write :: "string \<Rightarrow> string \<Rightarrow> Record list \<Rightarrow> ('s, u64 list) cprog"
  sa_read_by_offset :: "string \<Rightarrow> string \<Rightarrow> u64 \<Rightarrow> ReadConfig \<Rightarrow> ('s, Record list) cprog"
  sa_read_by_tag :: "string \<Rightarrow> string \<Rightarrow> u64 \<Rightarrow> string \<Rightarrow> ReadConfig \<Rightarrow> ('s, Record list) cprog"
  sa_read_by_key :: "string \<Rightarrow> string \<Rightarrow> u64 \<Rightarrow> string \<Rightarrow> ReadConfig \<Rightarrow> ('s, Record list) cprog"
  sa_get_offset_by_timestamp :: "string \<Rightarrow> string \<Rightarrow> u64 \<Rightarrow> ('s, ShardOffset option) cprog"
  sa_get_offset_by_group :: "string \<Rightarrow> ('s, ShardOffset list) cprog"
  sa_commit_offset :: "string \<Rightarrow> string \<Rightarrow> (string, u64) dashmap \<Rightarrow> ('s, unit) cprog"
  sa_close :: "('s, unit) cprog"

section \<open>Logs\<close>

text \<open>What a write adds to a log of length \<open>n\<close>: the records with their offsets.\<close>

fun stamp :: "nat \<Rightarrow> Record list \<Rightarrow> Record list" where
  "stamp n [] = []"
| "stamp n (r # rs) = r\<lparr>r_offset := Some (word_of_nat n)\<rparr> # stamp (Suc n) rs"

lemma length_stamp [simp]: "length (stamp n rs) = length rs"
  by (induction n rs rule: stamp.induct) simp_all

lemma stamp_append: "stamp n (xs @ ys) = stamp n xs @ stamp (n + length xs) ys"
  by (induction n xs rule: stamp.induct) simp_all

lemma stamp_nth: "i < length rs \<Longrightarrow> stamp n rs ! i = (rs ! i)\<lparr>r_offset := Some (word_of_nat (n + i))\<rparr>"
  by (induction n rs arbitrary: i rule: stamp.induct) (auto simp: nth_Cons split: nat.split)

text \<open>A log is well-formed if every record carries its own index.\<close>

definition log_wf :: "Record list \<Rightarrow> bool" where
  "log_wf xs \<longleftrightarrow> (\<forall>i < length xs. r_offset (xs ! i) = Some (word_of_nat i))"

lemma log_wf_Nil [simp]: "log_wf []"
  by (simp add: log_wf_def)

lemma log_wf_append_stamp: "log_wf xs \<Longrightarrow> log_wf (xs @ stamp (length xs) rs)"
  by (auto simp: log_wf_def nth_append stamp_nth)

definition window :: "u64 \<Rightarrow> ReadConfig \<Rightarrow> Record list \<Rightarrow> Record list" where
  "window off conf xs = take (unat (max_record_num conf)) (drop (unat off) xs)"

lemma window_wf:
  assumes "log_wf xs" and "r \<in> set (window off conf xs)"
  shows "\<exists>i. unat off \<le> i \<and> i < length xs \<and> r = xs ! i \<and> r_offset r = Some (word_of_nat i)"
proof -
  from assms(2) obtain j where j: "j < length (window off conf xs)" "r = window off conf xs ! j"
    by (auto simp: in_set_conv_nth)
  then have "unat off + j < length xs" "r = xs ! (unat off + j)"
    by (auto simp: window_def)
  with assms(1) show ?thesis unfolding log_wf_def by (intro exI [of _ "unat off + j"]) simp
qed

text \<open>
  The contract.  \<open>store s k\<close> is the log of the shard with key \<open>k\<close> in state \<open>s\<close>, and \<open>inv\<close>
  what the operations keep of the state.  Any operation may fail; the contract says what
  holds after one that succeeds.
\<close>

locale shard_log =
  fixes A :: "'s StorageAdapter"
    and key :: "string \<Rightarrow> string \<Rightarrow> 'k"
    and store :: "'s \<Rightarrow> 'k \<Rightarrow> Record list"
    and inv :: "'s \<Rightarrow> bool"
  assumes batch_ok:
      "inv s \<Longrightarrow> xs = store s (key ns sh) \<Longrightarrow> length xs + length rs < 2 ^ 64 \<Longrightarrow>
       sa_batch_write A ns sh rs s = (Ok offs, s') \<Longrightarrow>
       offs = map word_of_nat [length xs ..< length xs + length rs] \<and>
       store s' = (store s)(key ns sh := xs @ stamp (length xs) rs) \<and> inv s'"
    and write_ok:
      "inv s \<Longrightarrow> xs = store s (key ns sh) \<Longrightarrow> length xs + 1 < 2 ^ 64 \<Longrightarrow>
       sa_write A ns sh r s = (Ok off, s') \<Longrightarrow>
       off = word_of_nat (length xs) \<and> store s' = (store s)(key ns sh := xs @ stamp (length xs) [r]) \<and> inv s'"
    and read_ok:
      "inv s \<Longrightarrow> unat off + unat (max_record_num conf) < 2 ^ 64 \<Longrightarrow>
       sa_read_by_offset A ns sh off conf s = (Ok rs, s') \<Longrightarrow>
       rs = window off conf (store s (key ns sh)) \<and> s' = s"
    and store_wf: "inv s \<Longrightarrow> log_wf (store s k)"
begin

lemma batch_then_read:
  assumes "inv s" and "length (store s (key ns sh)) + length rs < 2 ^ 63"
    and "sa_batch_write A ns sh rs s = (Ok offs, s')"
    and "length rs \<le> unat (max_record_num conf)" and "unat (max_record_num conf) < 2 ^ 63"
    and "rs \<noteq> []" and "sa_read_by_offset A ns sh (hd offs) conf s' = (Ok out, s'')"
  shows "out = stamp (length (store s (key ns sh))) rs \<and> s'' = s'"
proof -
  let ?xs = "store s (key ns sh)"
  from batch_ok [OF assms(1) refl _ assms(3)] assms(2)
  have offs: "offs = map word_of_nat [length ?xs ..< length ?xs + length rs]"
    and st: "store s' (key ns sh) = ?xs @ stamp (length ?xs) rs" and inv: "inv s'"
    by simp_all
  have hd: "unat (hd offs) = length ?xs"
    using assms(2,6) by (simp add: offs hd_map unat_word_of_nat_u64 del: upt_conv_Nil)
  from read_ok [OF inv _ assms(7)] assms(2,5) hd
  have "out = window (hd offs) conf (store s' (key ns sh)) \<and> s'' = s'" by simp
  with assms(4) show ?thesis by (simp add: window_def st hd)
qed

text \<open>Whatever was in a shard stays there, at the same offsets, after any write.\<close>

lemma batch_keeps:
  assumes "inv s" and "length (store s (key ns sh)) + length rs < 2 ^ 64"
    and "sa_batch_write A ns sh rs s = (Ok offs, s')"
  shows "take (length (store s k)) (store s' k) = store s k"
  using batch_ok [OF assms(1) refl assms(2,3)] by (cases "k = key ns sh") simp_all

text \<open>Writing one by one is writing the batch.\<close>

lemma writes_eq_batch:
  assumes "inv s" and "length (store s (key ns sh)) + length rs < 2 ^ 64"
    and "s_fold (\<lambda>r offs. s_bind (sa_write A ns sh r) (\<lambda>off. s_ok (offs @ [off]))) rs acc s = (Ok offs, s')"
  shows "offs = acc @ map word_of_nat [length (store s (key ns sh)) ..< length (store s (key ns sh)) + length rs] \<and>
    store s' = (store s)(key ns sh := store s (key ns sh) @ stamp (length (store s (key ns sh))) rs) \<and> inv s'"
  using assms
proof (induction rs arbitrary: s acc)
  case Nil
  then show ?case by (simp add: st_simps)
next
  case (Cons r rs)
  let ?xs = "store s (key ns sh)"
  from Cons.prems(3) obtain off s1 where w: "sa_write A ns sh r s = (Ok off, s1)"
    and rest: "s_fold (\<lambda>r offs. s_bind (sa_write A ns sh r) (\<lambda>off. s_ok (offs @ [off]))) rs (acc @ [off]) s1 = (Ok offs, s')"
    by (auto simp: s_bind_eq_Ok s_ok_eq)
  from write_ok [OF Cons.prems(1) refl _ w] Cons.prems(2)
  have off: "off = word_of_nat (length ?xs)" and inv: "inv s1"
    and st: "store s1 = (store s)(key ns sh := ?xs @ stamp (length ?xs) [r])" by simp_all
  from Cons.IH [OF inv _ rest] Cons.prems(2) st off show ?case
    by (auto simp: upt_conv_Cons fun_eq_iff simp del: upt_Suc)
qed

end

locale total_shard_log = shard_log A key store inv
  for A :: "'s StorageAdapter" and key :: "string \<Rightarrow> string \<Rightarrow> 'k"
    and store :: "'s \<Rightarrow> 'k \<Rightarrow> Record list" and inv :: "'s \<Rightarrow> bool" +
  assumes write_total: "\<exists>off s'. sa_write A ns sh r s = (Ok off, s')"
    and read_total:
      "unat off + unat (max_record_num conf) < 2 ^ 64 \<Longrightarrow>
       \<exists>rs. sa_read_by_offset A ns sh off conf s = (Ok rs, s)"
begin

lemma read_eq:
  assumes "inv s" and "unat off + unat (max_record_num conf) < 2 ^ 64"
  shows "sa_read_by_offset A ns sh off conf s = (Ok (window off conf (store s (key ns sh))), s)"
  using read_total [OF assms(2), of ns sh s] read_ok [OF assms] by blast

lemma write_then_read:
  assumes "inv s" and "length (store s (key ns sh)) < 2 ^ 63"
    and "0 < unat (max_record_num conf)" and "unat (max_record_num conf) < 2 ^ 63"
  shows "\<exists>off s'. sa_write A ns sh r s = (Ok off, s') \<and> inv s' \<and>
    sa_read_by_offset A ns sh off conf s' = (Ok [r\<lparr>r_offset := Some off\<rparr>], s')"
proof -
  let ?xs = "store s (key ns sh)"
  obtain off s' where w: "sa_write A ns sh r s = (Ok off, s')" using write_total by blast
  from write_ok [OF assms(1) refl _ w] assms(2)
  have off: "off = word_of_nat (length ?xs)" and st: "store s' (key ns sh) = ?xs @ stamp (length ?xs) [r]"
    and inv: "inv s'" by simp_all
  have len: "unat off = length ?xs" using assms(2) by (simp add: off unat_word_of_nat_u64)
  have "sa_read_by_offset A ns sh off conf s' = (Ok (window off conf (store s' (key ns sh))), s')"
    using read_eq [OF inv] len assms(2,4) by simp
  moreover have "window off conf (store s' (key ns sh)) = [r\<lparr>r_offset := Some off\<rparr>]"
    using assms(3) by (simp add: window_def st len) (simp add: off)
  ultimately show ?thesis using w inv by auto
qed

end

end
