(* ===== verification/Rocksdb_Engine.thy ===== *)
theory Rocksdb_Engine
  imports Storage_Types "HOL-Library.Char_ord" "HOL-Library.List_Lexorder"
begin

text \<open>
  \<open>RocksDBEngine\<close> of \<open>src/common/rocksdb-engine/src/lib.rs\<close> and the helpers of \<open>engine.rs\<close> and
  \<open>warp.rs\<close>.  The crates \<open>rocksdb\<close> and \<open>serde_json\<close> are not part of the sources: the engine
  takes the record \<open>rocksdb\<close> of the calls it makes, and a \<open>serde\<close> for every type it
  stores.  The locale \<open>rocksdb_laws\<close> says what RocksDB documents: a column family is a map
  from keys to values; a call that fails changes nothing; an iterator visits the entries
  from the sought key on, in the byte order of the keys.  The locale \<open>serde_laws\<close> says that
  what was serialised is read back, and that no value serialises to nothing.

  The text of an error message is kept up to the \<open>Debug\<close> output that it embeds.
\<close>

section \<open>The crates\<close>

record 'db rocksdb =
  rk_cf :: "'db \<Rightarrow> string \<Rightarrow> bool"
  rk_get :: "'db \<Rightarrow> string \<Rightarrow> string \<Rightarrow> (bytes option, string) result"
  rk_put :: "string \<Rightarrow> string \<Rightarrow> bytes \<Rightarrow> ('db, unit, string) prog"
  rk_delete :: "string \<Rightarrow> string \<Rightarrow> ('db, unit, string) prog"
  rk_iter :: "'db \<Rightarrow> string \<Rightarrow> string \<Rightarrow> (bytes \<times> bytes) list"
  rk_may_exist :: "'db \<Rightarrow> string \<Rightarrow> string \<Rightarrow> bool"

record 'a serde =
  ser :: "'a \<Rightarrow> (bytes, string) result"
  de :: "bytes \<Rightarrow> ('a, string) result"

section \<open>The engine\<close>

definition eng_write :: "'db rocksdb \<Rightarrow> 'a serde \<Rightarrow> string \<Rightarrow> string \<Rightarrow> 'a \<Rightarrow> ('db, unit) cprog" where
  "eng_write R J cf key v =
     (case ser J v of
        Ok serialized \<Rightarrow>
          s_match (rk_put R cf key serialized) s_ok
            (\<lambda>e. s_err (CommonError (''Failed to put to ColumnFamily:'' @ e)))
      | Err err \<Rightarrow> s_err (CommonError (''Failed to serialize to String. err: '' @ err))
      | Panic \<Rightarrow> s_lift Panic)"

definition eng_read :: "'db rocksdb \<Rightarrow> 'a serde \<Rightarrow> string \<Rightarrow> string \<Rightarrow> ('db, 'a option) cprog" where
  "eng_read R J cf key db =
     (case rk_get R db cf key of
        Ok (Some found) \<Rightarrow>
          (if found \<noteq> [] then
             (case de J found of
                Ok t \<Rightarrow> (Ok (Some t), db)
              | Err err \<Rightarrow> (Err (CommonError (''Failed to deserialize: '' @ err)), db)
              | Panic \<Rightarrow> (Panic, db))
           else (Ok None, db))
      | Ok None \<Rightarrow> (Ok None, db)
      | Err err \<Rightarrow> (Err (CommonError (''Failed to get from ColumnFamily: '' @ err)), db)
      | Panic \<Rightarrow> (Panic, db))"

text \<open>The loops of \<open>read_prefix\<close> and \<open>read_all_by_cf\<close> over the entries of the iterator.\<close>

fun prefix_loop :: "string \<Rightarrow> (bytes \<times> bytes) list \<Rightarrow> (string \<times> bytes) list \<Rightarrow>
    ((string \<times> bytes) list, CommonError) result" where
  "prefix_loop search_key [] result = Ok result"
| "prefix_loop search_key ((key, val) # iter) result =
     and_then (from_utf8 key FromUtf8Error) (\<lambda>key.
       if \<not> prefix search_key key then Ok result
       else prefix_loop search_key iter (result @ [(key, val)]))"

definition eng_read_prefix :: "'db rocksdb \<Rightarrow> string \<Rightarrow> string \<Rightarrow> ('db, (string \<times> bytes) list) cprog" where
  "eng_read_prefix R cf search_key db = (prefix_loop search_key (rk_iter R db cf search_key) [], db)"

fun all_loop :: "(bytes \<times> bytes) list \<Rightarrow> (string \<times> bytes) list \<Rightarrow>
    ((string \<times> bytes) list, CommonError) result" where
  "all_loop [] result = Ok result"
| "all_loop ((key, val) # iter) result =
     and_then (from_utf8 key FromUtf8Error) (\<lambda>key. all_loop iter (result @ [(key, val)]))"

definition eng_read_all_by_cf :: "'db rocksdb \<Rightarrow> string \<Rightarrow> ('db, (string \<times> bytes) list) cprog" where
  "eng_read_all_by_cf R cf db = (all_loop (rk_iter R db cf []) [], db)"

definition eng_delete :: "'db rocksdb \<Rightarrow> string \<Rightarrow> string \<Rightarrow> ('db, unit) cprog" where
  "eng_delete R cf key = s_match (rk_delete R cf key) s_ok (\<lambda>e. s_err (FromRocksdbError e))"

text \<open>\<open>delete_prefix\<close> deletes every entry that the iterator visits.\<close>

definition eng_delete_prefix :: "'db rocksdb \<Rightarrow> string \<Rightarrow> string \<Rightarrow> ('db, unit) cprog" where
  "eng_delete_prefix R cf search_key db =
     s_for (rk_iter R db cf search_key) (\<lambda>(key, val).
       s_match (rk_delete R cf (str_of key)) s_ok (\<lambda>e. s_err (FromRocksdbError e))) db"

definition eng_exist :: "'db rocksdb \<Rightarrow> string \<Rightarrow> string \<Rightarrow> 'db \<Rightarrow> bool" where
  "eng_exist R cf key db = rk_may_exist R db cf key"

definition eng_cf_handle :: "'db rocksdb \<Rightarrow> string \<Rightarrow> 'db \<Rightarrow> string option" where
  "eng_cf_handle R name db = (if rk_cf R db name then Some name else None)"

section \<open>Wrapped values\<close>

record StorageDataWrap =
  wrap_data :: string
  wrap_create_time :: u64

definition storage_data_wrap_new :: "u64 \<Rightarrow> string \<Rightarrow> StorageDataWrap" where
  "storage_data_wrap_new now_second data = \<lparr>wrap_data = data, wrap_create_time = now_second\<rparr>"

text \<open>
  \<open>to_string\<close> is \<open>serde_json::to_string\<close> for the type of the value, \<open>J\<close> the serialisation
  of the wrapper.
\<close>

definition rocksdb_engine_save ::
    "'db rocksdb \<Rightarrow> StorageDataWrap serde \<Rightarrow> u64 \<Rightarrow> ('a \<Rightarrow> (string, string) result) \<Rightarrow> string \<Rightarrow> string \<Rightarrow> 'a \<Rightarrow>
     ('db, unit) cprog" where
  "rocksdb_engine_save R J now_second to_string column_family key_name v db =
     (case eng_cf_handle R column_family db of
        None \<Rightarrow> (Err (RocksDBFamilyNotAvailable column_family), db)
      | Some cf \<Rightarrow>
          (case to_string v of
             Ok content \<Rightarrow>
               (let data = storage_data_wrap_new now_second content in
                eng_write R J cf key_name data db)
           | Err e \<Rightarrow> (Err (CommonError e), db)
           | Panic \<Rightarrow> (Panic, db)))"

definition rocksdb_engine_get ::
    "'db rocksdb \<Rightarrow> StorageDataWrap serde \<Rightarrow> string \<Rightarrow> string \<Rightarrow> ('db, StorageDataWrap option) cprog" where
  "rocksdb_engine_get R J column_family key_name db =
     (case eng_cf_handle R column_family db of
        None \<Rightarrow> (Err (RocksDBFamilyNotAvailable column_family), db)
      | Some cf \<Rightarrow> eng_read R J cf key_name db)"

definition rocksdb_engine_delete :: "'db rocksdb \<Rightarrow> string \<Rightarrow> string \<Rightarrow> ('db, unit) cprog" where
  "rocksdb_engine_delete R column_family key_name db =
     (case eng_cf_handle R column_family db of
        None \<Rightarrow> (Err (RocksDBFamilyNotAvailable column_family), db)
      | Some cf \<Rightarrow> eng_delete R cf key_name db)"

definition rocksdb_engine_exists :: "'db rocksdb \<Rightarrow> string \<Rightarrow> string \<Rightarrow> ('db, bool) cprog" where
  "rocksdb_engine_exists R column_family key_name db =
     (case eng_cf_handle R column_family db of
        None \<Rightarrow> (Err (RocksDBFamilyNotAvailable column_family), db)
      | Some cf \<Rightarrow> (Ok (eng_exist R cf key_name db), db))"

fun wrap_list_loop :: "StorageDataWrap serde \<Rightarrow> (string \<times> bytes) list \<Rightarrow> StorageDataWrap list \<Rightarrow>
    (StorageDataWrap list, CommonError) result" where
  "wrap_list_loop J [] results = Ok results"
| "wrap_list_loop J ((_, v) # raw) results =
     (case de J v of
        Ok v \<Rightarrow> wrap_list_loop J raw (results @ [v])
      | Err _ \<Rightarrow> wrap_list_loop J raw results
      | Panic \<Rightarrow> Panic)"

definition rocksdb_engine_prefix_list ::
    "'db rocksdb \<Rightarrow> StorageDataWrap serde \<Rightarrow> string \<Rightarrow> string \<Rightarrow> ('db, StorageDataWrap list) cprog" where
  "rocksdb_engine_prefix_list R J column_family prefix_key_name db =
     (case eng_cf_handle R column_family db of
        None \<Rightarrow> (Err (RocksDBFamilyNotAvailable column_family), db)
      | Some cf \<Rightarrow>
          s_match (eng_read_prefix R cf prefix_key_name)
            (\<lambda>raw. s_lift (wrap_list_loop J raw [])) (\<lambda>_. s_ok []) db)"

fun wrap_map_loop :: "StorageDataWrap serde \<Rightarrow> (string \<times> bytes) list \<Rightarrow> (string, StorageDataWrap) dashmap \<Rightarrow>
    ((string, StorageDataWrap) dashmap, CommonError) result" where
  "wrap_map_loop J [] results = Ok results"
| "wrap_map_loop J ((key, v) # raw) results =
     (case de J v of
        Ok v \<Rightarrow> wrap_map_loop J raw (dm_insert key v results)
      | Err _ \<Rightarrow> wrap_map_loop J raw results
      | Panic \<Rightarrow> Panic)"

definition rocksdb_engine_prefix_map ::
    "'db rocksdb \<Rightarrow> StorageDataWrap serde \<Rightarrow> string \<Rightarrow> string \<Rightarrow> ('db, (string, StorageDataWrap) dashmap) cprog" where
  "rocksdb_engine_prefix_map R J column_family prefix_key_name db =
     (case eng_cf_handle R column_family db of
        None \<Rightarrow> (Err (RocksDBFamilyNotAvailable column_family), db)
      | Some cf \<Rightarrow>
          s_match (eng_read_prefix R cf prefix_key_name)
            (\<lambda>raw. s_lift (wrap_map_loop J raw [])) (\<lambda>_. s_ok []) db)"

section \<open>Prefixes and the order of keys\<close>

text \<open>The keys with a given prefix are contiguous in the order of the iterator.\<close>

lemma prefix_le: "prefix p k \<Longrightarrow> p \<le> (k :: string)"
proof (induction p arbitrary: k)
  case (Cons c p)
  then show ?case by (cases k) auto
qed simp

lemma prefix_between:
  fixes p k k' :: string
  assumes "p \<le> k" and "k \<le> k'" and "prefix p k'"
  shows "prefix p k"
  using assms
proof (induction p arbitrary: k k')
  case (Cons c p)
  from Cons.prems(3) obtain l where k': "k' = c # l" "prefix p l" by (cases k') auto
  with Cons.prems(1,2) obtain m where "k = c # m" "p \<le> m" "m \<le> l"
    by (cases k) (auto dest: less_trans)
  with Cons.IH k' show ?case by simp
qed simp

lemma takeWhile_prefix:
  fixes p :: string
  assumes "sorted (map fst es)" and "\<forall>e \<in> set es. p \<le> fst e"
  shows "takeWhile (\<lambda>e. prefix p (fst e)) es = filter (\<lambda>e. prefix p (fst e)) es"
  using assms
proof (induction es)
  case (Cons e es)
  show ?case
  proof (cases "prefix p (fst e)")
    case False
    have "\<not> prefix p (fst e')" if "e' \<in> set es" for e'
      using that Cons.prems False prefix_between [of p "fst e" "fst e'"] by fastforce
    then show ?thesis using False by (simp add: filter_empty_conv)
  qed (use Cons in simp)
qed simp

definition entry :: "string \<times> bytes \<Rightarrow> bytes \<times> bytes" where
  "entry e = (as_bytes (fst e), snd e)"

lemma prefix_loop_eq:
  assumes "\<forall>e \<in> set es. valid_str (fst e)"
  shows "prefix_loop p (map entry es) acc = Ok (acc @ takeWhile (\<lambda>e. prefix p (fst e)) es)"
  using assms by (induction es arbitrary: acc) (auto simp: entry_def from_utf8_as_bytes)

lemma all_loop_eq:
  assumes "\<forall>e \<in> set es. valid_str (fst e)"
  shows "all_loop (map entry es) acc = Ok (acc @ es)"
  using assms by (induction es arbitrary: acc) (auto simp: entry_def from_utf8_as_bytes)

section \<open>The laws\<close>

locale rocksdb_laws =
  fixes R :: "'db rocksdb"
    and view :: "'db \<Rightarrow> string \<Rightarrow> string \<rightharpoonup> bytes"
  assumes get_ok: "rk_get R db cf k = Ok r \<Longrightarrow> r = view db cf k"
    and put_ok: "rk_put R cf k v db = (Ok u, db') \<Longrightarrow>
      view db' = (view db)(cf := (view db cf)(k \<mapsto> v)) \<and> rk_cf R db' = rk_cf R db"
    and put_err: "rk_put R cf k v db = (Err e, db') \<Longrightarrow> view db' = view db \<and> rk_cf R db' = rk_cf R db"
    and delete_ok: "rk_delete R cf k db = (Ok u, db') \<Longrightarrow>
      view db' = (view db)(cf := (view db cf)(k := None)) \<and> rk_cf R db' = rk_cf R db"
    and delete_err: "rk_delete R cf k db = (Err e, db') \<Longrightarrow> view db' = view db \<and> rk_cf R db' = rk_cf R db"
    and no_panic: "rk_get R db cf k \<noteq> Panic" "fst (rk_put R cf k v db) \<noteq> Panic" "fst (rk_delete R cf k db) \<noteq> Panic"
    and iter: "\<exists>es. rk_iter R db cf k = map entry es \<and> sorted (map fst es) \<and> distinct (map fst es) \<and>
      set es = {e. view db cf (fst e) = Some (snd e) \<and> k \<le> fst e}"
begin

lemma read_prefix_ok:
  assumes "\<forall>k \<in> dom (view db cf). valid_str k"
  shows "\<exists>es. eng_read_prefix R cf p db = (Ok es, db) \<and> sorted (map fst es) \<and> distinct (map fst es) \<and>
    set es = {e. view db cf (fst e) = Some (snd e) \<and> prefix p (fst e)}"
proof -
  from iter [of db cf p] obtain es where es: "rk_iter R db cf p = map entry es" "sorted (map fst es)"
      "distinct (map fst es)" "set es = {e. view db cf (fst e) = Some (snd e) \<and> p \<le> fst e}"
    by blast
  let ?f = "filter (\<lambda>e. prefix p (fst e)) es"
  have "\<forall>e \<in> set es. valid_str (fst e)" using assms es(4) by force
  then have "eng_read_prefix R cf p db = (Ok ?f, db)"
    using takeWhile_prefix [OF es(2), of p] es(1,4) by (simp add: eng_read_prefix_def prefix_loop_eq)
  moreover have "sorted (map fst ?f)" using es(2) by (simp add: sorted_filter)
  moreover have "distinct (map fst ?f)" using es(3) by (simp add: distinct_map_filter)
  moreover have "set ?f = {e. view db cf (fst e) = Some (snd e) \<and> prefix p (fst e)}"
    using es(4) prefix_le by auto
  ultimately show ?thesis by blast
qed

lemma read_all_ok:
  assumes "\<forall>k \<in> dom (view db cf). valid_str k"
  shows "\<exists>es. eng_read_all_by_cf R cf db = (Ok es, db) \<and> sorted (map fst es) \<and> distinct (map fst es) \<and>
    map_of es = view db cf"
proof -
  from iter [of db cf "[]"] obtain es where es: "rk_iter R db cf [] = map entry es" "sorted (map fst es)"
      "distinct (map fst es)" "set es = {e. view db cf (fst e) = Some (snd e)}"
    by auto
  have "\<forall>e \<in> set es. valid_str (fst e)" using assms es(4) by force
  then have "eng_read_all_by_cf R cf db = (Ok es, db)" using es(1) by (simp add: eng_read_all_by_cf_def all_loop_eq)
  moreover have "map_of es k = view db cf k" for k
  proof (cases "view db cf k")
    case None
    then have "k \<notin> fst ` set es" using es(4) by force
    then show ?thesis using None by (metis map_of_eq_None_iff)
  next
    case (Some v)
    then have "(k, v) \<in> set es" using es(4) by simp
    then show ?thesis using Some es(3) by simp
  qed
  ultimately show ?thesis using es(2,3) by blast
qed

text \<open>\<open>delete_prefix\<close> removes every key from the prefix on, whether it has the prefix or not.\<close>

lemma delete_loop:
  assumes "s_for (map entry es) (\<lambda>(key, val).
      s_match (rk_delete R cf (str_of key)) s_ok (\<lambda>e. s_err (FromRocksdbError e))) db = (Ok u, db')"
  shows "view db' cf = (view db cf) |` (- fst ` set es)"
  using assms
proof (induction es arbitrary: db)
  case Nil
  then show ?case by (simp add: s_ok_eq)
next
  case (Cons e es)
  from Cons.prems obtain db1 where d: "rk_delete R cf (fst e) db = (Ok (), db1)"
    and rest: "s_for (map entry es) (\<lambda>(key, val).
      s_match (rk_delete R cf (str_of key)) s_ok (\<lambda>e. s_err (FromRocksdbError e))) db1 = (Ok u, db')"
    by (auto simp: entry_def [of e] s_bind_eq_Ok s_match_eq_Ok s_eqs)
  from Cons.IH [OF rest] delete_ok [OF d] show ?case
    by (auto simp: restrict_map_def fun_eq_iff)
qed

lemma delete_prefix_effect:
  assumes "eng_delete_prefix R cf p db = (Ok u, db')"
  shows "view db' cf k = (if p \<le> k then None else view db cf k)"
proof -
  from iter [of db cf p] obtain es where es: "rk_iter R db cf p = map entry es"
      "set es = {e. view db cf (fst e) = Some (snd e) \<and> p \<le> fst e}"
    by blast
  have "fst ` set es = {k \<in> dom (view db cf). p \<le> k}" unfolding es(2) by (force simp: image_iff)
  then show ?thesis
    using delete_loop [of es cf db u db'] assms es(1)
    by (auto simp: eng_delete_prefix_def restrict_map_def)
qed

end

locale serde_laws =
  fixes J :: "'a serde"
  assumes round_trip: "ser J x = Ok b \<Longrightarrow> de J b = Ok x"
    and not_empty: "ser J x = Ok b \<Longrightarrow> b \<noteq> []"

lemma eng_read_Ok:
  "eng_read R J cf k db = (Ok r, db') \<longleftrightarrow> db' = db \<and>
    ((r = None \<and> (rk_get R db cf k = Ok None \<or> rk_get R db cf k = Ok (Some []))) \<or>
     (\<exists>b x. rk_get R db cf k = Ok (Some b) \<and> b \<noteq> [] \<and> de J b = Ok x \<and> r = Some x))"
  by (auto simp: eng_read_def split: result.split option.split)

lemma eng_write_Ok:
  "eng_write R J cf k x db = (Ok u, db') \<longleftrightarrow> (\<exists>b. ser J x = Ok b \<and> rk_put R cf k b db = (Ok (), db'))"
  by (auto simp: eng_write_def s_match_eq_Ok s_eqs split: result.split)

text \<open>What is stored under a key, decoded.\<close>

definition stored :: "('db \<Rightarrow> string \<Rightarrow> string \<rightharpoonup> bytes) \<Rightarrow> 'a serde \<Rightarrow> 'db \<Rightarrow> string \<Rightarrow> string \<Rightarrow> 'a option" where
  "stored view J db cf k =
     (case view db cf k of
        Some b \<Rightarrow> (if b = [] then None else case de J b of Ok x \<Rightarrow> Some x | _ \<Rightarrow> None)
      | None \<Rightarrow> None)"

context rocksdb_laws
begin

lemma eng_read_stored: "eng_read R J cf k db = (Ok r, db') \<Longrightarrow> r = stored view J db cf k \<and> db' = db"
  by (auto simp: eng_read_Ok stored_def dest!: get_ok [THEN sym])

lemma eng_write_stored:
  assumes "serde_laws J" and "eng_write R J cf k x db = (Ok u, db')"
  shows "stored view J db' cf k = Some x" and "\<And>cf' k'. (cf', k') \<noteq> (cf, k) \<Longrightarrow> view db' cf' k' = view db cf' k'"
    and "rk_cf R db' = rk_cf R db"
  using assms(2) serde_laws.round_trip [OF assms(1)] serde_laws.not_empty [OF assms(1)]
  by (auto simp: eng_write_Ok stored_def dest!: put_ok)

lemma stored_cong: "view db' cf k = view db cf k \<Longrightarrow> stored view J db' cf k = stored view J db cf k"
  by (simp add: stored_def)

end

section \<open>A store in memory\<close>

text \<open>The laws hold of column families that are maps in memory.\<close>

definition map_rocksdb :: "(string \<Rightarrow> (string, bytes) dashmap) rocksdb" where
  "map_rocksdb =
     \<lparr>rk_cf = (\<lambda>db cf. True),
      rk_get = (\<lambda>db cf k. Ok (dm_get (db cf) k)),
      rk_put = (\<lambda>cf k v db. (Ok (), db(cf := dm_insert k v (db cf)))),
      rk_delete = (\<lambda>cf k db. (Ok (), db(cf := dm_remove k (db cf)))),
      rk_iter = (\<lambda>db cf k. map entry (filter (\<lambda>e. k \<le> fst e) (sort_key fst (AList.clearjunk (db cf))))),
      rk_may_exist = (\<lambda>db cf k. dm_contains (db cf) k)\<rparr>"

interpretation map_db: rocksdb_laws map_rocksdb "\<lambda>db cf. dm_get (db cf)"
proof unfold_locales
  fix db :: "string \<Rightarrow> (string, bytes) dashmap" and cf k
  let ?es = "filter (\<lambda>e. k \<le> fst e) (sort_key fst (AList.clearjunk (db cf)))"
  have d: "distinct (map fst (sort_key fst (AList.clearjunk (db cf))))"
    using distinct_clearjunk [of "db cf"]
    by (metis distinct_map distinct_sort inj_on_def set_sort)
  have "dm_get (db cf) (fst e) = Some (snd e) \<longleftrightarrow> e \<in> set (AList.clearjunk (db cf))" for e
    using map_of_eq_Some_iff [OF distinct_clearjunk [of "db cf"], of "fst e" "snd e"]
    by (simp add: map_of_clearjunk)
  then have "set ?es = {e. dm_get (db cf) (fst e) = Some (snd e) \<and> k \<le> fst e}" by auto
  moreover have "sorted (map fst ?es)" by (simp add: sorted_filter)
  moreover have "distinct (map fst ?es)" using d by (simp add: distinct_map_filter)
  ultimately show "\<exists>es. rk_iter map_rocksdb db cf k = map entry es \<and> sorted (map fst es) \<and>
      distinct (map fst es) \<and> set es = {e. dm_get (db cf) (fst e) = Some (snd e) \<and> k \<le> fst e}"
    by (intro exI [of _ ?es]) (simp add: map_rocksdb_def)
qed (auto simp: map_rocksdb_def dm_simps intro!: ext)

section \<open>Properties\<close>

text \<open>
  C21: \<open>read_prefix\<close> returns exactly the entries of the column family whose key starts with the
  prefix, each once and in the order of the keys: breaking off at the first key without
  the prefix loses none.
\<close>

theorem read_prefix_exact:
  assumes "rocksdb_laws R view" and "\<forall>k \<in> dom (view db cf). valid_str k"
  shows "\<exists>es. eng_read_prefix R cf p db = (Ok es, db) \<and> sorted (map fst es) \<and> distinct (map fst es) \<and>
    set es = {e. view db cf (fst e) = Some (snd e) \<and> prefix p (fst e)}"
  by (rule rocksdb_laws.read_prefix_ok [OF assms])

theorem read_prefix_exact_witness:
  "\<exists>es. eng_read_prefix map_rocksdb ''db'' ''a/'' (\<lambda>_. [(''b'', [1]), (''a/x'', [2])]) =
      (Ok es, (\<lambda>_. [(''b'', [1]), (''a/x'', [2])])) \<and> sorted (map fst es) \<and> distinct (map fst es) \<and>
    set es = {e. dm_get [(''b'', [1]), (''a/x'', [2])] (fst e) = Some (snd e) \<and> prefix ''a/'' (fst e)}"
proof (rule read_prefix_exact [OF map_db.rocksdb_laws_axioms])
  have "valid_str ''b''" "valid_str ''a/x''" by code_simp+
  then show "\<forall>k \<in> dom (dm_get [(''b'', [1]), (''a/x'', [2])]). valid_str k" by (auto split: if_splits)
qed

text \<open>
  C28: \<open>delete_prefix\<close> does not stop where the prefix ends.  When it succeeds, every key that is
  not smaller than the prefix is gone from the column family, whether it starts with the
  prefix or not; smaller keys stay.
\<close>

theorem delete_prefix_deletes_to_the_end:
  assumes "rocksdb_laws R view" and "eng_delete_prefix R cf p db = (Ok (), db')"
  shows "view db' cf k = (if p \<le> k then None else view db cf k)"
  by (rule rocksdb_laws.delete_prefix_effect [OF assms])

theorem delete_prefix_deletes_to_the_end_witness:
  "dm_get (snd (eng_delete_prefix map_rocksdb ''db'' ''a/'' (\<lambda>_. [(''b'', [1]), (''a/x'', [2])])) ''db'') ''b'' = None"
proof -
  let ?db = "\<lambda>_ :: string. [(''b'', [1 :: u8]), (''a/x'', [2])]"
  have "fst (eng_delete_prefix map_rocksdb ''db'' ''a/'' ?db) = Ok ()"
    by (simp add: eng_delete_prefix_def map_rocksdb_def entry_def s_bind_def s_match_def s_ok_def
        split_beta)
  then obtain db' where d: "eng_delete_prefix map_rocksdb ''db'' ''a/'' ?db = (Ok (), db')"
    by (cases "eng_delete_prefix map_rocksdb ''db'' ''a/'' ?db") auto
  from delete_prefix_deletes_to_the_end [OF map_db.rocksdb_laws_axioms this, of "''b''"] show ?thesis
    by (simp add: d)
qed

end
