(* ===== verification/Storage_Memory.thy ===== *)
theory Storage_Memory
  imports Storage_Types
begin

text \<open>
  \<open>MemoryStorageAdapter\<close> of \<open>src/storage-adapter/src/memory/mod.rs\<close>: three maps, and the
  methods of the trait on them.  It meets the contract \<open>total_shard_log\<close>, with the string
  \<open>shard_key\<close> as the identity of a shard.
\<close>

section \<open>The adapter\<close>

record MemoryStorageAdapter =
  shard_info :: "(string, ShardInfo) dashmap"
  shard_data :: "(string, Record list) dashmap"
  group_data :: "(string, (string, u64) dashmap) dashmap"

definition memory_new :: MemoryStorageAdapter where
  "memory_new = \<lparr>shard_info = [], shard_data = [], group_data = []\<rparr>"

definition shard_key :: "string \<Rightarrow> string \<Rightarrow> string" where
  "shard_key namespace shard_name = namespace @ ''_'' @ shard_name"

type_synonym 'a mem = "(MemoryStorageAdapter, 'a) cprog"

definition mem_create_shard :: "ShardInfo \<Rightarrow> unit mem" where
  "mem_create_shard shard self =
     (let key = shard_key (si_namespace shard) (si_shard_name shard);
          self = self\<lparr>shard_data := dm_insert key [] (shard_data self)\<rparr>;
          self = self\<lparr>shard_info := dm_insert key shard (shard_info self)\<rparr> in
      (Ok (), self))"

definition mem_list_shard :: "string \<Rightarrow> string \<Rightarrow> ShardInfo list mem" where
  "mem_list_shard namespace shard_name self =
     (let all = Ok (dm_values (shard_info self)) in
      if shard_name = [] then
        (case dm_get (shard_info self) (shard_key namespace shard_name) of
           Some info \<Rightarrow> (Ok [info], self)
         | None \<Rightarrow> (all, self))
      else (all, self))"

definition mem_delete_shard :: "string \<Rightarrow> string \<Rightarrow> unit mem" where
  "mem_delete_shard namespace shard_name self =
     (Ok (), self\<lparr>shard_data := dm_remove (shard_key namespace shard_name) (shard_data self)\<rparr>)"

text \<open>
  The loop of \<open>batch_write\<close>, which is the same whether the shard exists or not: the offsets
  so far, the records so far and the next offset.
\<close>

fun mem_append :: "Record list \<Rightarrow> u64 list \<Rightarrow> Record list \<Rightarrow> usize \<Rightarrow> u64 list \<times> Record list" where
  "mem_append [] offset_res data_list start_offset = (offset_res, data_list)"
| "mem_append (msg # messages) offset_res data_list start_offset =
     (let offset_res = offset_res @ [word_of_nat start_offset];
          msg = msg\<lparr>r_offset := Some (word_of_nat start_offset)\<rparr>;
          data_list = data_list @ [msg] in
      mem_append messages offset_res data_list (start_offset + 1))"

definition mem_batch_write :: "string \<Rightarrow> string \<Rightarrow> Record list \<Rightarrow> u64 list mem" where
  "mem_batch_write namespace shard_name messages self =
     (let key = shard_key namespace shard_name;
          (offset_res, data_list) =
            (case dm_get (shard_data self) key of
               Some data_list \<Rightarrow> mem_append messages [] data_list (length data_list)
             | None \<Rightarrow> mem_append messages [] [] 0) in
      (Ok offset_res, self\<lparr>shard_data := dm_insert key data_list (shard_data self)\<rparr>))"

definition mem_write :: "string \<Rightarrow> string \<Rightarrow> Record \<Rightarrow> u64 mem" where
  "mem_write namespace shard_name data self =
     (let key = shard_key namespace shard_name in
      case dm_get (shard_data self) key of
        Some data_list \<Rightarrow>
          (let start_offset = length data_list;
               data = data\<lparr>r_offset := Some (word_of_nat start_offset)\<rparr> in
           (Ok (word_of_nat start_offset),
            self\<lparr>shard_data := dm_insert key (data_list @ [data]) (shard_data self)\<rparr>))
      | None \<Rightarrow>
          (let data = data\<lparr>r_offset := Some 0\<rparr> in
           (Ok 0, self\<lparr>shard_data := dm_insert key [data] (shard_data self)\<rparr>)))"

text \<open>\<open>Vec::get\<close>, and the loop \<open>for i in offset..end\<close> that stops at the end of the log.\<close>

definition vec_get :: "'a list \<Rightarrow> nat \<Rightarrow> 'a option" where
  "vec_get xs i = (if i < length xs then Some (xs ! i) else None)"

function mem_scan :: "(Record \<Rightarrow> bool) \<Rightarrow> Record list \<Rightarrow> nat \<Rightarrow> nat \<Rightarrow> Record list" where
  "mem_scan p record_list i end_offset =
     (if i < end_offset then
        (case vec_get record_list i of
           Some v \<Rightarrow>
             (if p v then v # mem_scan p record_list (i + 1) end_offset
              else mem_scan p record_list (i + 1) end_offset)
         | None \<Rightarrow> [])
      else [])"
  by pat_completeness auto
termination
  by (relation "measure (\<lambda>(p, xs, i, e). e - i)") auto

declare mem_scan.simps [simp del]

definition mem_read :: "(Record \<Rightarrow> bool) \<Rightarrow> string \<Rightarrow> string \<Rightarrow> u64 \<Rightarrow> ReadConfig \<Rightarrow> Record list mem" where
  "mem_read p namespace shard_name offset read_config self =
     (case dm_get (shard_data self) (shard_key namespace shard_name) of
        Some record_list \<Rightarrow>
          (if length record_list < unat offset then (Ok [], self)
           else
             (and_then (u64_add offset (max_record_num read_config)) (\<lambda>end_offset.
                Ok (mem_scan p record_list (unat offset) (unat end_offset))), self))
      | None \<Rightarrow> (Ok [], self))"

definition mem_read_by_offset :: "string \<Rightarrow> string \<Rightarrow> u64 \<Rightarrow> ReadConfig \<Rightarrow> Record list mem" where
  "mem_read_by_offset namespace shard_name offset read_config =
     mem_read (\<lambda>_. True) namespace shard_name offset read_config"

definition mem_read_by_tag :: "string \<Rightarrow> string \<Rightarrow> u64 \<Rightarrow> string \<Rightarrow> ReadConfig \<Rightarrow> Record list mem" where
  "mem_read_by_tag namespace shard_name offset tag read_config =
     mem_read (\<lambda>r. tag \<in> set (r_tags r)) namespace shard_name offset read_config"

definition mem_read_by_key :: "string \<Rightarrow> string \<Rightarrow> u64 \<Rightarrow> string \<Rightarrow> ReadConfig \<Rightarrow> Record list mem" where
  "mem_read_by_key namespace shard_name offset key read_config =
     mem_read (\<lambda>r. r_key r = key) namespace shard_name offset read_config"

definition mem_get_offset_by_timestamp :: "string \<Rightarrow> string \<Rightarrow> u64 \<Rightarrow> ShardOffset option mem" where
  "mem_get_offset_by_timestamp namespace shard_name timestamp self =
     (case dm_get (shard_data self) (shard_key namespace shard_name) of
        Some record_list \<Rightarrow>
          (case find (\<lambda>r. r_timestamp r \<ge> timestamp) record_list of
             Some record \<Rightarrow>
               (case r_offset record of
                  None \<Rightarrow> (Ok None, self)
                | Some off \<Rightarrow> (Ok (Some (shard_offset_default\<lparr>so_offset := off\<rparr>)), self))
           | None \<Rightarrow> (Ok None, self))
      | None \<Rightarrow> (Ok None, self))"

definition mem_get_offset_by_group :: "string \<Rightarrow> ShardOffset list mem" where
  "mem_get_offset_by_group group_name self =
     (case dm_get (group_data self) group_name of
        Some data \<Rightarrow> (Ok (map (\<lambda>raw. shard_offset_default\<lparr>so_offset := snd raw\<rparr>) data), self)
      | None \<Rightarrow> (Ok [], self))"

definition mem_commit_offset :: "string \<Rightarrow> string \<Rightarrow> (string, u64) dashmap \<Rightarrow> unit mem" where
  "mem_commit_offset group_name namespace offset self =
     (let insert_all = \<lambda>data. foldl (\<lambda>data (shard_name, off). dm_insert (shard_key namespace shard_name) off data)
            data offset;
          data = (case dm_get (group_data self) group_name of
                    Some data \<Rightarrow> insert_all data
                  | None \<Rightarrow> insert_all []) in
      (Ok (), self\<lparr>group_data := dm_insert group_name data (group_data self)\<rparr>))"

definition mem_close :: "unit mem" where
  "mem_close self = (Ok (), self)"

definition memory_adapter :: "MemoryStorageAdapter StorageAdapter" where
  "memory_adapter =
     \<lparr>sa_create_shard = mem_create_shard, sa_list_shard = mem_list_shard,
      sa_delete_shard = mem_delete_shard, sa_write = mem_write, sa_batch_write = mem_batch_write,
      sa_read_by_offset = mem_read_by_offset, sa_read_by_tag = mem_read_by_tag,
      sa_read_by_key = mem_read_by_key, sa_get_offset_by_timestamp = mem_get_offset_by_timestamp,
      sa_get_offset_by_group = mem_get_offset_by_group, sa_commit_offset = mem_commit_offset,
      sa_close = mem_close\<rparr>"

section \<open>The logs\<close>

definition mem_store :: "MemoryStorageAdapter \<Rightarrow> string \<Rightarrow> Record list" where
  "mem_store self k = (case dm_get (shard_data self) k of Some xs \<Rightarrow> xs | None \<Rightarrow> [])"

definition mem_inv :: "MemoryStorageAdapter \<Rightarrow> bool" where
  "mem_inv self \<longleftrightarrow> dm_wf (shard_info self) \<and> dm_wf (shard_data self) \<and> dm_wf (group_data self) \<and>
     (\<forall>k. log_wf (mem_store self k)) \<and> (\<forall>g m. dm_get (group_data self) g = Some m \<longrightarrow> dm_wf m)"

lemma mem_scan_eq: "mem_scan p xs i e = filter p (take (e - i) (drop i xs))"
proof (induction p xs i e rule: mem_scan.induct)
  case (1 p xs i e)
  show ?case
  proof (cases "i < e \<and> i < length xs")
    case True
    then have "drop i xs = xs ! i # drop (Suc i) xs" "e - i = Suc (e - Suc i)"
      by (simp_all add: Cons_nth_drop_Suc Suc_diff_Suc)
    with True 1 show ?thesis by (simp add: mem_scan.simps [of p xs i] vec_get_def)
  next
    case False
    then show ?thesis by (auto simp: mem_scan.simps [of p xs i] vec_get_def)
  qed
qed

lemma mem_append_eq:
  "mem_append rs offs xs n = (offs @ map word_of_nat [n ..< n + length rs], xs @ stamp n rs)"
proof (induction rs arbitrary: offs xs n)
  case (Cons r rs)
  then show ?case by (simp add: Let_def upt_conv_Cons del: upt_Suc)
qed simp

lemma mem_batch_write_eq:
  "mem_batch_write ns sh rs self =
    (let xs = mem_store self (shard_key ns sh) in
     (Ok (map word_of_nat [length xs ..< length xs + length rs]),
      self\<lparr>shard_data := dm_insert (shard_key ns sh) (xs @ stamp (length xs) rs) (shard_data self)\<rparr>))"
  by (simp add: mem_batch_write_def mem_append_eq mem_store_def Let_def split: option.split)

lemma mem_write_eq:
  "mem_write ns sh r self =
    (let xs = mem_store self (shard_key ns sh) in
     (Ok (word_of_nat (length xs)),
      self\<lparr>shard_data := dm_insert (shard_key ns sh) (xs @ stamp (length xs) [r]) (shard_data self)\<rparr>))"
  by (simp add: mem_write_def mem_store_def Let_def split: option.split)

lemma mem_read_eq:
  assumes "unat off + unat (max_record_num conf) < 2 ^ 64"
  shows "mem_read p ns sh off conf self =
    (Ok (filter p (window off conf (mem_store self (shard_key ns sh)))), self)"
  using assms
  by (auto simp: mem_read_def mem_store_def window_def u64_add_ok unat_u64_add mem_scan_eq
      split: option.split)

lemma mem_store_insert:
  "mem_store (self\<lparr>shard_data := dm_insert k xs (shard_data self)\<rparr>) = (mem_store self)(k := xs)"
  by (auto simp: fun_eq_iff mem_store_def dm_simps)

lemma mem_inv_insert:
  "mem_inv self \<Longrightarrow> log_wf xs \<Longrightarrow> mem_inv (self\<lparr>shard_data := dm_insert k xs (shard_data self)\<rparr>)"
  by (simp add: mem_inv_def mem_store_insert)

interpretation mem: total_shard_log memory_adapter shard_key mem_store mem_inv
proof unfold_locales
  fix s :: MemoryStorageAdapter and k
  show log: "mem_inv s \<Longrightarrow> log_wf (mem_store s k)" by (simp add: mem_inv_def)
next
  fix s s' xs ns sh rs offs
  assume "mem_inv s" and "xs = mem_store s (shard_key ns sh)"
    and "sa_batch_write memory_adapter ns sh rs s = (Ok offs, s')"
  then show "offs = map word_of_nat [length xs ..< length xs + length rs] \<and>
      mem_store s' = (mem_store s)(shard_key ns sh := xs @ stamp (length xs) rs) \<and> mem_inv s'"
    by (auto simp: memory_adapter_def mem_batch_write_eq Let_def mem_store_insert
        intro!: mem_inv_insert log_wf_append_stamp) (simp add: mem_inv_def)
next
  fix s s' xs ns sh r off
  assume "mem_inv s" and "xs = mem_store s (shard_key ns sh)"
    and "sa_write memory_adapter ns sh r s = (Ok off, s')"
  then show "off = word_of_nat (length xs) \<and>
      mem_store s' = (mem_store s)(shard_key ns sh := xs @ stamp (length xs) [r]) \<and> mem_inv s'"
    using log_wf_append_stamp [of xs "[r]"]
    by (auto simp: memory_adapter_def mem_write_eq Let_def mem_store_insert intro!: mem_inv_insert)
       (simp add: mem_inv_def)
next
  fix s s' conf ns sh rs and off :: u64
  assume "unat off + unat (max_record_num conf) < 2 ^ 64"
    and "sa_read_by_offset memory_adapter ns sh off conf s = (Ok rs, s')"
  then show "rs = window off conf (mem_store s (shard_key ns sh)) \<and> s' = s"
    by (auto simp: memory_adapter_def mem_read_by_offset_def mem_read_eq)
next
  fix s ns sh r
  show "\<exists>off s'. sa_write memory_adapter ns sh r s = (Ok off, s')"
    by (simp add: memory_adapter_def mem_write_eq Let_def)
next
  fix s ns sh and off :: u64 and conf :: ReadConfig
  assume "unat off + unat (max_record_num conf) < 2 ^ 64"
  then show "\<exists>rs. sa_read_by_offset memory_adapter ns sh off conf s = (Ok rs, s)"
    by (simp add: memory_adapter_def mem_read_by_offset_def mem_read_eq)
qed

section \<open>Properties\<close>

text \<open>
  C24: reading by tag or by key returns, in order and each once, the matching records among the
  \<open>max_record_num\<close> records from the offset on: the limit counts the records looked at, not
  the records returned.
\<close>

theorem mem_filtered_reads:
  assumes "unat off + unat (max_record_num conf) < 2 ^ 64"
  shows "mem_read_by_tag ns sh off tag conf self =
      (Ok (filter (\<lambda>r. tag \<in> set (r_tags r)) (window off conf (mem_store self (shard_key ns sh)))), self) \<and>
    mem_read_by_key ns sh off k conf self =
      (Ok (filter (\<lambda>r. r_key r = k) (window off conf (mem_store self (shard_key ns sh)))), self)"
  using mem_read_eq [OF assms] by (simp add: mem_read_by_tag_def mem_read_by_key_def)

theorem mem_filtered_reads_witness:
  "mem_read_by_tag ''ns'' ''sh'' 0 ''t'' read_config_new memory_new =
      (Ok (filter (\<lambda>r. ''t'' \<in> set (r_tags r))
        (window 0 read_config_new (mem_store memory_new (shard_key ''ns'' ''sh'')))), memory_new) \<and>
    mem_read_by_key ''ns'' ''sh'' 0 ''k'' read_config_new memory_new =
      (Ok (filter (\<lambda>r. r_key r = ''k'')
        (window 0 read_config_new (mem_store memory_new (shard_key ''ns'' ''sh'')))), memory_new)"
  by (rule mem_filtered_reads) (simp add: read_config_new_def)

text \<open>
  C25: the offset that \<open>get_offset_by_timestamp\<close> finds is that of the first record of the shard
  whose timestamp is not before the one asked for; it finds none exactly when there is no
  such record.
\<close>

theorem mem_get_offset_by_timestamp_correct:
  assumes "mem_inv self" and "xs = mem_store self (shard_key ns sh)"
  shows "(\<exists>i < length xs. (\<forall>j < i. r_timestamp (xs ! j) < ts) \<and> ts \<le> r_timestamp (xs ! i) \<and>
      mem_get_offset_by_timestamp ns sh ts self =
        (Ok (Some (shard_offset_default\<lparr>so_offset := word_of_nat i\<rparr>)), self)) \<or>
    (\<forall>r \<in> set xs. r_timestamp r < ts) \<and> mem_get_offset_by_timestamp ns sh ts self = (Ok None, self)"
proof (cases "find (\<lambda>r. r_timestamp r \<ge> ts) xs")
  case None
  then have "\<forall>r \<in> set xs. r_timestamp r < ts" by (auto simp: find_None_iff not_le)
  moreover have "mem_get_offset_by_timestamp ns sh ts self = (Ok None, self)"
    using None assms(2)
    by (auto simp: mem_get_offset_by_timestamp_def mem_store_def split: option.splits)
  ultimately show ?thesis by blast
next
  case (Some r)
  then obtain i where i: "i < length xs" "ts \<le> r_timestamp (xs ! i)" "r = xs ! i"
      "\<forall>j < i. \<not> ts \<le> r_timestamp (xs ! j)"
    by (auto simp: find_Some_iff)
  moreover from i assms have "r_offset r = Some (word_of_nat i)" by (simp add: mem_inv_def log_wf_def)
  ultimately have "mem_get_offset_by_timestamp ns sh ts self =
      (Ok (Some (shard_offset_default\<lparr>so_offset := word_of_nat i\<rparr>)), self)"
    using Some assms(2)
    by (auto simp: mem_get_offset_by_timestamp_def mem_store_def split: option.splits)
  with i show ?thesis by (auto simp: not_le)
qed

theorem mem_get_offset_by_timestamp_correct_witness:
  "mem_get_offset_by_timestamp ''ns'' ''sh'' 5 memory_new = (Ok None, memory_new)"
  using mem_get_offset_by_timestamp_correct [of memory_new "[]" "''ns''" "''sh''" 5]
  by (simp add: memory_new_def mem_inv_def mem_store_def)

text \<open>
  \<open>list_shard\<close> does not look at a shard name that is given: it then returns every shard of
  the adapter, of every namespace; and a deleted shard is still listed.
\<close>

theorem mem_list_shard_ignores_name:
  assumes "shard_name \<noteq> []"
  shows "mem_list_shard ns shard_name self = (Ok (dm_values (shard_info self)), self) \<and>
    mem_list_shard ns shard_name (snd (mem_delete_shard ns' sh' self)) =
      (Ok (dm_values (shard_info self)), snd (mem_delete_shard ns' sh' self))"
  using assms by (simp add: mem_list_shard_def mem_delete_shard_def Let_def)

theorem mem_list_shard_ignores_name_witness:
  "mem_list_shard ''ns'' ''x'' (snd (mem_create_shard \<lparr>si_namespace = ''a'', si_shard_name = ''b'', si_replica_num = 1\<rparr>
      memory_new)) =
    (Ok [\<lparr>si_namespace = ''a'', si_shard_name = ''b'', si_replica_num = 1\<rparr>],
     snd (mem_create_shard \<lparr>si_namespace = ''a'', si_shard_name = ''b'', si_replica_num = 1\<rparr> memory_new))"
  using mem_list_shard_ignores_name [of "''x''" "''ns''"
      "snd (mem_create_shard \<lparr>si_namespace = ''a'', si_shard_name = ''b'', si_replica_num = 1\<rparr> memory_new)"]
  by (simp add: mem_create_shard_def memory_new_def dm_values_def Let_def)

text \<open>
  Shards of different namespaces can be the same shard: the key joins the two names with an
  underscore, so what is written to shard \<open>b_c\<close> of namespace \<open>a\<close> is read from shard \<open>c\<close> of
  namespace \<open>a_b\<close>.
\<close>

theorem mem_shard_key_collision:
  assumes "mem_inv self" and "length (mem_store self (shard_key ns (mid @ ''_'' @ sh))) < 2 ^ 63"
    and "0 < unat (max_record_num conf)" and "unat (max_record_num conf) < 2 ^ 63"
  shows "\<exists>off self'. mem_write ns (mid @ ''_'' @ sh) r self = (Ok off, self') \<and>
    mem_read_by_offset (ns @ ''_'' @ mid) sh off conf self' = (Ok [r\<lparr>r_offset := Some off\<rparr>], self')"
proof -
  have "mem_read_by_offset (ns @ ''_'' @ mid) sh = mem_read_by_offset ns (mid @ ''_'' @ sh)"
    by (simp add: fun_eq_iff mem_read_by_offset_def mem_read_def shard_key_def)
  with mem.write_then_read [OF assms, of r] show ?thesis by (auto simp: memory_adapter_def)
qed

theorem mem_shard_key_collision_witness:
  "\<exists>off self'. mem_write ''a'' (''b'' @ ''_'' @ ''c'') (build_byte (\<lambda>_. 0) 0 [1]) memory_new = (Ok off, self') \<and>
    mem_read_by_offset (''a'' @ ''_'' @ ''b'') ''c'' off read_config_new self' =
      (Ok [build_byte (\<lambda>_. 0) 0 [1]\<lparr>r_offset := Some off\<rparr>], self')"
  by (rule mem_shard_key_collision)
     (simp_all add: memory_new_def mem_inv_def mem_store_def read_config_new_def)

end
