(* ===== verification/Message_Storage.thy ===== *)
theory Message_Storage
  imports Storage_Memory
begin

text \<open>
  \<open>MessageStorage\<close> of \<open>src/mqtt-broker/src/storage/message.rs\<close>, the broker's view of the
  message storage, over any adapter: topics are shards of the cluster's namespace.  The
  lemmas are proved once for an adapter that meets the contract \<open>shard_log\<close>.  The cluster
  name of the configuration and the checksum are arguments.
\<close>

section \<open>Operations\<close>

definition append_topic_message ::
    "'s StorageAdapter \<Rightarrow> string \<Rightarrow> string \<Rightarrow> Record list \<Rightarrow> ('s, u64 list) cprog" where
  "append_topic_message storage_adapter cluster_name topic_id rs =
     sa_batch_write storage_adapter cluster_name topic_id rs"

primrec crc_check_all :: "(bytes \<Rightarrow> u32) \<Rightarrow> Record list \<Rightarrow> (unit, CommonError) result" where
  "crc_check_all calc_crc32 [] = Ok ()"
| "crc_check_all calc_crc32 (raw # records) =
     (if \<not> crc32_check calc_crc32 raw then Err CrcCheckByMessage else crc_check_all calc_crc32 records)"

definition read_topic_message ::
    "(bytes \<Rightarrow> u32) \<Rightarrow> 's StorageAdapter \<Rightarrow> string \<Rightarrow> string \<Rightarrow> u64 \<Rightarrow> u64 \<Rightarrow> ('s, Record list) cprog" where
  "read_topic_message calc_crc32 storage_adapter cluster_name topic_id offset record_num =
     (let read_config = read_config_new\<lparr>max_record_num := record_num\<rparr> in
      s_bind (sa_read_by_offset storage_adapter cluster_name topic_id offset read_config) (\<lambda>records.
      s_bind (s_lift (crc_check_all calc_crc32 records)) (\<lambda>_.
        s_ok records)))"

definition get_group_offset :: "'s StorageAdapter \<Rightarrow> string \<Rightarrow> ('s, u64) cprog" where
  "get_group_offset storage_adapter group_id =
     s_bind (sa_get_offset_by_group storage_adapter group_id) (\<lambda>offset_data.
       case offset_data of
         offset # _ \<Rightarrow> s_ok (so_offset offset)
       | [] \<Rightarrow> s_ok 0)"

definition commit_group_offset ::
    "'s StorageAdapter \<Rightarrow> string \<Rightarrow> string \<Rightarrow> string \<Rightarrow> u64 \<Rightarrow> ('s, unit) cprog" where
  "commit_group_offset storage_adapter cluster_name group_id topic_id offset =
     (let offset_data = dm_insert topic_id offset [] in
      sa_commit_offset storage_adapter group_id cluster_name offset_data)"

section \<open>Messages\<close>

lemma crc_check_all_ok: "crc_check_all crc rs = Ok () \<longleftrightarrow> (\<forall>r \<in> set rs. crc32_check crc r)"
  by (induction rs) auto

lemma crc32_check_offset [simp]: "crc32_check crc (r\<lparr>r_offset := off\<rparr>) = crc32_check crc r"
  by (simp add: crc32_check_def)

lemma crc32_check_stamp: "(\<forall>r \<in> set (stamp n rs). crc32_check crc r) \<longleftrightarrow> (\<forall>r \<in> set rs. crc32_check crc r)"
  by (induction n rs rule: stamp.induct) auto

lemma crc32_check_build [simp]: "crc32_check crc (build_byte crc now data)"
  by (simp add: crc32_check_def build_byte_def)

context shard_log
begin

text \<open>What was appended is read back, with its offsets, when the checksums are right.\<close>

lemma append_then_read:
  assumes "inv s" and "length (store s (key cluster topic)) + length rs < 2 ^ 63"
    and "append_topic_message A cluster topic rs s = (Ok offs, s')"
    and "length rs \<le> unat n" and "unat n < 2 ^ 63" and "rs \<noteq> []"
    and "\<forall>r \<in> set rs. crc32_check crc r"
    and "read_topic_message crc A cluster topic (hd offs) n s' = (Ok out, s'')"
  shows "out = stamp (length (store s (key cluster topic))) rs \<and> map r_offset out = map Some offs"
proof -
  let ?xs = "store s (key cluster topic)" and ?conf = "read_config_new\<lparr>max_record_num := n\<rparr>"
  from assms(8) obtain records where r: "sa_read_by_offset A cluster topic (hd offs) ?conf s' = (Ok records, s'')"
    and "out = records"
    by (auto simp: read_topic_message_def s_bind_eq_Ok s_ok_eq s_lift_def Let_def)
  moreover have w: "sa_batch_write A cluster topic rs s = (Ok offs, s')"
    using assms(3) by (simp add: append_topic_message_def)
  moreover have "records = stamp (length ?xs) rs \<and> s'' = s'"
    by (rule batch_then_read [OF assms(1,2) w _ _ assms(6) r]) (use assms(4,5) in simp_all)
  moreover have "offs = map word_of_nat [length ?xs ..< length ?xs + length rs]"
    using batch_ok [OF assms(1) refl _ w] assms(2) by simp
  moreover have "map r_offset (stamp m rs) = map (Some \<circ> word_of_nat) [m ..< m + length rs]" for m
    by (induction m rs rule: stamp.induct) (simp_all add: upt_conv_Cons del: upt_Suc)
  ultimately show ?thesis by simp
qed

text \<open>Every record that a read returns carries an offset at or after the one asked for.\<close>

lemma read_offsets:
  assumes "inv s" and "unat off + unat n < 2 ^ 64"
    and "read_topic_message crc A cluster topic off n s = (Ok out, s')" and "r \<in> set out"
    and "length (store s (key cluster topic)) < 2 ^ 64"
  shows "\<exists>o'. r_offset r = Some o' \<and> off \<le> o' \<and> crc32_check crc r"
proof -
  let ?conf = "read_config_new\<lparr>max_record_num := n\<rparr>"
  from assms(3) have rd: "sa_read_by_offset A cluster topic off ?conf s = (Ok out, s')"
    and crc: "\<forall>r \<in> set out. crc32_check crc r"
    by (auto simp: read_topic_message_def s_bind_eq_Ok s_ok_eq s_lift_def Let_def crc_check_all_ok)
  from read_ok [OF assms(1) _ rd] assms(2) have "out = window off ?conf (store s (key cluster topic))"
    by simp
  from window_wf [OF store_wf [OF assms(1)] assms(4) [unfolded this]]
  obtain i where "unat off \<le> i" "i < length (store s (key cluster topic))" "r_offset r = Some (word_of_nat i)"
    by blast
  with assms(4,5) crc show ?thesis by (simp add: word_le_nat_alt unat_word_of_nat_u64)
qed

end

section \<open>The broker on the memory adapter\<close>

text \<open>
  C20: messages appended to a topic of the memory adapter are all stored, at consecutive
  offsets, and a read from the first of those offsets returns exactly these messages.
\<close>

theorem mem_append_then_read:
  assumes "mem_inv s" and "length (mem_store s (shard_key cluster topic)) + length rs < 2 ^ 63"
    and "length rs \<le> unat n" and "unat n < 2 ^ 63" and "rs \<noteq> []"
    and "\<forall>r \<in> set rs. crc32_check crc r"
  shows "\<exists>offs s'. append_topic_message memory_adapter cluster topic rs s = (Ok offs, s') \<and> mem_inv s' \<and>
    offs = map word_of_nat [length (mem_store s (shard_key cluster topic)) ..<
      length (mem_store s (shard_key cluster topic)) + length rs] \<and>
    read_topic_message crc memory_adapter cluster topic (hd offs) n s' =
      (Ok (stamp (length (mem_store s (shard_key cluster topic))) rs), s')"
proof -
  let ?n = "length (mem_store s (shard_key cluster topic))"
  let ?conf = "read_config_new\<lparr>max_record_num := n\<rparr>"
  obtain offs s' where w: "append_topic_message memory_adapter cluster topic rs s = (Ok offs, s')"
    by (simp add: append_topic_message_def memory_adapter_def mem_batch_write_eq Let_def)
  have w': "sa_batch_write memory_adapter cluster topic rs s = (Ok offs, s')"
    using w by (simp add: append_topic_message_def)
  from mem.batch_ok [OF assms(1) refl _ w'] assms(2)
  have offs: "offs = map word_of_nat [?n ..< ?n + length rs]" and inv: "mem_inv s'" by simp_all
  have hd: "unat (hd offs) = ?n"
    using assms(2,5) by (simp add: offs hd_map unat_word_of_nat_u64)
  then obtain out where rd: "sa_read_by_offset memory_adapter cluster topic (hd offs) ?conf s' = (Ok out, s')"
    using mem.read_total [of "hd offs" ?conf] assms(2,4) by fastforce
  have "out = stamp ?n rs \<and> s' = s'"
    by (rule mem.batch_then_read [OF assms(1,2) w' _ _ assms(5) rd]) (use assms(3,4) in simp_all)
  moreover have "crc_check_all crc (stamp ?n rs) = Ok ()"
    using assms(6) by (simp add: crc_check_all_ok crc32_check_stamp)
  ultimately have "read_topic_message crc memory_adapter cluster topic (hd offs) n s' = (Ok (stamp ?n rs), s')"
    using rd by (simp add: read_topic_message_def st_simps)
  with w inv offs show ?thesis by blast
qed

theorem mem_append_then_read_witness:
  "\<exists>offs s'. append_topic_message memory_adapter ''c'' ''t'' [build_byte (\<lambda>_. 3) 0 [1]] memory_new = (Ok offs, s') \<and>
    mem_inv s' \<and>
    offs = map word_of_nat [length (mem_store memory_new (shard_key ''c'' ''t'')) ..<
      length (mem_store memory_new (shard_key ''c'' ''t'')) + length [build_byte (\<lambda>_. 3) 0 [1]]] \<and>
    read_topic_message (\<lambda>_. 3) memory_adapter ''c'' ''t'' (hd offs) 1 s' =
      (Ok (stamp (length (mem_store memory_new (shard_key ''c'' ''t''))) [build_byte (\<lambda>_. 3) 0 [1]]), s')"
  by (rule mem_append_then_read)
     (simp_all add: memory_new_def mem_inv_def mem_store_def build_byte_def crc32_check_def)

text \<open>
  C26: on the memory adapter the group offset of a consumer group is the one committed last, as long as
  the group consumes one topic.
\<close>

theorem mem_group_offset:
  assumes "\<forall>k \<in> dom (case dm_get (group_data s) g of Some m \<Rightarrow> dm_get m | None \<Rightarrow> Map.empty).
      k = shard_key cluster topic" and "mem_inv s"
  shows "\<exists>s'. commit_group_offset memory_adapter cluster g topic off s = (Ok (), s') \<and>
    get_group_offset memory_adapter g s' = (Ok off, s')"
proof -
  let ?k = "shard_key cluster topic"
  let ?m = "case dm_get (group_data s) g of Some m \<Rightarrow> m | None \<Rightarrow> []"
  let ?s = "s\<lparr>group_data := dm_insert g (dm_insert ?k off ?m) (group_data s)\<rparr>"
  have c: "commit_group_offset memory_adapter cluster g topic off s = (Ok (), ?s)"
    by (simp add: commit_group_offset_def memory_adapter_def mem_commit_offset_def Let_def split: option.split)
  have wf: "dm_wf ?m" using assms(2) by (auto simp: mem_inv_def split: option.split)
  have "a = ?k" if "(a, b) \<in> set ?m" for a b
  proof -
    from that have "dm_get ?m a = Some b" using dm_get_in_set [OF wf] by blast
    then show ?thesis using assms(1) by (force split: option.splits)
  qed
  then have "set ?m \<subseteq> {?k} \<times> UNIV" by auto
  moreover have "distinct (map fst ?m)" using wf by (simp add: dm_wf_def)
  moreover have "set m \<subseteq> {?k} \<times> UNIV \<Longrightarrow> distinct (map fst m) \<Longrightarrow> m = [] \<or> (\<exists>v. m = [(?k, v)])"
    for m :: "(string, u64) dashmap"
    by (cases m; cases "tl m") auto
  ultimately have "?m = [] \<or> (\<exists>v. ?m = [(?k, v)])" by blast
  then have "dm_insert ?k off ?m = [(?k, off)]" by auto
  then have "get_group_offset memory_adapter g ?s = (Ok off, ?s)"
    by (simp add: get_group_offset_def memory_adapter_def mem_get_offset_by_group_def st_simps dm_simps)
  with c show ?thesis by blast
qed

theorem mem_group_offset_witness:
  "\<exists>s'. commit_group_offset memory_adapter ''c'' ''g'' ''t'' 7 memory_new = (Ok (), s') \<and>
    get_group_offset memory_adapter ''g'' s' = (Ok 7, s')"
  by (rule mem_group_offset) (simp_all add: memory_new_def mem_inv_def mem_store_def)

end
