(* ===== verification/Storage_Rocksdb.thy ===== *)
theory Storage_Rocksdb
  imports Rocksdb_Engine Message_Storage
begin

text \<open>
  \<open>RocksDBStorageAdapter\<close> of \<open>src/storage-adapter/src/rocksdb/mod.rs\<close>.  A shard has its next
  offset under \<open>/offset/\<close>, its records under \<open>/record/\<close> and two indexes.  Writes go through
  one thread per shard, so they run one after the other: a write is modelled as the call of
  \<open>thread_batch_write\<close> that its thread makes, and a thread as the flag whether it still
  runs.  Timeouts and the capacity of the channels are not modelled.

  The adapter meets the contract \<open>shard_log\<close> as long as no write fails half-way and no shard
  is deleted.
\<close>

section \<open>The adapter\<close>

record 'db rocks_env =
  env_db :: "'db rocksdb"
  env_u64 :: "u64 serde"
  env_record :: "Record serde"
  env_shard :: "ShardInfo serde"
  env_bytes :: "bytes serde"

record 'db RocksDBStorageAdapter =
  rdb :: 'db
  write_handles :: "(string, bool) dashmap"

type_synonym ('db, 'a) rprog = "('db RocksDBStorageAdapter, 'a) cprog"

definition on_db :: "('db, 'a) cprog \<Rightarrow> ('db, 'a) rprog" where
  "on_db m self = (case m (rdb self) of (r, db) \<Rightarrow> (r, self\<lparr>rdb := db\<rparr>))"

definition DB_COLUMN_FAMILY :: string where
  "DB_COLUMN_FAMILY = ''db''"

definition shard_record_key :: "string \<Rightarrow> string \<Rightarrow> u64 \<Rightarrow> string" where
  "shard_record_key namespace shard record_offset =
     ''/record/'' @ namespace @ ''/'' @ shard @ ''/record/'' @ show_020 record_offset"

definition shard_record_key_prefix :: "string \<Rightarrow> string \<Rightarrow> string" where
  "shard_record_key_prefix namespace shard = ''/record/'' @ namespace @ ''/'' @ shard @ ''/record/''"

definition shard_offset_key :: "string \<Rightarrow> string \<Rightarrow> string" where
  "shard_offset_key namespace shard = ''/offset/'' @ namespace @ ''/'' @ shard"

definition key_offset_key :: "string \<Rightarrow> string \<Rightarrow> string \<Rightarrow> string" where
  "key_offset_key namespace shard key = ''/key/'' @ namespace @ ''/'' @ shard @ ''/'' @ key"

definition tag_offsets_key :: "string \<Rightarrow> string \<Rightarrow> string \<Rightarrow> u64 \<Rightarrow> string" where
  "tag_offsets_key namespace shard tag offset =
     ''/tag/'' @ namespace @ ''/'' @ shard @ ''/'' @ tag @ ''/'' @ show_020 offset"

definition tag_offsets_key_prefix :: "string \<Rightarrow> string \<Rightarrow> string \<Rightarrow> string" where
  "tag_offsets_key_prefix namespace shard tag = ''/tag/'' @ namespace @ ''/'' @ shard @ ''/'' @ tag @ ''/''"

definition group_record_offsets_key :: "string \<Rightarrow> string \<Rightarrow> string \<Rightarrow> string" where
  "group_record_offsets_key group_name namespace shard = ''/group/'' @ group_name @ ''/'' @ namespace @ ''/'' @ shard"

definition group_record_offsets_key_prefix :: "string \<Rightarrow> string" where
  "group_record_offsets_key_prefix group_name = ''/group/'' @ group_name @ ''/''"

definition shard_info_key :: "string \<Rightarrow> string \<Rightarrow> string" where
  "shard_info_key namespace shard = ''/shard/'' @ namespace @ ''/'' @ shard"

definition write_handle_key :: "string \<Rightarrow> string \<Rightarrow> string" where
  "write_handle_key namespace shard_name = namespace @ ''-'' @ shard_name"

text \<open>\<open>db.cf_handle(DB_COLUMN_FAMILY).unwrap()\<close>\<close>

definition db_cf :: "'db rocks_env \<Rightarrow> ('db, string) cprog" where
  "db_cf E db = (unwrap (eng_cf_handle (env_db E) DB_COLUMN_FAMILY db), db)"

text \<open>The body of the loop over the messages: the writes for one message at its offset.\<close>

definition write_one ::
    "'db rocks_env \<Rightarrow> string \<Rightarrow> string \<Rightarrow> string \<Rightarrow> u64 \<Rightarrow> Record \<Rightarrow> ('db, unit) cprog" where
  "write_one E cf namespace shard_name start_offset msg =
     (let msg = msg\<lparr>r_offset := Some start_offset\<rparr> in
      s_bind (eng_write (env_db E) (env_record E) cf (shard_record_key namespace shard_name start_offset) msg) (\<lambda>_.
      s_bind (if r_key msg \<noteq> []
              then eng_write (env_db E) (env_u64 E) cf (key_offset_key namespace shard_name (r_key msg)) start_offset
              else s_ok ()) (\<lambda>_.
      s_for (r_tags msg) (\<lambda>tag.
        eng_write (env_db E) (env_u64 E) cf (tag_offsets_key namespace shard_name tag start_offset) start_offset))))"

primrec write_loop ::
    "'db rocks_env \<Rightarrow> string \<Rightarrow> string \<Rightarrow> string \<Rightarrow> Record list \<Rightarrow> u64 \<Rightarrow> u64 list \<Rightarrow>
     ('db, u64 \<times> u64 list) cprog" where
  "write_loop E cf namespace shard_name [] start_offset offset_res = s_ok (start_offset, offset_res)"
| "write_loop E cf namespace shard_name (msg # messages) start_offset offset_res =
     s_bind (write_one E cf namespace shard_name start_offset msg) (\<lambda>_.
     s_bind (s_lift (u64_add start_offset 1)) (\<lambda>next_offset.
       write_loop E cf namespace shard_name messages next_offset (offset_res @ [start_offset])))"

definition thread_batch_write ::
    "'db rocks_env \<Rightarrow> string \<Rightarrow> string \<Rightarrow> Record list \<Rightarrow> ('db, u64 list) cprog" where
  "thread_batch_write E namespace shard_name messages =
     s_bind (db_cf E) (\<lambda>cf.
     s_bind (eng_read (env_db E) (env_u64 E) cf (shard_offset_key namespace shard_name)) (\<lambda>offset.
       case offset of
         None \<Rightarrow>
           s_err (CommonError (''shard '' @ shard_name @ '' under '' @ namespace @ '' not exists''))
       | Some offset \<Rightarrow>
           s_bind (write_loop E cf namespace shard_name messages offset []) (\<lambda>(start_offset, offset_res).
           s_bind (eng_write (env_db E) (env_u64 E) cf (shard_offset_key namespace shard_name) start_offset) (\<lambda>_.
             s_ok offset_res))))"

text \<open>\<open>get_write_handle\<close> starts the thread of a shard when there is none yet.\<close>

definition get_write_handle :: "string \<Rightarrow> string \<Rightarrow> ('db, bool) rprog" where
  "get_write_handle namespace shard_name self =
     (let handle_key = write_handle_key namespace shard_name;
          self = (if dm_contains (write_handles self) handle_key then self
                  else self\<lparr>write_handles := dm_insert handle_key True (write_handles self)\<rparr>) in
      (unwrap (dm_get (write_handles self) handle_key), self))"

definition handle_write_request ::
    "'db rocks_env \<Rightarrow> string \<Rightarrow> string \<Rightarrow> Record list \<Rightarrow> ('db, u64 list) rprog" where
  "handle_write_request E namespace shard_name messages =
     s_bind (get_write_handle namespace shard_name) (\<lambda>running.
       if running then on_db (thread_batch_write E namespace shard_name messages)
       else s_err (CommonError ''Failed to send data to write thread: ''))"

section \<open>The methods of the trait\<close>

definition rdb_create_shard :: "'db rocks_env \<Rightarrow> ShardInfo \<Rightarrow> ('db, unit) rprog" where
  "rdb_create_shard E shard = on_db (
     let namespace = si_namespace shard; shard_name = si_shard_name shard;
         key = shard_offset_key namespace shard_name in
     s_bind (db_cf E) (\<lambda>cf.
     s_bind (eng_read (env_db E) (env_u64 E) cf key) (\<lambda>found.
       if found \<noteq> None then
         s_err (CommonError (''shard '' @ shard_name @ '' under namespace '' @ namespace @ '' already exists''))
       else
         s_bind (eng_write (env_db E) (env_u64 E) cf key 0) (\<lambda>_.
           case ser (env_shard E) shard of
             Ok v \<Rightarrow> eng_write (env_db E) (env_bytes E) cf (shard_info_key namespace shard_name) v
           | Err e \<Rightarrow> s_err (FromSerdeJsonError e)
           | Panic \<Rightarrow> s_lift Panic))))"

definition rdb_list_shard :: "string \<Rightarrow> string \<Rightarrow> ('db, ShardInfo list) rprog" where
  "rdb_list_shard namespace shard_name = s_ok []"

definition rdb_delete_shard :: "'db rocks_env \<Rightarrow> string \<Rightarrow> string \<Rightarrow> ('db, unit) rprog" where
  "rdb_delete_shard E namespace shard_name = on_db (
     let key = shard_offset_key namespace shard_name in
     s_bind (db_cf E) (\<lambda>cf.
     s_bind (eng_read (env_db E) (env_u64 E) cf key) (\<lambda>found.
       if found = None then
         s_err (CommonError (''shard '' @ shard_name @ '' under namespace '' @ namespace @ '' not exists''))
       else eng_delete (env_db E) cf key)))"

definition rdb_write :: "'db rocks_env \<Rightarrow> string \<Rightarrow> string \<Rightarrow> Record \<Rightarrow> ('db, u64) rprog" where
  "rdb_write E namespace shard_name message =
     s_bind (handle_write_request E namespace shard_name [message]) (\<lambda>offsets.
       s_lift (unwrap (case offsets of [] \<Rightarrow> None | off # _ \<Rightarrow> Some off)))"

definition rdb_batch_write :: "'db rocks_env \<Rightarrow> string \<Rightarrow> string \<Rightarrow> Record list \<Rightarrow> ('db, u64 list) rprog" where
  "rdb_batch_write E namespace shard_name messages = handle_write_request E namespace shard_name messages"

function read_loop ::
    "'db rocks_env \<Rightarrow> string \<Rightarrow> string \<Rightarrow> string \<Rightarrow> nat \<Rightarrow> nat \<Rightarrow> Record list \<Rightarrow> ('db, Record list) cprog" where
  "read_loop E cf namespace shard_name i end_offset records db =
     (if i < end_offset then
        s_bind (eng_read (env_db E) (env_record E) cf (shard_record_key namespace shard_name (word_of_nat i))) (\<lambda>record.
          case record of
            None \<Rightarrow> s_ok records
          | Some r \<Rightarrow> read_loop E cf namespace shard_name (i + 1) end_offset (records @ [r])) db
      else (Ok records, db))"
  by pat_completeness auto
termination
  by (relation "measure (\<lambda>(E, cf, ns, sh, i, e, rs, db). e - i)") auto

declare read_loop.simps [simp del]

definition rdb_read_by_offset ::
    "'db rocks_env \<Rightarrow> string \<Rightarrow> string \<Rightarrow> u64 \<Rightarrow> ReadConfig \<Rightarrow> ('db, Record list) rprog" where
  "rdb_read_by_offset E namespace shard_name offset read_config = on_db (
     s_bind (db_cf E) (\<lambda>cf.
     s_bind (s_lift (u64_add offset (max_record_num read_config))) (\<lambda>end_offset.
       read_loop E cf namespace shard_name (unat offset) (unat end_offset) [])))"

text \<open>The offsets of the index entries, at most \<open>max_record_num\<close> of them, and then the records.\<close>

fun tag_offsets ::
    "'db rocks_env \<Rightarrow> u64 \<Rightarrow> ReadConfig \<Rightarrow> (string \<times> bytes) list \<Rightarrow> u64 list \<Rightarrow> (u64 list, CommonError) result" where
  "tag_offsets E offset read_config [] offsets = Ok offsets"
| "tag_offsets E offset read_config ((_, v) # raw) offsets =
     (case de (env_u64 E) v of
        Ok record_offset \<Rightarrow>
          tag_offsets E offset read_config raw
            (if record_offset \<ge> offset \<and> length offsets < unat (max_record_num read_config)
             then offsets @ [record_offset] else offsets)
      | Err e \<Rightarrow> Err (FromSerdeJsonError e)
      | Panic \<Rightarrow> Panic)"

primrec read_records ::
    "'db rocks_env \<Rightarrow> string \<Rightarrow> string \<Rightarrow> string \<Rightarrow> u64 list \<Rightarrow> Record list \<Rightarrow> ('db, Record list) cprog" where
  "read_records E cf namespace shard_name [] records = s_ok records"
| "read_records E cf namespace shard_name (offset # offsets) records =
     s_bind (eng_read (env_db E) (env_record E) cf (shard_record_key namespace shard_name offset)) (\<lambda>record.
     s_bind (s_lift (ok_or record (CommonError ''Record not found''))) (\<lambda>record.
       read_records E cf namespace shard_name offsets (records @ [record])))"

definition rdb_read_by_tag ::
    "'db rocks_env \<Rightarrow> string \<Rightarrow> string \<Rightarrow> u64 \<Rightarrow> string \<Rightarrow> ReadConfig \<Rightarrow> ('db, Record list) rprog" where
  "rdb_read_by_tag E namespace shard_name offset tag read_config = on_db (
     s_bind (db_cf E) (\<lambda>cf.
     s_bind (eng_read_prefix (env_db E) cf (tag_offsets_key_prefix namespace shard_name tag)) (\<lambda>raw_offsets.
     s_bind (s_lift (tag_offsets E offset read_config raw_offsets [])) (\<lambda>offsets.
       read_records E cf namespace shard_name offsets []))))"

definition rdb_read_by_key ::
    "'db rocks_env \<Rightarrow> string \<Rightarrow> string \<Rightarrow> u64 \<Rightarrow> string \<Rightarrow> ReadConfig \<Rightarrow> ('db, Record list) rprog" where
  "rdb_read_by_key E namespace shard_name offset key read_config = on_db (
     s_bind (db_cf E) (\<lambda>cf.
     s_bind (eng_read (env_db E) (env_u64 E) cf (key_offset_key namespace shard_name key)) (\<lambda>found.
       case found of
         Some key_offset \<Rightarrow>
           if key_offset \<ge> offset \<and> max_record_num read_config \<ge> 1 then
             s_bind (eng_read (env_db E) (env_record E) cf (shard_record_key namespace shard_name offset)) (\<lambda>record.
             s_bind (s_lift (ok_or record (CommonError ''Record not found''))) (\<lambda>record.
               s_ok [record]))
           else s_ok []
       | None \<Rightarrow> s_ok [])))"

fun timestamp_loop ::
    "'db rocks_env \<Rightarrow> u64 \<Rightarrow> (string \<times> bytes) list \<Rightarrow> (ShardOffset option, CommonError) result" where
  "timestamp_loop E timestamp [] = Ok None"
| "timestamp_loop E timestamp ((_, v) # raw) =
     (case de (env_record E) v of
        Ok record \<Rightarrow>
          if r_timestamp record \<ge> timestamp then
            and_then (ok_or (r_offset record) (CommonError ''Record offset is None'')) (\<lambda>off.
              Ok (Some (shard_offset_default\<lparr>so_offset := off\<rparr>)))
          else timestamp_loop E timestamp raw
      | Err e \<Rightarrow> Err (FromSerdeJsonError e)
      | Panic \<Rightarrow> Panic)"

definition rdb_get_offset_by_timestamp ::
    "'db rocks_env \<Rightarrow> string \<Rightarrow> string \<Rightarrow> u64 \<Rightarrow> ('db, ShardOffset option) rprog" where
  "rdb_get_offset_by_timestamp E namespace shard_name timestamp = on_db (
     s_bind (db_cf E) (\<lambda>cf.
     s_bind (eng_read_prefix (env_db E) cf (shard_record_key_prefix namespace shard_name)) (\<lambda>raw_res.
       s_lift (timestamp_loop E timestamp raw_res))))"

fun group_loop ::
    "'db rocks_env \<Rightarrow> (string \<times> bytes) list \<Rightarrow> ShardOffset list \<Rightarrow> (ShardOffset list, CommonError) result" where
  "group_loop E [] offsets = Ok offsets"
| "group_loop E ((_, v) # raw) offsets =
     (case de (env_u64 E) v of
        Ok off \<Rightarrow> group_loop E raw (offsets @ [shard_offset_default\<lparr>so_offset := off\<rparr>])
      | Err e \<Rightarrow> Err (FromSerdeJsonError e)
      | Panic \<Rightarrow> Panic)"

definition rdb_get_offset_by_group :: "'db rocks_env \<Rightarrow> string \<Rightarrow> ('db, ShardOffset list) rprog" where
  "rdb_get_offset_by_group E group_name = on_db (
     s_bind (db_cf E) (\<lambda>cf.
     s_bind (eng_read_prefix (env_db E) cf (group_record_offsets_key_prefix group_name)) (\<lambda>raw_offsets.
       s_lift (group_loop E raw_offsets []))))"

definition rdb_commit_offset ::
    "'db rocks_env \<Rightarrow> string \<Rightarrow> string \<Rightarrow> (string, u64) dashmap \<Rightarrow> ('db, unit) rprog" where
  "rdb_commit_offset E group_name namespace offsets = on_db (
     s_bind (db_cf E) (\<lambda>cf.
       s_for offsets (\<lambda>(shard_name, offset).
         eng_write (env_db E) (env_u64 E) cf (group_record_offsets_key group_name namespace shard_name) offset)))"

text \<open>\<open>close\<close> stops the write threads; their handles stay in the map.\<close>

definition rdb_close :: "('db, unit) rprog" where
  "rdb_close self =
     (if list_all snd (write_handles self)
      then (Ok (), self\<lparr>write_handles := map (\<lambda>(k, _). (k, False)) (write_handles self)\<rparr>)
      else (Err TokioBroadcastSendErrorBool,
            self\<lparr>write_handles :=
              map (\<lambda>(k, _). (k, False)) (takeWhile snd (write_handles self)) @
              dropWhile snd (write_handles self)\<rparr>))"

definition rocksdb_adapter :: "'db rocks_env \<Rightarrow> 'db RocksDBStorageAdapter StorageAdapter" where
  "rocksdb_adapter E =
     \<lparr>sa_create_shard = rdb_create_shard E, sa_list_shard = rdb_list_shard,
      sa_delete_shard = rdb_delete_shard E, sa_write = rdb_write E, sa_batch_write = rdb_batch_write E,
      sa_read_by_offset = rdb_read_by_offset E, sa_read_by_tag = rdb_read_by_tag E,
      sa_read_by_key = rdb_read_by_key E, sa_get_offset_by_timestamp = rdb_get_offset_by_timestamp E,
      sa_get_offset_by_group = rdb_get_offset_by_group E, sa_commit_offset = rdb_commit_offset E,
      sa_close = rdb_close\<rparr>"

section \<open>The logs in the database\<close>

definition rdb_key :: "string \<Rightarrow> string \<Rightarrow> string" where
  "rdb_key namespace shard = namespace @ ''/'' @ shard"

definition reckey :: "string \<Rightarrow> u64 \<Rightarrow> string" where
  "reckey k off = ''/record/'' @ k @ ''/record/'' @ show_020 off"

definition offkey :: "string \<Rightarrow> string" where
  "offkey k = ''/offset/'' @ k"

definition data_key :: "string \<Rightarrow> bool" where
  "data_key k \<longleftrightarrow> prefix ''/record/'' k \<or> prefix ''/offset/'' k"

lemma keys_eq:
  "shard_record_key ns sh off = reckey (rdb_key ns sh) off" "shard_offset_key ns sh = offkey (rdb_key ns sh)"
  by (simp_all add: shard_record_key_def shard_offset_key_def reckey_def offkey_def rdb_key_def)

lemma reckey_inject [simp]: "reckey k off = reckey k' off' \<longleftrightarrow> k = k' \<and> off = off'"
proof -
  have "(k @ ''/record/'') @ show_020 off = (k' @ ''/record/'') @ show_020 off' \<longleftrightarrow> k = k' \<and> off = off'"
    by (subst append_eq_append_conv) (simp_all add: show_020_inject)
  then show ?thesis by (simp add: reckey_def)
qed

lemma offkey_inject [simp]: "offkey k = offkey k' \<longleftrightarrow> k = k'"
  by (simp add: offkey_def)

lemma data_keys [simp]:
  "data_key (reckey k off)" "data_key (offkey k)" "reckey k off \<noteq> offkey k'" "offkey k' \<noteq> reckey k off"
  "\<not> data_key (key_offset_key ns sh key)" "\<not> data_key (tag_offsets_key ns sh tag off)"
  by (simp_all add: data_key_def reckey_def offkey_def key_offset_key_def tag_offsets_key_def)

lemma handle_write_request_Ok:
  "handle_write_request E ns sh rs s = (Ok offs, s') \<Longrightarrow>
   thread_batch_write E ns sh rs (rdb s) = (Ok offs, rdb s')"
  by (auto simp: handle_write_request_def s_bind_eq_Ok get_write_handle_def Let_def on_db_def s_eqs
      split: if_splits prod.splits)

text \<open>
  The log of a shard: its length is the stored offset, its records are those stored below
  it.  The invariant: every record below the offset is there and carries its index, and
  there is none from the offset on.
\<close>

definition rdb_len :: "('db \<Rightarrow> string \<Rightarrow> string \<rightharpoonup> bytes) \<Rightarrow> 'db rocks_env \<Rightarrow> 'db \<Rightarrow> string \<Rightarrow> nat" where
  "rdb_len view E db k =
     (case stored view (env_u64 E) db DB_COLUMN_FAMILY (offkey k) of None \<Rightarrow> 0 | Some n \<Rightarrow> unat n)"

definition rdb_record ::
    "('db \<Rightarrow> string \<Rightarrow> string \<rightharpoonup> bytes) \<Rightarrow> 'db rocks_env \<Rightarrow> 'db \<Rightarrow> string \<Rightarrow> nat \<Rightarrow> Record option" where
  "rdb_record view E db k i = stored view (env_record E) db DB_COLUMN_FAMILY (reckey k (word_of_nat i))"

definition rdb_log :: "('db \<Rightarrow> string \<Rightarrow> string \<rightharpoonup> bytes) \<Rightarrow> 'db rocks_env \<Rightarrow> 'db \<Rightarrow> string \<Rightarrow> Record list" where
  "rdb_log view E db k = map (\<lambda>i. the (rdb_record view E db k i)) [0 ..< rdb_len view E db k]"

definition rdb_wf :: "('db \<Rightarrow> string \<Rightarrow> string \<rightharpoonup> bytes) \<Rightarrow> 'db rocks_env \<Rightarrow> 'db \<Rightarrow> bool" where
  "rdb_wf view E db \<longleftrightarrow> (\<forall>k.
     (\<forall>i < rdb_len view E db k. \<exists>r. rdb_record view E db k i = Some r \<and> r_offset r = Some (word_of_nat i)) \<and>
     (\<forall>i. rdb_len view E db k \<le> i \<and> i < 2 ^ 64 \<longrightarrow> rdb_record view E db k i = None))"

lemma rdb_len_bound: "rdb_len view E db k < 2 ^ 64"
proof -
  have "unat (n :: u64) < 2 ^ LENGTH(64)" for n by (rule unsigned_less)
  then show ?thesis by (simp add: rdb_len_def split: option.split)
qed

lemma length_rdb_log [simp]: "length (rdb_log view E db k) = rdb_len view E db k"
  by (simp add: rdb_log_def)

lemma rdb_log_wf: "rdb_wf view E db \<Longrightarrow> log_wf (rdb_log view E db k)"
  unfolding rdb_wf_def log_wf_def by (fastforce simp: rdb_log_def)

locale rocks_store = rocksdb_laws "env_db E" view
  for E :: "'db rocks_env" and view :: "'db \<Rightarrow> string \<Rightarrow> string \<rightharpoonup> bytes" +
  assumes u64_serde: "serde_laws (env_u64 E)"
    and record_serde: "serde_laws (env_record E)"
begin

lemma db_cf_Ok: "db_cf E db = (Ok cf, db') \<longleftrightarrow> cf = DB_COLUMN_FAMILY \<and> db' = db \<and> rk_cf (env_db E) db DB_COLUMN_FAMILY"
  by (auto simp: db_cf_def eng_cf_handle_def)

lemma write_tags:
  assumes "s_for tags (\<lambda>tag. eng_write (env_db E) (env_u64 E) cf (tag_offsets_key ns sh tag off) off) db = (Ok u, db')"
    and "data_key k"
  shows "view db' cf k = view db cf k"
  using assms(1)
proof (induction tags arbitrary: db)
  case (Cons t tags)
  then obtain db1 where w: "eng_write (env_db E) (env_u64 E) cf (tag_offsets_key ns sh t off) off db = (Ok (), db1)"
    and rest: "s_for tags (\<lambda>tag. eng_write (env_db E) (env_u64 E) cf (tag_offsets_key ns sh tag off) off) db1 = (Ok u, db')"
    by (auto simp: s_bind_eq_Ok)
  have "view db1 cf k = view db cf k"
    by (rule eng_write_stored(2) [OF u64_serde w]) (use assms(2) in auto)
  with Cons.IH [OF rest] show ?case by simp
qed (simp add: s_eqs)

lemma write_one_effect:
  assumes "write_one E cf ns sh off msg db = (Ok u, db')"
  shows "stored view (env_record E) db' cf (reckey (rdb_key ns sh) off) = Some (msg\<lparr>r_offset := Some off\<rparr>)"
    and "\<And>k. data_key k \<Longrightarrow> k \<noteq> reckey (rdb_key ns sh) off \<Longrightarrow> view db' cf k = view db cf k"
proof -
  from assms obtain db1 db2 where
      w1: "eng_write (env_db E) (env_record E) cf (reckey (rdb_key ns sh) off) (msg\<lparr>r_offset := Some off\<rparr>) db = (Ok (), db1)"
    and w2: "(if r_key msg \<noteq> [] then eng_write (env_db E) (env_u64 E) cf (key_offset_key ns sh (r_key msg)) off
              else s_ok ()) db1 = (Ok (), db2)"
    and w3: "s_for (r_tags msg) (\<lambda>tag. eng_write (env_db E) (env_u64 E) cf (tag_offsets_key ns sh tag off) off) db2 = (Ok u, db')"
    by (auto simp: write_one_def s_bind_eq_Ok Let_def keys_eq cong: if_cong)
  have 2: "view db2 cf k = view db1 cf k" if "data_key k" for k
  proof (cases "r_key msg = []")
    case False
    with w2 have w: "eng_write (env_db E) (env_u64 E) cf (key_offset_key ns sh (r_key msg)) off db1 = (Ok (), db2)"
      by simp
    show ?thesis by (rule eng_write_stored(2) [OF u64_serde w]) (use that in auto)
  qed (use w2 in \<open>simp add: s_eqs\<close>)
  have 3: "view db' cf k = view db1 cf k" if "data_key k" for k
    using write_tags [OF w3 that] 2 [OF that] by simp
  show "stored view (env_record E) db' cf (reckey (rdb_key ns sh) off) = Some (msg\<lparr>r_offset := Some off\<rparr>)"
    using 3 [of "reckey (rdb_key ns sh) off"] eng_write_stored(1) [OF record_serde w1]
    by (simp add: stored_def)
  show "view db' cf k = view db cf k" if "data_key k" "k \<noteq> reckey (rdb_key ns sh) off" for k
    using 3 [OF that(1)] eng_write_stored(2) [OF record_serde w1, of cf k] that(2) by simp
qed

lemma write_loop_effect:
  assumes "write_loop E cf ns sh msgs (word_of_nat n) res db = (Ok (next, offs), db')"
    and "n + length msgs < 2 ^ 64"
  shows "next = word_of_nat (n + length msgs) \<and> offs = res @ map word_of_nat [n ..< n + length msgs] \<and>
    (\<forall>i < length msgs. stored view (env_record E) db' cf (reckey (rdb_key ns sh) (word_of_nat (n + i))) =
      Some (stamp n msgs ! i)) \<and>
    (\<forall>k. data_key k \<longrightarrow> (\<forall>i < length msgs. k \<noteq> reckey (rdb_key ns sh) (word_of_nat (n + i))) \<longrightarrow>
      view db' cf k = view db cf k)"
  using assms
proof (induction msgs arbitrary: n res db)
  case Nil
  then show ?case by (simp add: s_eqs)
next
  case (Cons m msgs)
  let ?w = "word_of_nat n :: u64" and ?rk = "\<lambda>i. reckey (rdb_key ns sh) (word_of_nat i)"
  have n: "unat ?w = n" using Cons.prems(2) by (simp add: unat_word_of_nat_u64)
  then have add: "u64_add ?w 1 = Ok (word_of_nat (Suc n))"
    using Cons.prems(2) by (simp add: u64_add_def)
  from Cons.prems(1) obtain db1 where w: "write_one E cf ns sh ?w m db = (Ok (), db1)"
    and rest: "write_loop E cf ns sh msgs (word_of_nat (Suc n)) (res @ [?w]) db1 = (Ok (next, offs), db')"
    by (auto simp: s_bind_eq_Ok s_eqs add)
  have inj: "word_of_nat i = (word_of_nat j :: u64) \<longleftrightarrow> i = j" if "i < 2 ^ 64" "j < 2 ^ 64" for i j
    using that unat_word_of_nat_u64 by metis
  from Cons.IH [OF rest] Cons.prems(2)
  have IH: "next = word_of_nat (Suc n + length msgs)" "offs = (res @ [?w]) @ map word_of_nat [Suc n ..< Suc n + length msgs]"
    "\<And>i. i < length msgs \<Longrightarrow> stored view (env_record E) db' cf (?rk (Suc n + i)) = Some (stamp (Suc n) msgs ! i)"
    "\<And>k. data_key k \<Longrightarrow> \<forall>i < length msgs. k \<noteq> ?rk (Suc n + i) \<Longrightarrow> view db' cf k = view db1 cf k"
    by simp_all
  note one = write_one_effect [OF w]
  have "?rk n \<noteq> ?rk (Suc n + i)" if "i < length msgs" for i
    using Cons.prems(2) that inj [of n "Suc n + i"] by (simp del: of_nat_add of_nat_Suc)
  then have "view db' cf (?rk n) = view db1 cf (?rk n)" by (intro IH(4)) auto
  then have "stored view (env_record E) db' cf (?rk n) = Some (m\<lparr>r_offset := Some ?w\<rparr>)"
    using one(1) stored_cong by metis
  moreover have "view db' cf k = view db cf k" if "data_key k" "\<forall>i < Suc (length msgs). k \<noteq> ?rk (n + i)" for k
    using that IH(4) [of k] one(2) [of k] by force
  ultimately show ?case
    using IH(1-3) by (auto simp: upt_conv_Cons nth_Cons ac_simps simp del: upt_Suc split: nat.split)
qed

text \<open>A batch that succeeds appends its records to the log and leaves the other logs alone.\<close>

lemma thread_batch_write_effect:
  assumes "thread_batch_write E ns sh msgs db = (Ok offs, db')"
    and "rdb_wf view E db" and "k = rdb_key ns sh" and "n = rdb_len view E db k" and "n + length msgs < 2 ^ 64"
  shows "offs = map word_of_nat [n ..< n + length msgs]"
    and "rdb_len view E db' k' = (if k' = k then n + length msgs else rdb_len view E db k')"
    and "i < 2 ^ 64 \<Longrightarrow> rdb_record view E db' k i =
      (if n \<le> i \<and> i < n + length msgs then Some (stamp n msgs ! (i - n)) else rdb_record view E db k i)"
    and "k'' \<noteq> k \<Longrightarrow> rdb_record view E db' k'' j = rdb_record view E db k'' j"
proof -
  let ?cf = DB_COLUMN_FAMILY and ?rk = "\<lambda>i. reckey k (word_of_nat i)"
  from assms(1) obtain off nxt db1 where
      rd: "eng_read (env_db E) (env_u64 E) ?cf (offkey k) db = (Ok (Some off), db)"
    and lp: "write_loop E ?cf ns sh msgs off [] db = (Ok (nxt, offs), db1)"
    and wr: "eng_write (env_db E) (env_u64 E) ?cf (offkey k) nxt db1 = (Ok (), db')"
    by (auto simp: thread_batch_write_def s_bind_eq_Ok s_eqs db_cf_Ok keys_eq eng_read_Ok assms(3)
        split: option.splits)
  from eng_read_stored [OF rd] have off: "stored view (env_u64 E) db ?cf (offkey k) = Some off" by simp
  then have n: "unat off = n" "off = word_of_nat n" by (simp_all add: assms(4) rdb_len_def)
  from write_loop_effect [OF lp [unfolded n(2)] assms(5)]
  have nxt: "nxt = word_of_nat (n + length msgs)" and offs: "offs = map word_of_nat [n ..< n + length msgs]"
    and new: "\<And>i. i < length msgs \<Longrightarrow> stored view (env_record E) db1 ?cf (?rk (n + i)) = Some (stamp n msgs ! i)"
    and old: "\<And>q. data_key q \<Longrightarrow> \<forall>i < length msgs. q \<noteq> ?rk (n + i) \<Longrightarrow> view db1 ?cf q = view db ?cf q"
    by (simp_all add: assms(3))
  have off': "stored view (env_u64 E) db' ?cf (offkey k) = Some nxt"
    by (rule eng_write_stored(1) [OF u64_serde wr])
  have keep: "view db' ?cf q = view db1 ?cf q" if "q \<noteq> offkey k" for q
    by (rule eng_write_stored(2) [OF u64_serde wr]) (use that in simp)
  have inj: "word_of_nat i = (word_of_nat j :: u64) \<longleftrightarrow> i = j" if "i < 2 ^ 64" "j < 2 ^ 64" for i j
    using that unat_word_of_nat_u64 by metis
  show "offs = map word_of_nat [n ..< n + length msgs]" by (rule offs)
  show "rdb_len view E db' k' = (if k' = k then n + length msgs else rdb_len view E db k')"
  proof (cases "k' = k")
    case True
    then show ?thesis
      using off' nxt unat_word_of_nat_u64 [OF assms(5)] by (simp add: rdb_len_def del: of_nat_add)
  next
    case False
    then have "view db' ?cf (offkey k') = view db ?cf (offkey k')" by (simp add: keep old)
    with False show ?thesis by (simp add: rdb_len_def stored_def)
  qed
  show "rdb_record view E db' k i =
      (if n \<le> i \<and> i < n + length msgs then Some (stamp n msgs ! (i - n)) else rdb_record view E db k i)"
    if i: "i < 2 ^ 64"
  proof (cases "n \<le> i \<and> i < n + length msgs")
    case True
    then have "i = n + (i - n)" "i - n < length msgs" by auto
    then have "stored view (env_record E) db1 ?cf (?rk i) = Some (stamp n msgs ! (i - n))" using new by metis
    then show ?thesis using True keep [of "?rk i"] by (simp add: rdb_record_def stored_def)
  next
    case False
    then have "\<forall>j < length msgs. ?rk i \<noteq> ?rk (n + j)"
      using i assms(5) inj [of i] by (auto simp del: of_nat_add)
    then have "view db' ?cf (?rk i) = view db ?cf (?rk i)" using old [of "?rk i"] keep [of "?rk i"] by simp
    with False show ?thesis by (auto simp: rdb_record_def stored_def)
  qed
  show "rdb_record view E db' k'' j = rdb_record view E db k'' j" if "k'' \<noteq> k" for k'' j
    using that old [of "reckey k'' (word_of_nat j)"] keep [of "reckey k'' (word_of_nat j)"]
    by (simp add: rdb_record_def stored_def)
qed

lemma thread_batch_write_log:
  assumes "thread_batch_write E ns sh msgs db = (Ok offs, db')"
    and "rdb_wf view E db" and "rdb_len view E db (rdb_key ns sh) + length msgs < 2 ^ 64"
  shows "rdb_log view E db' = (rdb_log view E db)
      (rdb_key ns sh := rdb_log view E db (rdb_key ns sh) @ stamp (rdb_len view E db (rdb_key ns sh)) msgs)"
    and "rdb_wf view E db'"
proof -
  let ?k = "rdb_key ns sh" and ?n = "rdb_len view E db (rdb_key ns sh)"
  note eff = thread_batch_write_effect [OF assms(1,2) refl refl assms(3)]
  have rec: "rdb_record view E db' ?k i =
      (if i < ?n then rdb_record view E db ?k i else Some (stamp ?n msgs ! (i - ?n)))"
    if "i < ?n + length msgs" for i
    using that assms(3) by (simp add: eff(3))
  have "rdb_log view E db' ?k = rdb_log view E db ?k @ stamp ?n msgs"
    by (rule nth_equalityI) (simp_all add: eff(2) nth_append, simp_all add: rdb_log_def eff(2) rec)
  moreover have "rdb_log view E db' k = rdb_log view E db k" if "k \<noteq> ?k" for k
    using that by (simp add: rdb_log_def eff(2,4))
  ultimately show "rdb_log view E db' = (rdb_log view E db)(?k := rdb_log view E db ?k @ stamp ?n msgs)"
    by (simp add: fun_eq_iff)
  have old: "(\<forall>i < rdb_len view E db k. \<exists>r. rdb_record view E db k i = Some r \<and> r_offset r = Some (word_of_nat i)) \<and>
      (\<forall>i. rdb_len view E db k \<le> i \<and> i < 2 ^ 64 \<longrightarrow> rdb_record view E db k i = None)" for k
    using assms(2) by (simp add: rdb_wf_def)
  have "\<exists>r. rdb_record view E db' ?k i = Some r \<and> r_offset r = Some (word_of_nat i)"
    if "i < ?n + length msgs" for i
    using that old [of ?k] stamp_nth [of "i - ?n" msgs ?n] by (auto simp: rec)
  moreover have "rdb_record view E db' ?k i = None" if "?n + length msgs \<le> i" "i < 2 ^ 64" for i
    using that old [of ?k] by (simp add: eff(3))
  ultimately show "rdb_wf view E db'"
    unfolding rdb_wf_def using old by (auto simp: eff(2,4))
qed

text \<open>What the read loop returns when the records of the shard are those of a log.\<close>

lemma read_loop_records:
  assumes "read_loop E DB_COLUMN_FAMILY ns sh i e acc db = (Ok rs, db')" and "e < 2 ^ 64"
    and "\<forall>j < length xs. rdb_record view E db (rdb_key ns sh) j = Some (xs ! j)"
    and "\<forall>j. length xs \<le> j \<and> j < 2 ^ 64 \<longrightarrow> rdb_record view E db (rdb_key ns sh) j = None"
  shows "rs = acc @ take (e - i) (drop i xs) \<and> db' = db"
  using assms(1)
proof (induction "e - i" arbitrary: i acc)
  case 0
  then show ?case by (simp add: read_loop.simps [of _ _ _ _ i])
next
  case (Suc m)
  let ?k = "rdb_key ns sh"
  have i: "i < e" using Suc.hyps(2) by simp
  with Suc.prems obtain rec where
      rd: "eng_read (env_db E) (env_record E) DB_COLUMN_FAMILY (reckey ?k (word_of_nat i)) db = (Ok rec, db)"
    and rest: "(case rec of None \<Rightarrow> s_ok acc
        | Some r \<Rightarrow> read_loop E DB_COLUMN_FAMILY ns sh (i + 1) e (acc @ [r])) db = (Ok rs, db')"
    by (auto simp: read_loop.simps [of _ _ _ _ i] s_bind_eq_Ok keys_eq eng_read_Ok)
  have rec: "rec = rdb_record view E db ?k i" using eng_read_stored [OF rd] by (simp add: rdb_record_def)
  show ?case
  proof (cases "i < length xs")
    case True
    then have r: "rec = Some (xs ! i)" using assms(3) rec by simp
    moreover have "drop i xs = xs ! i # drop (Suc i) xs" using True by (simp add: Cons_nth_drop_Suc)
    moreover have "m = e - (i + 1)" using Suc.hyps(2) by simp
    moreover from rest r have "read_loop E DB_COLUMN_FAMILY ns sh (i + 1) e (acc @ [xs ! i]) db = (Ok rs, db')"
      by simp
    ultimately show ?thesis using Suc.hyps(1) Suc.hyps(2) [symmetric] by fastforce
  next
    case False
    then have "rec = None" using assms(2,4) i rec by simp
    with rest False show ?thesis by (simp add: s_eqs)
  qed
qed

lemma rdb_log_records:
  assumes "rdb_wf view E db"
  shows "\<forall>j < length (rdb_log view E db k). rdb_record view E db k j = Some (rdb_log view E db k ! j)"
    and "\<forall>j. length (rdb_log view E db k) \<le> j \<and> j < 2 ^ 64 \<longrightarrow> rdb_record view E db k j = None"
  using assms unfolding rdb_wf_def by (fastforce simp: rdb_log_def)+

text \<open>The loop of \<open>read_by_offset\<close> returns a window of the log.\<close>

lemma read_loop_log:
  assumes "read_loop E DB_COLUMN_FAMILY ns sh i e acc db = (Ok rs, db')"
    and "rdb_wf view E db" and "e < 2 ^ 64"
  shows "rs = acc @ take (e - i) (drop i (rdb_log view E db (rdb_key ns sh))) \<and> db' = db"
  by (rule read_loop_records [OF assms(1,3) rdb_log_records [OF assms(2)]])

end

sublocale rocks_store \<subseteq> rocks_log: shard_log "rocksdb_adapter E" rdb_key "\<lambda>s. rdb_log view E (rdb s)"
  "\<lambda>s. rdb_wf view E (rdb s)"
proof unfold_locales
  fix s k
  show "rdb_wf view E (rdb s) \<Longrightarrow> log_wf (rdb_log view E (rdb s) k)" by (rule rdb_log_wf)
next
  fix s s' :: "'db RocksDBStorageAdapter" and xs ns sh rs offs
  assume wf: "rdb_wf view E (rdb s)" and xs: "xs = rdb_log view E (rdb s) (rdb_key ns sh)"
    and len: "length xs + length rs < 2 ^ 64"
    and w: "sa_batch_write (rocksdb_adapter E) ns sh rs s = (Ok offs, s')"
  from w have "thread_batch_write E ns sh rs (rdb s) = (Ok offs, rdb s')"
    by (simp add: rocksdb_adapter_def rdb_batch_write_def handle_write_request_Ok)
  with thread_batch_write_effect(1) [OF this wf refl refl] thread_batch_write_log [OF this wf] len
  show "offs = map word_of_nat [length xs ..< length xs + length rs] \<and>
      rdb_log view E (rdb s') = (rdb_log view E (rdb s))(rdb_key ns sh := xs @ stamp (length xs) rs) \<and>
      rdb_wf view E (rdb s')"
    by (simp add: xs)
next
  fix s s' :: "'db RocksDBStorageAdapter" and xs ns sh r off
  assume wf: "rdb_wf view E (rdb s)" and xs: "xs = rdb_log view E (rdb s) (rdb_key ns sh)"
    and len: "length xs + 1 < 2 ^ 64"
    and w: "sa_write (rocksdb_adapter E) ns sh r s = (Ok off, s')"
  from w obtain offs where h: "handle_write_request E ns sh [r] s = (Ok offs, s')"
      and first: "(case offs of [] \<Rightarrow> None | off # _ \<Rightarrow> Some off) = Some off"
    by (auto simp: rocksdb_adapter_def rdb_write_def s_bind_eq_Ok s_eqs)
  from first have off: "offs = off # tl offs" by (cases offs) simp_all
  have t: "thread_batch_write E ns sh [r] (rdb s) = (Ok offs, rdb s')" by (rule handle_write_request_Ok [OF h])
  from off thread_batch_write_effect(1) [OF t wf refl refl] thread_batch_write_log [OF t wf] len
  show "off = word_of_nat (length xs) \<and>
      rdb_log view E (rdb s') = (rdb_log view E (rdb s))(rdb_key ns sh := xs @ stamp (length xs) [r]) \<and>
      rdb_wf view E (rdb s')"
    by (simp add: xs)
next
  fix s s' :: "'db RocksDBStorageAdapter" and ns sh rs and off :: u64 and conf :: ReadConfig
  assume wf: "rdb_wf view E (rdb s)" and b: "unat off + unat (max_record_num conf) < 2 ^ 64"
    and r: "sa_read_by_offset (rocksdb_adapter E) ns sh off conf s = (Ok rs, s')"
  then obtain db' where "read_loop E DB_COLUMN_FAMILY ns sh (unat off) (unat off + unat (max_record_num conf)) []
      (rdb s) = (Ok rs, db')" "s' = s\<lparr>rdb := db'\<rparr>"
    by (auto simp: rocksdb_adapter_def rdb_read_by_offset_def on_db_def s_bind_eq_Ok db_cf_Ok s_eqs
        u64_add_ok unat_u64_add split: prod.splits)
  with read_loop_log [OF this(1) wf b] show "rs = window off conf (rdb_log view E (rdb s) (rdb_key ns sh)) \<and> s' = s"
    by (simp add: window_def)
qed

context rocks_store
begin

lemma log_axioms: "shard_log (rocksdb_adapter E) rdb_key (\<lambda>s. rdb_log view E (rdb s)) (\<lambda>s. rdb_wf view E (rdb s))"
  by (rule rocks_log.shard_log_axioms)

text \<open>Deleting a shard removes its offset and nothing else.\<close>

lemma delete_shard_view:
  assumes "rdb_delete_shard E ns sh s = (Ok u, s')"
  shows "view (rdb s') = (view (rdb s))
    (DB_COLUMN_FAMILY := (view (rdb s) DB_COLUMN_FAMILY)(offkey (rdb_key ns sh) := None))"
  using assms
  by (auto simp: rdb_delete_shard_def on_db_def s_bind_eq_Ok db_cf_Ok keys_eq Let_def eng_read_Ok
      eng_delete_def s_match_eq_Ok s_eqs split: prod.splits if_splits dest!: delete_ok)

end

context rocks_store
begin

lemma deleted_shard_read:
  assumes "rdb_wf view E (rdb s)" and "rdb_delete_shard E ns sh s = (Ok (), s')"
    and "unat off + unat (max_record_num conf) < 2 ^ 64"
    and "rdb_read_by_offset E ns sh off conf s' = (Ok rs, s'')"
  shows "rs = window off conf (rdb_log view E (rdb s) (rdb_key ns sh)) \<and> rdb_len view E (rdb s') (rdb_key ns sh) = 0"
proof
  let ?k = "rdb_key ns sh" and ?xs = "rdb_log view E (rdb s) (rdb_key ns sh)"
  note v = delete_shard_view [OF assms(2)]
  have rec: "rdb_record view E (rdb s') k j = rdb_record view E (rdb s) k j" for k j
    by (simp add: rdb_record_def stored_def v)
  show "rdb_len view E (rdb s') ?k = 0" by (simp add: rdb_len_def stored_def v)
  from assms(3,4) obtain db' where
    "read_loop E DB_COLUMN_FAMILY ns sh (unat off) (unat off + unat (max_record_num conf)) [] (rdb s') = (Ok rs, db')"
    by (auto simp: rdb_read_by_offset_def on_db_def s_bind_eq_Ok db_cf_Ok s_eqs u64_add_ok unat_u64_add
        split: prod.splits)
  from read_loop_records [OF this assms(3), of ?xs] rdb_log_records [OF assms(1), of ?k]
  show "rs = window off conf ?xs" by (simp add: rec window_def)
qed

lemma read_by_key_record:
  assumes "rdb_read_by_key E ns sh off key conf s = (Ok rs, s')"
    and "stored view (env_u64 E) (rdb s) DB_COLUMN_FAMILY (key_offset_key ns sh key) = Some key_offset"
    and "off \<le> key_offset" and "1 \<le> max_record_num conf"
  shows "\<exists>r. rs = [r] \<and> rdb_record view E (rdb s) (rdb_key ns sh) (unat off) = Some r"
proof -
  from assms(1) obtain found db' where
      f: "eng_read (env_db E) (env_u64 E) DB_COLUMN_FAMILY (key_offset_key ns sh key) (rdb s) = (Ok found, rdb s)"
    and rest: "(case found of
         Some key_offset \<Rightarrow>
           if key_offset \<ge> off \<and> max_record_num conf \<ge> 1 then
             s_bind (eng_read (env_db E) (env_record E) DB_COLUMN_FAMILY (shard_record_key ns sh off)) (\<lambda>record.
             s_bind (s_lift (ok_or record (CommonError ''Record not found''))) (\<lambda>record.
               s_ok [record]))
           else s_ok []
       | None \<Rightarrow> s_ok []) (rdb s) = (Ok rs, db')"
    by (auto simp: rdb_read_by_key_def on_db_def s_bind_eq_Ok db_cf_Ok eng_read_Ok split: prod.splits)
  have "found = Some key_offset" using eng_read_stored [OF f] assms(2) by simp
  with rest assms(3,4) obtain r where
    "eng_read (env_db E) (env_record E) DB_COLUMN_FAMILY (reckey (rdb_key ns sh) off) (rdb s) = (Ok (Some r), rdb s)"
    "rs = [r]"
    by (auto simp: s_bind_eq_Ok s_eqs keys_eq eng_read_Ok)
  with eng_read_stored [OF this(1)] show ?thesis by (simp add: rdb_record_def)
qed

end

section \<open>An instance\<close>

text \<open>
  The laws can hold together: a database in memory, numbers in decimal and records in a
  self-delimiting code.
\<close>

definition enc_nat :: "nat \<Rightarrow> bytes" where
  "enc_nat n = replicate n 1 @ [0]"

definition dec_nat :: "bytes \<Rightarrow> nat \<times> bytes" where
  "dec_nat bs = (length (takeWhile ((=) 1) bs), tl (dropWhile ((=) 1) bs))"

definition enc_list :: "('a \<Rightarrow> bytes) \<Rightarrow> 'a list \<Rightarrow> bytes" where
  "enc_list enc xs = enc_nat (length xs) @ concat (map enc xs)"

primrec dec_times :: "(bytes \<Rightarrow> 'a \<times> bytes) \<Rightarrow> nat \<Rightarrow> bytes \<Rightarrow> 'a list \<times> bytes" where
  "dec_times dec 0 bs = ([], bs)"
| "dec_times dec (Suc n) bs =
     (let (x, bs) = dec bs; (xs, bs) = dec_times dec n bs in (x # xs, bs))"

definition dec_list :: "(bytes \<Rightarrow> 'a \<times> bytes) \<Rightarrow> bytes \<Rightarrow> 'a list \<times> bytes" where
  "dec_list dec bs = (let (n, bs) = dec_nat bs in dec_times dec n bs)"

definition enc_char :: "char \<Rightarrow> bytes" where
  "enc_char c = [word_of_nat (of_char c)]"

definition dec_char :: "bytes \<Rightarrow> char \<times> bytes" where
  "dec_char bs = (char_of (unat (hd bs)), tl bs)"

definition enc_record :: "Record \<Rightarrow> bytes" where
  "enc_record r =
     enc_list (\<lambda>x. enc_nat (unat x)) (case r_offset r of None \<Rightarrow> [] | Some x \<Rightarrow> [x]) @
     enc_list (\<lambda>h. enc_list enc_char (h_name h) @ enc_list enc_char (h_value h)) (r_header r) @
     enc_list enc_char (r_key r) @ enc_list (\<lambda>b. [b]) (r_data r) @ enc_list (enc_list enc_char) (r_tags r) @
     enc_nat (unat (r_timestamp r)) @ enc_nat (unat (r_delay_timestamp r)) @ enc_nat (unat (r_crc_num r))"

definition dec_header :: "bytes \<Rightarrow> Header \<times> bytes" where
  "dec_header bs =
     (let (n, bs) = dec_list dec_char bs; (v, bs) = dec_list dec_char bs in (\<lparr>h_name = n, h_value = v\<rparr>, bs))"

definition dec_u64 :: "bytes \<Rightarrow> u64 \<times> bytes" where
  "dec_u64 bs = (let (n, bs) = dec_nat bs in (word_of_nat n, bs))"

definition dec_record :: "bytes \<Rightarrow> Record" where
  "dec_record bs =
     (let (off, bs) = dec_list dec_u64 bs;
          (hs, bs) = dec_list dec_header bs; (k, bs) = dec_list dec_char bs;
          (d, bs) = dec_list (\<lambda>bs. (hd bs, tl bs)) bs; (ts, bs) = dec_list (dec_list dec_char) bs;
          (t, bs) = dec_nat bs; (dt, bs) = dec_nat bs; (c, bs) = dec_nat bs in
      \<lparr>r_offset = (if off = [] then None else Some (hd off)), r_header = hs, r_key = k, r_data = d, r_tags = ts,
       r_timestamp = word_of_nat t, r_delay_timestamp = word_of_nat dt, r_crc_num = word_of_nat c\<rparr>)"

lemma dec_enc_nat [simp]: "dec_nat (enc_nat n @ rest) = (n, rest)"
  by (induction n) (simp_all add: enc_nat_def dec_nat_def)

lemma dec_enc_list:
  assumes "\<And>x rest. dec (enc x @ rest) = (x, rest)"
  shows "dec_list dec (enc_list enc xs @ rest) = (xs, rest)"
proof -
  have "dec_times dec (length xs) (concat (map enc xs) @ rest) = (xs, rest)"
    by (induction xs) (simp_all add: assms)
  then show ?thesis by (simp add: dec_list_def enc_list_def)
qed

lemma dec_enc_string [simp]: "dec_list dec_char (enc_list enc_char s @ rest) = (s, rest)"
proof (rule dec_enc_list)
  fix c rest
  have "of_char c < (256 :: nat)" using nat_of_char_less_256 [of c] by simp
  then show "dec_char (enc_char c @ rest) = (c, rest)"
    by (simp add: dec_char_def enc_char_def unat_of_nat take_bit_nat_eq_self)
qed

lemma dec_enc_record: "dec_record (enc_record r) = r"
proof -
  let ?eh = "\<lambda>h. enc_list enc_char (h_name h) @ enc_list enc_char (h_value h)"
  have h: "dec_list dec_header (enc_list ?eh hs @ rest) = (hs, rest)" for hs rest
    by (rule dec_enc_list) (simp add: dec_header_def)
  have w: "dec_list dec_u64 (enc_list (\<lambda>x. enc_nat (unat x)) ws @ rest) = (ws, rest)" for ws rest
    by (rule dec_enc_list) (simp add: dec_u64_def)
  have t: "dec_list (dec_list dec_char) (enc_list (enc_list enc_char) ts @ rest) = (ts, rest)" for ts rest
    by (rule dec_enc_list) simp
  have b: "dec_list (\<lambda>bs. (hd bs, tl bs)) (enc_list (\<lambda>b. [b]) (d :: bytes) @ rest) = (d, rest)" for d rest
    by (rule dec_enc_list) simp
  have n: "dec_nat (enc_nat k) = (k, [])" for k using dec_enc_nat [of k "[]"] by simp
  show ?thesis
    by (cases r) (auto simp: dec_record_def enc_record_def h w t b n split: option.split)
qed

definition serde_u64 :: "u64 serde" where
  "serde_u64 = \<lparr>ser = (\<lambda>x. Ok (as_bytes (show_nat (unat x)))),
     de = (\<lambda>b. Ok (word_of_nat (read_digits 0 (str_of b))))\<rparr>"

definition serde_record :: "Record serde" where
  "serde_record = \<lparr>ser = (\<lambda>r. Ok (enc_record r)), de = (\<lambda>b. Ok (dec_record b))\<rparr>"

definition map_env :: "(string \<Rightarrow> (string, bytes) dashmap) rocks_env" where
  "map_env =
     \<lparr>env_db = map_rocksdb, env_u64 = serde_u64, env_record = serde_record,
      env_shard = \<lparr>ser = (\<lambda>_. Ok [123, 125]), de = (\<lambda>_. Err ''not supported'')\<rparr>,
      env_bytes = \<lparr>ser = (\<lambda>b. Ok (0 # b)), de = (\<lambda>b. Ok (tl b))\<rparr>\<rparr>"

lemma serde_u64_laws: "serde_laws serde_u64"
proof unfold_locales
  fix x b assume s: "ser serde_u64 x = Ok b"
  then show "de serde_u64 b = Ok x" by (auto simp: serde_u64_def read_digits_show_nat)
  have "show_nat n \<noteq> []" for n by (simp add: show_nat.simps [of n])
  then show "b \<noteq> []" using s by (auto simp: serde_u64_def as_bytes_def)
qed

lemma serde_record_laws: "serde_laws serde_record"
proof unfold_locales
  fix x b assume "ser serde_record x = Ok b"
  then have b: "b = enc_record x" by (simp add: serde_record_def)
  show "de serde_record b = Ok x" by (simp add: b serde_record_def dec_enc_record)
  show "b \<noteq> []" by (simp add: b enc_record_def enc_nat_def)
qed

interpretation map_rocks: rocks_store map_env "\<lambda>db cf. dm_get (db cf)"
  using map_db.rocksdb_laws_axioms serde_u64_laws serde_record_laws
  by (simp add: rocks_store_def rocks_store_axioms_def map_env_def)

text \<open>On this database every step succeeds.\<close>

lemma map_write: "\<exists>db'. eng_write map_rocksdb serde_u64 cf k x db = (Ok (), db')"
  "\<exists>db'. eng_write map_rocksdb serde_record cf k r db = (Ok (), db')"
  by (simp_all add: eng_write_def serde_u64_def serde_record_def map_rocksdb_def st_simps)

lemma map_write_tags:
  "\<exists>db'. s_for tags (\<lambda>tag. eng_write map_rocksdb serde_u64 cf (tag_offsets_key ns sh tag off) off) db = (Ok (), db')"
proof (induction tags arbitrary: db)
  case (Cons t tags)
  obtain db1 where "eng_write map_rocksdb serde_u64 cf (tag_offsets_key ns sh t off) off db = (Ok (), db1)"
    using map_write(1) by blast
  moreover obtain db2 where
    "s_for tags (\<lambda>tag. eng_write map_rocksdb serde_u64 cf (tag_offsets_key ns sh tag off) off) db1 = (Ok (), db2)"
    using Cons.IH by blast
  ultimately show ?case by (simp add: s_bind_def)
qed (simp add: st_simps)

lemma map_write_one: "\<exists>db'. write_one map_env cf ns sh off msg db = (Ok (), db')"
proof -
  let ?msg = "msg\<lparr>r_offset := Some off\<rparr>"
  obtain db1 where 1: "eng_write map_rocksdb serde_record cf (shard_record_key ns sh off) ?msg db = (Ok (), db1)"
    using map_write(2) by blast
  obtain db2 where 2: "(if r_key ?msg \<noteq> [] then eng_write map_rocksdb serde_u64 cf (key_offset_key ns sh (r_key ?msg)) off
      else s_ok ()) db1 = (Ok (), db2)"
    using map_write(1) [of cf "key_offset_key ns sh (r_key ?msg)" off db1]
    by (cases "r_key ?msg = []") (auto simp: s_ok_def)
  obtain db3 where 3: "s_for (r_tags ?msg)
      (\<lambda>tag. eng_write map_rocksdb serde_u64 cf (tag_offsets_key ns sh tag off) off) db2 = (Ok (), db3)"
    using map_write_tags by blast
  show ?thesis
    unfolding write_one_def Let_def s_bind_def map_env_def rocks_env.simps 1 prod.case result.case 2 3
    by blast
qed

lemma map_write_loop:
  "n + length msgs < 2 ^ 64 \<Longrightarrow>
   \<exists>offs db'. write_loop map_env cf ns sh msgs (word_of_nat n) res db = (Ok (word_of_nat (n + length msgs), offs), db')"
proof (induction msgs arbitrary: n res db)
  case (Cons m msgs)
  obtain db1 where 1: "write_one map_env cf ns sh (word_of_nat n) m db = (Ok (), db1)" using map_write_one by blast
  have "(u64_add (word_of_nat n) 1 :: (u64, CommonError) result) = Ok (word_of_nat (Suc n))"
    using Cons.prems by (simp add: u64_add_def unat_word_of_nat_u64)
  moreover obtain offs db' where
    "write_loop map_env cf ns sh msgs (word_of_nat (Suc n)) (res @ [word_of_nat n]) db1 =
      (Ok (word_of_nat (Suc n + length msgs), offs), db')"
    using Cons.IH [of "Suc n"] Cons.prems by fastforce
  ultimately show ?case using 1 by (simp add: s_bind_def s_lift_def)
qed (simp add: st_simps)

section \<open>Properties\<close>

text \<open>
  C11: on RocksDB too, messages appended to a topic are read back from the first of their
  offsets, exactly and in order, whenever the calls of the database succeed.
\<close>

theorem rdb_append_then_read:
  assumes "rocks_store E view" and "rdb_wf view E (rdb s)"
    and "length (rdb_log view E (rdb s) (rdb_key cluster topic)) + length rs < 2 ^ 63"
    and "append_topic_message (rocksdb_adapter E) cluster topic rs s = (Ok offs, s')"
    and "length rs \<le> unat n" and "unat n < 2 ^ 63" and "rs \<noteq> []" and "\<forall>r \<in> set rs. crc32_check crc r"
    and "read_topic_message crc (rocksdb_adapter E) cluster topic (hd offs) n s' = (Ok out, s'')"
  shows "out = stamp (length (rdb_log view E (rdb s) (rdb_key cluster topic))) rs \<and>
    map r_offset out = map Some offs \<and> rdb_wf view E (rdb s')"
proof -
  have log: "shard_log (rocksdb_adapter E) rdb_key (\<lambda>s. rdb_log view E (rdb s)) (\<lambda>s. rdb_wf view E (rdb s))"
    by (rule rocks_store.log_axioms [OF assms(1)])
  from shard_log.append_then_read [OF log assms(2-9)] shard_log.batch_ok [OF log assms(2) refl _ assms(4) [unfolded append_topic_message_def]]
    assms(3)
  show ?thesis by auto
qed

text \<open>The database with one empty shard, on which the witnesses run.\<close>

definition one_shard :: "(string \<Rightarrow> (string, bytes) dashmap) RocksDBStorageAdapter" where
  "one_shard = \<lparr>rdb = (\<lambda>_. [(offkey (rdb_key [] []), as_bytes (show_nat 0))]), write_handles = []\<rparr>"

lemma one_shard_state:
  "rdb_len (\<lambda>db cf. dm_get (db cf)) map_env (rdb one_shard) k = 0"
  "rdb_wf (\<lambda>db cf. dm_get (db cf)) map_env (rdb one_shard)"
proof -
  have "read_digits 0 (show_nat 0) = 0" by (rule read_digits_show_nat)
  then show len: "rdb_len (\<lambda>db cf. dm_get (db cf)) map_env (rdb one_shard) k = 0" for k
    by (simp add: rdb_len_def stored_def one_shard_def map_env_def serde_u64_def show_nat.simps)
  have "rdb_record (\<lambda>db cf. dm_get (db cf)) map_env (rdb one_shard) k i = None" for k i
    by (simp add: rdb_record_def stored_def one_shard_def)
  then show "rdb_wf (\<lambda>db cf. dm_get (db cf)) map_env (rdb one_shard)"
    by (simp add: rdb_wf_def len)
qed

lemma map_read: "fst (eng_read map_rocksdb serde_record cf k db) \<in> range Ok" "snd (eng_read map_rocksdb serde_record cf k db) = db"
  "fst (eng_read map_rocksdb serde_u64 cf k db) \<in> range Ok"
  by (simp_all add: eng_read_def map_rocksdb_def serde_record_def serde_u64_def split: option.split)

lemma map_read_loop: "\<exists>rs. read_loop map_env cf ns sh i e acc db = (Ok rs, db)"
proof (induction "e - i" arbitrary: i acc)
  case 0
  then show ?case by (simp add: read_loop.simps [of _ _ _ _ i])
next
  case (Suc m)
  obtain r where "eng_read map_rocksdb serde_record cf (shard_record_key ns sh (word_of_nat i)) db = (Ok r, db)"
    using map_read(1,2) [of cf "shard_record_key ns sh (word_of_nat i)" db] by (metis imageE prod.collapse)
  moreover have "m = e - (i + 1)" "i < e" using Suc.hyps(2) by simp_all
  ultimately show ?case
    using Suc.hyps(1)
    by (simp add: read_loop.simps [of _ _ _ _ i] s_bind_def map_env_def st_simps split: option.split)
qed

lemma one_shard_append:
  assumes "length msgs < 2 ^ 64"
  shows "\<exists>offs s'. rdb_batch_write map_env [] [] msgs one_shard = (Ok offs, s') \<and> dm_get (write_handles s') ''-'' = Some True"
proof -
  let ?db = "rdb one_shard"
  have ne: "as_bytes (show_nat 0) \<noteq> []" by (simp add: show_nat.simps as_bytes_def)
  have rd: "eng_read map_rocksdb serde_u64 DB_COLUMN_FAMILY (shard_offset_key [] []) ?db = (Ok (Some 0), ?db)"
    using read_digits_show_nat [of 0] ne
    by (simp add: eng_read_def map_rocksdb_def serde_u64_def one_shard_def keys_eq)
  from map_write_loop [of 0 msgs] assms obtain offs db1 where
      lp: "write_loop map_env DB_COLUMN_FAMILY [] [] msgs 0 [] ?db = (Ok (word_of_nat (length msgs), offs), db1)"
    by fastforce
  obtain db2 where wr: "eng_write map_rocksdb serde_u64 DB_COLUMN_FAMILY (shard_offset_key [] []) (word_of_nat (length msgs)) db1 =
      (Ok (), db2)"
    using map_write(1) by blast
  have cf: "db_cf map_env ?db = (Ok DB_COLUMN_FAMILY, ?db)"
    by (simp add: db_cf_def eng_cf_handle_def map_env_def map_rocksdb_def)
  have "thread_batch_write map_env [] [] msgs ?db = (Ok offs, db2)"
    using rd wr by (simp add: thread_batch_write_def s_bind_def cf lp) (simp add: map_env_def lp [unfolded map_env_def] st_simps)
  then show ?thesis
    by (simp add: rdb_batch_write_def handle_write_request_def get_write_handle_def s_bind_def Let_def on_db_def
        one_shard_def dm_contains_def write_handle_key_def)
qed

lemma map_read_by_offset:
  assumes "unat off + unat (max_record_num conf) < 2 ^ 64"
  shows "\<exists>rs. rdb_read_by_offset map_env ns sh off conf s = (Ok rs, s)"
proof -
  have cf: "db_cf map_env db = (Ok DB_COLUMN_FAMILY, db)" for db
    by (simp add: db_cf_def eng_cf_handle_def map_env_def map_rocksdb_def)
  obtain rs where "read_loop map_env DB_COLUMN_FAMILY ns sh (unat off) (unat (off + max_record_num conf)) [] (rdb s) =
      (Ok rs, rdb s)"
    using map_read_loop by blast
  then show ?thesis
    using assms by (simp add: rdb_read_by_offset_def on_db_def s_bind_def cf s_lift_def u64_add_def)
qed

theorem rdb_append_then_read_witness:
  "\<exists>offs s' out s''. append_topic_message (rocksdb_adapter map_env) [] [] [build_byte (\<lambda>_. 3) 0 [1]] one_shard = (Ok offs, s') \<and>
    read_topic_message (\<lambda>_. 3) (rocksdb_adapter map_env) [] [] (hd offs) 1 s' = (Ok out, s'') \<and>
    out = stamp 0 [build_byte (\<lambda>_. 3) 0 [1]] \<and> map r_offset out = map Some offs"
proof -
  let ?A = "rocksdb_adapter map_env" and ?rs = "[build_byte (\<lambda>_. 3) 0 [1]]"
  let ?conf = "read_config_new\<lparr>max_record_num := 1\<rparr>"
  obtain offs s' where "rdb_batch_write map_env [] [] ?rs one_shard = (Ok offs, s')"
    using one_shard_append [of ?rs] by auto
  then have w: "sa_batch_write ?A [] [] ?rs one_shard = (Ok offs, s')" by (simp add: rocksdb_adapter_def)
  then have a: "append_topic_message ?A [] [] ?rs one_shard = (Ok offs, s')" by (simp add: append_topic_message_def)
  note wf = one_shard_state(2)
  have offs: "offs = [0]"
    using map_rocks.rocks_log.batch_ok [OF wf refl _ w] by (simp add: one_shard_state(1))
  obtain out where r: "sa_read_by_offset ?A [] [] (hd offs) ?conf s' = (Ok out, s')"
    using map_read_by_offset [of 0 ?conf "[]" "[]" s'] by (auto simp: rocksdb_adapter_def offs)
  have out: "out = stamp 0 ?rs"
    using map_rocks.rocks_log.batch_then_read [OF wf _ w _ _ _ r] by (simp add: one_shard_state(1))
  then have rd: "read_topic_message (\<lambda>_. 3) ?A [] [] (hd offs) 1 s' = (Ok out, s')"
    using r by (simp add: read_topic_message_def s_bind_def st_simps crc32_check_def build_byte_def)
  have "out = stamp (length (rdb_log (\<lambda>db cf. dm_get (db cf)) map_env (rdb one_shard) (rdb_key [] []))) ?rs \<and>
      map r_offset out = map Some offs \<and> rdb_wf (\<lambda>db cf. dm_get (db cf)) map_env (rdb s')"
    by (rule rdb_append_then_read [OF map_rocks.rocks_store_axioms wf _ a _ _ _ _ rd])
       (simp_all add: one_shard_state(1) crc32_check_def build_byte_def)
  then show ?thesis using a rd unfolding length_rdb_log one_shard_state(1) by blast
qed

text \<open>
  Deleting a shard does not delete its records: after a successful \<open>delete_shard\<close>, reads at
  any offset still return what they returned before.
\<close>

theorem rdb_deleted_shard_still_read:
  assumes "rocks_store E view" and "rdb_wf view E (rdb s)" and "rdb_delete_shard E ns sh s = (Ok (), s')"
    and "unat off + unat (max_record_num conf) < 2 ^ 64"
    and "rdb_read_by_offset E ns sh off conf s' = (Ok rs, s'')"
  shows "rs = window off conf (rdb_log view E (rdb s) (rdb_key ns sh)) \<and> rdb_len view E (rdb s') (rdb_key ns sh) = 0"
  using rocks_store.deleted_shard_read [OF assms] .

theorem rdb_deleted_shard_still_read_witness:
  "\<exists>s' rs s''. rdb_delete_shard map_env [] [] one_shard = (Ok (), s') \<and>
    rdb_read_by_offset map_env [] [] 0 read_config_new s' = (Ok rs, s'') \<and>
    rs = window 0 read_config_new (rdb_log (\<lambda>db cf. dm_get (db cf)) map_env (rdb one_shard) (rdb_key [] []))"
proof -
  have "\<exists>s'. rdb_delete_shard map_env [] [] one_shard = (Ok (), s')"
    by (simp add: rdb_delete_shard_def on_db_def s_bind_def db_cf_def eng_cf_handle_def Let_def eng_read_def
        eng_delete_def s_match_def map_env_def map_rocksdb_def serde_u64_def one_shard_def keys_eq st_simps
        as_bytes_def show_nat.simps)
  then obtain s' where d: "rdb_delete_shard map_env [] [] one_shard = (Ok (), s')" by blast
  have b: "unat (0 :: u64) + unat (max_record_num read_config_new) < 2 ^ 64" by (simp add: read_config_new_def)
  then obtain rs where r: "rdb_read_by_offset map_env [] [] 0 read_config_new s' = (Ok rs, s')"
    using map_read_by_offset by blast
  from rdb_deleted_shard_still_read [OF map_rocks.rocks_store_axioms one_shard_state(2) d b r] d r
  show ?thesis by blast
qed

text \<open>
  \<open>read_by_key\<close> looks up the offset of the key and then reads at the offset that the caller
  gave: what it returns is the record at that offset, whatever its key.
\<close>

theorem rdb_read_by_key_ignores_key_offset:
  assumes "rocks_store E view" and "rdb_read_by_key E ns sh off key conf s = (Ok rs, s')"
    and "stored view (env_u64 E) (rdb s) DB_COLUMN_FAMILY (key_offset_key ns sh key) = Some key_offset"
    and "off \<le> key_offset" and "1 \<le> max_record_num conf"
  shows "\<exists>r. rs = [r] \<and> rdb_record view E (rdb s) (rdb_key ns sh) (unat off) = Some r"
  by (rule rocks_store.read_by_key_record [OF assms])

theorem rdb_read_by_key_ignores_key_offset_witness:
  "\<exists>r. r_key r = ''other'' \<and>
    rdb_read_by_key map_env [] [] 0 ''k'' read_config_new
      \<lparr>rdb = (\<lambda>_. [(key_offset_key [] [] ''k'', as_bytes (show_nat 1)), (reckey (rdb_key [] []) 0, enc_record r)]),
       write_handles = []\<rparr> =
    (Ok [r], \<lparr>rdb = (\<lambda>_. [(key_offset_key [] [] ''k'', as_bytes (show_nat 1)), (reckey (rdb_key [] []) 0, enc_record r)]),
       write_handles = []\<rparr>)"
proof -
  let ?r = "build_byte (\<lambda>_. 3) 0 [1]\<lparr>r_key := ''other''\<rparr>"
  let ?s = "\<lparr>rdb = (\<lambda>_. [(key_offset_key [] [] ''k'', as_bytes (show_nat 1)), (reckey (rdb_key [] []) 0, enc_record ?r)]),
       write_handles = []\<rparr> :: (string \<Rightarrow> (string, bytes) dashmap) RocksDBStorageAdapter"
  have ne: "as_bytes (show_nat 1) \<noteq> []" "enc_record ?r \<noteq> []"
    by (simp_all add: show_nat.simps as_bytes_def enc_record_def enc_nat_def)
  have neq: "reckey (rdb_key [] []) 0 \<noteq> key_offset_key [] [] ''k''"
    by (simp add: reckey_def key_offset_key_def)
  have one: "read_digits 0 (show_nat 1) = 1" by (rule read_digits_show_nat)
  note defs = on_db_def s_bind_def db_cf_def eng_cf_handle_def eng_read_def map_env_def map_rocksdb_def
    serde_u64_def serde_record_def st_simps keys_eq
  have "\<exists>rs. rdb_read_by_key map_env [] [] 0 ''k'' read_config_new ?s = (Ok rs, ?s)"
    using ne neq one
    by (simp add: rdb_read_by_key_def defs read_config_new_def dec_enc_record)
  then obtain rs where r: "rdb_read_by_key map_env [] [] 0 ''k'' read_config_new ?s = (Ok rs, ?s)" by blast
  have "\<exists>r. rs = [r] \<and> rdb_record (\<lambda>db cf. dm_get (db cf)) map_env (rdb ?s) (rdb_key [] []) (unat (0 :: u64)) = Some r"
    by (rule rdb_read_by_key_ignores_key_offset [OF map_rocks.rocks_store_axioms r, of 1])
       (use ne one in \<open>simp_all add: stored_def map_env_def serde_u64_def read_config_new_def\<close>)
  then have "rs = [?r]"
    using ne neq by (simp add: rdb_record_def stored_def map_env_def serde_record_def dec_enc_record)
  with r show ?thesis by (intro exI [of _ ?r]) simp
qed

end
