(* ===== verification/Delay_Message.thy ===== *)
theory Delay_Message
  imports Storage_Rocksdb
begin

text \<open>
  The delayed messages of \<open>src/delay-message/src\<close> (\<open>lib.rs\<close>, \<open>build.rs\<close>, \<open>pop.rs\<close>) over any
  storage adapter.  A delayed message is written to one of the delay shards, and an entry
  for it is put into the delay queue of that shard; after a restart the queues are rebuilt
  from the shards.  The state is the storage and the manager.

  \<open>DelayQueue\<close> of \<open>tokio-util\<close> is not part of the sources: its operations are the record
  \<open>delay_queue\<close>.  \<open>insert_at\<close> is documented to panic when the deadline is too far ahead, which is
  \<open>None\<close>.  The clocks are arguments.  The tasks that run the loops, and their stop
  channels, are not modelled.
\<close>

section \<open>The manager\<close>

record DelayMessageRecord =
  dmr_shard_name :: string
  dmr_offset :: u64
  dmr_delay_timestamp :: u64

record 'q delay_queue =
  dq_new :: 'q
  dq_insert_at :: "DelayMessageRecord \<Rightarrow> nat \<Rightarrow> 'q \<Rightarrow> 'q option"

record 'q DelayMessageManager =
  dmm_namespace :: string
  dmm_shard_num :: u64
  dmm_incr_no :: u64
  dmm_delay_queue_list :: "(u64, 'q) dashmap"

type_synonym ('s, 'q, 'a) dprog = "('s \<times> 'q DelayMessageManager, 'a) cprog"

definition on_storage :: "('s, 'a) cprog \<Rightarrow> ('s, 'q, 'a) dprog" where
  "on_storage m st = (case m (fst st) of (r, s) \<Rightarrow> (r, (s, snd st)))"

definition DELAY_MESSAGE_SHARD_NAME_PREFIX :: string where
  "DELAY_MESSAGE_SHARD_NAME_PREFIX = ''$delay-message-shard-''"

definition delay_manager_new :: "string \<Rightarrow> u64 \<Rightarrow> 'q DelayMessageManager" where
  "delay_manager_new namespace shard_num =
     \<lparr>dmm_namespace = namespace, dmm_shard_num = shard_num, dmm_incr_no = 0, dmm_delay_queue_list = []\<rparr>"

definition get_delay_message_shard_name :: "u64 \<Rightarrow> string" where
  "get_delay_message_shard_name no = DELAY_MESSAGE_SHARD_NAME_PREFIX @ show_nat (unat no)"

text \<open>\<open>fetch_add\<close> wraps around; the remainder by zero is a panic.\<close>

definition get_target_shard_no :: "('s, 'q, u64) dprog" where
  "get_target_shard_no st =
     (let no = dmm_incr_no (snd st); st = (fst st, (snd st)\<lparr>dmm_incr_no := no + 1\<rparr>) in
      if dmm_shard_num (snd st) = 0 then (Panic, st) else (Ok (no mod dmm_shard_num (snd st)), st))"

text \<open>
  \<open>Instant + Duration::from_secs\<close>: the seconds of an \<open>Instant\<close> are a signed 64-bit integer, and the
  sum panics when it overflows.
\<close>

definition instant_add_secs :: "nat \<Rightarrow> u64 \<Rightarrow> (nat, 'e) result" where
  "instant_add_secs now secs = (if now + unat secs < 2 ^ 63 then Ok (now + unat secs) else Panic)"

definition send_to_delay_queue ::
    "'q delay_queue \<Rightarrow> nat \<Rightarrow> u64 \<Rightarrow> DelayMessageRecord \<Rightarrow> ('s, 'q, unit) dprog" where
  "send_to_delay_queue Q now shard_no delay_message_record =
     s_bind (s_get (\<lambda>st. dm_get (dmm_delay_queue_list (snd st)) shard_no)) (\<lambda>found.
       case found of
         Some delay_queue \<Rightarrow>
           s_bind (s_lift (instant_add_secs now (dmr_delay_timestamp delay_message_record))) (\<lambda>when.
           s_bind (s_lift (unwrap (dq_insert_at Q delay_message_record when delay_queue))) (\<lambda>q.
             s_upd (\<lambda>st. (fst st, (snd st)\<lparr>dmm_delay_queue_list := dm_insert shard_no q (dmm_delay_queue_list (snd st))\<rparr>))))
       | None \<Rightarrow> s_ok ())"

definition send_delay_message ::
    "'s StorageAdapter \<Rightarrow> 'q delay_queue \<Rightarrow> nat \<Rightarrow> Record \<Rightarrow> ('s, 'q, unit) dprog" where
  "send_delay_message A Q now data =
     s_bind get_target_shard_no (\<lambda>shard_no.
     s_bind (s_get (\<lambda>st. dmm_namespace (snd st))) (\<lambda>namespace.
     let shard_name = get_delay_message_shard_name shard_no in
     s_bind (on_storage (sa_write A namespace shard_name data)) (\<lambda>offset.
       send_to_delay_queue Q now shard_no
         \<lparr>dmr_shard_name = shard_name, dmr_offset = offset, dmr_delay_timestamp = r_delay_timestamp data\<rparr>)))"

definition shard_nos :: "u64 \<Rightarrow> u64 list" where
  "shard_nos n = map word_of_nat [0 ..< unat n]"

definition try_init_shard :: "'s StorageAdapter \<Rightarrow> ('s, 'q, unit) dprog" where
  "try_init_shard A =
     s_bind (s_get (\<lambda>st. (dmm_namespace (snd st), dmm_shard_num (snd st)))) (\<lambda>(namespace, shard_num).
       s_for (shard_nos shard_num) (\<lambda>i.
         let shard_name = get_delay_message_shard_name i in
         s_bind (on_storage (sa_list_shard A namespace shard_name)) (\<lambda>results.
           if results = [] then
             on_storage (sa_create_shard A
               \<lparr>si_namespace = namespace, si_shard_name = shard_name, si_replica_num = 1\<rparr>)
           else s_ok ())))"

definition init_delay_queue :: "'q delay_queue \<Rightarrow> ('s, 'q, unit) dprog" where
  "init_delay_queue Q =
     s_bind (s_get (\<lambda>st. dmm_shard_num (snd st))) (\<lambda>shard_num.
       s_for (shard_nos shard_num) (\<lambda>shard_no.
         s_upd (\<lambda>st. (fst st, (snd st)\<lparr>dmm_delay_queue_list :=
           dm_insert shard_no (dq_new Q) (dmm_delay_queue_list (snd st))\<rparr>))))"

definition delay_init :: "'s StorageAdapter \<Rightarrow> 'q delay_queue \<Rightarrow> ('s, 'q, unit) dprog" where
  "delay_init A Q =
     s_bind (try_init_shard A) (\<lambda>_.
     s_bind (init_delay_queue Q) (\<lambda>_. s_ok ()))"

section \<open>Rebuilding the queues\<close>

text \<open>
  The body of the loop for one batch of records: entries for those that are still due.  An
  error of \<open>send_to_delay_queue\<close> is logged.  The last offset is returned.
\<close>

primrec build_batch ::
    "'q delay_queue \<Rightarrow> nat \<Rightarrow> u64 \<Rightarrow> u64 \<Rightarrow> string \<Rightarrow> Record list \<Rightarrow> u64 \<Rightarrow> ('s, 'q, u64) dprog" where
  "build_batch Q now now_second shard_no shard_name [] offset = s_ok offset"
| "build_batch Q now now_second shard_no shard_name (record # data) offset =
     s_bind (s_lift (unwrap (r_offset record))) (\<lambda>offset.
       if r_delay_timestamp record < now_second then
         build_batch Q now now_second shard_no shard_name data offset
       else
         s_match (send_to_delay_queue Q now shard_no
             \<lparr>dmr_shard_name = shard_name, dmr_offset = offset,
              dmr_delay_timestamp = r_delay_timestamp record\<rparr>)
           (\<lambda>_. build_batch Q now now_second shard_no shard_name data offset)
           (\<lambda>_. build_batch Q now now_second shard_no shard_name data offset))"

text \<open>\<open>None\<close> is a loop that never ends.\<close>

partial_function (option) build_loop ::
    "'s StorageAdapter \<Rightarrow> 'q delay_queue \<Rightarrow> nat \<Rightarrow> u64 \<Rightarrow> string \<Rightarrow> u64 \<Rightarrow> string \<Rightarrow> ReadConfig \<Rightarrow> u64 \<Rightarrow>
     's \<times> 'q DelayMessageManager \<Rightarrow> ((unit, CommonError) result \<times> 's \<times> 'q DelayMessageManager) option" where
  "build_loop A Q now now_second namespace shard_no shard_name read_config offset st =
     (case on_storage (sa_read_by_offset A namespace shard_name offset read_config) st of
        (Ok data, st') \<Rightarrow>
          (if data = [] then Some (Ok (), st')
           else
             (case build_batch Q now now_second shard_no shard_name data offset st' of
                (Ok offset', st'') \<Rightarrow>
                  build_loop A Q now now_second namespace shard_no shard_name read_config offset' st''
              | (Err e, st'') \<Rightarrow> Some (Err e, st'')
              | (Panic, st'') \<Rightarrow> Some (Panic, st'')))
      | (Err e, st') \<Rightarrow>
          build_loop A Q now now_second namespace shard_no shard_name read_config offset st'
      | (Panic, st') \<Rightarrow> Some (Panic, st'))"

definition build_delay_queue ::
    "'s StorageAdapter \<Rightarrow> 'q delay_queue \<Rightarrow> nat \<Rightarrow> u64 \<Rightarrow> string \<Rightarrow> u64 \<Rightarrow> string \<Rightarrow> ReadConfig \<Rightarrow>
     's \<times> 'q DelayMessageManager \<Rightarrow> ((unit, CommonError) result \<times> 's \<times> 'q DelayMessageManager) option" where
  "build_delay_queue A Q now now_second namespace shard_no shard_name read_config st =
     build_loop A Q now now_second namespace shard_no shard_name read_config 0 st"

section \<open>Delivering what has expired\<close>

fun find_offset :: "Record list \<Rightarrow> u64 \<Rightarrow> (Record option, CommonError) result" where
  "find_offset [] offset = Ok None"
| "find_offset (record # results) offset =
     and_then (unwrap (r_offset record)) (\<lambda>off.
       if off = offset then Ok (Some record) else find_offset results offset)"

definition read_offset_data :: "'s StorageAdapter \<Rightarrow> string \<Rightarrow> string \<Rightarrow> u64 \<Rightarrow> ('s, Record option) cprog" where
  "read_offset_data A namespace shard_name offset =
     s_bind (sa_read_by_offset A namespace shard_name offset
         \<lparr>max_record_num = 1, max_size = 1024 * 1024 * 1024\<rparr>) (\<lambda>results.
       s_lift (find_offset results offset))"

text \<open>The retry loop: at most 1001 attempts.  Errors are logged, so the result is only a panic or not.\<close>

function send_delay_message_to_shard ::
    "'s StorageAdapter \<Rightarrow> string \<Rightarrow> string \<Rightarrow> u64 \<Rightarrow> nat \<Rightarrow> 's \<Rightarrow> (unit, CommonError) result \<times> 's" where
  "send_delay_message_to_shard A namespace shard_name offset n_times s =
     (if n_times > 1000 then (Ok (), s)
      else
        (case read_offset_data A namespace shard_name offset s of
           (Ok (Some record), s') \<Rightarrow>
             (case sa_write A namespace shard_name record s' of
                (Ok _, s'') \<Rightarrow> (Ok (), s'')
              | (Err e, s'') \<Rightarrow> send_delay_message_to_shard A namespace shard_name offset (n_times + 1) s''
              | (Panic, s'') \<Rightarrow> (Panic, s''))
         | (Ok None, s') \<Rightarrow> (Ok (), s')
         | (Err e, s') \<Rightarrow> send_delay_message_to_shard A namespace shard_name offset (n_times + 1) s'
         | (Panic, s') \<Rightarrow> (Panic, s')))"
  by pat_completeness auto
termination
  by (relation "measure (\<lambda>(A, ns, sh, off, n, s). 1001 - n)") auto

declare send_delay_message_to_shard.simps [simp del]

text \<open>\<open>pop_delay_queue\<close> on the entries that the queue hands out.\<close>

definition pop_delay_queue :: "'s StorageAdapter \<Rightarrow> string \<Rightarrow> DelayMessageRecord list \<Rightarrow> ('s, unit) cprog" where
  "pop_delay_queue A namespace expired =
     s_for expired (\<lambda>delay_message.
       send_delay_message_to_shard A namespace (dmr_shard_name delay_message) (dmr_offset delay_message) 0)"

section \<open>Facts\<close>

lemma shard_name_inject: "get_delay_message_shard_name a = get_delay_message_shard_name b \<longleftrightarrow> a = b"
  by (simp add: get_delay_message_shard_name_def show_nat_inject word_unat_eq_iff)

lemma send_to_delay_queue_cases:
  obtains m' where "send_to_delay_queue Q now shard_no r (s, m) = (Ok (), (s, m'))"
  | "send_to_delay_queue Q now shard_no r (s, m) = (Panic, (s, m))"
proof (cases "dm_get (dmm_delay_queue_list m) shard_no")
  case None
  with that(1) show thesis by (simp add: send_to_delay_queue_def st_simps)
next
  case (Some q)
  let ?when = "now + unat (dmr_delay_timestamp r)"
  show thesis
  proof (cases "?when < 2 ^ 63 \<and> dq_insert_at Q r ?when q \<noteq> None")
    case True
    with Some that(1) show thesis by (auto simp: send_to_delay_queue_def instant_add_secs_def st_simps)
  next
    case False
    with Some that(2) show thesis
      by (cases "?when < 2 ^ 63") (auto simp: send_to_delay_queue_def instant_add_secs_def st_simps)
  qed
qed

text \<open>A batch returns the last offset or panics; it returns when nothing is due.\<close>

lemma build_batch_cases:
  assumes "\<forall>r \<in> set data. r_offset r \<noteq> None"
  obtains m' where "build_batch Q now now_second shard_no shard_name data offset (s, m) =
      (Ok (if data = [] then offset else the (r_offset (last data))), (s, m'))"
  | m' where "build_batch Q now now_second shard_no shard_name data offset (s, m) = (Panic, (s, m'))"
      "\<exists>r \<in> set data. now_second \<le> r_delay_timestamp r"
  using assms
proof (induction data arbitrary: offset m thesis)
  case Nil
  then show ?case by (simp add: s_ok_def)
next
  case (Cons r data)
  from Cons.prems(3) obtain off where off: "r_offset r = Some off" by auto
  have skip: ?case if eq: "build_batch Q now now_second shard_no shard_name (r # data) offset (s, m) =
      build_batch Q now now_second shard_no shard_name data off (s, m1)" for m1
  proof (rule Cons.IH)
    fix m'
    assume "build_batch Q now now_second shard_no shard_name data off (s, m1) =
      (Ok (if data = [] then off else the (r_offset (last data))), (s, m'))"
    then show ?case using eq off by (intro Cons.prems(1)) auto
  next
    fix m'
    assume "build_batch Q now now_second shard_no shard_name data off (s, m1) = (Panic, (s, m'))"
      and "\<exists>r \<in> set data. now_second \<le> r_delay_timestamp r"
    then show ?case using eq by (intro Cons.prems(2)) auto
  qed (use Cons.prems(3) in simp)
  show ?case
  proof (cases "r_delay_timestamp r < now_second")
    case True
    with off show ?thesis by (intro skip) (simp add: st_simps)
  next
    case False
    let ?r = "\<lparr>dmr_shard_name = shard_name, dmr_offset = off, dmr_delay_timestamp = r_delay_timestamp r\<rparr>"
    show ?thesis
    proof (cases rule: send_to_delay_queue_cases [of Q now shard_no ?r s m])
      case (1 m1)
      with off False show ?thesis by (intro skip) (simp add: st_simps s_match_def)
    next
      case 2
      with off False show ?thesis by (intro Cons.prems(2)) (auto simp: st_simps s_match_def not_less)
    qed
  qed
qed

context total_shard_log
begin

text \<open>
  Every iteration on a shard that is not empty starts again from the offset of the last
  record that it read, so there is always something left to read.  The loop can only be left by
  the panic of an entry that the queue refuses.
\<close>

lemma build_loop_ends:
  fixes Q :: "'q delay_queue"
  assumes "build_loop A Q now now_second ns shard_no sh conf off st = Some y"
    and "inv (fst st)" and "0 < unat (max_record_num conf)" and "unat (max_record_num conf) < 2 ^ 63"
    and "length (store (fst st) (key ns sh)) < 2 ^ 63"
  shows "length (store (fst st) (key ns sh)) \<le> unat off \<or>
    fst y = Panic \<and> (\<exists>r \<in> set (store (fst st) (key ns sh)). now_second \<le> r_delay_timestamp r)"
proof -
  let ?due = "\<exists>r \<in> set (store (fst st) (key ns sh)). now_second \<le> r_delay_timestamp r"
  define P where "P = (\<lambda>A' (Q' :: 'q delay_queue) (now' :: nat) (now2 :: u64) ns' (no :: u64) sh' conf' (off' :: u64)
      (st' :: 's \<times> 'q DelayMessageManager) (y :: (unit, CommonError) result \<times> 's \<times> 'q DelayMessageManager).
      A' = A \<longrightarrow> ns' = ns \<longrightarrow> sh' = sh \<longrightarrow> conf' = conf \<longrightarrow> now2 = now_second \<longrightarrow> fst st' = fst st \<longrightarrow>
      length (store (fst st) (key ns sh)) \<le> unat off' \<or> fst y = Panic \<and> ?due)"
  have "P A Q now now_second ns shard_no sh conf off st y"
  proof (rule build_loop.raw_induct [of P, OF _ assms(1)])
    fix f A' and Q' :: "'q delay_queue" and now' now2 ns' no sh' conf' off' st'
      and y' :: "(unit, CommonError) result \<times> 's \<times> 'q DelayMessageManager"
    let ?xs = "store (fst st) (key ns sh)"
    assume IH: "\<And>A Q now now2 ns no sh conf off st y. f A Q now now2 ns no sh conf off st = Some y \<Longrightarrow>
        P A Q now now2 ns no sh conf off st y"
      and body: "(case on_storage (sa_read_by_offset A' ns' sh' off' conf') st' of
        (Ok data, st'') \<Rightarrow>
          (if data = [] then Some (Ok (), st'')
           else
             (case build_batch Q' now' now2 no sh' data off' st'' of
                (Ok offset', st3) \<Rightarrow> f A' Q' now' now2 ns' no sh' conf' offset' st3
              | (Err e, st3) \<Rightarrow> Some (Err e, st3)
              | (Panic, st3) \<Rightarrow> Some (Panic, st3)))
      | (Err e, st'') \<Rightarrow> f A' Q' now' now2 ns' no sh' conf' off' st''
      | (Panic, st'') \<Rightarrow> Some (Panic, st'')) = Some y'"
    show "P A' Q' now' now2 ns' no sh' conf' off' st' y'"
      unfolding P_def
    proof (intro impI, rule ccontr)
      assume eq: "A' = A" "ns' = ns" "sh' = sh" "conf' = conf" "now2 = now_second" "fst st' = fst st"
        and not: "\<not> (length ?xs \<le> unat off' \<or> fst y' = Panic \<and> ?due)"
      then have lt: "unat off' < length ?xs" by simp
      let ?w = "window off' conf ?xs"
      have rd: "sa_read_by_offset A ns sh off' conf (fst st) = (Ok ?w, fst st)"
        using read_eq [OF assms(2)] lt assms(4,5) by simp
      have ne: "?w \<noteq> []" using lt assms(3) by (simp add: window_def)
      have "\<exists>i. i < length ?xs \<and> r_offset r = Some (word_of_nat i)" if "r \<in> set ?w" for r
        using window_wf [OF store_wf [OF assms(2)] that] by blast
      note offs = this
      from offs [OF last_in_set [OF ne]] obtain i where i: "i < length ?xs" "r_offset (last ?w) = Some (word_of_nat i)"
        by blast
      have some: "\<forall>r \<in> set ?w. r_offset r \<noteq> None" using offs by fastforce
      show False
      proof (cases rule: build_batch_cases [OF some, of Q' now' now_second no sh off' "fst st" "snd st'"])
        case (1 m')
        then have "f A Q' now' now_second ns no sh conf (word_of_nat i) (fst st, m') = Some y'"
          using body eq ne i(2) by (simp add: on_storage_def rd)
        from IH [OF this] not have "length ?xs \<le> i"
          using i(1) assms(5) by (simp add: P_def unat_word_of_nat_u64)
        with i(1) show False by simp
      next
        case (2 m')
        then have "fst y' = Panic" using body eq ne by (auto simp: on_storage_def rd)
        moreover have ?due using 2(2) by (auto simp: window_def dest!: in_set_takeD in_set_dropD)
        ultimately show False using not by simp
      qed
    qed
  qed
  then show ?thesis by (simp add: P_def)
qed

end

section \<open>Properties\<close>

text \<open>
  C22: rebuilding the delay queue of a shard that holds a record never completes: every pass reads the
  last record again.  When all delay timestamps lie before the time of the rebuild the loop runs
  forever; otherwise it may also end with a panic, when the queue refuses an entry.  (On the memory
  adapter; the read configuration is the one that \<open>start_build_delay_queue\<close> uses.)
\<close>

theorem build_delay_queue_diverges:
  assumes "mem_inv s" and "xs = mem_store s (shard_key ns sh)" and "xs \<noteq> []" and "length xs < 2 ^ 63"
  shows "case build_delay_queue memory_adapter Q now now_second ns shard_no sh
      \<lparr>max_record_num = 100, max_size = 1024 * 1024 * 1024\<rparr> (s, m) of
    None \<Rightarrow> True
  | Some (r, _) \<Rightarrow> r = Panic \<and> (\<exists>x \<in> set xs. now_second \<le> r_delay_timestamp x)"
  using assms
  by (auto simp: build_delay_queue_def dest!: mem.build_loop_ends split: option.split)

theorem build_delay_queue_diverges_witness:
  "build_delay_queue memory_adapter \<lparr>dq_new = [], dq_insert_at = (\<lambda>r t q. Some ((r, t) # q))\<rparr> 0 1 [] 0 []
    \<lparr>max_record_num = 100, max_size = 1024 * 1024 * 1024\<rparr>
    (memory_new\<lparr>shard_data := [(shard_key [] [], stamp 0 [build_byte (\<lambda>_. 0) 0 []])]\<rparr>,
     delay_manager_new [] 1) = None"
proof -
  let ?xs = "stamp 0 [build_byte (\<lambda>_. 0) 0 []]"
  let ?s = "memory_new\<lparr>shard_data := [(shard_key [] [], ?xs)]\<rparr>"
  have "mem_inv ?s" "?xs = mem_store ?s (shard_key [] [])"
    by (auto simp: memory_new_def mem_inv_def mem_store_def log_wf_def dm_wf_def)
  from build_delay_queue_diverges [OF this, of 1] show ?thesis
    by (fastforce simp: build_byte_def split: option.splits)
qed

text \<open>
  C23: sending a delayed message picks the shards in turn and stores the message at the end of the
  shard.  When the deadline can be represented and the queue accepts it, the call succeeds and
  the queue gets an entry that names this shard and the offset of the message; otherwise the call
  panics after the message is stored, and nothing is queued.  (On the memory adapter.)
\<close>

theorem send_delay_message_effect:
  assumes "mem_inv s" and "n = dmm_shard_num m" and "n \<noteq> 0" and "no = dmm_incr_no m mod n"
    and "sh = get_delay_message_shard_name no" and "xs = mem_store s (shard_key (dmm_namespace m) sh)"
    and "length xs < 2 ^ 63" and "dm_get (dmm_delay_queue_list m) no = Some q"
    and "deadline = now + unat (r_delay_timestamp data)"
    and "queued = \<lparr>dmr_shard_name = sh, dmr_offset = word_of_nat (length xs), dmr_delay_timestamp = r_delay_timestamp data\<rparr>"
  shows "\<exists>s'. mem_store s' = (mem_store s)(shard_key (dmm_namespace m) sh := xs @ stamp (length xs) [data]) \<and> mem_inv s' \<and>
    send_delay_message memory_adapter Q now data (s, m) =
      (case if deadline < 2 ^ 63 then dq_insert_at Q queued deadline q else None of
         Some q' \<Rightarrow> (Ok (), (s', m\<lparr>dmm_incr_no := dmm_incr_no m + 1,
           dmm_delay_queue_list := dm_insert no q' (dmm_delay_queue_list m)\<rparr>))
       | None \<Rightarrow> (Panic, (s', m\<lparr>dmm_incr_no := dmm_incr_no m + 1\<rparr>)))"
proof -
  obtain s' where w: "sa_write memory_adapter (dmm_namespace m) sh data s = (Ok (word_of_nat (length xs)), s')"
    using mem.write_total [of "dmm_namespace m" sh data s] mem.write_ok [OF assms(1,6)] assms(7) by fastforce
  from mem.write_ok [OF assms(1,6) _ w] assms(7)
  have "mem_store s' = (mem_store s)(shard_key (dmm_namespace m) sh := xs @ stamp (length xs) [data]) \<and> mem_inv s'"
    by simp
  moreover have "send_delay_message memory_adapter Q now data (s, m) =
      send_to_delay_queue Q now no queued (s', m\<lparr>dmm_incr_no := dmm_incr_no m + 1\<rparr>)"
    using assms(2-5,10) w
    by (simp add: send_delay_message_def get_target_shard_no_def s_bind_def s_get_def on_storage_def Let_def)
  ultimately show ?thesis
    using assms(8-10)
    by (intro exI [of _ s'])
       (simp add: send_to_delay_queue_def instant_add_secs_def st_simps split: option.split)
qed

theorem send_delay_message_effect_witness:
  "\<exists>s'. mem_store s' = (mem_store memory_new)(shard_key [] (get_delay_message_shard_name 1) :=
        [] @ stamp 0 [build_byte (\<lambda>_. 0) 0 []]) \<and> mem_inv s' \<and>
    send_delay_message memory_adapter \<lparr>dq_new = [], dq_insert_at = (\<lambda>r t q. if t < 100 then Some ((r, t) # q) else None)\<rparr> 5
      (build_byte (\<lambda>_. 0) 0 []) (memory_new, \<lparr>dmm_namespace = [], dmm_shard_num = 2, dmm_incr_no = 7,
        dmm_delay_queue_list = [(1, [])]\<rparr>) =
     (Ok (), (s', \<lparr>dmm_namespace = [], dmm_shard_num = 2, dmm_incr_no = 8, dmm_delay_queue_list =
        [(1, [(\<lparr>dmr_shard_name = get_delay_message_shard_name 1, dmr_offset = 0, dmr_delay_timestamp = 0\<rparr>, 5)])]\<rparr>))"
  using send_delay_message_effect [of memory_new 2
      "\<lparr>dmm_namespace = [], dmm_shard_num = 2, dmm_incr_no = 7, dmm_delay_queue_list = [(1, [])]\<rparr>" 1
      "get_delay_message_shard_name 1" "[]" "[]" 5 5 "build_byte (\<lambda>_. 0) 0 []"
      "\<lparr>dmr_shard_name = get_delay_message_shard_name 1, dmr_offset = 0, dmr_delay_timestamp = 0\<rparr>"
      "\<lparr>dq_new = [], dq_insert_at = (\<lambda>r t q. if t < 100 then Some ((r, t) # q) else None)\<rparr>"]
  by (simp add: memory_new_def mem_inv_def mem_store_def build_byte_def)

text \<open>
  C27: an expired message goes back to the shard that it came from: \<open>send_delay_message_to_shard\<close>
  reads the record and appends a copy of it, exactly once, to the same delay shard, which
  no subscriber reads.
\<close>

theorem expired_message_returns_to_its_shard:
  assumes "mem_inv s" and "xs = mem_store s (shard_key ns sh)" and "unat off < length xs" and "length xs < 2 ^ 63"
  shows "\<exists>s'. send_delay_message_to_shard memory_adapter ns sh off 0 s = (Ok (), s') \<and>
    mem_store s' = (mem_store s)(shard_key ns sh := xs @ stamp (length xs) [xs ! unat off])"
proof -
  let ?conf = "\<lparr>max_record_num = 1, max_size = 1024 * 1024 * 1024\<rparr> :: ReadConfig"
  have "sa_read_by_offset memory_adapter ns sh off ?conf s = (Ok (window off ?conf xs), s)"
    using mem.read_eq [OF assms(1), of off ?conf ns sh] assms(2-4) by simp
  moreover have "window off ?conf xs = [xs ! unat off]"
    using assms(3) by (simp add: window_def take_Suc_conv_app_nth hd_drop_conv_nth flip: Cons_nth_drop_Suc)
  moreover have "r_offset (xs ! unat off) = Some off"
    using assms(1-3) by (simp add: mem_inv_def log_wf_def)
  ultimately have rd: "read_offset_data memory_adapter ns sh off s = (Ok (Some (xs ! unat off)), s)"
    by (simp add: read_offset_data_def s_bind_def s_lift_def)
  obtain o' s' where w: "sa_write memory_adapter ns sh (xs ! unat off) s = (Ok o', s')"
    using mem.write_total by blast
  from mem.write_ok [OF assms(1,2) _ w] assms(4)
  have "mem_store s' = (mem_store s)(shard_key ns sh := xs @ stamp (length xs) [xs ! unat off])" by simp
  moreover have "send_delay_message_to_shard memory_adapter ns sh off 0 s = (Ok (), s')"
    by (simp add: send_delay_message_to_shard.simps rd w)
  ultimately show ?thesis by blast
qed

theorem expired_message_returns_to_its_shard_witness:
  "\<exists>s'. send_delay_message_to_shard memory_adapter [] [] 0 0
      (memory_new\<lparr>shard_data := [(shard_key [] [], stamp 0 [build_byte (\<lambda>_. 0) 0 []])]\<rparr>) = (Ok (), s') \<and>
    mem_store s' = (mem_store (memory_new\<lparr>shard_data := [(shard_key [] [], stamp 0 [build_byte (\<lambda>_. 0) 0 []])]\<rparr>))
      (shard_key [] [] := stamp 0 [build_byte (\<lambda>_. 0) 0 []] @
        stamp (length (stamp 0 [build_byte (\<lambda>_. 0) 0 []])) [stamp 0 [build_byte (\<lambda>_. 0) 0 []] ! unat (0 :: u64)])"
  by (rule expired_message_returns_to_its_shard)
     (auto simp: memory_new_def mem_inv_def mem_store_def log_wf_def dm_wf_def)

lemma shard_name_not_Nil: "get_delay_message_shard_name no \<noteq> []"
  by (simp add: get_delay_message_shard_name_def DELAY_MESSAGE_SHARD_NAME_PREFIX_def)

lemma try_init_rest:
  assumes "shard_info s \<noteq> []"
  shows "s_for nos (\<lambda>i.
         let shard_name = get_delay_message_shard_name i in
         s_bind (on_storage (sa_list_shard memory_adapter ns shard_name)) (\<lambda>results.
           if results = [] then
             on_storage (sa_create_shard memory_adapter
               \<lparr>si_namespace = ns, si_shard_name = shard_name, si_replica_num = 1\<rparr>)
           else s_ok ())) (s, m) = (Ok (), (s, m))"
proof -
  have "mem_list_shard ns (get_delay_message_shard_name i) s = (Ok (dm_values (shard_info s)), s)" for i
    by (simp add: mem_list_shard_def shard_name_not_Nil Let_def)
  with assms show ?thesis
    by (induction nos) (simp_all add: s_ok_def s_bind_def on_storage_def memory_adapter_def dm_values_def Let_def)
qed

text \<open>
  On the memory adapter \<open>init\<close> creates only the first of the delay shards: from then on
  \<open>list_shard\<close>, asked for the next shard, answers with the one that exists.
\<close>

theorem delay_init_creates_one_shard:
  assumes "n \<noteq> 0"
  shows "\<exists>s'. try_init_shard memory_adapter (memory_new, delay_manager_new ns n) =
      (Ok (), (s', delay_manager_new ns n)) \<and>
    shard_info s' = [(shard_key ns (get_delay_message_shard_name 0),
      \<lparr>si_namespace = ns, si_shard_name = get_delay_message_shard_name 0, si_replica_num = 1\<rparr>)]"
proof -
  let ?i0 = "\<lparr>si_namespace = ns, si_shard_name = get_delay_message_shard_name 0, si_replica_num = 1\<rparr> :: ShardInfo"
  obtain s1 where c: "mem_create_shard ?i0 memory_new = (Ok (), s1)"
    and i: "shard_info s1 = [(shard_key ns (get_delay_message_shard_name 0), ?i0)]"
    by (simp add: mem_create_shard_def memory_new_def Let_def)
  have sel: "sa_list_shard memory_adapter = mem_list_shard" "sa_create_shard memory_adapter = mem_create_shard"
    by (simp_all add: memory_adapter_def)
  have "shard_nos n = 0 # map word_of_nat [1 ..< unat n]"
    using assms by (simp add: shard_nos_def upt_conv_Cons unat_gt_0)
  moreover have "mem_list_shard ns (get_delay_message_shard_name 0) memory_new = (Ok [], memory_new)"
    by (simp add: mem_list_shard_def shard_name_not_Nil memory_new_def dm_values_def Let_def)
  moreover have "shard_info s1 \<noteq> []" by (simp add: i)
  ultimately have "try_init_shard memory_adapter (memory_new, delay_manager_new ns n) = (Ok (), (s1, delay_manager_new ns n))"
    using c try_init_rest [of s1 "map word_of_nat [1 ..< unat n]" ns "delay_manager_new ns n"]
    by (simp add: try_init_shard_def s_bind_def s_get_def delay_manager_new_def on_storage_def sel Let_def cong: if_cong)
  with i show ?thesis by blast
qed

theorem delay_init_creates_one_shard_witness:
  "\<exists>s'. try_init_shard memory_adapter (memory_new, delay_manager_new ''ns'' 5) =
      (Ok (), (s', delay_manager_new ''ns'' 5)) \<and>
    shard_info s' = [(shard_key ''ns'' (get_delay_message_shard_name 0),
      \<lparr>si_namespace = ''ns'', si_shard_name = get_delay_message_shard_name 0, si_replica_num = 1\<rparr>)]"
  by (rule delay_init_creates_one_shard) simp

end
