(* ===== verification/Broker_Types.thy ===== *)
theory Broker_Types
  imports Storage_Types Mqtt_Types
begin

text \<open>
  The data of the MQTT broker: the structs of \<open>src/common/metadata-struct/src/mqtt\<close> and
  \<open>src/common/metadata-struct/src/acl\<close>, and the errors of \<open>src/mqtt-broker/src/handler/error.rs\<close>,
  of which the variants that only wrap the error of a library carry no further data.

  \<open>now_second\<close> is an argument wherever the source reads the clock.  The counters
  \<open>receive_qos_message\<close> and \<open>sender_qos_message\<close> are shared by the copies of a connection; the
  model keeps them in the connection of the cache.
\<close>

type_synonym isize = "64 word"
type_synonym u128 = "128 word"

section \<open>Errors\<close>

datatype MqttBrokerError =
    BE_FromUtf8Error
  | BE_FromCommonError CommonError
  | BE_ParseIntError
  | BE_TokioBroadcastSendError
  | BE_SerdeJsonError string
  | TopicAliasTooLong u16
  | TopicNameIsEmpty
  | TopicNameInvalid
  | TopicNameIncorrectlyFormatted string
  | NotFoundConnectionInCache u64
  | PacketLengthError usize
  | ClusterIsInSelfProtection
  | SubPublishWaitPubRecTimeout string
  | SubscriptionPathNotExists string
  | UserDoesNotExist
  | UserAlreadyExist
  | SessionDoesNotExist
  | TopicDoesNotExist string
  | UnavailableStorageType
  | BE_CommonError string
  | InvalidAclAction
  | InvalidAclPermission
  | TopicRewriteRuleAlreadyExist
  | DelayPublishDecodeTopicNameFail string
  | InvalidSchemaType string

text \<open>The question mark operator on a \<open>Result<_, CommonError>\<close> in a function of the broker.\<close>

definition from_common :: "('s, 'a) cprog \<Rightarrow> ('s, 'a, MqttBrokerError) prog" where
  "from_common m = s_match m s_ok (\<lambda>e. s_err (BE_FromCommonError e))"

section \<open>Connections and sessions\<close>

record MQTTConnection =
  connect_id :: u64
  conn_client_id :: string
  conn_is_login :: bool
  source_ip_addr :: string
  login_user :: string
  conn_keep_alive :: u16
  conn_topic_alias :: "(u16, string) dashmap"
  client_max_receive_maximum :: u16
  conn_max_packet_size :: u32
  conn_topic_alias_max :: u16
  conn_request_problem_info :: u8
  receive_qos_message :: isize
  sender_qos_message :: isize
  conn_create_time :: u64

record ConnectionConfig =
  cc_connect_id :: u64
  cc_client_id :: string
  cc_receive_maximum :: u16
  cc_max_packet_size :: u32
  cc_topic_alias_max :: u16
  cc_request_problem_info :: u8
  cc_keep_alive :: u16
  cc_source_ip_addr :: string

definition connection_new :: "u64 \<Rightarrow> ConnectionConfig \<Rightarrow> MQTTConnection" where
  "connection_new now_second config =
     \<lparr>connect_id = cc_connect_id config, conn_client_id = cc_client_id config, conn_is_login = False,
      source_ip_addr = cc_source_ip_addr config, login_user = [],
      conn_keep_alive = cc_keep_alive config, conn_topic_alias = [],
      client_max_receive_maximum = cc_receive_maximum config,
      conn_max_packet_size = cc_max_packet_size config,
      conn_topic_alias_max = cc_topic_alias_max config,
      conn_request_problem_info = cc_request_problem_info config,
      receive_qos_message = 0, sender_qos_message = 0, conn_create_time = now_second\<rparr>"

definition connection_login_success :: "string \<Rightarrow> MQTTConnection \<Rightarrow> MQTTConnection" where
  "connection_login_success user_name conn = conn\<lparr>conn_is_login := True, login_user := user_name\<rparr>"

definition is_response_problem_info :: "MQTTConnection \<Rightarrow> bool" where
  "is_response_problem_info conn \<longleftrightarrow> conn_request_problem_info conn = 1"

definition recv_qos_message_incr :: "MQTTConnection \<Rightarrow> MQTTConnection" where
  "recv_qos_message_incr conn = conn\<lparr>receive_qos_message := receive_qos_message conn + 1\<rparr>"

definition recv_qos_message_decr :: "MQTTConnection \<Rightarrow> MQTTConnection" where
  "recv_qos_message_decr conn = conn\<lparr>receive_qos_message := receive_qos_message conn - 1\<rparr>"

record MqttSession =
  ses_client_id :: string
  session_expiry :: u64
  is_contain_last_will :: bool
  ses_last_will_delay_interval :: "u64 option"
  ses_create_time :: u64
  connection_id :: "u64 option"
  ses_broker_id :: "u64 option"
  reconnect_time :: "u64 option"
  distinct_time :: "u64 option"

definition session_new :: "u64 \<Rightarrow> string \<Rightarrow> u64 \<Rightarrow> bool \<Rightarrow> u64 option \<Rightarrow> MqttSession" where
  "session_new now_second cid expiry contain_last_will last_will_delay =
     \<lparr>ses_client_id = cid, session_expiry = expiry, is_contain_last_will = contain_last_will,
      ses_last_will_delay_interval = last_will_delay, ses_create_time = now_second,
      connection_id = None, ses_broker_id = None, reconnect_time = None, distinct_time = None\<rparr>"

definition update_connnction_id :: "u64 option \<Rightarrow> MqttSession \<Rightarrow> MqttSession" where
  "update_connnction_id i ses = ses\<lparr>connection_id := i\<rparr>"

definition update_broker_id :: "u64 option \<Rightarrow> MqttSession \<Rightarrow> MqttSession" where
  "update_broker_id i ses = ses\<lparr>ses_broker_id := i\<rparr>"

definition update_reconnect_time :: "u64 \<Rightarrow> MqttSession \<Rightarrow> MqttSession" where
  "update_reconnect_time now_second ses = ses\<lparr>reconnect_time := Some now_second\<rparr>"

definition update_distinct_time :: "u64 \<Rightarrow> MqttSession \<Rightarrow> MqttSession" where
  "update_distinct_time now_second ses = ses\<lparr>distinct_time := Some now_second\<rparr>"

section \<open>Topics, users and subscriptions\<close>

record MqttTopic =
  topic_id :: string
  t_cluster_name :: string
  t_topic_name :: string
  retain_message :: "bytes option"
  retain_message_expired_at :: "u64 option"
  t_create_time :: u64

definition topic_new :: "u64 \<Rightarrow> string \<Rightarrow> string \<Rightarrow> string \<Rightarrow> MqttTopic" where
  "topic_new now_second tid cluster_name topic_name =
     \<lparr>topic_id = tid, t_cluster_name = cluster_name, t_topic_name = topic_name,
      retain_message = None, retain_message_expired_at = None, t_create_time = now_second\<rparr>"

record MqttUser =
  us_username :: string
  us_password :: string
  is_superuser :: bool

record MqttSubscribe =
  ms_client_id :: string
  ms_path :: string
  ms_cluster_name :: string
  ms_broker_id :: u64
  ms_protocol :: MqttProtocol
  ms_filter :: Filter
  ms_pkid :: u16
  ms_subscribe_properties :: "SubscribeProperties option"

record MqttTopicRewriteRule =
  rw_cluster :: string
  rw_action :: string
  rw_source_topic :: string
  rw_dest_topic :: string
  rw_regex :: string
  rw_timestamp :: u128

datatype TopicRewriteActionEnum = RA_All | RA_Publish | RA_Subscribe

primrec rewrite_action_to_string :: "TopicRewriteActionEnum \<Rightarrow> string" where
  "rewrite_action_to_string RA_All = ''All''"
| "rewrite_action_to_string RA_Publish = ''Publish''"
| "rewrite_action_to_string RA_Subscribe = ''Subscribe''"

record LastWillData =
  lwd_client_id :: string
  lwd_last_will :: "LastWill option"
  lwd_last_will_properties :: "LastWillProperties option"

section \<open>Access control\<close>

datatype MqttAclResourceType = ART_ClientId | ART_User

datatype MqttAclAction = AA_All | AA_Subscribe | AA_Publish | AA_PubSub | AA_Retain | AA_Qos

datatype MqttAclPermission = Allow | Deny

record MqttAcl =
  acl_resource_type :: MqttAclResourceType
  acl_resource_name :: string
  acl_topic :: string
  acl_ip :: string
  acl_action :: MqttAclAction
  acl_permission :: MqttAclPermission

datatype MqttAclBlackListType = BL_ClientId | BL_User | BL_Ip | BL_ClientIdMatch | BL_UserMatch | BL_IPCIDR

record MqttAclBlackList =
  blacklist_type :: MqttAclBlackListType
  bl_resource_name :: string
  bl_end_time :: u64
  bl_desc :: string

section \<open>The dynamic configuration of the cluster\<close>

datatype AvailableFlag = Disable | Enable

primrec available_flag_to_u8 :: "AvailableFlag \<Rightarrow> u8" where
  "available_flag_to_u8 Disable = 0"
| "available_flag_to_u8 Enable = 1"

record MqttClusterDynamicConfigProtocol =
  cl_session_expiry_interval :: u32
  cl_topic_alias_max :: u16
  cl_max_qos :: QoS
  cl_max_packet_size :: u32
  max_server_keep_alive :: u16
  default_server_keep_alive :: u16
  cl_receive_max :: u16
  max_message_expiry_interval :: u64
  client_pkid_persistent :: bool

record MqttClusterDynamicConfigFeature =
  retain_available :: AvailableFlag
  wildcard_subscription_available :: AvailableFlag
  subscription_identifiers_available :: AvailableFlag
  shared_subscription_available :: AvailableFlag
  exclusive_subscription_available :: AvailableFlag

record MqttClusterDynamicConfigSecurity =
  is_self_protection_status :: bool
  secret_free_login :: bool

record MqttClusterDynamicConfigNetwork =
  tcp_max_connection_num :: u64
  tcps_max_connection_num :: u64
  websocket_max_connection_num :: u64
  websockets_max_connection_num :: u64
  response_max_try_mut_times :: u64
  response_try_mut_sleep_time_ms :: u64

record MqttClusterDynamicSlowSub =
  ss_enable :: bool
  whole_ms :: u64
  internal_ms :: u32
  response_ms :: u32

record MqttClusterDynamicFlappingDetect =
  fd_enable :: bool
  window_time :: u32
  max_client_connections :: u64
  ban_time :: u32

record MqttClusterDynamicConfig =
  cl_protocol :: MqttClusterDynamicConfigProtocol
  cl_feature :: MqttClusterDynamicConfigFeature
  cl_security :: MqttClusterDynamicConfigSecurity
  cl_network :: MqttClusterDynamicConfigNetwork
  cl_slow :: MqttClusterDynamicSlowSub
  cl_flapping_detect :: MqttClusterDynamicFlappingDetect
  cl_offline_message :: bool

definition build_default_cluster_config :: MqttClusterDynamicConfig where
  "build_default_cluster_config =
     \<lparr>cl_protocol =
        \<lparr>cl_session_expiry_interval = 1800, cl_topic_alias_max = 65535, cl_max_qos = ExactlyOnce,
         cl_max_packet_size = 1024 * 1024 * 10, max_server_keep_alive = 3600,
         default_server_keep_alive = 60, cl_receive_max = 65535,
         max_message_expiry_interval = 3600, client_pkid_persistent = False\<rparr>,
      cl_feature =
        \<lparr>retain_available = Enable, wildcard_subscription_available = Enable,
         subscription_identifiers_available = Enable, shared_subscription_available = Enable,
         exclusive_subscription_available = Enable\<rparr>,
      cl_security = \<lparr>is_self_protection_status = False, secret_free_login = False\<rparr>,
      cl_network =
        \<lparr>tcp_max_connection_num = 1000, tcps_max_connection_num = 1000,
         websocket_max_connection_num = 1000, websockets_max_connection_num = 1000,
         response_max_try_mut_times = 128, response_try_mut_sleep_time_ms = 100\<rparr>,
      cl_slow = \<lparr>ss_enable = False, whole_ms = 0, internal_ms = 0, response_ms = 0\<rparr>,
      cl_flapping_detect =
        \<lparr>fd_enable = False, window_time = 1, max_client_connections = 15, ban_time = 5\<rparr>,
      cl_offline_message = True\<rparr>"

section \<open>Messages\<close>

record MqttMessage =
  msg_client_id :: string
  msg_dup :: bool
  msg_qos :: QoS
  msg_pkid :: u16
  msg_retain :: bool
  msg_topic :: bytes
  msg_payload :: bytes
  msg_format_indicator :: "u8 option"
  msg_expiry_interval :: u64
  msg_response_topic :: "string option"
  msg_correlation_data :: "bytes option"
  msg_user_properties :: user_props
  msg_subscription_identifiers :: "usize list"
  msg_content_type :: "string option"
  msg_create_time :: u64

definition build_message ::
    "u64 \<Rightarrow> string \<Rightarrow> Publish \<Rightarrow> PublishProperties option \<Rightarrow> u64 \<Rightarrow> MqttMessage" where
  "build_message now_second cid publish publish_properties expiry_interval =
     (let message =
        \<lparr>msg_client_id = cid, msg_dup = dup publish, msg_qos = p_qos publish, msg_pkid = p_pkid publish,
         msg_retain = retain publish, msg_topic = topic publish, msg_payload = payload publish,
         msg_format_indicator = None, msg_expiry_interval = expiry_interval, msg_response_topic = None,
         msg_correlation_data = None, msg_user_properties = [], msg_subscription_identifiers = [],
         msg_content_type = None, msg_create_time = now_second\<rparr> in
      case publish_properties of
        Some properties \<Rightarrow>
          message\<lparr>msg_format_indicator := pp_payload_format_indicator properties,
            msg_response_topic := pp_response_topic properties,
            msg_correlation_data := pp_correlation_data properties,
            msg_user_properties := pp_user_properties properties,
            msg_subscription_identifiers := pp_subscription_identifiers properties,
            msg_content_type := pp_content_type properties\<rparr>
      | None \<Rightarrow> message)"

end
