(* ===== verification/Topic_Path.thy ===== *)
theory Topic_Path
  imports Broker_Types
begin

text \<open>
  Topic names and subscription paths of the broker:
  \<open>src/mqtt-broker/src/subscribe/sub_common.rs\<close>, \<open>handler/topic.rs\<close>,
  \<open>handler/delay_message.rs\<close> and \<open>src/common/base/src/utils/topic_util.rs\<close>.

  The \<open>regex\<close> crate is a parameter.  \<open>regex_laws\<close> states the part of its documented syntax that
  the patterns built here use: literals, negated character classes, the end anchor and the
  search for a match anywhere in the text.  A pattern compiles when it is small; the crate has a
  limit on the size of compiled patterns, and \<open>pattern_limit\<close> items stay well below it.
\<close>

section \<open>Strings\<close>

text \<open>\<open>str::split\<close> at one character; the result is never empty.\<close>

fun split_str :: "char \<Rightarrow> string \<Rightarrow> string list" where
  "split_str c [] = [[]]"
| "split_str c (x # xs) =
     (if x = c then [] # split_str c xs
      else (x # hd (split_str c xs)) # tl (split_str c xs))"

text \<open>\<open>[&str]::join\<close>\<close>

fun join_str :: "char \<Rightarrow> string list \<Rightarrow> string" where
  "join_str c [] = []"
| "join_str c [x] = x"
| "join_str c (x # y # ys) = x @ c # join_str c (y # ys)"

text \<open>\<open>str::replace\<close> with a pattern that is not empty.\<close>

function str_replace :: "string \<Rightarrow> string \<Rightarrow> string \<Rightarrow> string" where
  "str_replace pat to [] = []"
| "str_replace pat to (x # xs) =
     (if pat \<noteq> [] \<and> prefix pat (x # xs) then to @ str_replace pat to (drop (length pat) (x # xs))
      else x # str_replace pat to xs)"
  by pat_completeness auto
termination
  by (relation "measure (\<lambda>(pat, to, s). length s)") auto

text \<open>\<open>str::trim_start_matches\<close>\<close>

function trim_start_matches :: "string \<Rightarrow> string \<Rightarrow> string" where
  "trim_start_matches pat s =
     (if pat \<noteq> [] \<and> prefix pat s then trim_start_matches pat (drop (length pat) s) else s)"
  by pat_completeness auto
termination
  by (relation "measure (\<lambda>(pat, s). length s)") (auto simp: prefix_def)

declare trim_start_matches.simps [simp del]

text \<open>\<open>Vec::remove(0)\<close>\<close>

definition remove_first :: "'a list \<Rightarrow> ('a \<times> 'a list, 'e) result" where
  "remove_first xs = (case xs of [] \<Rightarrow> Panic | x # ys \<Rightarrow> Ok (x, ys))"

text \<open>\<open>str::parse::<u64>\<close>: digits, with an optional plus sign.\<close>

definition is_digit :: "char \<Rightarrow> bool" where
  "is_digit c \<longleftrightarrow> 48 \<le> (of_char c :: nat) \<and> (of_char c :: nat) \<le> 57"

definition parse_u64 :: "string \<Rightarrow> u64 option" where
  "parse_u64 s =
     (let ds = (case s of CHR ''+'' # r \<Rightarrow> r | _ \<Rightarrow> s) in
      if ds \<noteq> [] \<and> list_all is_digit ds \<and> read_digits 0 ds < 2 ^ 64
      then Some (word_of_nat (read_digits 0 ds)) else None)"

section \<open>The regex crate\<close>

text \<open>
  \<open>Regex::new(p)\<close> fails for some patterns: then \<open>rx_is_match\<close> is \<open>None\<close>.  \<open>rx_captures\<close> gives
  the groups of the first match, without group 0.
\<close>

record regex =
  rx_is_match :: "string \<Rightarrow> (string \<Rightarrow> bool) option"
  rx_captures :: "string \<Rightarrow> (string \<Rightarrow> string option list option) option"

definition is_match :: "regex \<Rightarrow> string \<Rightarrow> string \<Rightarrow> (bool, 'e) result" where
  "is_match R pattern text = and_then (unwrap (rx_is_match R pattern)) (\<lambda>re. Ok (re text))"

section \<open>Subscription paths\<close>

definition SHARE_SUB_PREFIX :: string where
  "SHARE_SUB_PREFIX = ''$share''"

definition QUEUE_SUB_PREFIX :: string where
  "QUEUE_SUB_PREFIX = ''$queue''"

definition path_contain_sub :: "string \<Rightarrow> bool" where
  "path_contain_sub _ = True"

definition SUB_PATH_REGEX :: string where
  "SUB_PATH_REGEX = ''^['' @ [char_of (92 :: nat)] @ ''$a-zA-Z0-9_#+/]+$''"

definition sub_path_validator :: "regex \<Rightarrow> string \<Rightarrow> (bool, 'e) result" where
  "sub_path_validator R sub_path =
     and_then (is_match R SUB_PATH_REGEX sub_path) (\<lambda>matched. Ok (
       if \<not> matched then False
       else list_all (\<lambda>path.
         \<not> (CHR ''+'' \<in> set path \<and> path \<noteq> ''+'') \<and>
         \<not> (CHR ''#'' \<in> set path \<and> path \<noteq> ''#'')) (split_str (CHR ''/'') sub_path)))"

definition is_share_sub :: "string \<Rightarrow> bool" where
  "is_share_sub sub_name = prefix SHARE_SUB_PREFIX sub_name"

definition is_queue_sub :: "string \<Rightarrow> bool" where
  "is_queue_sub sub_name = prefix QUEUE_SUB_PREFIX sub_name"

definition decode_share_info :: "string \<Rightarrow> (string \<times> string, 'e) result" where
  "decode_share_info sub_name =
     (let str_slice = split_str (CHR ''/'') sub_name in
      and_then (remove_first str_slice) (\<lambda>(_, str_slice).
      and_then (remove_first str_slice) (\<lambda>(group_name, str_slice).
        Ok (group_name, ''/'' @ join_str (CHR ''/'') str_slice))))"

definition decode_queue_info :: "string \<Rightarrow> (string, 'e) result" where
  "decode_queue_info sub_name =
     (let str_slice = split_str (CHR ''/'') sub_name in
      and_then (remove_first str_slice) (\<lambda>(_, str_slice).
        Ok (''/'' @ join_str (CHR ''/'') str_slice)))"

text \<open>The first two blocks of \<open>path_regex_match\<close>: the path behind a share or queue prefix.\<close>

definition inner_path :: "string \<Rightarrow> (string, 'e) result" where
  "inner_path p =
     (if is_share_sub p then and_then (decode_share_info p) (\<lambda>(_, group_path). Ok group_path)
      else if is_queue_sub p then decode_queue_info p
      else Ok p)"

definition path_regex_match :: "regex \<Rightarrow> string \<Rightarrow> string \<Rightarrow> (bool, 'e) result" where
  "path_regex_match R topic_name sub_path =
     and_then (inner_path sub_path) (\<lambda>path.
     and_then (inner_path topic_name) (\<lambda>topic.
       if topic = path then Ok True
       else if CHR ''+'' \<in> set path then
         is_match R (str_replace ''+'' ''[^+*/]+'' path) topic
       else if CHR ''#'' \<in> set path then
         (if last (split_str (CHR ''/'') path) \<noteq> ''#'' then Ok False
          else is_match R (str_replace ''#'' ''[^+#]+'' path) topic)
       else Ok False))"

instantiation QoS :: linorder
begin

definition less_eq_QoS :: "QoS \<Rightarrow> QoS \<Rightarrow> bool" where
  "less_eq_QoS a b \<longleftrightarrow> qos_to_u8 a \<le> qos_to_u8 b"

definition less_QoS :: "QoS \<Rightarrow> QoS \<Rightarrow> bool" where
  "less_QoS a b \<longleftrightarrow> qos_to_u8 a < qos_to_u8 b"

instance
proof
  fix a b :: QoS
  show "a \<le> b \<Longrightarrow> b \<le> a \<Longrightarrow> a = b"
    by (cases a; cases b) (simp_all add: less_eq_QoS_def word_le_nat_alt)
qed (auto simp: less_eq_QoS_def less_QoS_def)

end

definition min_qos :: "QoS \<Rightarrow> QoS \<Rightarrow> QoS" where
  "min_qos q sub_qos = (if q \<le> sub_qos then q else sub_qos)"

text \<open>The loop over \<open>topic_id_name\<close>.\<close>

fun get_sub_topic_id_list :: "regex \<Rightarrow> (string, string) dashmap \<Rightarrow> string \<Rightarrow> (string list, 'e) result" where
  "get_sub_topic_id_list R [] sub_path = Ok []"
| "get_sub_topic_id_list R ((tid, topic_name) # topic_id_name) sub_path =
     and_then (path_regex_match R topic_name sub_path) (\<lambda>matched.
     and_then (get_sub_topic_id_list R topic_id_name sub_path) (\<lambda>result.
       Ok (if matched then tid # result else result)))"

section \<open>Exclusive subscriptions\<close>

definition EXCLUSIVE_SUB_PREFIX :: string where
  "EXCLUSIVE_SUB_PREFIX = ''$exclusive''"

definition is_exclusive_sub :: "string \<Rightarrow> bool" where
  "is_exclusive_sub sub_path = prefix EXCLUSIVE_SUB_PREFIX sub_path"

definition decode_exclusive_sub_path_to_topic_name :: "string \<Rightarrow> string" where
  "decode_exclusive_sub_path_to_topic_name sub_path =
     (if is_exclusive_sub sub_path then trim_start_matches EXCLUSIVE_SUB_PREFIX sub_path else sub_path)"

definition base_topic_name_regex_match :: "regex \<Rightarrow> string \<Rightarrow> string \<Rightarrow> (bool, 'e) result" where
  "base_topic_name_regex_match R topic_name regex_topic_name =
     (if topic_name = regex_topic_name then Ok True
      else if CHR ''+'' \<in> set regex_topic_name then
        is_match R (str_replace ''+'' ''[^+*/]+'' regex_topic_name) topic_name
      else if CHR ''#'' \<in> set regex_topic_name then
        (if last (split_str (CHR ''/'') regex_topic_name) \<noteq> ''#'' then Ok False
         else is_match R (str_replace ''#'' ''[^+#]+'' regex_topic_name) topic_name)
      else Ok False)"

definition topic_name_regex_match :: "regex \<Rightarrow> string \<Rightarrow> string \<Rightarrow> (bool, 'e) result" where
  "topic_name_regex_match R topic_name1 topic_name2 =
     and_then (base_topic_name_regex_match R topic_name1 topic_name2) (\<lambda>b.
       if b then Ok True else base_topic_name_regex_match R topic_name2 topic_name1)"

section \<open>Topic names\<close>

definition payload_format_validator :: "bytes \<Rightarrow> u8 \<Rightarrow> usize \<Rightarrow> bool" where
  "payload_format_validator pl payload_format_indicator max_packet_size =
     (if pl = [] \<or> length pl > max_packet_size then False
      else if payload_format_indicator = 1 then utf8_valid pl
      else False)"

definition TOPIC_NAME_REGEX :: string where
  "TOPIC_NAME_REGEX = ''^[A-Za-z0-9_+#/$]+$''"

definition topic_name_validator :: "regex \<Rightarrow> string \<Rightarrow> (unit, MqttBrokerError) result" where
  "topic_name_validator R topic_name =
     (if topic_name = [] then Err TopicNameIsEmpty
      else
        (let topic_slice = split_str (CHR ''/'') topic_name in
         if hd topic_slice = ''/'' then Err (TopicNameIncorrectlyFormatted topic_name)
         else if last topic_slice = ''/'' then Err (TopicNameIncorrectlyFormatted topic_name)
         else
           and_then (is_match R TOPIC_NAME_REGEX topic_name) (\<lambda>matched.
             if \<not> matched then Err (TopicNameIncorrectlyFormatted topic_name) else Ok ())))"

text \<open>The loop over the groups that a match captured; a group that took no part is a panic.\<close>

fun replace_captures :: "nat \<Rightarrow> string option list \<Rightarrow> string \<Rightarrow> (string, 'e) result" where
  "replace_captures i [] rewrite_topic = Ok rewrite_topic"
| "replace_captures i (capture # captures) rewrite_topic =
     and_then (unwrap capture) (\<lambda>c.
       replace_captures (i + 1) captures (str_replace (''$'' @ show_nat (i + 1)) c rewrite_topic))"

definition gen_rewrite_topic :: "regex \<Rightarrow> string \<Rightarrow> string \<Rightarrow> string \<Rightarrow> (string option, 'e) result" where
  "gen_rewrite_topic R input pattern template =
     and_then
       (if is_share_sub input then
          and_then (decode_share_info input) (\<lambda>(group, group_path). Ok (''$share/'' @ group, group_path))
        else if is_queue_sub input then
          and_then (decode_queue_info input) (\<lambda>p. Ok (''$queue'', p))
        else Ok ([], input))
       (\<lambda>(pre, topic).
         case rx_captures R pattern of
           None \<Rightarrow> Ok None
         | Some re \<Rightarrow>
             (case re topic of
                None \<Rightarrow> Ok None
              | Some captures \<Rightarrow>
                  and_then (replace_captures 0 captures template) (\<lambda>rewrite_topic.
                    Ok (Some (pre @ rewrite_topic)))))"

section \<open>Delayed topics\<close>

definition DELAY_PUBLISH_MESSAGE_PREFIXED :: string where
  "DELAY_PUBLISH_MESSAGE_PREFIXED = ''$delayed''"

record DelayPublishTopic =
  dpt_topic :: string
  dpt_delay_timestamp :: u64

definition is_delay_message :: "string \<Rightarrow> bool" where
  "is_delay_message topic_name = prefix DELAY_PUBLISH_MESSAGE_PREFIXED topic_name"

definition decode_delay_topic :: "string \<Rightarrow> (DelayPublishTopic option, MqttBrokerError) result" where
  "decode_delay_topic topic_name =
     (if \<not> is_delay_message topic_name then Ok None
      else
        (let str_slice = split_str (CHR ''/'') topic_name in
         if length str_slice < 3 then Ok None
         else
           (case parse_u64 (str_slice ! 1) of
              None \<Rightarrow> Err BE_ParseIntError
            | Some delay_timestamp \<Rightarrow>
                Ok (Some \<lparr>dpt_topic = ''/'' @ join_str (CHR ''/'') (drop 2 str_slice),
                          dpt_delay_timestamp = delay_timestamp\<rparr>))))"

section \<open>What the regex crate promises\<close>

text \<open>
  A pattern as a list of items: a character that stands for itself, one or more characters
  outside a set, the end of the text.  \<open>rx_here\<close> says whether the items match at the start of
  a text, and a pattern matches when it does so from some position on.
\<close>

datatype rx_item = RLit char | RNot string | REnd

primrec rx_show :: "rx_item \<Rightarrow> string" where
  "rx_show (RLit c) = [c]"
| "rx_show (RNot cs) = ''[^'' @ cs @ '']+''"
| "rx_show REnd = ''$''"

fun rx_here :: "rx_item list \<Rightarrow> string \<Rightarrow> bool" where
  "rx_here [] s = True"
| "rx_here (RLit c # is) s = (case s of [] \<Rightarrow> False | x # t \<Rightarrow> x = c \<and> rx_here is t)"
| "rx_here (RNot cs # is) s =
     list_ex (\<lambda>n. list_all (\<lambda>c. c \<notin> set cs) (take n s) \<and> rx_here is (drop n s)) [1..<length s + 1]"
| "rx_here (REnd # is) s = (s = [] \<and> rx_here is s)"

definition rx_search :: "rx_item list \<Rightarrow> string \<Rightarrow> bool" where
  "rx_search is s = list_ex (\<lambda>n. rx_here is (drop n s)) [0..<length s + 1]"

definition alnum :: "char \<Rightarrow> bool" where
  "alnum c \<longleftrightarrow> (let n = (of_char c :: nat) in
     48 \<le> n \<and> n \<le> 57 \<or> 65 \<le> n \<and> n \<le> 90 \<or> 97 \<le> n \<and> n \<le> 122 \<or> n = 95)"

text \<open>The characters of a topic name, and of a path without wildcards.\<close>

definition plain :: "char \<Rightarrow> bool" where
  "plain c \<longleftrightarrow> alnum c \<or> c = CHR ''/''"

definition path_char :: "char \<Rightarrow> bool" where
  "path_char c \<longleftrightarrow> plain c \<or> c \<in> set ''$#+''"

fun rx_ok :: "rx_item \<Rightarrow> bool" where
  "rx_ok (RLit c) = plain c"
| "rx_ok (RNot cs) = (cs \<in> {''+*/'', ''+#''})"
| "rx_ok REnd = True"

definition pattern_limit :: nat where
  "pattern_limit = 1024"

locale regex_laws =
  fixes R :: regex
  assumes search: "list_all rx_ok is \<Longrightarrow> length is \<le> pattern_limit \<Longrightarrow> \<exists>re. rx_is_match R (concat (map rx_show is)) = Some re \<and>
      (\<forall>text. list_all plain text \<longrightarrow> re text = rx_search is text)"
    and path_class: "rx_is_match R SUB_PATH_REGEX = Some (\<lambda>s. s \<noteq> [] \<and> list_all path_char s)"
    and topic_class: "rx_is_match R TOPIC_NAME_REGEX = Some (\<lambda>s. s \<noteq> [] \<and> list_all path_char s)"

section \<open>Levels\<close>

text \<open>
  What the MQTT specification says about a path with single-level wildcards: it matches a
  topic with the same number of levels, each equal or matched by a \<open>+\<close>.  The code asks in
  addition that the level that a \<open>+\<close> stands for is not empty.
\<close>

definition level_match :: "string \<Rightarrow> string \<Rightarrow> bool" where
  "level_match f t = (if f = ''+'' then t \<noteq> [] else f = t)"

definition levels_match :: "string \<Rightarrow> string \<Rightarrow> bool" where
  "levels_match p t =
     list_all2 level_match (split_str (CHR ''/'') p) (split_str (CHR ''/'') t)"

definition plus_path :: "string \<Rightarrow> bool" where
  "plus_path p \<longleftrightarrow> list_all (\<lambda>c. plain c \<or> c = CHR ''+'') p \<and> CHR ''+'' \<in> set p \<and>
     list_all (\<lambda>l. CHR ''+'' \<in> set l \<longrightarrow> l = ''+'') (split_str (CHR ''/'') p)"

section \<open>Facts about strings\<close>

lemma split_str_nonempty [simp]: "split_str c s \<noteq> []"
  by (cases s) auto

lemma split_str_append:
  "c \<notin> set a \<Longrightarrow> split_str c (a @ s) = (a @ hd (split_str c s)) # tl (split_str c s)"
  by (induction a) (auto simp: hd_Cons_tl)

lemma split_str_no_sep: "c \<notin> set a \<Longrightarrow> split_str c a = [a]"
  using split_str_append [of c a "[]"] by simp

lemma split_str_sep: "c \<notin> set a \<Longrightarrow> split_str c (a @ c # s) = a # split_str c s"
  using split_str_append [of c a "c # s"] by simp

lemma split_str_no_sep_in: "a \<in> set (split_str c s) \<Longrightarrow> c \<notin> set a"
  by (induction s arbitrary: a)
    (auto split: if_splits dest: list.set_sel(2) [OF split_str_nonempty] intro: list.set_sel(1) [OF split_str_nonempty])

lemma join_split: "join_str c (split_str c s) = s"
proof (induction s)
  case (Cons x xs)
  then show ?case
    by (cases "split_str c xs"; cases "tl (split_str c xs)") auto
qed simp

lemma split_join:
  "xs \<noteq> [] \<Longrightarrow> \<forall>x \<in> set xs. c \<notin> set x \<Longrightarrow> split_str c (join_str c xs) = xs"
  by (induction c xs rule: join_str.induct) (auto simp: split_str_no_sep split_str_sep)

lemma str_replace_char: "str_replace [c] to s = concat (map (\<lambda>x. if x = c then to else [x]) s)"
  by (induction s) (auto simp: prefix_def)

lemma split_str_eq_Cons:
  "split_str c t = x # xs \<and> xs \<noteq> [] \<longleftrightarrow> c \<notin> set x \<and> (\<exists>b. t = x @ c # b \<and> split_str c b = xs)"
proof
  assume "split_str c t = x # xs \<and> xs \<noteq> []"
  moreover from this have "t = join_str c (x # xs)" and "\<forall>y \<in> set (x # xs). c \<notin> set y"
    using join_split [of c t] split_str_no_sep_in [of _ c t] by auto
  ultimately show "c \<notin> set x \<and> (\<exists>b. t = x @ c # b \<and> split_str c b = xs)"
    by (cases xs) (auto simp: split_join)
qed (auto simp: split_str_sep)

lemma split_str_eq_single: "split_str c t = [x] \<longleftrightarrow> t = x \<and> c \<notin> set x"
  using join_split [of c t] split_str_no_sep_in [of x c t] by (auto simp: split_str_no_sep)

lemma last_split_str: "last (split_str c (q @ c # s)) = last (split_str c s)"
proof -
  have "tl (split_str c (q @ c # s)) \<noteq> [] \<and> last (split_str c (q @ c # s)) = last (split_str c s)"
    by (induction q) (auto simp: last_tl)
  then show ?thesis ..
qed

lemma plain_not_special:
  "plain c \<Longrightarrow> c \<noteq> CHR ''$'' \<and> c \<noteq> CHR ''+'' \<and> c \<noteq> CHR ''#'' \<and> c \<noteq> CHR ''*''"
  by (auto simp: plain_def alnum_def)

lemma no_dollar_inner_path: "CHR ''$'' \<notin> set p \<Longrightarrow> inner_path p = Ok p"
  by (auto simp: inner_path_def is_share_sub_def is_queue_sub_def SHARE_SUB_PREFIX_def QUEUE_SUB_PREFIX_def
      prefix_def)

section \<open>Matching of a path, character by character\<close>

fun char_match :: "string \<Rightarrow> string \<Rightarrow> bool" where
  "char_match [] t = (t = [])"
| "char_match (c # p) t =
     (if c = CHR ''+''
      then \<exists>a b. t = a @ b \<and> a \<noteq> [] \<and> set a \<inter> set ''+*/'' = {} \<and> char_match p b
      else \<exists>b. t = c # b \<and> char_match p b)"

lemma ex_append_assoc:
  "(\<exists>a b. s = a @ b \<and> P a \<and> (\<exists>t post. b = t @ post \<and> Q t \<and> Z post)) \<longleftrightarrow>
   (\<exists>t post. s = t @ post \<and> (\<exists>a b. t = a @ b \<and> P a \<and> Q b) \<and> Z post)" (is "?l \<longleftrightarrow> ?r")
proof
  assume ?l
  then obtain a t post where "s = (a @ t) @ post" "P a" "Q t" "Z post"
    by auto
  then show ?r by blast
next
  assume ?r
  then obtain a b post where "s = a @ b @ post" "P a" "Q b" "Z post"
    by auto
  then show ?l by blast
qed

lemma char_match_append:
  "char_match (p @ q) t \<longleftrightarrow> (\<exists>a b. t = a @ b \<and> char_match p a \<and> char_match q b)"
proof (induction p arbitrary: t)
  case (Cons c p)
  show ?case
  proof (cases "c = CHR ''+''")
    case True
    then show ?thesis
      using ex_append_assoc [of t "\<lambda>a. a \<noteq> [] \<and> set a \<inter> set ''+*/'' = {}" "char_match p" "char_match q"]
      by (simp add: Cons.IH)
  next
    case False
    then show ?thesis
      using ex_append_assoc [of t "\<lambda>a. a = [c]" "char_match p" "char_match q"]
      by (simp add: Cons.IH)
  qed
qed simp

lemma char_match_literal: "CHR ''+'' \<notin> set p \<Longrightarrow> char_match p t \<longleftrightarrow> t = p"
  by (induction p arbitrary: t) auto

lemma char_match_level:
  assumes "CHR ''+'' \<in> set f \<longrightarrow> f = ''+''" and "CHR ''/'' \<notin> set f" and "list_all plain t"
  shows "char_match f t \<longleftrightarrow> CHR ''/'' \<notin> set t \<and> level_match f t"
proof (cases "f = ''+''")
  case True
  then show ?thesis
    using assms(3) by (auto simp: level_match_def list_all_iff dest: plain_not_special)
next
  case False
  then show ?thesis
    using assms by (auto simp: char_match_literal level_match_def)
qed

lemma char_match_levels:
  assumes "fs \<noteq> []" and "\<forall>f \<in> set fs. CHR ''/'' \<notin> set f \<and> (CHR ''+'' \<in> set f \<longrightarrow> f = ''+'')"
    and "list_all plain t"
  shows "char_match (join_str (CHR ''/'') fs) t \<longleftrightarrow> list_all2 level_match fs (split_str (CHR ''/'') t)"
  using assms
proof (induction "CHR ''/''" fs arbitrary: t rule: join_str.induct)
  case (2 f)
  then show ?case
    by (auto simp: char_match_level list_all2_Cons1 split_str_eq_single)
next
  case (3 f g fs)
  have "char_match (join_str (CHR ''/'') (f # g # fs)) t \<longleftrightarrow>
      (\<exists>a b. t = a @ CHR ''/'' # b \<and> char_match f a \<and> char_match (join_str (CHR ''/'') (g # fs)) b)"
    by (auto simp: char_match_append)
  also have "\<dots> \<longleftrightarrow> (\<exists>a b. t = a @ CHR ''/'' # b \<and> CHR ''/'' \<notin> set a \<and> level_match f a \<and>
      list_all2 level_match (g # fs) (split_str (CHR ''/'') b))"
  proof -
    have "char_match f a \<and> char_match (join_str (CHR ''/'') (g # fs)) b \<longleftrightarrow>
        CHR ''/'' \<notin> set a \<and> level_match f a \<and> list_all2 level_match (g # fs) (split_str (CHR ''/'') b)"
      if "t = a @ CHR ''/'' # b" for a b
    proof -
      have "list_all plain a" and "list_all plain b"
        using 3(4) that by auto
      then show ?thesis
        using 3(1) [of b] 3(3) char_match_level [of f a] by simp
    qed
    then show ?thesis by (simp cong: conj_cong)
  qed
  also have "\<dots> \<longleftrightarrow> (\<exists>x xs. split_str (CHR ''/'') t = x # xs \<and> level_match f x \<and> list_all2 level_match (g # fs) xs)"
  proof
    assume "\<exists>x xs. split_str (CHR ''/'') t = x # xs \<and> level_match f x \<and> list_all2 level_match (g # fs) xs"
    then obtain x xs where "split_str (CHR ''/'') t = x # xs" "level_match f x" "list_all2 level_match (g # fs) xs"
      by blast
    moreover from this have "xs \<noteq> []" by auto
    ultimately show "\<exists>a b. t = a @ CHR ''/'' # b \<and> CHR ''/'' \<notin> set a \<and> level_match f a \<and>
        list_all2 level_match (g # fs) (split_str (CHR ''/'') b)"
      using split_str_eq_Cons [of "CHR ''/''" t x xs] by auto
  qed (auto simp: split_str_sep)
  finally show ?case
    by (simp only: list_all2_Cons1 [of _ f])
qed simp

section \<open>Matching of a path by the regex\<close>

definition plus_items :: "string \<Rightarrow> rx_item list" where
  "plus_items p = map (\<lambda>c. if c = CHR ''+'' then RNot ''+*/'' else RLit c) p"

lemma plus_items_show: "concat (map rx_show (plus_items p)) = str_replace ''+'' ''[^+*/]+'' p"
  by (induction p) (auto simp: plus_items_def str_replace_char)

lemma rx_here_RNot:
  "rx_here (RNot cs # is) s \<longleftrightarrow> (\<exists>a b. s = a @ b \<and> a \<noteq> [] \<and> set a \<inter> set cs = {} \<and> rx_here is b)"
proof
  assume "rx_here (RNot cs # is) s"
  then obtain n where "1 \<le> n" "n \<le> length s" "\<forall>c \<in> set (take n s). c \<notin> set cs" "rx_here is (drop n s)"
    by (auto simp: list_ex_iff list_all_iff)
  then show "\<exists>a b. s = a @ b \<and> a \<noteq> [] \<and> set a \<inter> set cs = {} \<and> rx_here is b"
    by (intro exI [of _ "take n s"] exI [of _ "drop n s"]) auto
next
  assume "\<exists>a b. s = a @ b \<and> a \<noteq> [] \<and> set a \<inter> set cs = {} \<and> rx_here is b"
  then obtain a b where "s = a @ b" "a \<noteq> []" "set a \<inter> set cs = {}" "rx_here is b"
    by blast
  then show "rx_here (RNot cs # is) s"
    by (auto simp: list_ex_iff list_all_iff intro!: bexI [of _ "length a"] simp: Suc_le_eq)
qed

lemma rx_here_plus: "rx_here (plus_items p) s \<longleftrightarrow> (\<exists>t post. s = t @ post \<and> char_match p t)"
proof (induction p arbitrary: s)
  case Nil
  then show ?case by (simp add: plus_items_def)
next
  case (Cons c p)
  show ?case
  proof (cases "c = CHR ''+''")
    case True
    then have "plus_items (c # p) = RNot ''+*/'' # plus_items p"
      by (simp add: plus_items_def)
    with True show ?thesis
      using ex_append_assoc [of s "\<lambda>a. a \<noteq> [] \<and> set a \<inter> set ''+*/'' = {}" "char_match p" "\<lambda>_. True"]
      by (simp add: rx_here_RNot Cons.IH del: rx_here.simps)
  next
    case False
    then have "rx_here (plus_items (c # p)) s \<longleftrightarrow> (\<exists>b. s = c # b \<and> rx_here (plus_items p) b)"
      by (cases s) (auto simp: plus_items_def)
    with False show ?thesis
      using ex_append_assoc [of s "\<lambda>a. a = [c]" "char_match p" "\<lambda>_. True"]
      by (simp add: Cons.IH)
  qed
qed

lemma rx_here_lits: "rx_here (map RLit q @ is) s \<longleftrightarrow> (\<exists>b. s = q @ b \<and> rx_here is b)"
proof (induction q arbitrary: s)
  case (Cons c q)
  then show ?case by (cases s) auto
qed simp

lemma rx_search_iff: "rx_search is s \<longleftrightarrow> (\<exists>pre t. s = pre @ t \<and> rx_here is t)"
proof
  assume "rx_search is s"
  then obtain n where "rx_here is (drop n s)"
    unfolding rx_search_def list_ex_iff by blast
  then show "\<exists>pre t. s = pre @ t \<and> rx_here is t"
    by (metis append_take_drop_id)
next
  assume "\<exists>pre t. s = pre @ t \<and> rx_here is t"
  then obtain pre t where "s = pre @ t" "rx_here is t"
    by blast
  then have "length pre \<in> set [0..<length s + 1]" and "rx_here is (drop (length pre) s)"
    by auto
  then show "rx_search is s"
    unfolding rx_search_def list_ex_iff by blast
qed

context regex_laws
begin

lemma is_match_search:
  "list_all rx_ok is \<Longrightarrow> length is \<le> pattern_limit \<Longrightarrow> list_all plain text \<Longrightarrow> is_match R (concat (map rx_show is)) text = Ok (rx_search is text)"
  using search [of "is"] by (auto simp: is_match_def)

lemma match_plus:
  assumes "plus_path p" and "list_all plain t" and "length p \<le> pattern_limit"
  shows "path_regex_match R t p = Ok (\<exists>pre u post. t = pre @ u @ post \<and> levels_match p u)"
proof -
  have p: "list_all (\<lambda>c. plain c \<or> c = CHR ''+'') p" "CHR ''+'' \<in> set p"
    "list_all (\<lambda>l. CHR ''+'' \<in> set l \<longrightarrow> l = ''+'') (split_str (CHR ''/'') p)"
    using assms(1) by (auto simp: plus_path_def)
  have plain_t: "c \<in> set t \<Longrightarrow> plain c" for c
    using assms(2) by (simp add: list_all_iff)
  have "CHR ''$'' \<notin> set p" "CHR ''$'' \<notin> set t" "t \<noteq> p"
    using p plain_t by (auto simp: list_all_iff dest: plain_not_special)
  moreover have "list_all rx_ok (plus_items p)" "length (plus_items p) \<le> pattern_limit"
    using p(1) assms(3) by (auto simp: plus_items_def list_all_iff)
  moreover have *: "levels_match p u \<longleftrightarrow> char_match p u" if "list_all plain u" for u
    using char_match_levels [of "split_str (CHR ''/'') p" u] that p(3) split_str_no_sep_in [of _ "CHR ''/''" p]
    by (auto simp: levels_match_def join_split list_all_iff)
  ultimately have "path_regex_match R t p = Ok (\<exists>pre u post. t = pre @ u @ post \<and> char_match p u)"
    using p(2) assms(2)
    by (simp add: path_regex_match_def no_dollar_inner_path is_match_search plus_items_show [symmetric]
        rx_search_iff rx_here_plus) blast
  moreover have "(\<exists>pre u post. t = pre @ u @ post \<and> char_match p u) \<longleftrightarrow>
      (\<exists>pre u post. t = pre @ u @ post \<and> levels_match p u)"
    using * assms(2) by (metis list_all_append)
  ultimately show ?thesis by simp
qed

lemma match_hash:
  assumes "list_all plain q" and "q = [] \<or> last q = CHR ''/''" and "list_all plain t" and "length q < pattern_limit"
  shows "path_regex_match R t (q @ ''#'') = Ok (\<exists>pre rest. t = pre @ q @ rest \<and> rest \<noteq> [])"
proof -
  let ?is = "map RLit q @ [RNot ''+#'']"
  have special: "CHR ''$'' \<notin> set q" "CHR ''+'' \<notin> set q" "CHR ''#'' \<notin> set q"
    "CHR ''$'' \<notin> set t" "CHR ''+'' \<notin> set t" "CHR ''#'' \<notin> set t"
    using assms(1, 3) plain_not_special by (auto simp: list_all_iff)
  have last_level: "last (split_str (CHR ''/'') (q @ ''#'')) = ''#''"
    using assms(2)
  proof
    assume "last q = CHR ''/''"
    then show ?thesis
      by (cases q rule: rev_cases) (auto simp: last_split_str)
  qed simp
  have show_eq: "concat (map rx_show ?is) = str_replace ''#'' ''[^+#]+'' (q @ ''#'')"
  proof -
    have "concat (map (\<lambda>x. if x = CHR ''#'' then ''[^+#]+'' else [x]) q) = q"
      using special(3) by (induction q) auto
    moreover have "concat (map (rx_show \<circ> RLit) q) = q"
      by (induction q) auto
    ultimately show ?thesis
      by (simp add: str_replace_char)
  qed
  have "list_all rx_ok ?is" "length ?is \<le> pattern_limit"
    using assms(1,4) by (auto simp: list_all_iff)
  then have "path_regex_match R t (q @ ''#'') = Ok (rx_search ?is t)"
    using special last_level assms(3)
    by (auto simp: path_regex_match_def no_dollar_inner_path is_match_search show_eq [symmetric]
        simp del: concat.simps map_append)
  moreover have "rx_here [RNot ''+#''] rest \<longleftrightarrow> rest \<noteq> []" if "t = pre @ q @ rest" for pre rest
  proof -
    have "set rest \<inter> set ''+#'' = {}"
      using special that by auto
    then show ?thesis
      unfolding rx_here_RNot by (auto intro: exI [of _ rest])
  qed
  then have "rx_search ?is t \<longleftrightarrow> (\<exists>pre rest. t = pre @ q @ rest \<and> rest \<noteq> [])"
    unfolding rx_search_iff rx_here_lits by blast
  ultimately show ?thesis by simp
qed

lemma validator_exact:
  "sub_path_validator R p = Ok (p \<noteq> [] \<and> list_all path_char p \<and>
     list_all (\<lambda>l. (CHR ''+'' \<in> set l \<longrightarrow> l = ''+'') \<and> (CHR ''#'' \<in> set l \<longrightarrow> l = ''#''))
       (split_str (CHR ''/'') p))"
  using path_class by (auto simp: sub_path_validator_def is_match_def list_all_iff)

lemma topic_validator_exact:
  "topic_name_validator R t =
     (if t = [] then Err TopicNameIsEmpty
      else if list_all path_char t then Ok () else Err (TopicNameIncorrectlyFormatted t))"
proof -
  have "l \<noteq> ''/''" if "l \<in> set (split_str (CHR ''/'') t)" for l
    using split_str_no_sep_in [OF that] by auto
  then have "hd (split_str (CHR ''/'') t) \<noteq> ''/''" "last (split_str (CHR ''/'') t) \<noteq> ''/''"
    by simp_all
  then show ?thesis
    using topic_class by (simp add: topic_name_validator_def is_match_def Let_def)
qed

end

section \<open>A matcher for these patterns\<close>

text \<open>An engine for the patterns of this theory, read back from their text.\<close>

fun rx_parse :: "string \<Rightarrow> rx_item list option" where
  "rx_parse [] = Some []"
| "rx_parse (c # s) =
     (if prefix ''[^+*/]+'' (c # s) then map_option (Cons (RNot ''+*/'')) (rx_parse (drop 6 s))
      else if prefix ''[^+#]+'' (c # s) then map_option (Cons (RNot ''+#'')) (rx_parse (drop 5 s))
      else if c = CHR ''$'' then map_option (Cons REnd) (rx_parse s)
      else if plain c then map_option (Cons (RLit c)) (rx_parse s)
      else None)"

definition ascii_regex :: regex where
  "ascii_regex =
     \<lparr>rx_is_match = (\<lambda>p. if p = SUB_PATH_REGEX \<or> p = TOPIC_NAME_REGEX
        then Some (\<lambda>s. s \<noteq> [] \<and> list_all path_char s) else map_option rx_search (rx_parse p)),
      rx_captures = (\<lambda>p. None)\<rparr>"

lemma rx_parse_show: "list_all rx_ok is \<Longrightarrow> rx_parse (concat (map rx_show is)) = Some is"
proof (induction "is")
  case (Cons i "is")
  then show ?case
    by (cases i) (auto simp: plain_def alnum_def)
qed simp

interpretation ascii: regex_laws ascii_regex
proof
  fix "is"
  assume "list_all rx_ok is"
  moreover have "rx_parse SUB_PATH_REGEX = None" and "rx_parse TOPIC_NAME_REGEX = None"
    by (simp_all add: SUB_PATH_REGEX_def TOPIC_NAME_REGEX_def plain_def alnum_def)
  ultimately show "\<exists>re. rx_is_match ascii_regex (concat (map rx_show is)) = Some re \<and>
      (\<forall>text. list_all plain text \<longrightarrow> re text = rx_search is text)"
    using rx_parse_show [of "is"] by (auto simp: ascii_regex_def)
qed (simp_all add: ascii_regex_def)

section \<open>Properties\<close>

text \<open>
  C30: a path of letters, digits and single-level wildcards, of at most \<open>pattern_limit\<close> characters,
  matches a topic of letters and digits exactly when some part of the topic, cut out at any two
  positions and not only between levels, matches it level by level.  The pattern is not
  anchored, so that a subscriber of \<open>a/+\<close> also receives \<open>xa/b/c\<close>.
\<close>

theorem path_plus_exact:
  assumes "regex_laws R" and "plus_path p" and "list_all plain t" and "length p \<le> pattern_limit"
  shows "path_regex_match R t p = Ok (\<exists>pre u post. t = pre @ u @ post \<and> levels_match p u)"
  by (rule regex_laws.match_plus [OF assms])

theorem path_plus_exact_witness:
  "plus_path ''a/+'' \<and> levels_match ''a/+'' ''a/b'' \<and> \<not> levels_match ''a/+'' ''xa/b/c'' \<and>
   path_regex_match ascii_regex ''xa/b/c'' ''a/+'' = (Ok True :: (bool, unit) result)"
proof -
  have p: "plus_path ''a/+''" and t: "list_all plain ''xa/b/c''"
    and m: "levels_match ''a/+'' ''a/b''" "\<not> levels_match ''a/+'' ''xa/b/c''"
    by (simp_all add: plus_path_def plain_def alnum_def levels_match_def level_match_def)
  have n: "length ''a/+'' \<le> pattern_limit"
    by (simp add: pattern_limit_def)
  have "''xa/b/c'' = ''x'' @ ''a/b'' @ ''/c''"
    by simp
  then have "\<exists>pre u post. ''xa/b/c'' = pre @ u @ post \<and> levels_match ''a/+'' u"
    using m(1) by blast
  then have "path_regex_match ascii_regex ''xa/b/c'' ''a/+'' = (Ok True :: (bool, unit) result)"
    unfolding path_plus_exact [OF ascii.regex_laws_axioms p t n] result.inject by blast
  with p m show ?thesis by blast
qed

text \<open>
  C31: a path that consists of levels of letters and digits and a multi-level wildcard at its end, of at
  most \<open>pattern_limit\<close> characters, matches a topic of letters and digits exactly when the part
  before the wildcard occurs somewhere in the topic with at least one character behind it: not only
  at the start of the topic, and not for the parent level itself.
\<close>

theorem path_hash_exact:
  assumes "regex_laws R" and "list_all plain q" and "q = [] \<or> last q = CHR ''/''" and "list_all plain t"
    and "length q < pattern_limit"
  shows "path_regex_match R t (q @ ''#'') = Ok (\<exists>pre rest. t = pre @ q @ rest \<and> rest \<noteq> [])"
  by (rule regex_laws.match_hash [OF assms])

theorem path_hash_exact_witness:
  "path_regex_match ascii_regex ''a/b'' (''a/'' @ ''#'') = (Ok True :: (bool, unit) result) \<and>
   path_regex_match ascii_regex ''secret/a/b'' (''a/'' @ ''#'') = (Ok True :: (bool, unit) result) \<and>
   path_regex_match ascii_regex ''a'' (''a/'' @ ''#'') = (Ok False :: (bool, unit) result)"
proof -
  have q: "list_all plain ''a/''" "''a/'' = [] \<or> last ''a/'' = CHR ''/''"
    by (simp_all add: plain_def alnum_def)
  have t: "list_all plain ''a/b''" "list_all plain ''secret/a/b''" "list_all plain ''a''"
    by (simp_all add: plain_def alnum_def)
  have n: "length ''a/'' < pattern_limit"
    by (simp add: pattern_limit_def)
  have "''a/b'' = [] @ ''a/'' @ ''b''" "''secret/a/b'' = ''secret/'' @ ''a/'' @ ''b''"
    "\<not> (\<exists>pre rest. ''a'' = pre @ ''a/'' @ rest \<and> rest \<noteq> [])" "''b'' \<noteq> []"
    by (auto simp: append_eq_Cons_conv Cons_eq_append_conv)
  then show ?thesis
    unfolding path_hash_exact [OF ascii.regex_laws_axioms q t(1) n] path_hash_exact [OF ascii.regex_laws_axioms q t(2) n]
      path_hash_exact [OF ascii.regex_laws_axioms q t(3) n] result.inject by blast
qed

text \<open>
  A path that starts with \<open>$share\<close> and has no slash passes the validator of subscriptions,
  and matching any topic against it panics.
\<close>

theorem share_path_panics:
  assumes "regex_laws R" and "list_all alnum s"
  shows "sub_path_validator R (''$share'' @ s) = (Ok True :: (bool, 'e) result) \<and>
    path_regex_match R t (''$share'' @ s) = (Panic :: (bool, 'f) result)"
proof -
  have s: "CHR ''/'' \<notin> set s" "CHR ''+'' \<notin> set s" "CHR ''#'' \<notin> set s"
    using assms(2) by (auto simp: list_all_iff alnum_def)
  then have "split_str (CHR ''/'') (''$share'' @ s) = [''$share'' @ s]"
    by (intro split_str_no_sep) simp
  moreover have "list_all path_char (''$share'' @ s)"
    using assms(2) by (auto simp: list_all_iff path_char_def plain_def alnum_def)
  moreover have "prefix SHARE_SUB_PREFIX (''$share'' @ s)"
    by (simp add: SHARE_SUB_PREFIX_def)
  ultimately show ?thesis
    using s by (simp add: regex_laws.validator_exact [OF assms(1)] path_regex_match_def inner_path_def
        is_share_sub_def decode_share_info_def remove_first_def del: append_Cons)
qed

theorem share_path_panics_witness:
  "list_all alnum ''1'' \<and> sub_path_validator ascii_regex (''$share'' @ ''1'') = (Ok True :: (bool, unit) result) \<and>
   path_regex_match ascii_regex ''a'' (''$share'' @ ''1'') = (Panic :: (bool, unit) result)"
proof -
  have "list_all alnum ''1''"
    by (simp add: alnum_def)
  then show ?thesis
    using share_path_panics [OF ascii.regex_laws_axioms] by blast
qed

end
