(* ===== verification/Broker_Std.thy ===== *)
theory Broker_Std
  imports Topic_Path
begin

text \<open>
  What the components of the broker share: updates of maps in place, checked subtraction and
  multiplication, and loops over the entries of a map.
\<close>

section \<open>Maps\<close>

text \<open>\<open>if let Some(mut x) = m.get_mut(k) { ... }\<close>\<close>

definition dm_modify :: "'k \<Rightarrow> ('v \<Rightarrow> 'v) \<Rightarrow> ('k, 'v) dashmap \<Rightarrow> ('k, 'v) dashmap" where
  "dm_modify k f m = (case dm_get m k of Some v \<Rightarrow> dm_insert k (f v) m | None \<Rightarrow> m)"

text \<open>Pushing to the vector of a key, which is created when it is missing.\<close>

definition dm_push :: "'k \<Rightarrow> 'v \<Rightarrow> ('k, 'v list) dashmap \<Rightarrow> ('k, 'v list) dashmap" where
  "dm_push k v m = (case dm_get m k of Some vs \<Rightarrow> dm_insert k (vs @ [v]) m | None \<Rightarrow> dm_insert k [v] m)"

text \<open>\<open>DashMap::retain\<close>\<close>

definition dm_retain :: "('k \<Rightarrow> 'v \<Rightarrow> bool) \<Rightarrow> ('k, 'v) dashmap \<Rightarrow> ('k, 'v) dashmap" where
  "dm_retain P m = filter (\<lambda>(k, v). P k v) m"

text \<open>\<open>for (k, v) in m.clone() { if p(k, v) { m.remove(&k) } }\<close>\<close>

definition dm_remove_all :: "('k \<Rightarrow> 'v \<Rightarrow> bool) \<Rightarrow> ('k, 'w) dashmap \<Rightarrow> ('k, 'v) dashmap \<Rightarrow> ('k, 'w) dashmap" where
  "dm_remove_all P m entries = fold (\<lambda>(k, v) m. if P k v then dm_remove k m else m) entries m"

lemma dm_get_modify [dm_simps]:
  "dm_get (dm_modify k f m) k' = (if k' = k then map_option f (dm_get m k) else dm_get m k')"
  by (auto simp: dm_modify_def dm_get_insert split: option.split)

lemma dm_get_push [dm_simps]:
  "dm_get (dm_push k v m) k' =
    (if k' = k then Some ((case dm_get m k of Some vs \<Rightarrow> vs | None \<Rightarrow> []) @ [v]) else dm_get m k')"
  by (auto simp: dm_push_def dm_get_insert split: option.split)

lemma dm_get_retain [dm_simps]:
  assumes "dm_wf m"
  shows "dm_get (dm_retain P m) k = (case dm_get m k of Some v \<Rightarrow> if P k v then Some v else None | None \<Rightarrow> None)"
  using assms
proof (induction m)
  case (Cons e m)
  have "dm_get m (fst e) = None"
    using Cons.prems by (simp add: dm_wf_def map_of_eq_None_iff)
  with Cons show ?case
    by (cases e) (auto simp: dm_retain_def dm_wf_def)
qed (simp add: dm_retain_def)

lemma dm_get_remove_all [dm_simps]:
  "dm_get (dm_remove_all P m entries) k =
    (if \<exists>v. (k, v) \<in> set entries \<and> P k v then None else dm_get m k)"
proof (induction entries arbitrary: m)
  case (Cons e entries)
  obtain k' v' where e: "e = (k', v')" by force
  have "dm_remove_all P m (e # entries) = dm_remove_all P (if P k' v' then dm_remove k' m else m) entries"
    by (simp add: dm_remove_all_def e)
  then show ?case
    by (auto simp: Cons.IH dm_get_remove e)
qed (simp add: dm_remove_all_def)

lemma dm_wf_modify [simp]: "dm_wf m \<Longrightarrow> dm_wf (dm_modify k f m)"
  by (simp add: dm_modify_def split: option.split)

lemma dm_wf_push [simp]: "dm_wf m \<Longrightarrow> dm_wf (dm_push k v m)"
  by (simp add: dm_push_def split: option.split)

lemma dm_wf_retain [simp]: "dm_wf m \<Longrightarrow> dm_wf (dm_retain P m)"
  by (simp add: dm_wf_def dm_retain_def distinct_map_filter)

lemma dm_wf_remove_all [simp]: "dm_wf m \<Longrightarrow> dm_wf (dm_remove_all P m entries)"
  unfolding dm_remove_all_def by (induction entries arbitrary: m) auto

section \<open>Integers\<close>

definition u64_sub :: "u64 \<Rightarrow> u64 \<Rightarrow> (u64, 'e) result" where
  "u64_sub a b = (if b \<le> a then Ok (a - b) else Panic)"

definition u64_mul :: "u64 \<Rightarrow> u64 \<Rightarrow> (u64, 'e) result" where
  "u64_mul a b = (if unat a * unat b < 2 ^ 64 then Ok (a * b) else Panic)"

datatype TimeUnit = Seconds | Minutes | Hours | Days

definition convert_seconds :: "u64 \<Rightarrow> TimeUnit \<Rightarrow> (u64, 'e) result" where
  "convert_seconds number unit =
     (if unit = Minutes then u64_mul number 60
      else if unit = Hours then u64_mul number 3600
      else if unit = Days then u64_mul number 86400
      else Ok number)"

lemma convert_minutes_u32:
  "convert_seconds (ucast (n :: u32)) Minutes = Ok (ucast n * 60)"
proof -
  have "unat n < 2 ^ 32"
    using unsigned_less [of n] by simp
  then have "unat (ucast n :: u64) * unat (60 :: u64) < 2 ^ 64"
    by (simp add: unsigned_ucast_eq take_bit_nat_eq_self)
  then show ?thesis
    by (simp add: convert_seconds_def u64_mul_def)
qed

lemma unat_minutes_u32: "unat (ucast (n :: u32) * 60 :: u64) = unat n * 60"
proof -
  have "unat n < 2 ^ 32"
    using unsigned_less [of n] by simp
  then show ?thesis
    by (simp add: unat_word_ariths unsigned_ucast_eq take_bit_nat_eq_self)
qed

end
