(* ===== verification/Acl_Metadata.thy ===== *)
theory Acl_Metadata
  imports Broker_Std
begin

text \<open>
  The access control data of the broker: \<open>src/mqtt-broker/src/security/acl/metadata.rs\<close>, with the
  condition of the flapping detection of \<open>handler/flapping_detect.rs\<close>.
\<close>

record FlappingDetectCondition =
  fdc_client_id :: string
  before_last_window_connections :: u64
  first_request_time :: u64

record AclMetadata =
  blacklist_user :: "(string, MqttAclBlackList) dashmap"
  blacklist_client_id :: "(string, MqttAclBlackList) dashmap"
  blacklist_ip :: "(string, MqttAclBlackList) dashmap"
  blacklist_user_match :: "(string, MqttAclBlackList list) dashmap"
  blacklist_client_id_match :: "(string, MqttAclBlackList list) dashmap"
  blacklist_ip_match :: "(string, MqttAclBlackList list) dashmap"
  acl_user :: "(string, MqttAcl list) dashmap"
  acl_client_id :: "(string, MqttAcl list) dashmap"
  flapping_detect_map :: "(string, FlappingDetectCondition) dashmap"

definition acl_metadata_new :: AclMetadata where
  "acl_metadata_new =
     \<lparr>blacklist_user = [], blacklist_client_id = [], blacklist_ip = [], blacklist_user_match = [],
      blacklist_client_id_match = [], blacklist_ip_match = [], acl_user = [], acl_client_id = [],
      flapping_detect_map = []\<rparr>"

section \<open>Flapping detection\<close>

definition get_flapping_detect_condition :: "AclMetadata \<Rightarrow> string \<Rightarrow> FlappingDetectCondition option" where
  "get_flapping_detect_condition self cid = dm_get (flapping_detect_map self) cid"

definition add_flapping_detect_condition :: "FlappingDetectCondition \<Rightarrow> AclMetadata \<Rightarrow> AclMetadata" where
  "add_flapping_detect_condition condition self =
     self\<lparr>flapping_detect_map := dm_insert (fdc_client_id condition) condition (flapping_detect_map self)\<rparr>"

definition remove_flapping_detect_condition :: "string \<Rightarrow> AclMetadata \<Rightarrow> AclMetadata" where
  "remove_flapping_detect_condition cid self =
     self\<lparr>flapping_detect_map := dm_remove cid (flapping_detect_map self)\<rparr>"

text \<open>The closure of \<open>retain\<close> subtracts, which can panic.\<close>

fun retain_in_window ::
    "u64 \<Rightarrow> u64 \<Rightarrow> (string, FlappingDetectCondition) dashmap \<Rightarrow> ((string, FlappingDetectCondition) dashmap, 'e) result" where
  "retain_in_window current_time win [] = Ok []"
| "retain_in_window current_time win ((k, condition) # m) =
     and_then (u64_sub current_time (first_request_time condition)) (\<lambda>age.
     and_then (retain_in_window current_time win m) (\<lambda>m'.
       Ok (if age < win then (k, condition) # m' else m')))"

definition remove_flapping_detect_conditions ::
    "u64 \<Rightarrow> MqttClusterDynamicFlappingDetect \<Rightarrow> AclMetadata \<Rightarrow> (AclMetadata, MqttBrokerError) result" where
  "remove_flapping_detect_conditions now_second config self =
     and_then (convert_seconds (ucast (window_time config)) Minutes) (\<lambda>win.
     and_then (retain_in_window now_second win (flapping_detect_map self)) (\<lambda>m.
       Ok (self\<lparr>flapping_detect_map := m\<rparr>)))"

section \<open>Access control lists\<close>

definition parse_mqtt_acl :: "MqttAcl \<Rightarrow> AclMetadata \<Rightarrow> AclMetadata" where
  "parse_mqtt_acl acl self =
     (case acl_resource_type acl of
        ART_ClientId \<Rightarrow> self\<lparr>acl_client_id := dm_push (acl_resource_name acl) acl (acl_client_id self)\<rparr>
      | ART_User \<Rightarrow> self\<lparr>acl_user := dm_push (acl_resource_name acl) acl (acl_user self)\<rparr>)"

definition remove_mqtt_acl :: "MqttAcl \<Rightarrow> AclMetadata \<Rightarrow> AclMetadata" where
  "remove_mqtt_acl acl self =
     (case acl_resource_type acl of
        ART_ClientId \<Rightarrow> self\<lparr>acl_client_id := dm_remove (acl_resource_name acl) (acl_client_id self)\<rparr>
      | ART_User \<Rightarrow> self\<lparr>acl_user := dm_remove (acl_resource_name acl) (acl_user self)\<rparr>)"

section \<open>Blacklists\<close>

definition get_client_id_match_key :: string where
  "get_client_id_match_key = ''ClientIdMatch''"

definition get_user_match_key :: string where
  "get_user_match_key = ''UserMatch''"

definition get_ip_cidr_key :: string where
  "get_ip_cidr_key = ''IPCIDR''"

definition parse_mqtt_blacklist :: "MqttAclBlackList \<Rightarrow> AclMetadata \<Rightarrow> AclMetadata" where
  "parse_mqtt_blacklist blacklist self =
     (case blacklist_type blacklist of
        BL_ClientId \<Rightarrow>
          self\<lparr>blacklist_client_id := dm_insert (bl_resource_name blacklist) blacklist (blacklist_client_id self)\<rparr>
      | BL_User \<Rightarrow>
          self\<lparr>blacklist_user := dm_insert (bl_resource_name blacklist) blacklist (blacklist_user self)\<rparr>
      | BL_Ip \<Rightarrow>
          self\<lparr>blacklist_ip := dm_insert (bl_resource_name blacklist) blacklist (blacklist_ip self)\<rparr>
      | BL_ClientIdMatch \<Rightarrow>
          self\<lparr>blacklist_client_id_match := dm_push get_client_id_match_key blacklist (blacklist_client_id_match self)\<rparr>
      | BL_UserMatch \<Rightarrow>
          self\<lparr>blacklist_user_match := dm_push get_user_match_key blacklist (blacklist_user_match self)\<rparr>
      | BL_IPCIDR \<Rightarrow>
          self\<lparr>blacklist_ip_match := dm_push get_ip_cidr_key blacklist (blacklist_ip_match self)\<rparr>)"

definition remove_mqtt_blacklist :: "MqttAclBlackList \<Rightarrow> AclMetadata \<Rightarrow> AclMetadata" where
  "remove_mqtt_blacklist blacklist self =
     (case blacklist_type blacklist of
        BL_ClientId \<Rightarrow>
          self\<lparr>blacklist_client_id := dm_remove (bl_resource_name blacklist) (blacklist_client_id self)\<rparr>
      | BL_User \<Rightarrow>
          self\<lparr>blacklist_user := dm_remove (bl_resource_name blacklist) (blacklist_user self)\<rparr>
      | BL_Ip \<Rightarrow>
          self\<lparr>blacklist_ip := dm_remove (bl_resource_name blacklist) (blacklist_ip self)\<rparr>
      | BL_ClientIdMatch \<Rightarrow>
          self\<lparr>blacklist_client_id_match := dm_remove get_client_id_match_key (blacklist_client_id_match self)\<rparr>
      | BL_UserMatch \<Rightarrow>
          self\<lparr>blacklist_user_match := dm_remove get_user_match_key (blacklist_user_match self)\<rparr>
      | BL_IPCIDR \<Rightarrow>
          self\<lparr>blacklist_ip_match := dm_remove get_ip_cidr_key (blacklist_ip_match self)\<rparr>)"

definition get_blacklist_user_match :: "AclMetadata \<Rightarrow> MqttAclBlackList list option" where
  "get_blacklist_user_match self = dm_get (blacklist_user_match self) get_user_match_key"

definition get_blacklist_client_id_match :: "AclMetadata \<Rightarrow> MqttAclBlackList list option" where
  "get_blacklist_client_id_match self = dm_get (blacklist_client_id_match self) get_client_id_match_key"

definition get_blacklist_ip_match :: "AclMetadata \<Rightarrow> MqttAclBlackList list option" where
  "get_blacklist_ip_match self = dm_get (blacklist_ip_match self) get_ip_cidr_key"

end
