(* ===== verification/Broker_Cache.thy ===== *)
theory Broker_Cache
  imports Acl_Metadata
begin

text \<open>
  The metadata cache of the broker: \<open>src/mqtt-broker/src/handler/cache.rs\<close> and the accessors of
  \<open>handler/cluster_config.rs\<close>.  A method that returns nothing is a function on the cache.  The
  channel of an acknowledgement is a number that names it.
\<close>

type_synonym sender = nat

section \<open>Data\<close>

record ConnectionLiveTime =
  lt_protocol :: MqttProtocol
  lt_keep_live :: u16
  lt_heartbeat :: u64

datatype QosAckPackageType = QA_PubAck | QA_PubComp | QA_PubRel | QA_PubRec

record QosAckPackageData =
  ack_type :: QosAckPackageType
  ack_pkid :: u16

record QosAckPacketInfo =
  ack_sx :: sender
  ack_create_time :: u64

record ClientPkidData =
  cpd_client_id :: string
  cpd_create_time :: u64

record CacheManager =
  cm_cluster_name :: string
  cluster_info :: "(string, MqttClusterDynamicConfig) dashmap"
  user_info :: "(string, MqttUser) dashmap"
  session_info :: "(string, MqttSession) dashmap"
  publish_pkid_info :: "(string, u16 list) dashmap"
  connection_info :: "(u64, MQTTConnection) dashmap"
  topic_info :: "(string, MqttTopic) dashmap"
  topic_id_name :: "(string, string) dashmap"
  heartbeat_data :: "(string, ConnectionLiveTime) dashmap"
  qos_ack_packet :: "(string, QosAckPacketInfo) dashmap"
  client_pkid_data :: "(string, ClientPkidData) dashmap"
  acl_metadata :: AclMetadata
  topic_rewrite_rule :: "(string, MqttTopicRewriteRule) dashmap"

definition cache_new :: "string \<Rightarrow> CacheManager" where
  "cache_new cluster_name =
     \<lparr>cm_cluster_name = cluster_name, cluster_info = [], user_info = [], session_info = [],
      publish_pkid_info = [], connection_info = [], topic_info = [], topic_id_name = [],
      heartbeat_data = [], qos_ack_packet = [], client_pkid_data = [],
      acl_metadata = acl_metadata_new, topic_rewrite_rule = []\<rparr>"

section \<open>Cluster configuration\<close>

definition set_cluster_info :: "MqttClusterDynamicConfig \<Rightarrow> CacheManager \<Rightarrow> CacheManager" where
  "set_cluster_info cluster self =
     self\<lparr>cluster_info := dm_insert (cm_cluster_name self) cluster (cluster_info self)\<rparr>"

definition get_cluster_info :: "CacheManager \<Rightarrow> (MqttClusterDynamicConfig, 'e) result" where
  "get_cluster_info self = unwrap (dm_get (cluster_info self) (cm_cluster_name self))"

definition get_flapping_detect_config :: "CacheManager \<Rightarrow> (MqttClusterDynamicFlappingDetect, 'e) result" where
  "get_flapping_detect_config self =
     and_then (get_cluster_info self) (\<lambda>cluster. Ok (cl_flapping_detect cluster))"

definition get_slow_sub_config :: "CacheManager \<Rightarrow> (MqttClusterDynamicSlowSub, 'e) result" where
  "get_slow_sub_config self = and_then (get_cluster_info self) (\<lambda>cluster. Ok (cl_slow cluster))"

section \<open>Sessions\<close>

definition cache_key :: "string \<Rightarrow> u16 \<Rightarrow> string" where
  "cache_key cid pkid = cid @ ''_'' @ show_nat (unat pkid)"

definition add_session :: "string \<Rightarrow> MqttSession \<Rightarrow> CacheManager \<Rightarrow> CacheManager" where
  "add_session cid session self = self\<lparr>session_info := dm_insert cid session (session_info self)\<rparr>"

definition get_session_info :: "CacheManager \<Rightarrow> string \<Rightarrow> MqttSession option" where
  "get_session_info self cid = dm_get (session_info self) cid"

definition update_session_connect_id :: "u64 \<Rightarrow> string \<Rightarrow> u64 option \<Rightarrow> CacheManager \<Rightarrow> CacheManager" where
  "update_session_connect_id now_second cid conn_id self =
     self\<lparr>session_info := dm_modify cid (\<lambda>session.
       let session = update_connnction_id conn_id session in
       if conn_id = None then update_distinct_time now_second session else session) (session_info self)\<rparr>"

definition remove_session :: "string \<Rightarrow> CacheManager \<Rightarrow> CacheManager" where
  "remove_session cid self =
     (let self = self\<lparr>session_info := dm_remove cid (session_info self),
            publish_pkid_info := dm_remove cid (publish_pkid_info self),
            heartbeat_data := dm_remove cid (heartbeat_data self)\<rparr>;
          self = self\<lparr>qos_ack_packet :=
            dm_remove_all (\<lambda>key _. prefix cid key) (qos_ack_packet self) (qos_ack_packet self)\<rparr> in
      self\<lparr>qos_ack_packet :=
        dm_remove_all (\<lambda>key _. prefix cid key) (qos_ack_packet self) (client_pkid_data self)\<rparr>)"

section \<open>Users\<close>

definition add_user :: "MqttUser \<Rightarrow> CacheManager \<Rightarrow> CacheManager" where
  "add_user user self = self\<lparr>user_info := dm_insert (us_username user) user (user_info self)\<rparr>"

definition del_user :: "string \<Rightarrow> CacheManager \<Rightarrow> CacheManager" where
  "del_user name self = self\<lparr>user_info := dm_remove name (user_info self)\<rparr>"

definition retain_users :: "string list \<Rightarrow> CacheManager \<Rightarrow> CacheManager" where
  "retain_users usernames self =
     self\<lparr>user_info := dm_retain (\<lambda>name _. name \<in> set usernames) (user_info self)\<rparr>"

section \<open>Connections\<close>

definition add_connection :: "u64 \<Rightarrow> MQTTConnection \<Rightarrow> CacheManager \<Rightarrow> CacheManager" where
  "add_connection conn_id conn self =
     (case dm_get (session_info self) (conn_client_id conn) of
        Some session \<Rightarrow>
          self\<lparr>session_info := dm_insert (conn_client_id conn) (session\<lparr>connection_id := Some conn_id\<rparr>) (session_info self),
               connection_info := dm_insert conn_id conn (connection_info self)\<rparr>
      | None \<Rightarrow> self)"

definition remove_connection :: "u64 \<Rightarrow> CacheManager \<Rightarrow> CacheManager" where
  "remove_connection conn_id self = self\<lparr>connection_info := dm_remove conn_id (connection_info self)\<rparr>"

definition get_connect_id :: "CacheManager \<Rightarrow> string \<Rightarrow> u64 option" where
  "get_connect_id self cid =
     (case dm_get (session_info self) cid of Some sess \<Rightarrow> connection_id sess | None \<Rightarrow> None)"

definition get_connection :: "CacheManager \<Rightarrow> u64 \<Rightarrow> MQTTConnection option" where
  "get_connection self conn_id = dm_get (connection_info self) conn_id"

definition cache_login_success :: "u64 \<Rightarrow> string \<Rightarrow> CacheManager \<Rightarrow> CacheManager" where
  "cache_login_success conn_id user_name self =
     self\<lparr>connection_info := dm_modify conn_id (connection_login_success user_name) (connection_info self)\<rparr>"

definition is_login :: "CacheManager \<Rightarrow> u64 \<Rightarrow> bool" where
  "is_login self conn_id =
     (case dm_get (connection_info self) conn_id of Some conn \<Rightarrow> conn_is_login conn | None \<Rightarrow> False)"

section \<open>Topics\<close>

definition add_topic :: "string \<Rightarrow> MqttTopic \<Rightarrow> CacheManager \<Rightarrow> CacheManager" where
  "add_topic topic_name t self =
     self\<lparr>topic_info := dm_insert topic_name t (topic_info self),
          topic_id_name := dm_insert (topic_id t) topic_name (topic_id_name self)\<rparr>"

definition delete_topic :: "string \<Rightarrow> MqttTopic \<Rightarrow> CacheManager \<Rightarrow> CacheManager" where
  "delete_topic topic_name t self =
     self\<lparr>topic_info := dm_remove topic_name (topic_info self),
          topic_id_name := dm_remove (topic_id t) (topic_id_name self)\<rparr>"

definition topic_exists :: "CacheManager \<Rightarrow> string \<Rightarrow> bool" where
  "topic_exists self topic_name = dm_contains (topic_info self) topic_name"

definition topic_name_by_id :: "CacheManager \<Rightarrow> string \<Rightarrow> string option" where
  "topic_name_by_id self tid = dm_get (topic_id_name self) tid"

definition get_topic_by_name :: "CacheManager \<Rightarrow> string \<Rightarrow> MqttTopic option" where
  "get_topic_by_name self topic_name = dm_get (topic_info self) topic_name"

definition update_topic_retain_message :: "string \<Rightarrow> bytes option \<Rightarrow> CacheManager \<Rightarrow> CacheManager" where
  "update_topic_retain_message topic_name message self =
     self\<lparr>topic_info := dm_modify topic_name (\<lambda>t. t\<lparr>retain_message := message\<rparr>) (topic_info self)\<rparr>"

definition topic_rewrite_rule_key :: "string \<Rightarrow> string \<Rightarrow> string \<Rightarrow> string" where
  "topic_rewrite_rule_key cluster action source_topic = cluster @ ''_'' @ action @ ''_'' @ source_topic"

definition add_topic_rewrite_rule :: "MqttTopicRewriteRule \<Rightarrow> CacheManager \<Rightarrow> CacheManager" where
  "add_topic_rewrite_rule rule self =
     (let key = topic_rewrite_rule_key (cm_cluster_name self) (rw_action rule) (rw_source_topic rule) in
      self\<lparr>topic_rewrite_rule := dm_insert key rule (topic_rewrite_rule self)\<rparr>)"

definition delete_topic_rewrite_rule :: "string \<Rightarrow> string \<Rightarrow> string \<Rightarrow> CacheManager \<Rightarrow> CacheManager" where
  "delete_topic_rewrite_rule cluster action source_topic self =
     (let key = topic_rewrite_rule_key cluster action source_topic in
      self\<lparr>topic_rewrite_rule := dm_remove key (topic_rewrite_rule self)\<rparr>)"

definition get_topic_alias :: "CacheManager \<Rightarrow> u64 \<Rightarrow> u16 \<Rightarrow> string option" where
  "get_topic_alias self conn_id alias =
     (case dm_get (connection_info self) conn_id of
        Some conn \<Rightarrow> dm_get (conn_topic_alias conn) alias
      | None \<Rightarrow> None)"

definition topic_alias_exists :: "CacheManager \<Rightarrow> u64 \<Rightarrow> u16 \<Rightarrow> bool" where
  "topic_alias_exists self conn_id alias =
     (case dm_get (connection_info self) conn_id of
        Some conn \<Rightarrow> dm_contains (conn_topic_alias conn) alias
      | None \<Rightarrow> False)"

definition add_topic_alias :: "u64 \<Rightarrow> string \<Rightarrow> PublishProperties option \<Rightarrow> CacheManager \<Rightarrow> CacheManager" where
  "add_topic_alias conn_id topic_name publish_properties self =
     (case publish_properties of
        Some properties \<Rightarrow>
          (case pp_topic_alias properties of
             Some alias \<Rightarrow>
               self\<lparr>connection_info := dm_modify conn_id (\<lambda>conn.
                 conn\<lparr>conn_topic_alias := dm_insert alias topic_name (conn_topic_alias conn)\<rparr>) (connection_info self)\<rparr>
           | None \<Rightarrow> self)
      | None \<Rightarrow> self)"

section \<open>Packet identifiers\<close>

text \<open>
  \<open>get_available_pkid\<close> looks through \<open>1..65535\<close> and starts again after a pause when no
  identifier is free.  \<open>None\<close> means that it never returns, which is so when nobody else frees
  an identifier.
\<close>

definition pkid_range :: "u16 list" where
  "pkid_range = map word_of_nat [1..<65535]"

partial_function (option) get_available_pkid :: "string \<Rightarrow> CacheManager \<Rightarrow> (u16 \<times> CacheManager) option" where
  "get_available_pkid cid self =
     (case dm_get (publish_pkid_info self) cid of
        Some pkid_list \<Rightarrow>
          (case find (\<lambda>i. i \<notin> set pkid_list) pkid_range of
             Some i \<Rightarrow> Some (i, self)
           | None \<Rightarrow> get_available_pkid cid self)
      | None \<Rightarrow> Some (1, self\<lparr>publish_pkid_info := dm_insert cid [1] (publish_pkid_info self)\<rparr>))"

definition get_pkid :: "string \<Rightarrow> CacheManager \<Rightarrow> (u16 \<times> CacheManager) option" where
  "get_pkid cid self =
     (case get_available_pkid cid self of
        None \<Rightarrow> None
      | Some (pkid, self) \<Rightarrow>
          Some (pkid, self\<lparr>publish_pkid_info := dm_push cid pkid (publish_pkid_info self)\<rparr>))"

definition remove_pkid_info :: "string \<Rightarrow> u16 \<Rightarrow> CacheManager \<Rightarrow> CacheManager" where
  "remove_pkid_info cid pkid self =
     self\<lparr>publish_pkid_info := dm_modify cid (filter (\<lambda>x. x = pkid)) (publish_pkid_info self)\<rparr>"

definition add_client_pkid :: "u64 \<Rightarrow> string \<Rightarrow> u16 \<Rightarrow> CacheManager \<Rightarrow> CacheManager" where
  "add_client_pkid now_second cid pkid self =
     self\<lparr>client_pkid_data := dm_insert (cache_key cid pkid)
       \<lparr>cpd_client_id = cid, cpd_create_time = now_second\<rparr> (client_pkid_data self)\<rparr>"

definition delete_client_pkid :: "string \<Rightarrow> u16 \<Rightarrow> CacheManager \<Rightarrow> CacheManager" where
  "delete_client_pkid cid pkid self =
     self\<lparr>client_pkid_data := dm_remove (cache_key cid pkid) (client_pkid_data self)\<rparr>"

definition get_client_pkid :: "CacheManager \<Rightarrow> string \<Rightarrow> u16 \<Rightarrow> ClientPkidData option" where
  "get_client_pkid self cid pkid = dm_get (client_pkid_data self) (cache_key cid pkid)"

section \<open>Heartbeats, access control and acknowledgements\<close>

definition report_heartbeat :: "string \<Rightarrow> ConnectionLiveTime \<Rightarrow> CacheManager \<Rightarrow> CacheManager" where
  "report_heartbeat cid live_time self =
     self\<lparr>heartbeat_data := dm_insert cid live_time (heartbeat_data self)\<rparr>"

definition remove_heartbeat :: "string \<Rightarrow> CacheManager \<Rightarrow> CacheManager" where
  "remove_heartbeat cid self = self\<lparr>heartbeat_data := dm_remove cid (heartbeat_data self)\<rparr>"

definition add_acl :: "MqttAcl \<Rightarrow> CacheManager \<Rightarrow> CacheManager" where
  "add_acl acl self = self\<lparr>acl_metadata := parse_mqtt_acl acl (acl_metadata self)\<rparr>"

definition remove_acl :: "MqttAcl \<Rightarrow> CacheManager \<Rightarrow> CacheManager" where
  "remove_acl acl self = self\<lparr>acl_metadata := remove_mqtt_acl acl (acl_metadata self)\<rparr>"

definition retain_acls :: "string list \<Rightarrow> string list \<Rightarrow> CacheManager \<Rightarrow> CacheManager" where
  "retain_acls user_acl client_acl self =
     (let meta = acl_metadata self in
      self\<lparr>acl_metadata := meta\<lparr>acl_user := dm_retain (\<lambda>name _. name \<in> set user_acl) (acl_user meta),
             acl_client_id := dm_retain (\<lambda>cid _. cid \<in> set client_acl) (acl_client_id meta)\<rparr>\<rparr>)"

definition add_blacklist :: "MqttAclBlackList \<Rightarrow> CacheManager \<Rightarrow> CacheManager" where
  "add_blacklist blacklist self = self\<lparr>acl_metadata := parse_mqtt_blacklist blacklist (acl_metadata self)\<rparr>"

definition remove_blacklist :: "MqttAclBlackList \<Rightarrow> CacheManager \<Rightarrow> CacheManager" where
  "remove_blacklist blacklist self = self\<lparr>acl_metadata := remove_mqtt_blacklist blacklist (acl_metadata self)\<rparr>"

definition remove_ack_packet :: "string \<Rightarrow> u16 \<Rightarrow> CacheManager \<Rightarrow> CacheManager" where
  "remove_ack_packet cid pkid self =
     self\<lparr>qos_ack_packet := dm_remove (cache_key cid pkid) (qos_ack_packet self)\<rparr>"

definition add_ack_packet :: "string \<Rightarrow> u16 \<Rightarrow> QosAckPacketInfo \<Rightarrow> CacheManager \<Rightarrow> CacheManager" where
  "add_ack_packet cid pkid packet self =
     self\<lparr>qos_ack_packet := dm_insert (cache_key cid pkid) packet (qos_ack_packet self)\<rparr>"

definition get_ack_packet :: "CacheManager \<Rightarrow> string \<Rightarrow> u16 \<Rightarrow> QosAckPacketInfo option" where
  "get_ack_packet self cid pkid = dm_get (qos_ack_packet self) (cache_key cid pkid)"

section \<open>Facts\<close>

text \<open>The packet identifiers that the cache holds as in use for a client.\<close>

definition pkids_in_use :: "CacheManager \<Rightarrow> string \<Rightarrow> u16 set" where
  "pkids_in_use self cid = (case dm_get (publish_pkid_info self) cid of Some xs \<Rightarrow> set xs | None \<Rightarrow> {})"

lemma set_pkid_range: "set pkid_range = word_of_nat ` {1..<65535}"
  unfolding pkid_range_def set_map set_upt ..

lemma get_available_pkid_Some:
  assumes "find (\<lambda>i. i \<notin> pkids_in_use self cid) pkid_range = Some p"
    and "dm_get (publish_pkid_info self) cid = Some xs"
  shows "get_available_pkid cid self = Some (p, self)"
  using assms by (subst get_available_pkid.simps) (simp add: pkids_in_use_def)

text \<open>With every identifier in use the loop goes on forever.\<close>

lemma get_available_pkid_exhausted:
  assumes "set pkid_range \<subseteq> pkids_in_use self cid"
  shows "get_available_pkid cid self = None"
proof (rule ccontr)
  define P where "P = (\<lambda>cid' self' (r :: u16 \<times> CacheManager). \<not> (cid' = cid \<and> self' = self))"
  assume "get_available_pkid cid self \<noteq> None"
  then obtain r where r: "get_available_pkid cid self = Some r"
    by blast
  have exhausted: "set pkid_range \<subseteq> set xs" if "dm_get (publish_pkid_info self) cid = Some xs" for xs
    using assms that by (simp add: pkids_in_use_def)
  have ne: "dm_get (publish_pkid_info self) cid \<noteq> None"
    using assms by (auto simp: pkids_in_use_def set_pkid_range split: option.splits)
  have "P cid self r"
  proof (rule get_available_pkid.raw_induct [of P, OF _ r])
    fix f :: "string \<Rightarrow> CacheManager \<Rightarrow> (u16 \<times> CacheManager) option" and cid' self' r'
    assume IH: "\<And>a b y. f a b = Some y \<Longrightarrow> P a b y"
      and step: "(case dm_get (publish_pkid_info self') cid' of
        None \<Rightarrow> Some (1, self'\<lparr>publish_pkid_info := dm_insert cid' [1] (publish_pkid_info self')\<rparr>)
      | Some pkid_list \<Rightarrow>
          (case find (\<lambda>i. i \<notin> set pkid_list) pkid_range of None \<Rightarrow> f cid' self' | Some i \<Rightarrow> Some (i, self'))) = Some r'"
    show "P cid' self' r'"
    proof (unfold P_def, rule notI)
      assume "cid' = cid \<and> self' = self"
      moreover from this ne obtain xs where xs: "dm_get (publish_pkid_info self) cid = Some xs"
        by blast
      moreover have "find (\<lambda>i. i \<notin> set xs) pkid_range = None"
        using exhausted [OF xs] by (auto simp: find_None_iff)
      ultimately have "f cid self = Some r'"
        using step by simp
      then show False
        using IH [of cid self r'] by (simp add: P_def)
    qed
  qed
  then show False by (simp add: P_def)
qed

lemma find_append: "find P (xs @ ys) = (case find P xs of Some x \<Rightarrow> Some x | None \<Rightarrow> find P ys)"
  by (induction xs) auto

lemma find_pkid_range:
  assumes "k < 65534" and "U = word_of_nat ` {1..k}"
  shows "find (\<lambda>i. i \<notin> U) pkid_range = Some (word_of_nat (k + 1))"
proof -
  have inj: "word_of_nat (k + 1) \<noteq> (word_of_nat j :: u16)" if "j \<in> {1..k}" for j
    using that assms(1) by (auto simp: word_of_nat_eq_iff take_bit_nat_eq_self simp del: of_nat_add of_nat_Suc)
  have "[1..<65535] = [1..<k + 1] @ (k + 1) # [k + 2..<65535]"
    using assms(1) upt_add_eq_append [of 1 "k + 1" "65534 - k"] upt_conv_Cons [of "k + 1" 65535]
    by (simp del: upt_Suc upt_rec_numeral)
  moreover have "find (\<lambda>i. i \<notin> U) (map word_of_nat [1..<k + 1]) = None"
    by (auto simp: find_None_iff assms(2))
  moreover have "word_of_nat (k + 1) \<notin> U"
    unfolding assms(2) image_iff using inj by blast
  ultimately show ?thesis
    unfolding pkid_range_def by (simp only: map_append find_append list.map) (simp del: of_nat_add of_nat_Suc)
qed

lemma get_pkid_next:
  assumes "k < 65534" and "pkids_in_use self cid = word_of_nat ` {1..k}"
  shows "\<exists>self'. get_pkid cid self = Some (word_of_nat (k + 1), self') \<and>
    pkids_in_use self' cid = word_of_nat ` {1..k + 1}"
proof (cases "dm_get (publish_pkid_info self) cid")
  case None
  then have "word_of_nat ` {1..k} = ({} :: u16 set)"
    using assms(2) by (simp add: pkids_in_use_def)
  then have "k = 0" by simp
  moreover have "get_available_pkid cid self =
      Some (1, self\<lparr>publish_pkid_info := dm_insert cid [1] (publish_pkid_info self)\<rparr>)"
    using None by (subst get_available_pkid.simps) simp
  ultimately show ?thesis
    by (simp add: get_pkid_def pkids_in_use_def dm_simps)
next
  case (Some xs)
  have "get_available_pkid cid self = Some (word_of_nat (k + 1), self)"
    by (rule get_available_pkid_Some [OF find_pkid_range [OF assms] Some])
  moreover have "{1..k + 1} = insert (k + 1) {1..k}"
    by auto
  ultimately show ?thesis
    using Some assms(2) by (simp add: get_pkid_def pkids_in_use_def dm_simps del: of_nat_add of_nat_Suc)
qed

text \<open>Several allocations one after the other, with no release in between.\<close>

fun get_pkids :: "string \<Rightarrow> nat \<Rightarrow> CacheManager \<Rightarrow> (u16 list \<times> CacheManager) option" where
  "get_pkids cid 0 self = Some ([], self)"
| "get_pkids cid (Suc n) self =
     (case get_pkid cid self of
        None \<Rightarrow> None
      | Some (pkid, self) \<Rightarrow>
          (case get_pkids cid n self of
             None \<Rightarrow> None
           | Some (pkids, self) \<Rightarrow> Some (pkid # pkids, self)))"

lemma get_pkids_run:
  assumes "k + n \<le> 65534" and "pkids_in_use self cid = word_of_nat ` {1..k}"
  shows "\<exists>self'. get_pkids cid n self = Some (map word_of_nat [k + 1..<k + n + 1], self') \<and>
    pkids_in_use self' cid = word_of_nat ` {1..k + n}"
  using assms
proof (induction n arbitrary: k self)
  case (Suc n)
  have "k < 65534"
    using Suc.prems(1) by simp
  then obtain self1 where 1: "get_pkid cid self = Some (word_of_nat (k + 1), self1)"
    "pkids_in_use self1 cid = word_of_nat ` {1..k + 1}"
    using get_pkid_next [OF _ Suc.prems(2)] by blast
  obtain self2 where "get_pkids cid n self1 = Some (map word_of_nat [k + 1 + 1..<k + 1 + n + 1], self2)"
    "pkids_in_use self2 cid = word_of_nat ` {1..k + 1 + n}"
    using Suc.IH [OF _ 1(2)] Suc.prems(1) by auto
  moreover have "[k + 1..<k + Suc n + 1] = (k + 1) # [k + 1 + 1..<k + 1 + n + 1]"
    using upt_conv_Cons [of "k + 1" "k + Suc n + 1"] by simp
  ultimately show ?case
    using 1(1) by (simp del: upt_Suc of_nat_add of_nat_Suc)
qed simp

section \<open>Properties\<close>

text \<open>
  C29: packet identifiers that are handed out to a client without a release in between are the
  numbers from 1 on, so that no two messages in flight share one; after 65534 of them the
  next request does not return.
\<close>

theorem get_pkid_sequence:
  assumes "dm_get (publish_pkid_info self) cid = None" and "n \<le> 65534"
  shows "\<exists>self'. get_pkids cid n self = Some (map word_of_nat [1..<n + 1], self') \<and>
    pkids_in_use self' cid = word_of_nat ` {1..n} \<and> (n = 65534 \<longrightarrow> get_pkid cid self' = None)"
proof -
  have "pkids_in_use self cid = word_of_nat ` {1..0}"
    using assms(1) by (simp add: pkids_in_use_def)
  then obtain self' where self': "get_pkids cid n self = Some (map word_of_nat [1..<n + 1], self')"
    "pkids_in_use self' cid = word_of_nat ` {1..n}"
    using get_pkids_run [of 0 n self cid] assms(2) by (auto simp del: upt_Suc)
  have "set pkid_range \<subseteq> pkids_in_use self' cid" if "n = 65534"
    using self'(2) that by (auto simp: set_pkid_range)
  then show ?thesis
    using self' get_available_pkid_exhausted [of self' cid] by (auto simp: get_pkid_def)
qed

theorem get_pkid_sequence_witness:
  "\<exists>self'. get_pkids ''c'' 2 (cache_new ''k'') = Some ([1, 2], self') \<and> pkids_in_use self' ''c'' = {1, 2}"
proof -
  have "[1..<2 + 1] = [1, 2 :: nat]" and "{1..2} = {1, 2 :: nat}"
    by (auto simp: numeral_2_eq_2)
  then show ?thesis
    using get_pkid_sequence [of "cache_new ''k''" "''c''" 2] by (auto simp: cache_new_def)
qed

text \<open>
  C32: releasing a packet identifier keeps exactly this one in use and forgets all others: after
  1 and 2 were handed out and 2 is released, the next message gets 1, which is still in
  flight.
\<close>

theorem remove_pkid_info_forgets:
  assumes "p \<in> pkids_in_use self cid"
  shows "pkids_in_use (remove_pkid_info cid p self) cid = {p} \<and>
    (p \<noteq> 1 \<longrightarrow> (\<exists>self'. get_pkid cid (remove_pkid_info cid p self) = Some (1, self')))"
proof -
  obtain xs where xs: "dm_get (publish_pkid_info self) cid = Some xs" "p \<in> set xs"
    using assms by (auto simp: pkids_in_use_def split: option.splits)
  let ?self = "remove_pkid_info cid p self"
  have entry: "dm_get (publish_pkid_info ?self) cid = Some (filter (\<lambda>x. x = p) xs)"
    using xs by (simp add: remove_pkid_info_def dm_simps)
  have use: "pkids_in_use ?self cid = {p}"
    using entry xs(2) by (auto simp: pkids_in_use_def)
  have "pkid_range = 1 # map word_of_nat [Suc 1..<65535]"
    using upt_conv_Cons [of 1 65535] unfolding pkid_range_def
    by (simp del: upt_Suc upt_rec_numeral)
  then obtain rest where rest: "pkid_range = 1 # rest"
    by blast
  have "find (\<lambda>i. i \<notin> pkids_in_use ?self cid) pkid_range = Some 1" if "p \<noteq> 1"
    using that unfolding use rest by auto
  then have "get_available_pkid cid ?self = Some (1, ?self)" if "p \<noteq> 1"
    using that get_available_pkid_Some [OF _ entry] by simp
  then show ?thesis
    using use by (auto simp: get_pkid_def)
qed

theorem remove_pkid_info_forgets_witness:
  "\<exists>self self'. get_pkids ''c'' 2 (cache_new ''k'') = Some ([1, 2], self) \<and>
     get_pkid ''c'' (remove_pkid_info ''c'' 2 self) = Some (1, self')"
proof -
  have "[0 + 1..<0 + 2 + 1] = [1, 2 :: nat]" and "{1..0 + 2} = {1, 2 :: nat}"
    by (auto simp: numeral_2_eq_2)
  then obtain self where "get_pkids ''c'' 2 (cache_new ''k'') = Some ([1, 2], self)"
    "pkids_in_use self ''c'' = {1, 2}"
    using get_pkids_run [of 0 2 "cache_new ''k''" "''c''"] by (auto simp: cache_new_def pkids_in_use_def)
  then show ?thesis
    using remove_pkid_info_forgets [of 2 self "''c''"] by auto
qed

end
