(* ===== verification/Broker_Auth.thy ===== *)
theory Broker_Auth
  imports Broker_Cache
begin

text \<open>
  Authentication, access control and flapping detection of the broker:
  \<open>src/mqtt-broker/src/security/mod.rs\<close>, \<open>security/acl/auth.rs\<close>, \<open>security/login/plaintext.rs\<close> and
  \<open>handler/flapping_detect.rs\<close>.

  Parameters: the \<open>regex\<close> crate, the \<open>ipnet\<close> crate (\<open>cidr net ip\<close> is \<open>None\<close> when one of the two
  texts does not parse), the text \<open>show_err\<close> of an error, the clock, and the storage of users and
  rules behind the trait \<open>AuthStorageAdapter\<close>.  The connection counters of the metrics are a map
  from client identifiers.
\<close>

section \<open>Access control lists\<close>

definition WILDCARD_RESOURCE :: string where
  "WILDCARD_RESOURCE = ''*''"

type_synonym cidr = "string \<Rightarrow> string \<Rightarrow> bool option"

record auth_env =
  ae_regex :: regex
  ae_cidr :: cidr
  ae_now :: u64
  ae_show_err :: "MqttBrokerError \<Rightarrow> string"

definition is_super_user :: "CacheManager \<Rightarrow> string \<Rightarrow> bool" where
  "is_super_user cache name =
     (if name = [] then False
      else (case dm_get (user_info cache) name of Some user \<Rightarrow> is_superuser user | None \<Rightarrow> False))"

definition topic_match :: "string \<Rightarrow> string \<Rightarrow> bool" where
  "topic_match topic_name match_topic_name =
     (if match_topic_name = WILDCARD_RESOURCE then True else topic_name = match_topic_name)"

definition ip_match :: "cidr \<Rightarrow> string \<Rightarrow> string \<Rightarrow> bool" where
  "ip_match cidr ip ip_role =
     (if ip_role = WILDCARD_RESOURCE then True
      else if ip = ip_role then True
      else (case cidr ip_role ip of Some b \<Rightarrow> b | None \<Rightarrow> False))"

text \<open>The loops over the patterns of a blacklist.\<close>

fun blacklist_match :: "auth_env \<Rightarrow> string \<Rightarrow> MqttAclBlackList list \<Rightarrow> (bool, 'e) result" where
  "blacklist_match E name [] = Ok False"
| "blacklist_match E name (raw # data) =
     and_then (is_match (ae_regex E) (''^'' @ bl_resource_name raw @ ''$'') name) (\<lambda>matched.
       if matched \<and> bl_end_time raw > ae_now E then Ok True else blacklist_match E name data)"

definition is_blacklist :: "auth_env \<Rightarrow> CacheManager \<Rightarrow> MQTTConnection \<Rightarrow> (bool, 'e) result" where
  "is_blacklist E cache connection =
     (let meta = acl_metadata cache; now = ae_now E in
      if (case dm_get (blacklist_user meta) (login_user connection) of
            Some data \<Rightarrow> bl_end_time data > now | None \<Rightarrow> False) then Ok True
      else
        and_then (case get_blacklist_user_match meta of
                    Some data \<Rightarrow> blacklist_match E (login_user connection) data | None \<Rightarrow> Ok False) (\<lambda>banned.
        if banned then Ok True
        else if (case dm_get (blacklist_client_id meta) (conn_client_id connection) of
                   Some data \<Rightarrow> bl_end_time data > now | None \<Rightarrow> False) then Ok True
        else
          and_then (case get_blacklist_client_id_match meta of
                      Some data \<Rightarrow> blacklist_match E (conn_client_id connection) data | None \<Rightarrow> Ok False) (\<lambda>banned.
          if banned then Ok True
          else if (case dm_get (blacklist_ip meta) (source_ip_addr connection) of
                     Some data \<Rightarrow> bl_end_time data < now | None \<Rightarrow> False) then Ok True
          else
            Ok (case get_blacklist_ip_match meta of
                  Some data \<Rightarrow>
                    list_ex (\<lambda>raw. ip_match (ae_cidr E) (source_ip_addr connection) (bl_resource_name raw) \<and>
                      bl_end_time raw < now) data
                | None \<Rightarrow> False))))"

definition acl_rule_denies :: "auth_env \<Rightarrow> MQTTConnection \<Rightarrow> string \<Rightarrow> MqttAclAction \<Rightarrow> MqttAcl \<Rightarrow> bool" where
  "acl_rule_denies E connection topic_name action raw \<longleftrightarrow>
     topic_match topic_name (acl_topic raw) \<and>
     ip_match (ae_cidr E) (source_ip_addr connection) (acl_ip raw) \<and>
     (acl_action raw = action \<or> acl_action raw = AA_All) \<and>
     acl_permission raw = Deny"

definition is_acl_deny :: "auth_env \<Rightarrow> CacheManager \<Rightarrow> MQTTConnection \<Rightarrow> string \<Rightarrow> MqttAclAction \<Rightarrow> bool" where
  "is_acl_deny E cache connection topic_name action =
     (if (case dm_get (acl_user (acl_metadata cache)) (login_user connection) of
            Some acl_list \<Rightarrow> list_ex (acl_rule_denies E connection topic_name action) acl_list
          | None \<Rightarrow> False) then True
      else if (case dm_get (acl_client_id (acl_metadata cache)) (conn_client_id connection) of
                 Some client_id_list \<Rightarrow> list_ex (acl_rule_denies E connection topic_name action) client_id_list
               | None \<Rightarrow> False) then True
      else False)"

definition is_allow_acl ::
    "auth_env \<Rightarrow> CacheManager \<Rightarrow> MQTTConnection \<Rightarrow> string \<Rightarrow> MqttAclAction \<Rightarrow> bool \<Rightarrow> QoS \<Rightarrow> (bool, 'e) result" where
  "is_allow_acl E cache connection topic_name action retained _ =
     (if is_super_user cache (login_user connection) then Ok True
      else
        and_then (is_blacklist E cache connection) (\<lambda>banned.
          if banned then Ok False
          else if is_acl_deny E cache connection topic_name action then Ok False
          else if retained \<and> is_acl_deny E cache connection topic_name AA_Retain then Ok False
          else Ok True))"

section \<open>The driver\<close>

record 'd AuthStorageAdapter =
  au_read_all_user :: "('d, (string, MqttUser) dashmap, MqttBrokerError) prog"
  au_read_all_acl :: "('d, MqttAcl list, MqttBrokerError) prog"
  au_read_all_blacklist :: "('d, MqttAclBlackList list, MqttBrokerError) prog"
  au_get_user :: "string \<Rightarrow> ('d, MqttUser option, MqttBrokerError) prog"
  au_save_user :: "MqttUser \<Rightarrow> ('d, unit, MqttBrokerError) prog"
  au_delete_user :: "string \<Rightarrow> ('d, unit, MqttBrokerError) prog"
  au_save_acl :: "MqttAcl \<Rightarrow> ('d, unit, MqttBrokerError) prog"
  au_delete_acl :: "MqttAcl \<Rightarrow> ('d, unit, MqttBrokerError) prog"
  au_save_blacklist :: "MqttAclBlackList \<Rightarrow> ('d, unit, MqttBrokerError) prog"
  au_delete_blacklist :: "MqttAclBlackList \<Rightarrow> ('d, unit, MqttBrokerError) prog"

type_synonym ('d, 'a) aprog = "(CacheManager \<times> 'd, 'a, MqttBrokerError) prog"

definition on_driver :: "('d, 'a, MqttBrokerError) prog \<Rightarrow> ('d, 'a) aprog" where
  "on_driver m = (\<lambda>(cache, d). case m d of (r, d') \<Rightarrow> (r, (cache, d')))"

definition on_cache :: "(CacheManager \<Rightarrow> CacheManager) \<Rightarrow> ('d, unit) aprog" where
  "on_cache f = s_upd (\<lambda>(cache, d). (f cache, d))"

definition save_user :: "'d AuthStorageAdapter \<Rightarrow> MqttUser \<Rightarrow> ('d, unit) aprog" where
  "save_user D user =
     s_bind (s_get (\<lambda>(cache, _). dm_get (user_info cache) (us_username user))) (\<lambda>found.
       if found \<noteq> None then s_err UserAlreadyExist
       else s_bind (on_cache (add_user user)) (\<lambda>_. on_driver (au_save_user D user)))"

definition delete_user :: "'d AuthStorageAdapter \<Rightarrow> string \<Rightarrow> ('d, unit) aprog" where
  "delete_user D name =
     s_bind (s_get (\<lambda>(cache, _). dm_get (user_info cache) name)) (\<lambda>found.
       if found = None then s_err UserDoesNotExist
       else s_bind (on_driver (au_delete_user D name)) (\<lambda>_. on_cache (del_user name)))"

definition update_user_cache :: "'d AuthStorageAdapter \<Rightarrow> ('d, unit) aprog" where
  "update_user_cache D =
     s_bind (on_driver (au_read_all_user D)) (\<lambda>all_users.
     s_bind (s_for (dm_values all_users) (\<lambda>user. on_cache (add_user user))) (\<lambda>_.
       on_cache (retain_users (map fst all_users))))"

definition plaintext_apply :: "CacheManager \<Rightarrow> string \<Rightarrow> string \<Rightarrow> (bool, MqttBrokerError) result" where
  "plaintext_apply cache name pass =
     (case dm_get (user_info cache) name of
        Some user \<Rightarrow> Ok (us_password user = pass)
      | None \<Rightarrow> Err UserDoesNotExist)"

definition try_get_check_user_by_driver :: "'d AuthStorageAdapter \<Rightarrow> string \<Rightarrow> ('d, bool) aprog" where
  "try_get_check_user_by_driver D name =
     s_bind (on_driver (au_get_user D name)) (\<lambda>found.
       case found of
         Some user \<Rightarrow>
           s_bind (on_cache (add_user user)) (\<lambda>_.
           s_bind (\<lambda>(cache, d). (plaintext_apply cache (us_username user) (us_password user), (cache, d))) (\<lambda>flag.
             if flag then s_ok True else s_ok False))
       | None \<Rightarrow> s_ok False)"

definition plaintext_check_login :: "auth_env \<Rightarrow> 'd AuthStorageAdapter \<Rightarrow> string \<Rightarrow> string \<Rightarrow> ('d, bool) aprog" where
  "plaintext_check_login E D name pass =
     s_match (\<lambda>(cache, d). (plaintext_apply cache name pass, (cache, d)))
       (\<lambda>flag. if flag then s_ok True else s_ok False)
       (\<lambda>e. if ae_show_err E e = ae_show_err E UserDoesNotExist then try_get_check_user_by_driver D name
             else s_err e)"

definition check_login_auth :: "auth_env \<Rightarrow> 'd AuthStorageAdapter \<Rightarrow> Login option \<Rightarrow> ('d, bool) aprog" where
  "check_login_auth E D login =
     s_bind (\<lambda>(cache, d). (get_cluster_info cache, (cache, d))) (\<lambda>cluster.
       if secret_free_login (cl_security cluster) then s_ok True
       else
         (case login of
            Some info \<Rightarrow> plaintext_check_login E D (username info) (password info)
          | None \<Rightarrow> s_ok False))"

definition save_acl :: "'d AuthStorageAdapter \<Rightarrow> MqttAcl \<Rightarrow> ('d, unit) aprog" where
  "save_acl D acl = s_bind (on_cache (add_acl acl)) (\<lambda>_. on_driver (au_save_acl D acl))"

definition delete_acl :: "'d AuthStorageAdapter \<Rightarrow> MqttAcl \<Rightarrow> ('d, unit) aprog" where
  "delete_acl D acl = s_bind (on_driver (au_delete_acl D acl)) (\<lambda>_. on_cache (remove_acl acl))"

definition update_acl_cache :: "'d AuthStorageAdapter \<Rightarrow> ('d, unit) aprog" where
  "update_acl_cache D =
     s_bind (on_driver (au_read_all_acl D)) (\<lambda>all_acls.
     s_bind (s_for all_acls (\<lambda>acl. on_cache (add_acl acl))) (\<lambda>_.
       let user_acl = map acl_resource_name (filter (\<lambda>acl. acl_resource_type acl = ART_User) all_acls);
           client_acl = map acl_resource_name (filter (\<lambda>acl. acl_resource_type acl = ART_ClientId) all_acls) in
       on_cache (retain_acls user_acl client_acl)))"

definition save_blacklist :: "'d AuthStorageAdapter \<Rightarrow> MqttAclBlackList \<Rightarrow> ('d, unit) aprog" where
  "save_blacklist D blacklist =
     s_bind (on_cache (add_blacklist blacklist)) (\<lambda>_. on_driver (au_save_blacklist D blacklist))"

definition delete_blacklist :: "'d AuthStorageAdapter \<Rightarrow> MqttAclBlackList \<Rightarrow> ('d, unit) aprog" where
  "delete_blacklist D blacklist =
     s_bind (on_driver (au_delete_blacklist D blacklist)) (\<lambda>_. on_cache (remove_blacklist blacklist))"

definition allow_connect :: "auth_env \<Rightarrow> CacheManager \<Rightarrow> MQTTConnection \<Rightarrow> (bool, 'e) result" where
  "allow_connect E cache connection = is_blacklist E cache connection"

definition allow_publish ::
    "auth_env \<Rightarrow> CacheManager \<Rightarrow> MQTTConnection \<Rightarrow> string \<Rightarrow> bool \<Rightarrow> QoS \<Rightarrow> (bool, 'e) result" where
  "allow_publish E cache connection topic_name retained q =
     is_allow_acl E cache connection topic_name AA_Publish retained q"

fun allow_topics :: "auth_env \<Rightarrow> CacheManager \<Rightarrow> MQTTConnection \<Rightarrow> QoS \<Rightarrow> string list \<Rightarrow> (bool, 'e) result" where
  "allow_topics E cache connection q [] = Ok True"
| "allow_topics E cache connection q (topic_name # topic_list) =
     and_then (is_allow_acl E cache connection topic_name AA_Subscribe False q) (\<lambda>allowed.
       if \<not> allowed then Ok False else allow_topics E cache connection q topic_list)"

fun allow_filters :: "auth_env \<Rightarrow> CacheManager \<Rightarrow> MQTTConnection \<Rightarrow> Filter list \<Rightarrow> (bool, 'e) result" where
  "allow_filters E cache connection [] = Ok True"
| "allow_filters E cache connection (f # filters) =
     and_then (get_sub_topic_id_list (ae_regex E) (topic_id_name cache) (path f)) (\<lambda>topic_list.
     and_then (allow_topics E cache connection (f_qos f) topic_list) (\<lambda>allowed.
       if \<not> allowed then Ok False else allow_filters E cache connection filters))"

definition allow_subscribe :: "auth_env \<Rightarrow> CacheManager \<Rightarrow> MQTTConnection \<Rightarrow> Subscribe \<Rightarrow> (bool, 'e) result" where
  "allow_subscribe E cache connection subscribe = allow_filters E cache connection (s_filters subscribe)"

section \<open>Flapping detection\<close>

type_synonym counters = "(string, u64) dashmap"
type_synonym 'a fprog = "(CacheManager \<times> counters, 'a, MqttBrokerError) prog"

definition get_client_connection_counter :: "counters \<Rightarrow> string \<Rightarrow> u64" where
  "get_client_connection_counter counters cid = (case dm_get counters cid of Some n \<Rightarrow> n | None \<Rightarrow> 0)"

definition incr_client_connection_counter :: "string \<Rightarrow> counters \<Rightarrow> counters" where
  "incr_client_connection_counter cid counters =
     dm_insert cid (get_client_connection_counter counters cid + 1) counters"

definition is_within_window_time :: "u64 \<Rightarrow> u64 \<Rightarrow> u64 \<Rightarrow> (bool, 'e) result" where
  "is_within_window_time current_request_time first_time window_minutes =
     and_then (convert_seconds window_minutes Minutes) (\<lambda>window_time_seconds.
     and_then (u64_sub current_request_time first_time) (\<lambda>d. Ok (d < window_time_seconds)))"

definition is_exceed_max_client_connections :: "u64 \<Rightarrow> u64 \<Rightarrow> u64 \<Rightarrow> (bool, 'e) result" where
  "is_exceed_max_client_connections current_time connect_times max_connections =
     and_then (u64_sub current_time connect_times) (\<lambda>d. Ok (d \<ge> max_connections))"

definition add_blacklist_4_connection_jitter ::
    "u64 \<Rightarrow> MqttClusterDynamicFlappingDetect \<Rightarrow> string \<Rightarrow> CacheManager \<Rightarrow> (CacheManager, 'e) result" where
  "add_blacklist_4_connection_jitter now_second config cid cache =
     and_then (convert_seconds (ucast (ban_time config)) Minutes) (\<lambda>ban.
     and_then (u64_add now_second ban) (\<lambda>end_time.
       Ok (add_blacklist \<lparr>blacklist_type = BL_ClientId, bl_resource_name = cid, bl_end_time = end_time,
         bl_desc = ''Ban due to connection jitter ''\<rparr> cache)))"

definition check_flapping_detect :: "u64 \<Rightarrow> string \<Rightarrow> CacheManager \<times> counters \<Rightarrow> (CacheManager \<times> counters, 'e) result" where
  "check_flapping_detect now_second cid = (\<lambda>(cache, counters).
     let current_counter = get_client_connection_counter counters cid in
     and_then
       (case get_flapping_detect_condition (acl_metadata cache) cid of
          Some condition \<Rightarrow> Ok condition
        | None \<Rightarrow>
            and_then (u64_add current_counter 1) (\<lambda>n.
              Ok \<lparr>fdc_client_id = cid, before_last_window_connections = n, first_request_time = now_second\<rparr>))
       (\<lambda>condition.
         let counters = incr_client_connection_counter cid counters in
         and_then (get_flapping_detect_config cache) (\<lambda>config.
         let current_counter = get_client_connection_counter counters cid in
         and_then (is_within_window_time now_second (first_request_time condition) (ucast (window_time config))) (\<lambda>within.
         and_then (if within then is_exceed_max_client_connections current_counter
                       (before_last_window_connections condition) (max_client_connections config)
                   else Ok False) (\<lambda>exceeded.
         and_then (if exceeded then add_blacklist_4_connection_jitter now_second config cid cache else Ok cache) (\<lambda>cache.
           Ok (cache\<lparr>acl_metadata := add_flapping_detect_condition condition (acl_metadata cache)\<rparr>, counters)))))))"


section \<open>What a set of rules decides\<close>

text \<open>The rules of a connection: those that name its user or its client identifier.\<close>

definition acl_of :: "MQTTConnection \<Rightarrow> MqttAcl \<Rightarrow> bool" where
  "acl_of connection acl =
     (case acl_resource_type acl of
        ART_User \<Rightarrow> acl_resource_name acl = login_user connection
      | ART_ClientId \<Rightarrow> acl_resource_name acl = conn_client_id connection)"

definition cache_rules :: "CacheManager \<Rightarrow> MQTTConnection \<Rightarrow> MqttAcl set" where
  "cache_rules cache connection =
     set (case dm_get (acl_user (acl_metadata cache)) (login_user connection) of Some l \<Rightarrow> l | None \<Rightarrow> []) \<union>
     set (case dm_get (acl_client_id (acl_metadata cache)) (conn_client_id connection) of Some l \<Rightarrow> l | None \<Rightarrow> [])"

lemma is_acl_deny_iff:
  "is_acl_deny E cache connection t a \<longleftrightarrow> (\<exists>acl\<in>cache_rules cache connection. acl_rule_denies E connection t a acl)"
  by (auto simp: is_acl_deny_def cache_rules_def list_ex_iff split: option.splits)

lemma cache_rules_add_acl:
  "cache_rules (add_acl acl cache) connection =
     cache_rules cache connection \<union> (if acl_of connection acl then {acl} else {})"
  by (auto simp: cache_rules_def add_acl_def parse_mqtt_acl_def acl_of_def dm_push_def dm_simps
      split: MqttAclResourceType.splits option.splits)

lemma cache_rules_add_acls:
  "cache_rules (fold add_acl acls cache) connection =
     cache_rules cache connection \<union> {acl \<in> set acls. acl_of connection acl}"
  by (induction acls arbitrary: cache) (auto simp: cache_rules_add_acl)

lemma is_blacklist_cong:
  assumes "blacklist_user (acl_metadata c) = blacklist_user (acl_metadata c')"
    and "blacklist_client_id (acl_metadata c) = blacklist_client_id (acl_metadata c')"
    and "blacklist_ip (acl_metadata c) = blacklist_ip (acl_metadata c')"
    and "blacklist_user_match (acl_metadata c) = blacklist_user_match (acl_metadata c')"
    and "blacklist_client_id_match (acl_metadata c) = blacklist_client_id_match (acl_metadata c')"
    and "blacklist_ip_match (acl_metadata c) = blacklist_ip_match (acl_metadata c')"
  shows "is_blacklist E c connection = is_blacklist E c' connection"
  unfolding is_blacklist_def get_blacklist_user_match_def get_blacklist_client_id_match_def
    get_blacklist_ip_match_def Let_def assms ..

lemma is_blacklist_add_acl [simp]:
  "is_blacklist E (add_acl acl cache) connection = is_blacklist E cache connection"
  by (rule is_blacklist_cong)
    (simp_all add: add_acl_def parse_mqtt_acl_def split: MqttAclResourceType.splits)

lemma is_blacklist_add_acls [simp]:
  "is_blacklist E (fold add_acl acls cache) connection = is_blacklist E cache connection"
  by (induction acls arbitrary: cache) simp_all

lemma is_super_user_add_acls [simp]: "is_super_user (fold add_acl acls cache) name = is_super_user cache name"
  by (induction acls arbitrary: cache) (simp_all add: is_super_user_def add_acl_def)

lemma cache_rules_new [simp]: "cache_rules (cache_new n) connection = {}"
  by (simp add: cache_rules_def cache_new_def acl_metadata_new_def)

lemma is_blacklist_new [simp]: "is_blacklist E (cache_new n) connection = Ok False"
  by (simp add: is_blacklist_def cache_new_def acl_metadata_new_def get_blacklist_user_match_def
      get_blacklist_client_id_match_def get_blacklist_ip_match_def)

lemma is_super_user_new [simp]: "\<not> is_super_user (cache_new n) name"
  by (simp add: is_super_user_def cache_new_def)

text \<open>An environment and a connection for the examples.\<close>

definition example_env :: auth_env where
  "example_env = \<lparr>ae_regex = ascii_regex, ae_cidr = (\<lambda>_ _. None), ae_now = 10, ae_show_err = (\<lambda>_. [])\<rparr>"

definition example_connection :: "string \<Rightarrow> string \<Rightarrow> MQTTConnection" where
  "example_connection cid ip =
     connection_new 0 \<lparr>cc_connect_id = 1, cc_client_id = cid, cc_receive_maximum = 1,
       cc_max_packet_size = 1, cc_topic_alias_max = 1, cc_request_problem_info = 0, cc_keep_alive = 1,
       cc_source_ip_addr = ip\<rparr>"

lemmas example_defs = example_env_def example_connection_def connection_new_def

text \<open>
  C34: on a cache without rules for the connection, after the rules \<open>acls\<close> were added in any order,
  \<open>is_allow_acl\<close> allows an action exactly when the user is a superuser, or the connection is not
  banned and no rule of its user or client denies the action or, for a retained message, \<open>Retain\<close>.
  Rules that allow change nothing.
\<close>

theorem is_allow_acl_exact:
  assumes "cache_rules cache connection = {}"
    and "is_blacklist E cache connection = (Ok banned :: (bool, 'e) result)"
  shows "is_allow_acl E (fold add_acl acls cache) connection topic_name action retained q =
    (Ok (is_super_user cache (login_user connection) \<or>
         \<not> banned \<and>
         \<not> (\<exists>acl\<in>set acls. acl_of connection acl \<and> acl_permission acl = Deny \<and>
            (acl_topic acl = ''*'' \<or> acl_topic acl = topic_name) \<and>
            ip_match (ae_cidr E) (source_ip_addr connection) (acl_ip acl) \<and>
            (acl_action acl = AA_All \<or> acl_action acl = action \<or> retained \<and> acl_action acl = AA_Retain)))
     :: (bool, 'e) result)"
  using assms
  by (auto simp: is_allow_acl_def is_acl_deny_iff cache_rules_add_acls acl_rule_denies_def topic_match_def
      WILDCARD_RESOURCE_def split: if_splits)


theorem is_allow_acl_exact_witness:
  "let rule = (\<lambda>a p. \<lparr>acl_resource_type = ART_ClientId, acl_resource_name = ''c'', acl_topic = ''t'', acl_ip = ''*'',
         acl_action = a, acl_permission = p\<rparr>);
       cache = fold add_acl [rule AA_Retain Deny, rule AA_Publish Allow] (cache_new ''n'') in
   is_allow_acl example_env cache (example_connection ''c'' ''ip'') ''t'' AA_Publish True AtMostOnce =
     (Ok False :: (bool, unit) result) \<and>
   is_allow_acl example_env cache (example_connection ''c'' ''ip'') ''t'' AA_Publish False AtMostOnce =
     (Ok True :: (bool, unit) result)"
  unfolding Let_def
  by (rule conjI; subst is_allow_acl_exact [where banned = False])
    (simp_all add: acl_of_def ip_match_def WILDCARD_RESOURCE_def example_defs)

section \<open>What a ban decides\<close>

lemma if_Ok [simp]: "(if P then Ok True else Ok False) = Ok P"
  by simp

lemma and_then_Ok [simp]: "and_then r Ok = r"
  by (cases r) auto

lemmas ban_defs = is_blacklist_def get_blacklist_user_match_def get_blacklist_client_id_match_def
  get_blacklist_ip_match_def add_blacklist_def parse_mqtt_blacklist_def

text \<open>
  C38: on a cache without bans, after one ban was added, \<open>is_blacklist\<close> bans the connection that the
  ban names: for a user or a client identifier until the end time of the ban, for an address only
  after it.
\<close>

theorem blacklist_end_time:
  assumes "acl_metadata cache = acl_metadata_new"
  shows "is_blacklist E (add_blacklist \<lparr>blacklist_type = t, bl_resource_name = name, bl_end_time = e, bl_desc = d\<rparr> cache)
      connection =
    (case t of
       BL_User \<Rightarrow> Ok (login_user connection = name \<and> ae_now E < e)
     | BL_ClientId \<Rightarrow> Ok (conn_client_id connection = name \<and> ae_now E < e)
     | BL_Ip \<Rightarrow> Ok (source_ip_addr connection = name \<and> e < ae_now E)
     | BL_UserMatch \<Rightarrow>
         and_then (is_match (ae_regex E) (''^'' @ name @ ''$'') (login_user connection)) (\<lambda>b. Ok (b \<and> ae_now E < e))
     | BL_ClientIdMatch \<Rightarrow>
         and_then (is_match (ae_regex E) (''^'' @ name @ ''$'') (conn_client_id connection)) (\<lambda>b. Ok (b \<and> ae_now E < e))
     | BL_IPCIDR \<Rightarrow> Ok (ip_match (ae_cidr E) (source_ip_addr connection) name \<and> e < ae_now E))"
  using assms
  by (cases t) (simp_all add: ban_defs Let_def acl_metadata_new_def dm_push_def dm_simps
      cong: if_cong)

theorem blacklist_end_time_witness:
  "is_blacklist example_env (add_blacklist \<lparr>blacklist_type = BL_Ip, bl_resource_name = ''ip'', bl_end_time = 60, bl_desc = []\<rparr>
     (cache_new ''n'')) (example_connection ''c'' ''ip'') = (Ok False :: (bool, unit) result)"
  by (subst blacklist_end_time) (simp_all add: cache_new_def example_defs)


section \<open>Who may log in\<close>

lemma try_get_check_user_by_driver_eq:
  "fst (try_get_check_user_by_driver D name (cache, d)) =
     and_then (fst (au_get_user D name d)) (\<lambda>stored. Ok (stored \<noteq> None))"
proof (cases "au_get_user D name d")
  case (Pair r d')
  then show ?thesis
    by (cases r) (auto simp: try_get_check_user_by_driver_def plaintext_apply_def on_driver_def on_cache_def
        add_user_def s_bind_def s_upd_def s_ok_def dm_simps split: option.splits)
qed

text \<open>
  C36: \<open>check_login_auth\<close> accepts a cached user exactly with the right password, and a user that is only
  in the storage with any password: it compares the stored password with itself.
\<close>

theorem check_login_auth_decision:
  assumes "get_cluster_info cache = (Ok cluster :: (MqttClusterDynamicConfig, MqttBrokerError) result)"
  shows "fst (check_login_auth E D (Some login) (cache, d)) =
    (if secret_free_login (cl_security cluster) then Ok True
     else
       (case dm_get (user_info cache) (username login) of
          Some user \<Rightarrow> Ok (password login = us_password user)
        | None \<Rightarrow> and_then (fst (au_get_user D (username login) d)) (\<lambda>stored. Ok (stored \<noteq> None))))"
  using assms
  by (auto simp: check_login_auth_def plaintext_check_login_def plaintext_apply_def
      try_get_check_user_by_driver_eq [simplified] st_simps split: option.splits)

text \<open>A storage that holds users only.\<close>

definition user_store :: "(string, MqttUser) dashmap AuthStorageAdapter" where
  "user_store =
     \<lparr>au_read_all_user = s_get (\<lambda>d. d), au_read_all_acl = s_ok [], au_read_all_blacklist = s_ok [],
      au_get_user = (\<lambda>name. s_get (\<lambda>d. dm_get d name)),
      au_save_user = (\<lambda>user. s_upd (dm_insert (us_username user) user)),
      au_delete_user = (\<lambda>name. s_upd (dm_remove name)),
      au_save_acl = (\<lambda>_. s_ok ()), au_delete_acl = (\<lambda>_. s_ok ()),
      au_save_blacklist = (\<lambda>_. s_ok ()), au_delete_blacklist = (\<lambda>_. s_ok ())\<rparr>"

theorem check_login_auth_decision_witness:
  "fst (check_login_auth example_env user_store (Some \<lparr>username = ''u'', password = ''wrong''\<rparr>)
     (set_cluster_info build_default_cluster_config (cache_new ''n''),
      [(''u'', \<lparr>us_username = ''u'', us_password = ''secret'', is_superuser = True\<rparr>)])) = Ok True"
  by (subst check_login_auth_decision [where cluster = build_default_cluster_config])
    (simp_all add: get_cluster_info_def set_cluster_info_def cache_new_def user_store_def st_simps dm_simps
      build_default_cluster_config_def)

section \<open>Subscriptions and rules\<close>

lemma allow_topics_Ok:
  assumes "is_blacklist E cache connection = (Ok False :: (bool, 'e) result)"
    and "\<forall>acl\<in>cache_rules cache connection. \<forall>t\<in>set ts. \<not> topic_match t (acl_topic acl)"
  shows "allow_topics E cache connection q ts = (Ok True :: (bool, 'e) result)"
  using assms(2)
  by (induction ts) (auto simp: is_allow_acl_def assms(1) is_acl_deny_iff acl_rule_denies_def)

lemma get_sub_topic_id_list_subset:
  "get_sub_topic_id_list R m p = (Ok ts :: (string list, 'e) result) \<Longrightarrow> set ts \<subseteq> fst ` set m"
proof (induction m arbitrary: ts)
  case (Cons x m)
  then show ?case
    by (cases x) (fastforce simp: and_then_eq_Ok split: if_splits)
qed simp

lemma add_topic_rules [simp]:
  "is_blacklist E (add_topic name t cache) connection = is_blacklist E cache connection"
  "cache_rules (add_topic name t cache) connection = cache_rules cache connection"
  "topic_id_name (add_topic name t cache) = dm_insert (topic_id t) name (topic_id_name cache)"
  "topic_id_name (add_acl acl cache) = topic_id_name cache"
  "topic_id_name (cache_new n) = []"
  by (simp_all add: cache_new_def add_topic_def add_acl_def cache_rules_def cong: is_blacklist_cong)

text \<open>
  C37: \<open>allow_subscribe\<close> compares the rules of the connection with the identifiers of the topics, not
  with their names: when no rule names an identifier or all topics, every subscription is allowed,
  whatever topic names are denied.
\<close>

theorem allow_subscribe_ignores_topic_names:
  assumes "is_blacklist E cache connection = (Ok False :: (bool, 'e) result)"
    and "\<forall>acl\<in>cache_rules cache connection. acl_topic acl \<noteq> ''*'' \<and> acl_topic acl \<notin> fst ` set (topic_id_name cache)"
    and "\<forall>f\<in>set (s_filters subscribe).
      \<exists>ts. get_sub_topic_id_list (ae_regex E) (topic_id_name cache) (path f) = (Ok ts :: (string list, 'e) result)"
  shows "allow_subscribe E cache connection subscribe = (Ok True :: (bool, 'e) result)"
proof -
  have topics: "allow_topics E cache connection q ts = (Ok True :: (bool, 'e) result)"
    if "get_sub_topic_id_list (ae_regex E) (topic_id_name cache) p = (Ok ts :: (string list, 'e) result)" for q p ts
    using get_sub_topic_id_list_subset [OF that] assms(2)
    by (intro allow_topics_Ok [OF assms(1)]) (auto simp: topic_match_def WILDCARD_RESOURCE_def)
  have "allow_filters E cache connection fs = (Ok True :: (bool, 'e) result)"
    if "\<forall>f\<in>set fs. \<exists>ts. get_sub_topic_id_list (ae_regex E) (topic_id_name cache) (path f) =
      (Ok ts :: (string list, 'e) result)" for fs
    using that by (induction fs) (auto simp: topics)
  then show ?thesis
    using assms(3) by (simp add: allow_subscribe_def)
qed

theorem allow_subscribe_ignores_topic_names_witness:
  "allow_subscribe example_env
     (add_acl \<lparr>acl_resource_type = ART_ClientId, acl_resource_name = ''c'', acl_topic = ''t'', acl_ip = ''*'',
        acl_action = AA_Subscribe, acl_permission = Deny\<rparr>
       (add_topic ''t'' (topic_new 0 ''id'' ''n'' ''t'') (cache_new ''n'')))
     (example_connection ''c'' ''ip'')
     \<lparr>packet_identifier = 1, s_filters = [\<lparr>path = ''t'', f_qos = AtLeastOnce, nolocal = False,
        preserve_retain = False, retain_forward_rule = OnEverySubscribe\<rparr>]\<rparr> = (Ok True :: (bool, unit) result)"
  by (rule allow_subscribe_ignores_topic_names)
    (simp_all add: cache_rules_add_acl topic_new_def path_regex_match_def inner_path_def
      is_share_sub_def is_queue_sub_def SHARE_SUB_PREFIX_def QUEUE_SUB_PREFIX_def)

section \<open>When a client is banned for flapping\<close>

text \<open>Connections of one client at the given times.\<close>

fun flapping_checks :: "string \<Rightarrow> u64 list \<Rightarrow> CacheManager \<times> counters \<Rightarrow> (CacheManager \<times> counters, 'e) result" where
  "flapping_checks cid [] st = Ok st"
| "flapping_checks cid (t # ts) st = and_then (check_flapping_detect t cid st) (flapping_checks cid ts)"

definition is_banned :: "CacheManager \<Rightarrow> string \<Rightarrow> bool" where
  "is_banned cache cid = (dm_get (blacklist_client_id (acl_metadata cache)) cid \<noteq> None)"

text \<open>After \<open>k\<close> connections since \<open>t0\<close>, with the counter at \<open>b\<close> after the first of them.\<close>

definition flapping_inv ::
    "MqttClusterDynamicFlappingDetect \<Rightarrow> string \<Rightarrow> u64 \<Rightarrow> u64 \<Rightarrow> nat \<Rightarrow> CacheManager \<times> counters \<Rightarrow> bool" where
  "flapping_inv config cid t0 b k = (\<lambda>(cache, counters).
     (\<exists>cl. dm_get (cluster_info cache) (cm_cluster_name cache) = Some cl \<and> cl_flapping_detect cl = config) \<and>
     get_flapping_detect_condition (acl_metadata cache) cid =
       Some \<lparr>fdc_client_id = cid, before_last_window_connections = b, first_request_time = t0\<rparr> \<and>
     unat (get_client_connection_counter counters cid) + 1 = unat b + k \<and>
     (is_banned cache cid \<longleftrightarrow> unat (max_client_connections config) < k))"

lemma get_client_connection_counter_incr [simp]:
  "get_client_connection_counter (incr_client_connection_counter cid counters) cid =
     get_client_connection_counter counters cid + 1"
  by (simp add: incr_client_connection_counter_def get_client_connection_counter_def dm_simps)

lemma unat_plus_one: "unat (c :: u64) + 1 < 2 ^ 64 \<Longrightarrow> unat (c + 1) = unat c + 1"
  by (simp add: unat_word_ariths)

lemma is_exceed_nat:
  assumes "unat (c :: u64) = unat b + k"
  shows "is_exceed_max_client_connections c b m = (Ok (unat m \<le> k) :: (bool, 'e) result)"
proof -
  have "b \<le> c"
    using assms by (simp add: word_le_nat_alt)
  then have "unat (c - b) = k"
    using assms by (simp add: unat_sub)
  then show ?thesis
    using \<open>b \<le> c\<close> by (simp add: is_exceed_max_client_connections_def u64_sub_def word_le_nat_alt)
qed

lemma check_flapping_detect_step:
  assumes cfg: "dm_get (cluster_info cache) (cm_cluster_name cache) = Some cl" "cl_flapping_detect cl = config"
    and cond: "get_flapping_detect_condition (acl_metadata cache) cid = None \<and>
        b = get_client_connection_counter counters cid + 1 \<and> t = t0 \<or>
      get_flapping_detect_condition (acl_metadata cache) cid =
        Some \<lparr>fdc_client_id = cid, before_last_window_connections = b, first_request_time = t0\<rparr>"
    and counter: "unat (get_client_connection_counter counters cid) + 1 = unat b + k" "unat b + k < 2 ^ 64"
    and time: "t0 \<le> t" "unat (t - t0) < unat (window_time config) * 60"
      "unat t + unat (ban_time config) * 60 < 2 ^ 64"
    and banned: "is_banned cache cid \<longleftrightarrow> unat (max_client_connections config) < k"
  shows "\<exists>st. check_flapping_detect t cid (cache, counters) = (Ok st :: (CacheManager \<times> counters, 'e) result) \<and>
    flapping_inv config cid t0 b (k + 1) st"
proof -
  let ?n = "get_client_connection_counter counters cid"
  let ?c = "\<lparr>fdc_client_id = cid, before_last_window_connections = b, first_request_time = t0\<rparr>"
  let ?ban = "\<lparr>blacklist_type = BL_ClientId, bl_resource_name = cid,
    bl_end_time = t + ucast (ban_time config) * 60, bl_desc = ''Ban due to connection jitter ''\<rparr>"
  let ?cache = "if unat (max_client_connections config) \<le> k then add_blacklist ?ban cache else cache"
  have n: "unat (?n + 1) = unat b + k"
    using counter unat_plus_one [of ?n] by simp
  have c: "(case get_flapping_detect_condition (acl_metadata cache) cid of
      Some condition \<Rightarrow> Ok condition
    | None \<Rightarrow> and_then (u64_add ?n 1) (\<lambda>n.
        Ok \<lparr>fdc_client_id = cid, before_last_window_connections = n, first_request_time = t\<rparr>)) =
    (Ok ?c :: (FlappingDetectCondition, 'e) result)"
    using cond counter by (auto simp: u64_add_def)
  have within: "is_within_window_time t t0 (ucast (window_time config)) = (Ok True :: (bool, 'e) result)"
    using time by (simp add: is_within_window_time_def convert_minutes_u32 u64_sub_def word_less_nat_alt unat_minutes_u32)
  have ban: "add_blacklist_4_connection_jitter t config cid cache = (Ok (add_blacklist ?ban cache) :: (CacheManager, 'e) result)"
    using time(3) by (simp add: add_blacklist_4_connection_jitter_def convert_minutes_u32 u64_add_def unat_minutes_u32)
  have "check_flapping_detect t cid (cache, counters) =
    (Ok (?cache\<lparr>acl_metadata := add_flapping_detect_condition ?c (acl_metadata ?cache)\<rparr>,
      incr_client_connection_counter cid counters) :: (CacheManager \<times> counters, 'e) result)"
    unfolding check_flapping_detect_def prod.case Let_def c
    using cfg by (simp add: within is_exceed_nat [OF n] ban get_flapping_detect_config_def get_cluster_info_def)
  moreover have "flapping_inv config cid t0 b (k + 1)
    (?cache\<lparr>acl_metadata := add_flapping_detect_condition ?c (acl_metadata ?cache)\<rparr>,
      incr_client_connection_counter cid counters)"
    using cfg n banned
    by (auto simp: flapping_inv_def is_banned_def add_blacklist_def parse_mqtt_blacklist_def
        add_flapping_detect_condition_def get_flapping_detect_condition_def dm_simps)
  ultimately show ?thesis
    by blast
qed

lemma flapping_checks_inv:
  assumes "flapping_inv config cid t0 b k st"
    and "\<forall>t\<in>set ts. t0 \<le> t \<and> unat (t - t0) < unat (window_time config) * 60 \<and>
      unat t + unat (ban_time config) * 60 < 2 ^ 64"
    and "unat b + k + length ts \<le> 2 ^ 64"
  shows "\<exists>st'. flapping_checks cid ts st = (Ok st' :: (CacheManager \<times> counters, 'e) result) \<and>
    flapping_inv config cid t0 b (k + length ts) st'"
  using assms
proof (induction ts arbitrary: k st)
  case (Cons t ts)
  obtain cache counters where st: "st = (cache, counters)"
    by (cases st)
  obtain cl where cl: "dm_get (cluster_info cache) (cm_cluster_name cache) = Some cl" "cl_flapping_detect cl = config"
    using Cons.prems(1) by (auto simp: st flapping_inv_def)
  have "\<exists>st'. check_flapping_detect t cid (cache, counters) = (Ok st' :: (CacheManager \<times> counters, 'e) result) \<and>
    flapping_inv config cid t0 b (k + 1) st'"
    using Cons.prems by (intro check_flapping_detect_step [OF cl]) (auto simp: st flapping_inv_def)
  then obtain st' where st': "check_flapping_detect t cid (cache, counters) = (Ok st' :: (CacheManager \<times> counters, 'e) result)"
    "flapping_inv config cid t0 b (k + 1) st'"
    by blast
  then show ?case
    using Cons.IH [OF st'(2)] Cons.prems(2,3) by (simp add: st)
qed simp

text \<open>
  C35: a client that is not known to the detection and connects several times, all within the window
  that its first connection opens, is banned exactly when it connects more often than
  \<open>max_client_connections\<close>; the check panics nowhere.
\<close>

theorem flapping_ban_exact:
  assumes "get_cluster_info cache = (Ok cluster :: (MqttClusterDynamicConfig, 'e) result)"
    and "config = cl_flapping_detect cluster"
    and "get_flapping_detect_condition (acl_metadata cache) cid = None" "\<not> is_banned cache cid"
    and "\<forall>t\<in>set (t0 # ts). t0 \<le> t \<and> unat (t - t0) < unat (window_time config) * 60 \<and>
      unat t + unat (ban_time config) * 60 < 2 ^ 64"
    and "unat (get_client_connection_counter counters cid) + length (t0 # ts) < 2 ^ 64"
  shows "\<exists>cache' counters'.
    flapping_checks cid (t0 # ts) (cache, counters) = (Ok (cache', counters') :: (CacheManager \<times> counters, 'e) result) \<and>
    (is_banned cache' cid \<longleftrightarrow> unat (max_client_connections config) < length (t0 # ts))"
proof -
  let ?b = "get_client_connection_counter counters cid + 1"
  have b: "unat ?b = unat (get_client_connection_counter counters cid) + 1"
    using assms(6) by (intro unat_plus_one) simp
  have "\<exists>st. check_flapping_detect t0 cid (cache, counters) = (Ok st :: (CacheManager \<times> counters, 'e) result) \<and>
    flapping_inv config cid t0 ?b (0 + 1) st"
    using assms b by (intro check_flapping_detect_step [where cl = cluster]) (simp_all add: get_cluster_info_def)
  then obtain st where st: "check_flapping_detect t0 cid (cache, counters) = (Ok st :: (CacheManager \<times> counters, 'e) result)"
    "flapping_inv config cid t0 ?b 1 st"
    by auto
  have "\<exists>st'. flapping_checks cid ts st = (Ok st' :: (CacheManager \<times> counters, 'e) result) \<and>
    flapping_inv config cid t0 ?b (1 + length ts) st'"
    using assms(5,6) b by (intro flapping_checks_inv [OF st(2)]) auto
  then show ?thesis
    using st(1) by (auto simp: flapping_inv_def)
qed

theorem flapping_ban_exact_witness:
  "\<exists>cache' counters'.
    flapping_checks ''c'' (0 # replicate 15 30) (set_cluster_info build_default_cluster_config (cache_new ''n''), []) =
      (Ok (cache', counters') :: (CacheManager \<times> counters, unit) result) \<and> is_banned cache' ''c''"
  using flapping_ban_exact [of "set_cluster_info build_default_cluster_config (cache_new ''n'')"
      build_default_cluster_config "cl_flapping_detect build_default_cluster_config" "''c''" 0 "replicate 15 30" "[]",
      where 'e = unit]
  by (simp add: get_cluster_info_def set_cluster_info_def cache_new_def acl_metadata_new_def dm_simps is_banned_def
      get_flapping_detect_condition_def build_default_cluster_config_def get_client_connection_counter_def)

end
