(* ===== verification/Prog_Invariant.thy ===== *)
theory Prog_Invariant
  imports Broker_Std
begin

text \<open>
  Invariants of programs: \<open>keeps I m\<close> says that the program keeps \<open>I\<close> whether it returns, fails or
  panics, since the caches of the broker outlive a failed request.  The rules of \<open>keeps_intros\<close> follow the
  structure of a program down to its updates.
\<close>

named_theorems keeps_intros \<open>invariants along the structure of a program\<close>

definition keeps :: "('s \<Rightarrow> bool) \<Rightarrow> ('s, 'a, 'e) prog \<Rightarrow> bool" where
  "keeps I m \<longleftrightarrow> (\<forall>s. I s \<longrightarrow> I (snd (m s)))"

lemma keepsI: "(\<And>s. I s \<Longrightarrow> I (snd (m s))) \<Longrightarrow> keeps I m"
  by (simp add: keeps_def)

lemma keepsD: "keeps I m \<Longrightarrow> I s \<Longrightarrow> m s = (r, s') \<Longrightarrow> I s'"
  by (metis keeps_def snd_conv)

lemma keeps_ok [keeps_intros]: "keeps I (s_ok x)"
  by (simp add: keeps_def s_ok_def)

lemma keeps_err [keeps_intros]: "keeps I (s_err e)"
  by (simp add: keeps_def s_err_def)

lemma keeps_lift [keeps_intros]: "keeps I (s_lift r)"
  by (simp add: keeps_def s_lift_def)

lemma keeps_get [keeps_intros]: "keeps I (s_get f)"
  by (simp add: keeps_def s_get_def)

lemma keeps_upd: "(\<And>s. I s \<Longrightarrow> I (u s)) \<Longrightarrow> keeps I (s_upd u)"
  by (simp add: keeps_def s_upd_def)

lemma keeps_bind [keeps_intros]:
  "keeps I m \<Longrightarrow> (\<And>x. keeps I (f x)) \<Longrightarrow> keeps I (s_bind m f)"
  by (fastforce simp: keeps_def s_bind_def split: prod.split result.split dest: spec)

lemma keeps_match [keeps_intros]:
  "keeps I m \<Longrightarrow> (\<And>x. keeps I (f x)) \<Longrightarrow> (\<And>e. keeps I (h e)) \<Longrightarrow> keeps I (s_match m f h)"
  by (fastforce simp: keeps_def s_match_def split: prod.split result.split dest: spec)

lemma keeps_if [keeps_intros]:
  "(b \<Longrightarrow> keeps I m) \<Longrightarrow> (\<not> b \<Longrightarrow> keeps I m') \<Longrightarrow> keeps I (if b then m else m')"
  by simp

lemma keeps_case_option [keeps_intros]:
  "keeps I m \<Longrightarrow> (\<And>y. x = Some y \<Longrightarrow> keeps I (f y)) \<Longrightarrow> keeps I (case x of None \<Rightarrow> m | Some y \<Rightarrow> f y)"
  by (cases x) auto

lemma keeps_case_prod [keeps_intros]:
  "(\<And>a b. x = (a, b) \<Longrightarrow> keeps I (f a b)) \<Longrightarrow> keeps I (case x of (a, b) \<Rightarrow> f a b)"
  by (cases x) auto

lemma keeps_case_prod_app [keeps_intros]:
  "(\<And>a b. x = (a, b) \<Longrightarrow> keeps I (f a b y)) \<Longrightarrow> keeps I ((case x of (a, b) \<Rightarrow> f a b) y)"
  by (cases x) auto

lemma keeps_for [keeps_intros]:
  "(\<And>x. x \<in> set xs \<Longrightarrow> keeps I (f x)) \<Longrightarrow> keeps I (s_for xs f)"
  by (induction xs) (auto intro!: keeps_ok keeps_bind)

lemma keeps_fold [keeps_intros]:
  "(\<And>x acc. x \<in> set xs \<Longrightarrow> keeps I (f x acc)) \<Longrightarrow> keeps I (s_fold f xs acc)"
  by (induction xs arbitrary: acc) (auto intro!: keeps_ok keeps_bind)

lemma keeps_from_common [keeps_intros]: "keeps I m \<Longrightarrow> keeps I (from_common m)"
  by (auto simp: from_common_def intro!: keeps_intros)

section \<open>Loops that only update the state\<close>

lemma s_for_upd:
  assumes "\<And>x s. x \<in> set xs \<Longrightarrow> f x s = (Ok (), u x s)"
  shows "s_for xs f s = (Ok (), fold u xs s)"
  using assms by (induction xs arbitrary: s) (simp_all add: st_simps)

lemma dm_get_fold_insert:
  assumes "\<And>x. x \<in> set xs \<Longrightarrow> key x = k \<Longrightarrow> val x = v"
  shows "dm_get (fold (\<lambda>x m. dm_insert (key x) (val x) m) xs m) k =
    (if k \<in> key ` set xs then Some v else dm_get m k)"
  using assms
proof (induction xs arbitrary: m)
  case (Cons x xs)
  then show ?case
    by (cases "k \<in> key ` set xs") (auto simp: dm_simps)
qed simp

lemma dm_get_fold_insert_other:
  "k \<notin> key ` set xs \<Longrightarrow> dm_get (fold (\<lambda>x. dm_insert (key x) (val x)) xs m) k = dm_get m k"
  by (induction xs arbitrary: m) (auto simp: dm_simps)

lemma fold_invariant:
  "I s \<Longrightarrow> (\<And>x s. x \<in> set xs \<Longrightarrow> I s \<Longrightarrow> I (f x s)) \<Longrightarrow> I (fold f xs s)"
  by (induction xs arbitrary: s) auto

text \<open>Values that a program reads or computes, known to the rest of it.\<close>

lemma keeps_bind_get:
  "(\<And>s. I s \<Longrightarrow> keeps I (f (g s))) \<Longrightarrow> keeps I (s_bind (s_get g) f)"
  by (simp add: keeps_def s_bind_def s_get_def)

lemma keeps_bind_lift:
  "(\<And>x. r = Ok x \<Longrightarrow> keeps I (f x)) \<Longrightarrow> keeps I (s_bind (s_lift r) f)"
  by (cases r) (simp_all add: keeps_def s_bind_def s_lift_def)

section \<open>Invariants of maps\<close>

named_theorems dm_all_intros \<open>maps all of whose entries have a property\<close>

definition dm_all :: "('k \<Rightarrow> 'v \<Rightarrow> bool) \<Rightarrow> ('k, 'v) dashmap \<Rightarrow> bool" where
  "dm_all P m \<longleftrightarrow> dm_wf m \<and> (\<forall>(k, v)\<in>set m. P k v)"

lemma set_dm_insert: "set (dm_insert k v m) \<subseteq> insert (k, v) (set m)"
  by (induction m) auto

lemma set_dm_remove: "set (dm_remove k m) \<subseteq> set m"
  by (auto simp: AList.delete_eq)

lemma dm_all_Nil [dm_all_intros, simp]: "dm_all P []"
  by (simp add: dm_all_def dm_wf_def)

lemma dm_all_insert [dm_all_intros]: "dm_all P m \<Longrightarrow> P k v \<Longrightarrow> dm_all P (dm_insert k v m)"
  using set_dm_insert [of k v m] by (auto simp: dm_all_def)

lemma dm_all_remove [dm_all_intros]: "dm_all P m \<Longrightarrow> dm_all P (dm_remove k m)"
  using set_dm_remove [of k m] by (auto simp: dm_all_def)

lemma dm_all_get: "dm_all P m \<Longrightarrow> dm_get m k = Some v \<Longrightarrow> P k v"
  by (auto simp: dm_all_def dest: map_of_SomeD)

lemma dm_all_modify [dm_all_intros]:
  "dm_all P m \<Longrightarrow> (\<And>v. P k v \<Longrightarrow> P k (f v)) \<Longrightarrow> dm_all P (dm_modify k f m)"
  by (auto simp: dm_modify_def intro: dm_all_insert dest: dm_all_get split: option.split)

lemma dm_all_push [dm_all_intros]:
  "dm_all P m \<Longrightarrow> P k [v] \<Longrightarrow> (\<And>vs. P k vs \<Longrightarrow> P k (vs @ [v])) \<Longrightarrow> dm_all P (dm_push k v m)"
  by (auto simp: dm_push_def intro: dm_all_insert dest: dm_all_get split: option.split)

lemma dm_all_retain [dm_all_intros]: "dm_all P m \<Longrightarrow> dm_all P (dm_retain Q m)"
  by (auto simp: dm_all_def) (auto simp: dm_retain_def)

lemma dm_all_remove_all [dm_all_intros]: "dm_all P m \<Longrightarrow> dm_all P (dm_remove_all Q m es)"
  unfolding dm_remove_all_def by (rule fold_invariant) (auto intro: dm_all_remove)

lemma dm_all_mem: "dm_all P m \<Longrightarrow> (k, v) \<in> set m \<Longrightarrow> P k v"
  by (auto simp: dm_all_def)

end
