(* ===== verification/Subscribe_Manager.thy ===== *)
theory Subscribe_Manager
  imports Broker_Auth Prog_Invariant
begin

text \<open>
  The subscriptions of the broker: \<open>src/mqtt-broker/src/subscribe/subscribe_manager.rs\<close>,
  \<open>subscribe/subscriber.rs\<close> and \<open>handler/sub_exclusive.rs\<close>.
\<close>

section \<open>Data\<close>

record Subscriber =
  sr_protocol :: MqttProtocol
  sr_client_id :: string
  sr_sub_path :: string
  sr_topic_name :: string
  sr_group_name :: "string option"
  sr_topic_id :: string
  sr_qos :: QoS
  sr_nolocal :: bool
  sr_preserve_retain :: bool
  sr_retain_forward_rule :: RetainForwardRule
  sr_subscription_identifier :: "usize option"

record ShareSubShareSub =
  fs_client_id :: string
  fs_group_name :: string
  fs_sub_name :: string
  fs_protocol :: MqttProtocol
  fs_packet_identifier :: u16
  fs_filter :: Filter
  fs_subscription_identifier :: "usize option"

record ShareLeaderSubscribeData =
  sl_group_name :: string
  sl_topic_id :: string
  sl_topic_name :: string
  sl_sub_name :: string
  sl_sub_list :: "(string, Subscriber) dashmap"

record TopicSubscribeInfo =
  ts_client_id :: string
  ts_path :: string

record SubscribeManager =
  subscribe_list :: "(string, MqttSubscribe) dashmap"
  exclusive_push :: "(string, Subscriber) dashmap"
  exclusive_push_thread :: "(string, sender) dashmap"
  share_leader_push :: "(string, ShareLeaderSubscribeData) dashmap"
  share_leader_push_thread :: "(string, sender) dashmap"
  share_follower_resub :: "(string, ShareSubShareSub) dashmap"
  share_follower_resub_thread :: "(string, sender) dashmap"
  share_follower_identifier_id :: "(usize, string) dashmap"
  exclusive_subscribe :: "(string, string) dashmap"
  topic_subscribe_list :: "(string, TopicSubscribeInfo list) dashmap"

definition subscribe_manager_new :: SubscribeManager where
  "subscribe_manager_new =
     \<lparr>subscribe_list = [], exclusive_push = [], exclusive_push_thread = [], share_leader_push = [],
      share_leader_push_thread = [], share_follower_resub = [], share_follower_resub_thread = [],
      share_follower_identifier_id = [], exclusive_subscribe = [], topic_subscribe_list = []\<rparr>"

section \<open>Keys\<close>

definition subscribe_key :: "string \<Rightarrow> string \<Rightarrow> string" where
  "subscribe_key cid p = cid @ ''_'' @ p"

definition exclusive_key :: "string \<Rightarrow> string \<Rightarrow> string \<Rightarrow> string" where
  "exclusive_key cid sub_name tid = cid @ ''_'' @ sub_name @ ''_'' @ tid"

definition share_leader_key :: "string \<Rightarrow> string \<Rightarrow> string \<Rightarrow> string" where
  "share_leader_key group_name sub_name tid = group_name @ ''_'' @ sub_name @ ''_'' @ tid"

definition share_leader_sub_key :: "string \<Rightarrow> string \<Rightarrow> string" where
  "share_leader_sub_key cid sub_path = cid @ ''_'' @ sub_path"

definition share_follower_key :: "string \<Rightarrow> string \<Rightarrow> string \<Rightarrow> string" where
  "share_follower_key cid group_name tid = cid @ ''_'' @ group_name @ ''_'' @ tid"

section \<open>Topic subscriptions\<close>

definition add_topic_subscribe :: "string \<Rightarrow> string \<Rightarrow> string \<Rightarrow> SubscribeManager \<Rightarrow> SubscribeManager" where
  "add_topic_subscribe topic_name cid p self =
     self\<lparr>topic_subscribe_list :=
       dm_push topic_name \<lparr>ts_client_id = cid, ts_path = p\<rparr> (topic_subscribe_list self)\<rparr>"

definition contain_topic_subscribe :: "SubscribeManager \<Rightarrow> string \<Rightarrow> bool" where
  "contain_topic_subscribe self topic_name =
     (case dm_get (topic_subscribe_list self) topic_name of Some l \<Rightarrow> l \<noteq> [] | None \<Rightarrow> False)"

definition remove_topic_subscribe_by_client_id :: "string \<Rightarrow> string \<Rightarrow> SubscribeManager \<Rightarrow> SubscribeManager" where
  "remove_topic_subscribe_by_client_id topic_name cid self =
     self\<lparr>topic_subscribe_list :=
       dm_modify topic_name (filter (\<lambda>x. ts_client_id x = cid)) (topic_subscribe_list self)\<rparr>"

definition remove_topic_subscribe_by_path :: "string \<Rightarrow> string \<Rightarrow> SubscribeManager \<Rightarrow> SubscribeManager" where
  "remove_topic_subscribe_by_path topic_name p self =
     self\<lparr>topic_subscribe_list :=
       dm_modify topic_name (filter (\<lambda>x. ts_path x = p)) (topic_subscribe_list self)\<rparr>"

section \<open>Subscriptions\<close>

definition add_subscribe :: "MqttSubscribe \<Rightarrow> SubscribeManager \<Rightarrow> SubscribeManager" where
  "add_subscribe subscribe self =
     self\<lparr>subscribe_list :=
       dm_insert (subscribe_key (ms_client_id subscribe) (ms_path subscribe)) subscribe (subscribe_list self)\<rparr>"

definition get_subscribe :: "SubscribeManager \<Rightarrow> string \<Rightarrow> string \<Rightarrow> MqttSubscribe option" where
  "get_subscribe self cid p = dm_get (subscribe_list self) (subscribe_key cid p)"

definition manager_remove_subscribe :: "string \<Rightarrow> string \<Rightarrow> SubscribeManager \<Rightarrow> SubscribeManager" where
  "manager_remove_subscribe cid p self =
     self\<lparr>subscribe_list := dm_remove (subscribe_key cid p) (subscribe_list self)\<rparr>"

definition manager_add_exclusive_push ::
    "string \<Rightarrow> string \<Rightarrow> string \<Rightarrow> Subscriber \<Rightarrow> SubscribeManager \<Rightarrow> SubscribeManager" where
  "manager_add_exclusive_push cid p tid sub self =
     self\<lparr>exclusive_push := dm_insert (exclusive_key cid p tid) sub (exclusive_push self)\<rparr>"

definition remove_exclusive_push_by_client_id :: "string \<Rightarrow> SubscribeManager \<Rightarrow> SubscribeManager" where
  "remove_exclusive_push_by_client_id cid self =
     fold (\<lambda>(key, subscriber) self.
       if sr_client_id subscriber = cid then
         remove_topic_subscribe_by_client_id (sr_topic_name subscriber) (sr_client_id subscriber)
           (self\<lparr>exclusive_push := dm_remove key (exclusive_push self)\<rparr>)
       else self) (exclusive_push self) self"

text \<open>\<open>group_name\<close> is unwrapped.\<close>

definition add_share_subscribe_leader ::
    "string \<Rightarrow> Subscriber \<Rightarrow> SubscribeManager \<Rightarrow> (SubscribeManager, 'e) result" where
  "add_share_subscribe_leader sub_name sub self =
     and_then (unwrap (sr_group_name sub)) (\<lambda>group_name.
       let key = share_leader_key group_name sub_name (sr_topic_id sub);
           leader_sub_key = share_leader_sub_key (sr_client_id sub) sub_name in
       Ok (self\<lparr>share_leader_push :=
         (case dm_get (share_leader_push self) key of
            Some share_sub \<Rightarrow>
              dm_insert key (share_sub\<lparr>sl_sub_list := dm_insert leader_sub_key sub (sl_sub_list share_sub)\<rparr>)
                (share_leader_push self)
          | None \<Rightarrow>
              dm_insert key \<lparr>sl_group_name = group_name, sl_topic_id = sr_topic_id sub,
                sl_topic_name = sr_topic_name sub, sl_sub_name = sub_name,
                sl_sub_list = [(leader_sub_key, sub)]\<rparr> (share_leader_push self))\<rparr>))"

definition remove_share_leader_sub :: "string \<Rightarrow> string \<Rightarrow> SubscribeManager \<Rightarrow> SubscribeManager" where
  "remove_share_leader_sub key sub_key self =
     self\<lparr>share_leader_push :=
       dm_modify key (\<lambda>data. data\<lparr>sl_sub_list := dm_remove sub_key (sl_sub_list data)\<rparr>) (share_leader_push self)\<rparr>"

definition remove_share_subscribe_leader_by_client_id :: "string \<Rightarrow> SubscribeManager \<Rightarrow> SubscribeManager" where
  "remove_share_subscribe_leader_by_client_id cid self =
     fold (\<lambda>(key, share_sub) self.
       fold (\<lambda>(sub_key, subscriber) self.
         if sr_client_id subscriber = cid then
           remove_topic_subscribe_by_client_id (sr_topic_name subscriber) (sr_client_id subscriber)
             (remove_share_leader_sub key sub_key self)
         else self) (sl_sub_list share_sub) self) (share_leader_push self) self"

definition add_share_subscribe_follower ::
    "string \<Rightarrow> string \<Rightarrow> string \<Rightarrow> ShareSubShareSub \<Rightarrow> SubscribeManager \<Rightarrow> SubscribeManager" where
  "add_share_subscribe_follower cid group_name tid share_sub self =
     self\<lparr>share_follower_resub :=
       dm_insert (share_follower_key cid group_name tid) share_sub (share_follower_resub self)\<rparr>"

definition remove_share_subscribe_follower_by_client_id :: "string \<Rightarrow> SubscribeManager \<Rightarrow> SubscribeManager" where
  "remove_share_subscribe_follower_by_client_id cid self =
     self\<lparr>share_follower_resub :=
       dm_remove_all (\<lambda>_ share_sub. fs_client_id share_sub = cid) (share_follower_resub self)
         (share_follower_resub self)\<rparr>"

section \<open>Exclusive subscriptions\<close>

definition is_exclusive_subscribe :: "SubscribeManager \<Rightarrow> string \<Rightarrow> bool" where
  "is_exclusive_subscribe self t = dm_contains (exclusive_subscribe self) t"

definition manager_add_exclusive_subscribe :: "string \<Rightarrow> string \<Rightarrow> SubscribeManager \<Rightarrow> SubscribeManager" where
  "manager_add_exclusive_subscribe t cid self =
     self\<lparr>exclusive_subscribe := dm_insert t cid (exclusive_subscribe self)\<rparr>"

definition remove_exclusive_subscribe_by_topic :: "string \<Rightarrow> SubscribeManager \<Rightarrow> SubscribeManager" where
  "remove_exclusive_subscribe_by_topic t self =
     self\<lparr>exclusive_subscribe := dm_remove t (exclusive_subscribe self)\<rparr>"

definition remove_exclusive_subscribe_by_client_id :: "string \<Rightarrow> SubscribeManager \<Rightarrow> SubscribeManager" where
  "remove_exclusive_subscribe_by_client_id cid self =
     self\<lparr>exclusive_subscribe :=
       dm_remove_all (\<lambda>_ c. c = cid) (exclusive_subscribe self) (exclusive_subscribe self)\<rparr>"

definition remove_client_id :: "string \<Rightarrow> SubscribeManager \<Rightarrow> SubscribeManager" where
  "remove_client_id cid self =
     remove_exclusive_subscribe_by_client_id cid
       (remove_share_subscribe_follower_by_client_id cid
         (remove_share_subscribe_leader_by_client_id cid
           (remove_exclusive_push_by_client_id cid self)))"

definition check_exclusive_subscribe ::
    "CacheManager \<Rightarrow> SubscribeManager \<Rightarrow> Subscribe \<Rightarrow> (bool, 'e) result" where
  "check_exclusive_subscribe metadata_cache subscribe_manager subscribe =
     and_then (get_cluster_info metadata_cache) (\<lambda>cluster.
       if exclusive_subscription_available (cl_feature cluster) = Disable then Ok False
       else Ok (\<not> list_ex (\<lambda>f. is_exclusive_sub (path f) \<and>
         is_exclusive_subscribe subscribe_manager (decode_exclusive_sub_path_to_topic_name (path f)))
           (s_filters subscribe)))"

definition add_exclusive_subscribe :: "string \<Rightarrow> string \<Rightarrow> SubscribeManager \<Rightarrow> SubscribeManager" where
  "add_exclusive_subscribe p cid subscribe_manager =
     (if \<not> is_exclusive_sub p then subscribe_manager
      else manager_add_exclusive_subscribe (decode_exclusive_sub_path_to_topic_name p) cid subscribe_manager)"

text \<open>The loop returns at the first path that is not exclusive.\<close>

fun remove_exclusive_subscribe_loop :: "string list \<Rightarrow> SubscribeManager \<Rightarrow> SubscribeManager" where
  "remove_exclusive_subscribe_loop [] subscribe_manager = subscribe_manager"
| "remove_exclusive_subscribe_loop (p # filters) subscribe_manager =
     (if \<not> is_exclusive_sub p then subscribe_manager
      else remove_exclusive_subscribe_loop filters
        (remove_exclusive_subscribe_by_topic (decode_exclusive_sub_path_to_topic_name p) subscribe_manager))"

definition remove_exclusive_subscribe :: "Unsubscribe \<Rightarrow> SubscribeManager \<Rightarrow> SubscribeManager" where
  "remove_exclusive_subscribe un_subscribe subscribe_manager =
     remove_exclusive_subscribe_loop (u_filters un_subscribe) subscribe_manager"

definition remove_exclusive_subscribe_by_path :: "string \<Rightarrow> SubscribeManager \<Rightarrow> SubscribeManager" where
  "remove_exclusive_subscribe_by_path p subscribe_manager =
     (if \<not> is_exclusive_sub p then subscribe_manager
      else remove_exclusive_subscribe_by_topic (decode_exclusive_sub_path_to_topic_name p) subscribe_manager)"

end
