(* ===== verification/Subscriptions.thy ===== *)
theory Subscriptions
  imports Subscribe_Manager
begin

text \<open>
  Subscribing, unsubscribing and topic rewriting: \<open>src/mqtt-broker/src/handler/subscribe.rs\<close>,
  \<open>handler/unsubscribe.rs\<close>, \<open>handler/sub_parse_topic.rs\<close> and \<open>handler/topic_rewrite.rs\<close>.

  The placement center is a parameter: its calls are programs over its state \<open>'p\<close>.  The requests carry
  the encoded struct; the parameter takes the struct itself.  Whether a channel still has a receiver is
  a parameter too.
\<close>

record 'p sub_env =
  se_regex :: regex
  se_cluster_name :: string
  se_broker_id :: u64
  se_set_subscribe :: "MqttSubscribe \<Rightarrow> ('p, unit) cprog"
  se_delete_subscribe :: "string \<Rightarrow> string \<Rightarrow> string \<Rightarrow> ('p, unit) cprog"
  se_get_share_sub_leader :: "string \<Rightarrow> string \<Rightarrow> ('p, u64) cprog"
  se_has_receiver :: "sender \<Rightarrow> bool"

type_synonym ('p, 'a) subprog = "(SubscribeManager \<times> 'p, 'a, MqttBrokerError) prog"

definition on_subs :: "(SubscribeManager \<Rightarrow> SubscribeManager) \<Rightarrow> ('p, unit) subprog" where
  "on_subs f = s_upd (\<lambda>(m, p). (f m, p))"

definition on_placement :: "('p, 'a) cprog \<Rightarrow> (SubscribeManager \<times> 'p, 'a) cprog" where
  "on_placement c = (\<lambda>(m, p). case c p of (r, p') \<Rightarrow> (r, (m, p')))"

section \<open>Topic rewriting\<close>

text \<open>The loop over the rules, the newest first.\<close>

definition rewrite_rules :: "(string, MqttTopicRewriteRule) dashmap \<Rightarrow> MqttTopicRewriteRule list" where
  "rewrite_rules rules_map = rev (sort_key rw_timestamp (dm_values rules_map))"

fun rewrite_path :: "regex \<Rightarrow> MqttTopicRewriteRule list \<Rightarrow> string \<Rightarrow> (string, 'e) result" where
  "rewrite_path R [] p = Ok p"
| "rewrite_path R (rule # rules) p =
     (if rw_action rule \<noteq> rewrite_action_to_string RA_All \<and> rw_action rule \<noteq> rewrite_action_to_string RA_Subscribe
      then rewrite_path R rules p
      else
        and_then (path_regex_match R p (rw_source_topic rule)) (\<lambda>matched.
          if matched then
            and_then (gen_rewrite_topic R p (rw_regex rule) (rw_dest_topic rule)) (\<lambda>val.
              rewrite_path R rules (case val of Some val \<Rightarrow> val | None \<Rightarrow> p))
          else rewrite_path R rules p))"

fun r_map :: "('a \<Rightarrow> ('b, 'e) result) \<Rightarrow> 'a list \<Rightarrow> ('b list, 'e) result" where
  "r_map f [] = Ok []"
| "r_map f (x # xs) = and_then (f x) (\<lambda>y. and_then (r_map f xs) (\<lambda>ys. Ok (y # ys)))"

definition process_sub_topic_rewrite ::
    "regex \<Rightarrow> Subscribe \<Rightarrow> (string, MqttTopicRewriteRule) dashmap \<Rightarrow> (Subscribe, 'e) result" where
  "process_sub_topic_rewrite R subscribe rules_map =
     and_then (r_map (\<lambda>f. and_then (rewrite_path R (rewrite_rules rules_map) (path f)) (\<lambda>p. Ok (f\<lparr>path := p\<rparr>)))
         (s_filters subscribe)) (\<lambda>filters. Ok (subscribe\<lparr>s_filters := filters\<rparr>))"

definition process_unsub_topic_rewrite ::
    "regex \<Rightarrow> Unsubscribe \<Rightarrow> (string, MqttTopicRewriteRule) dashmap \<Rightarrow> (Unsubscribe, 'e) result" where
  "process_unsub_topic_rewrite R un_subscribe rules_map =
     and_then (r_map (rewrite_path R (rewrite_rules rules_map)) (u_filters un_subscribe)) (\<lambda>filters.
       Ok (un_subscribe\<lparr>u_filters := filters\<rparr>))"

fun rewrite_publish :: "regex \<Rightarrow> MqttTopicRewriteRule list \<Rightarrow> string \<Rightarrow> (string option, 'e) result" where
  "rewrite_publish R [] topic_name = Ok None"
| "rewrite_publish R (rule # rules) topic_name =
     (if rw_action rule \<noteq> rewrite_action_to_string RA_All \<and> rw_action rule \<noteq> rewrite_action_to_string RA_Publish
      then rewrite_publish R rules topic_name
      else
        and_then (path_regex_match R topic_name (rw_source_topic rule)) (\<lambda>matched.
          if matched then
            and_then (gen_rewrite_topic R topic_name (rw_regex rule) (rw_dest_topic rule)) (\<lambda>rewrite_topic.
              case rewrite_topic of
                Some rewrite_topic \<Rightarrow> Ok (Some rewrite_topic)
              | None \<Rightarrow> Ok (Some topic_name))
          else rewrite_publish R rules topic_name))"

definition process_publish_topic_rewrite ::
    "regex \<Rightarrow> string \<Rightarrow> (string, MqttTopicRewriteRule) dashmap \<Rightarrow> (string option, 'e) result" where
  "process_publish_topic_rewrite R topic_name rules_map = rewrite_publish R (rewrite_rules rules_map) topic_name"

section \<open>Subscribing\<close>

record ParseShareQueueSubscribeRequest =
  pq_topic_name :: string
  pq_topic_id :: string
  pq_client_id :: string
  pq_protocol :: MqttProtocol
  pq_sub_identifier :: "usize option"
  pq_filter :: Filter
  pq_sub_name :: string
  pq_group_name :: string
  pq_pkid :: u16

definition add_share_push_leader ::
    "ParseShareQueueSubscribeRequest \<Rightarrow> SubscribeManager \<Rightarrow> (SubscribeManager, 'e) result" where
  "add_share_push_leader req m =
     (let sub = \<lparr>sr_protocol = pq_protocol req, sr_client_id = pq_client_id req,
            sr_sub_path = path (pq_filter req), sr_topic_name = pq_topic_name req,
            sr_group_name = Some (pq_group_name req), sr_topic_id = pq_topic_id req,
            sr_qos = f_qos (pq_filter req), sr_nolocal = nolocal (pq_filter req),
            sr_preserve_retain = preserve_retain (pq_filter req),
            sr_retain_forward_rule = retain_forward_rule (pq_filter req),
            sr_subscription_identifier = pq_sub_identifier req\<rparr> in
      add_share_subscribe_leader (pq_sub_name req) sub
        (add_topic_subscribe (pq_topic_name req) (pq_client_id req) (path (pq_filter req)) m))"

definition add_share_push_follower :: "ParseShareQueueSubscribeRequest \<Rightarrow> SubscribeManager \<Rightarrow> SubscribeManager" where
  "add_share_push_follower req m =
     add_share_subscribe_follower (pq_client_id req) (pq_group_name req) (pq_topic_id req)
       \<lparr>fs_client_id = pq_client_id req, fs_group_name = pq_group_name req, fs_sub_name = pq_sub_name req,
        fs_protocol = pq_protocol req, fs_packet_identifier = pq_pkid req, fs_filter = pq_filter req,
        fs_subscription_identifier = pq_sub_identifier req\<rparr> m"

definition parse_share_queue_subscribe_common ::
    "'p sub_env \<Rightarrow> ParseShareQueueSubscribeRequest \<Rightarrow> (SubscribeManager \<times> 'p, unit, 'e) prog" where
  "parse_share_queue_subscribe_common E req =
     s_bind (s_lift (path_regex_match (se_regex E) (pq_topic_name req) (pq_sub_name req))) (\<lambda>matched.
       if matched then
         s_match (on_placement (se_get_share_sub_leader E (se_cluster_name E) (pq_group_name req)))
           (\<lambda>broker_id.
             if broker_id = se_broker_id E then
               (\<lambda>(m, p). case add_share_push_leader req m of
                   Ok m' \<Rightarrow> (Ok (), (m', p))
                 | Err e \<Rightarrow> (Err e, (m, p))
                 | Panic \<Rightarrow> (Panic, (m, p)))
             else s_upd (\<lambda>(m, p). (add_share_push_follower req m, p)))
           (\<lambda>_. s_ok ())
       else s_ok ())"

definition parse_share_subscribe ::
    "'p sub_env \<Rightarrow> ParseShareQueueSubscribeRequest \<Rightarrow> (SubscribeManager \<times> 'p, unit, 'e) prog" where
  "parse_share_subscribe E req =
     s_bind (s_lift (decode_share_info (path (pq_filter req)))) (\<lambda>(group_name, sub_name).
       parse_share_queue_subscribe_common E
         (req\<lparr>pq_group_name := group_name @ ''_'' @ sub_name, pq_sub_name := sub_name\<rparr>))"

definition parse_queue_subscribe ::
    "'p sub_env \<Rightarrow> ParseShareQueueSubscribeRequest \<Rightarrow> (SubscribeManager \<times> 'p, unit, 'e) prog" where
  "parse_queue_subscribe E req =
     s_bind (s_lift (decode_queue_info (path (pq_filter req)))) (\<lambda>sub_name.
       parse_share_queue_subscribe_common E
         (req\<lparr>pq_group_name := ''$queue_'' @ sub_name, pq_sub_name := sub_name\<rparr>))"

definition exclusive_subscriber ::
    "string \<Rightarrow> MqttTopic \<Rightarrow> MqttProtocol \<Rightarrow> usize option \<Rightarrow> Filter \<Rightarrow> Subscriber" where
  "exclusive_subscriber cid t protocol sub_identifier f =
     \<lparr>sr_protocol = protocol, sr_client_id = cid, sr_sub_path = path f, sr_topic_name = t_topic_name t,
      sr_group_name = None, sr_topic_id = topic_id t, sr_qos = f_qos f, sr_nolocal = nolocal f,
      sr_preserve_retain = preserve_retain f, sr_retain_forward_rule = retain_forward_rule f,
      sr_subscription_identifier = sub_identifier\<rparr>"

definition add_exclusive_push ::
    "regex \<Rightarrow> MqttTopic \<Rightarrow> string \<Rightarrow> MqttProtocol \<Rightarrow> usize option \<Rightarrow> Filter \<Rightarrow>
     (SubscribeManager \<times> 'p, unit, 'e) prog" where
  "add_exclusive_push R t cid protocol sub_identifier f =
     s_bind (s_lift (path_regex_match R (t_topic_name t) (path f))) (\<lambda>matched.
       if matched then
         s_upd (\<lambda>(m, p). (manager_add_exclusive_push cid (path f) (topic_id t)
           (exclusive_subscriber cid t protocol sub_identifier f) (add_topic_subscribe (t_topic_name t) cid (path f) m), p))
       else s_ok ())"

definition parse_subscribe ::
    "'p sub_env \<Rightarrow> CacheManager \<Rightarrow> string \<Rightarrow> MqttTopic \<Rightarrow> MqttProtocol \<Rightarrow> u16 \<Rightarrow> Filter \<Rightarrow>
     SubscribeProperties option \<Rightarrow> (SubscribeManager \<times> 'p, unit, 'e) prog" where
  "parse_subscribe E metadata_cache cid t protocol pkid f subscribe_properties =
     (let sub_identifier = (case subscribe_properties of
            Some properties \<Rightarrow> sp_subscription_identifier properties | None \<Rightarrow> None);
          req = \<lparr>pq_topic_name = t_topic_name t, pq_topic_id = topic_id t, pq_client_id = cid,
            pq_protocol = protocol, pq_sub_identifier = sub_identifier, pq_filter = f,
            pq_sub_name = [], pq_group_name = [], pq_pkid = pkid\<rparr> in
      s_bind (s_lift (get_cluster_info metadata_cache)) (\<lambda>cluster.
      s_bind (if exclusive_subscription_available (cl_feature cluster) = Enable
              then s_upd (\<lambda>(m, p). (add_exclusive_subscribe (path f) cid m, p)) else s_ok ()) (\<lambda>_.
        if is_share_sub (path f) then parse_share_subscribe E req
        else if is_queue_sub (path f) then parse_queue_subscribe E req
        else add_exclusive_push (se_regex E) t cid protocol sub_identifier f)))"

definition save_subscribe ::
    "'p sub_env \<Rightarrow> CacheManager \<Rightarrow> string \<Rightarrow> MqttProtocol \<Rightarrow> Subscribe \<Rightarrow> SubscribeProperties option \<Rightarrow>
     ('p, unit) subprog" where
  "save_subscribe E cache_manager cid protocol subscribe subscribe_properties =
     s_bind (s_for (s_filters subscribe) (\<lambda>f.
         let subscribe_data = \<lparr>ms_client_id = cid, ms_path = path f, ms_cluster_name = se_cluster_name E,
               ms_broker_id = se_broker_id E, ms_protocol = protocol, ms_filter = f,
               ms_pkid = packet_identifier subscribe, ms_subscribe_properties = subscribe_properties\<rparr> in
         s_bind (from_common (on_placement (se_set_subscribe E subscribe_data))) (\<lambda>_.
           on_subs (add_subscribe subscribe_data)))) (\<lambda>_.
       s_for (dm_values (topic_info cache_manager)) (\<lambda>t.
         s_for (s_filters subscribe) (\<lambda>f.
           parse_subscribe E cache_manager cid t protocol (packet_identifier subscribe) f subscribe_properties)))"

definition parse_subscribe_by_new_topic :: "'p sub_env \<Rightarrow> CacheManager \<Rightarrow> u64 \<Rightarrow> ('p, unit) subprog" where
  "parse_subscribe_by_new_topic E metadata_cache last_update_time =
     s_for (dm_values (topic_info metadata_cache)) (\<lambda>t.
       if t_create_time t < last_update_time then s_ok ()
       else
         s_bind (s_get (\<lambda>(m, _). dm_values (subscribe_list m))) (\<lambda>subscribes.
           s_for subscribes (\<lambda>subscribe.
             if ms_broker_id subscribe \<noteq> se_broker_id E then s_ok ()
             else parse_subscribe E metadata_cache (ms_client_id subscribe) t (ms_protocol subscribe)
               (ms_pkid subscribe) (ms_filter subscribe) (ms_subscribe_properties subscribe))))"

section \<open>Unsubscribing\<close>

type_synonym 'a mprog = "(SubscribeManager, 'a, MqttBrokerError) prog"

definition send_stop :: "'p sub_env \<Rightarrow> sender \<Rightarrow> 'a mprog \<Rightarrow> 'a mprog" where
  "send_stop E sx k = (if se_has_receiver E sx then k else s_err BE_TokioBroadcastSendError)"

definition unsubscribe_leader ::
    "'p sub_env \<Rightarrow> string \<Rightarrow> string \<Rightarrow> string \<Rightarrow> string \<times> ShareLeaderSubscribeData \<Rightarrow> unit mprog" where
  "unsubscribe_leader E cid group_name sub_name = (\<lambda>(key, data).
     s_bind (s_fold (\<lambda>(sub_key, share_sub) flag.
         if sr_client_id share_sub = cid \<and> sr_group_name share_sub = Some group_name \<and>
            sr_sub_path share_sub = sub_name then
           s_bind (s_upd (\<lambda>m. remove_topic_subscribe_by_path (sr_topic_name share_sub) (sr_sub_path share_sub)
             (remove_share_leader_sub key sub_key m))) (\<lambda>_. s_ok True)
         else s_ok flag) (sl_sub_list data) False) (\<lambda>flag.
       if flag then
         s_bind (s_get (\<lambda>m. dm_get (share_leader_push_thread m) key)) (\<lambda>sx.
           case sx of Some sx \<Rightarrow> send_stop E sx (s_ok ()) | None \<Rightarrow> s_ok ())
       else s_ok ()))"

definition unsubscribe_follower :: "'p sub_env \<Rightarrow> string \<Rightarrow> string \<Rightarrow> string \<times> ShareSubShareSub \<Rightarrow> unit mprog" where
  "unsubscribe_follower E cid p = (\<lambda>(key, data).
     if fs_client_id data = cid \<and> path (fs_filter data) = p then
       s_bind (s_upd (\<lambda>m. m\<lparr>share_follower_resub := dm_remove key (share_follower_resub m)\<rparr>)) (\<lambda>_.
       s_bind (s_get (\<lambda>m. dm_get (share_follower_resub_thread m) key)) (\<lambda>sx.
         case sx of Some sx \<Rightarrow> send_stop E sx (s_ok ()) | None \<Rightarrow> s_ok ()))
     else s_ok ())"

definition unsubscribe_exclusive :: "'p sub_env \<Rightarrow> string \<Rightarrow> string \<Rightarrow> string \<times> Subscriber \<Rightarrow> unit mprog" where
  "unsubscribe_exclusive E cid p = (\<lambda>(key, subscriber).
     if sr_client_id subscriber = cid \<and> sr_sub_path subscriber = p then
       s_bind (s_get (\<lambda>m. dm_get (exclusive_push_thread m) key)) (\<lambda>sx.
       s_bind (case sx of
           Some sx \<Rightarrow> send_stop E sx (s_upd (\<lambda>m. m\<lparr>exclusive_push := dm_remove key (exclusive_push m)\<rparr>))
         | None \<Rightarrow> s_ok ()) (\<lambda>_.
         s_upd (remove_topic_subscribe_by_path (sr_topic_name subscriber) (sr_sub_path subscriber))))
     else s_ok ())"

definition unsubscribe_by_path :: "'p sub_env \<Rightarrow> CacheManager \<Rightarrow> string \<Rightarrow> string list \<Rightarrow> unit mprog" where
  "unsubscribe_by_path E cache_manager cid filter_path =
     s_for (map fst (topic_info cache_manager)) (\<lambda>topic_name.
       s_for filter_path (\<lambda>p.
         s_bind (s_lift (path_regex_match (se_regex E) topic_name p)) (\<lambda>matched.
           if \<not> matched then s_ok ()
           else if is_share_sub p then
             s_bind (s_lift (decode_share_info p)) (\<lambda>(group_name, sub_name).
             s_bind (s_get share_leader_push) (\<lambda>leaders.
             s_bind (s_for leaders (unsubscribe_leader E cid group_name sub_name)) (\<lambda>_.
             s_bind (s_get share_follower_resub) (\<lambda>followers.
               s_for followers (unsubscribe_follower E cid p)))))
           else
             s_bind (s_get exclusive_push) (\<lambda>subscribers.
               s_for subscribers (unsubscribe_exclusive E cid p)))))"

definition remove_subscribe :: "'p sub_env \<Rightarrow> CacheManager \<Rightarrow> string \<Rightarrow> Unsubscribe \<Rightarrow> ('p, unit) subprog" where
  "remove_subscribe E cache_manager cid un_subscribe =
     s_bind (s_for (u_filters un_subscribe) (\<lambda>p.
         s_bind (from_common (on_placement (se_delete_subscribe E (se_cluster_name E) cid p))) (\<lambda>_.
           on_subs (manager_remove_subscribe cid p)))) (\<lambda>_.
     s_bind (on_subs (remove_exclusive_subscribe un_subscribe)) (\<lambda>_.
       (\<lambda>(m, p). case unsubscribe_by_path E cache_manager cid (u_filters un_subscribe) m of (r, m') \<Rightarrow> (r, (m', p)))))"


section \<open>What a plain subscription does\<close>

definition subscribe_data ::
    "'p sub_env \<Rightarrow> string \<Rightarrow> MqttProtocol \<Rightarrow> u16 \<Rightarrow> SubscribeProperties option \<Rightarrow> Filter \<Rightarrow> MqttSubscribe" where
  "subscribe_data E cid protocol pkid props f =
     \<lparr>ms_client_id = cid, ms_path = path f, ms_cluster_name = se_cluster_name E, ms_broker_id = se_broker_id E,
      ms_protocol = protocol, ms_filter = f, ms_pkid = pkid, ms_subscribe_properties = props\<rparr>"

definition plain_step ::
    "bool \<Rightarrow> string \<Rightarrow> MqttProtocol \<Rightarrow> usize option \<Rightarrow> (MqttTopic \<Rightarrow> Filter \<Rightarrow> bool) \<Rightarrow> MqttTopic \<times> Filter \<Rightarrow>
     SubscribeManager \<Rightarrow> SubscribeManager" where
  "plain_step avail cid protocol ident mt = (\<lambda>(t, f) m.
     let m = (if avail then add_exclusive_subscribe (path f) cid m else m) in
     if mt t f then manager_add_exclusive_push cid (path f) (topic_id t) (exclusive_subscriber cid t protocol ident f)
       (add_topic_subscribe (t_topic_name t) cid (path f) m)
     else m)"

lemma parse_subscribe_plain:
  assumes "get_cluster_info c = (Ok cluster :: (MqttClusterDynamicConfig, 'e) result)"
    and "\<not> is_share_sub (path f)" "\<not> is_queue_sub (path f)"
    and "path_regex_match (se_regex E) (t_topic_name t) (path f) = (Ok (mt t f) :: (bool, 'e) result)"
  shows "parse_subscribe E c cid t protocol pkid f props (m, p) =
    ((Ok () :: (unit, 'e) result), (plain_step (exclusive_subscription_available (cl_feature cluster) = Enable) cid protocol
      (case props of Some q \<Rightarrow> sp_subscription_identifier q | None \<Rightarrow> None) mt (t, f) m, p))"
  using assms by (simp add: parse_subscribe_def add_exclusive_push_def plain_step_def Let_def st_simps)

lemma plain_step_simps [simp]:
  "subscribe_list (plain_step a cid pr i mt tf m) = subscribe_list m"
  "exclusive_push (plain_step a cid pr i mt tf m) =
     (if mt (fst tf) (snd tf) then dm_insert (exclusive_key cid (path (snd tf)) (topic_id (fst tf)))
        (exclusive_subscriber cid (fst tf) pr i (snd tf)) (exclusive_push m) else exclusive_push m)"
  by (cases tf, simp add: plain_step_def Let_def add_exclusive_subscribe_def manager_add_exclusive_subscribe_def
      manager_add_exclusive_push_def add_topic_subscribe_def)+

lemma fold_plain_step:
  "subscribe_list (fold (plain_step a cid pr i mt) tfs m) = subscribe_list m"
  "exclusive_push (fold (plain_step a cid pr i mt) tfs m) =
     fold (\<lambda>tf. dm_insert (exclusive_key cid (path (snd tf)) (topic_id (fst tf)))
       (exclusive_subscriber cid (fst tf) pr i (snd tf))) (filter (\<lambda>tf. mt (fst tf) (snd tf)) tfs) (exclusive_push m)"
  by (induction tfs arbitrary: m) auto

lemma fold_product: "fold (\<lambda>x. fold (\<lambda>y. g (x, y)) ys) xs s = fold g (List.product xs ys) s"
  by (induction xs arbitrary: s) (simp_all add: fold_map comp_def)

lemma s_for_placement:
  assumes "\<And>d p. \<exists>p'. c d p = (Ok (), p')"
  shows "\<exists>p'. s_for xs (\<lambda>x. s_bind (from_common (on_placement (c (h x)))) (\<lambda>_. on_subs (u x))) (m, p) =
    (Ok (), (fold u xs m, p'))"
proof (induction xs arbitrary: m p)
  case (Cons x xs)
  obtain p' where "c (h x) p = (Ok (), p')"
    using assms by blast
  then have "s_bind (from_common (on_placement (c (h x)))) (\<lambda>_. on_subs (u x)) (m, p) = (Ok (), (u x m, p'))"
    by (simp add: from_common_def on_placement_def on_subs_def st_simps)
  then show ?case
    using Cons.IH [of "u x m" p'] by (auto simp: st_simps)
qed (simp add: st_simps)

lemma fold_add_subscribe_push [simp]:
  "exclusive_push (fold (\<lambda>f. add_subscribe (d f)) fs m) = exclusive_push m"
  by (induction fs arbitrary: m) (simp_all add: add_subscribe_def)

lemma get_subscribe_fold:
  assumes "distinct (map path fs)" "f \<in> set fs"
  shows "get_subscribe (fold (\<lambda>f. add_subscribe (subscribe_data E cid pr pkid props f)) fs m) cid (path f) =
    Some (subscribe_data E cid pr pkid props f)"
proof -
  have list: "subscribe_list (fold (\<lambda>f. add_subscribe (subscribe_data E cid pr pkid props f)) fs m) =
    fold (\<lambda>f. dm_insert (subscribe_key cid (path f)) (subscribe_data E cid pr pkid props f)) fs (subscribe_list m)"
    by (induction fs arbitrary: m) (simp_all add: add_subscribe_def subscribe_data_def)
  have "g = f" if "g \<in> set fs" "path g = path f" for g
    using that assms by (metis distinct_map inj_on_eq_iff)
  then show ?thesis
    unfolding get_subscribe_def list using assms(2)
    by (subst dm_get_fold_insert [where v = "subscribe_data E cid pr pkid props f"]) (auto simp: subscribe_key_def)
qed

lemma save_subscribe_plain:
  fixes E :: "'p sub_env"
  assumes "get_cluster_info cache = (Ok cluster :: (MqttClusterDynamicConfig, MqttBrokerError) result)"
    and "\<forall>f\<in>set (s_filters s). \<not> is_share_sub (path f) \<and> \<not> is_queue_sub (path f)"
    and "\<forall>t\<in>set (dm_values (topic_info cache)). \<forall>f\<in>set (s_filters s).
      path_regex_match (se_regex E) (t_topic_name t) (path f) = (Ok (mt t f) :: (bool, MqttBrokerError) result)"
    and "\<And>d p. \<exists>p'. se_set_subscribe E d p = (Ok (), p')"
  shows "\<exists>p'. save_subscribe E cache cid pr s props (m, p) =
    (Ok (), (fold (plain_step (exclusive_subscription_available (cl_feature cluster) = Enable) cid pr
        (case props of Some q \<Rightarrow> sp_subscription_identifier q | None \<Rightarrow> None) mt)
      (List.product (dm_values (topic_info cache)) (s_filters s))
      (fold (\<lambda>f. add_subscribe (subscribe_data E cid pr (packet_identifier s) props f)) (s_filters s) m), p'))"
proof -
  let ?st = "plain_step (exclusive_subscription_available (cl_feature cluster) = Enable) cid pr
    (case props of Some q \<Rightarrow> sp_subscription_identifier q | None \<Rightarrow> None) mt"
  let ?m = "fold (\<lambda>f. add_subscribe (subscribe_data E cid pr (packet_identifier s) props f)) (s_filters s) m"
  obtain p' where 1: "s_for (s_filters s) (\<lambda>f. s_bind (from_common (on_placement (se_set_subscribe E
      (subscribe_data E cid pr (packet_identifier s) props f))))
      (\<lambda>_. on_subs (add_subscribe (subscribe_data E cid pr (packet_identifier s) props f)))) (m, p) = (Ok (), (?m, p'))"
    using s_for_placement [where c = "se_set_subscribe E" and xs = "s_filters s" and m = m and p = p
        and h = "subscribe_data E cid pr (packet_identifier s) props"
        and u = "\<lambda>f. add_subscribe (subscribe_data E cid pr (packet_identifier s) props f)", OF assms(4)] by blast
  have inner: "s_for (s_filters s) (\<lambda>f. parse_subscribe E cache cid t pr (packet_identifier s) f props) (m, p) =
    (Ok () :: (unit, MqttBrokerError) result, case (m, p) of (m, p) \<Rightarrow> (fold (\<lambda>f. ?st (t, f)) (s_filters s) m, p))"
    if "t \<in> set (dm_values (topic_info cache))" for t m and p :: 'p
  proof -
    have "s_for fs (\<lambda>f. parse_subscribe E cache cid t pr (packet_identifier s) f props) (m, p) =
      (Ok () :: (unit, MqttBrokerError) result, (fold (\<lambda>f. ?st (t, f)) fs m, p))" if "set fs \<subseteq> set (s_filters s)" for fs
      using that
    proof (induction fs arbitrary: m)
      case (Cons f fs)
      then have "parse_subscribe E cache cid t pr (packet_identifier s) f props (m, p) =
        (Ok () :: (unit, MqttBrokerError) result, (?st (t, f) m, p))"
        using assms(2,3) \<open>t \<in> _\<close> by (intro parse_subscribe_plain [OF assms(1)]) auto
      then show ?case
        using Cons by (simp add: st_simps)
    qed (simp add: st_simps)
    then show ?thesis
      by simp
  qed
  have "s_for ts (\<lambda>t. s_for (s_filters s) (\<lambda>f. parse_subscribe E cache cid t pr (packet_identifier s) f props)) (m, p) =
    (Ok () :: (unit, MqttBrokerError) result, (fold (\<lambda>t. fold (\<lambda>f. ?st (t, f)) (s_filters s)) ts m, p))"
    if "set ts \<subseteq> set (dm_values (topic_info cache))" for ts m and p :: 'p
    using that by (induction ts arbitrary: m) (simp_all add: st_simps inner)
  then show ?thesis
    unfolding save_subscribe_def Let_def subscribe_data_def [symmetric]
    by (simp add: s_bind_simps(1) 1 fold_product)
qed

lemma append_last_sep:
  assumes "xs @ c # ys = xs' @ c # ys'" "c \<notin> set ys" "c \<notin> set ys'"
  shows "xs = xs' \<and> ys = ys'"
proof -
  have "rev ys @ c # rev xs = rev ys' @ c # rev xs'"
    using arg_cong [OF assms(1), of rev] by simp
  moreover have "takeWhile (\<lambda>x. x \<noteq> c) (rev ys @ c # rev xs) = rev ys" "takeWhile (\<lambda>x. x \<noteq> c) (rev ys' @ c # rev xs') = rev ys'"
    using assms(2,3) by (subst takeWhile_append2; auto)+
  ultimately show ?thesis
    using assms(1) by (metis append_same_eq rev_rev_ident)
qed

text \<open>
  C12: a subscription to paths without a group succeeds when the placement center stores it and the
  paths are well formed.  The broker then knows the filters of the client; for every topic and every
  filter that matches it there is a push entry with the client, the topic and the options of the
  filter; all other push entries are as before.  Topic identifiers are unique and have no underscore.
\<close>

theorem save_subscribe_effect:
  fixes E :: "'p sub_env"
  assumes "get_cluster_info cache = (Ok cluster :: (MqttClusterDynamicConfig, MqttBrokerError) result)"
    and "\<forall>f\<in>set (s_filters s). \<not> is_share_sub (path f) \<and> \<not> is_queue_sub (path f)"
    and "\<forall>t\<in>set (dm_values (topic_info cache)). \<forall>f\<in>set (s_filters s).
      path_regex_match (se_regex E) (t_topic_name t) (path f) = (Ok (mt t f) :: (bool, MqttBrokerError) result)"
    and "\<And>d p. \<exists>p'. se_set_subscribe E d p = (Ok (), p')"
    and "distinct (map path (s_filters s))" "distinct (map topic_id (dm_values (topic_info cache)))"
    and "\<forall>t\<in>set (dm_values (topic_info cache)). CHR ''_'' \<notin> set (topic_id t)"
  shows "\<exists>m' p'. save_subscribe E cache cid pr s props (m, p) = (Ok (), (m', p')) \<and>
    (\<forall>f\<in>set (s_filters s). \<exists>d. get_subscribe m' cid (path f) = Some d \<and> ms_client_id d = cid \<and> ms_filter d = f) \<and>
    (\<forall>t\<in>set (dm_values (topic_info cache)). \<forall>f\<in>set (s_filters s). mt t f \<longrightarrow>
      dm_get (exclusive_push m') (exclusive_key cid (path f) (topic_id t)) =
        Some (exclusive_subscriber cid t pr (case props of Some q \<Rightarrow> sp_subscription_identifier q | None \<Rightarrow> None) f)) \<and>
    (\<forall>k. (\<forall>t\<in>set (dm_values (topic_info cache)). \<forall>f\<in>set (s_filters s). mt t f \<longrightarrow>
        k \<noteq> exclusive_key cid (path f) (topic_id t)) \<longrightarrow>
      dm_get (exclusive_push m') k = dm_get (exclusive_push m) k)"
proof -
  let ?T = "dm_values (topic_info cache)" and ?F = "s_filters s"
  let ?i = "case props of Some q \<Rightarrow> sp_subscription_identifier q | None \<Rightarrow> None"
  let ?key = "\<lambda>tf. exclusive_key cid (path (snd tf)) (topic_id (fst tf))"
  let ?val = "\<lambda>tf. exclusive_subscriber cid (fst tf) pr ?i (snd tf)"
  let ?m = "fold (plain_step (exclusive_subscription_available (cl_feature cluster) = Enable) cid pr ?i mt)
    (List.product ?T ?F) (fold (\<lambda>f. add_subscribe (subscribe_data E cid pr (packet_identifier s) props f)) ?F m)"
  obtain p' where save: "save_subscribe E cache cid pr s props (m, p) = (Ok (), (?m, p'))"
    using save_subscribe_plain [OF assms(1-4)] by blast
  have subs: "get_subscribe ?m cid (path f) = Some (subscribe_data E cid pr (packet_identifier s) props f)" if "f \<in> set ?F" for f
    using get_subscribe_fold [OF assms(5) that] by (simp add: get_subscribe_def fold_plain_step)
  have "tf' = tf" if "tf \<in> set (List.product ?T ?F)" "tf' \<in> set (List.product ?T ?F)" "?key tf' = ?key tf" for tf tf'
  proof -
    have "path (snd tf') = path (snd tf) \<and> topic_id (fst tf') = topic_id (fst tf)"
      using that assms(7) by (intro append_last_sep [where c = "CHR ''_''"]) (auto simp: exclusive_key_def)
    then show ?thesis
      using that assms(5,6) by (auto simp: distinct_map inj_on_eq_iff prod_eq_iff)
  qed
  note inj = this
  have "exclusive_push ?m = fold (\<lambda>tf. dm_insert (?key tf) (?val tf)) (filter (\<lambda>tf. mt (fst tf) (snd tf)) (List.product ?T ?F))
      (exclusive_push m)"
    by (simp add: fold_plain_step)
  note push = this
  have "dm_get (exclusive_push ?m) (?key tf) = Some (?val tf)"
    if "tf \<in> set (filter (\<lambda>tf. mt (fst tf) (snd tf)) (List.product ?T ?F))" for tf
    unfolding push using that inj by (subst dm_get_fold_insert [where v = "?val tf"]) auto
  moreover have "dm_get (exclusive_push ?m) k = dm_get (exclusive_push m) k"
    if "\<forall>tf\<in>set (filter (\<lambda>tf. mt (fst tf) (snd tf)) (List.product ?T ?F)). k \<noteq> ?key tf" for k
    unfolding push using that by (intro dm_get_fold_insert_other) blast
  ultimately show ?thesis
    using save subs by (fastforce simp: subscribe_data_def)
qed

text \<open>A placement center that stores nothing and knows one leader.\<close>

definition example_sub_env :: "u64 \<Rightarrow> unit sub_env" where
  "example_sub_env leader =
     \<lparr>se_regex = ascii_regex, se_cluster_name = ''n'', se_broker_id = 1, se_set_subscribe = (\<lambda>_. s_ok ()),
      se_delete_subscribe = (\<lambda>_ _ _. s_ok ()), se_get_share_sub_leader = (\<lambda>_ _. s_ok leader),
      se_has_receiver = (\<lambda>_. True)\<rparr>"

definition example_cache :: "string \<Rightarrow> CacheManager" where
  "example_cache t =
     add_topic t (topic_new 0 ''id'' ''n'' t) (set_cluster_info build_default_cluster_config (cache_new ''n''))"

definition example_filter :: "string \<Rightarrow> Filter" where
  "example_filter p =
     \<lparr>path = p, f_qos = AtLeastOnce, nolocal = False, preserve_retain = False, retain_forward_rule = OnEverySubscribe\<rparr>"

lemma example_cache_simps [simp]:
  "get_cluster_info (example_cache t) = Ok build_default_cluster_config"
  "topic_info (example_cache t) = [(t, topic_new 0 ''id'' ''n'' t)]"
  by (simp_all add: example_cache_def add_topic_def get_cluster_info_def set_cluster_info_def cache_new_def dm_simps)

theorem save_subscribe_effect_witness:
  "\<exists>m p. save_subscribe (example_sub_env 1) (example_cache ''t'') ''c'' Mqtt5 \<lparr>packet_identifier = 1, s_filters = [example_filter ''t'']\<rparr>
      None (subscribe_manager_new, ()) = (Ok (), (m, p)) \<and>
    dm_get (exclusive_push m) (exclusive_key ''c'' ''t'' ''id'') =
      Some (exclusive_subscriber ''c'' (topic_new 0 ''id'' ''n'' ''t'') Mqtt5 None (example_filter ''t''))"
  using save_subscribe_effect [of "example_cache ''t''" build_default_cluster_config
      "\<lparr>packet_identifier = 1, s_filters = [example_filter ''t'']\<rparr>" "example_sub_env 1" "\<lambda>_ _. True" "''c''" Mqtt5 None
      subscribe_manager_new "()"]
  by (auto simp: example_filter_def example_sub_env_def s_ok_def topic_new_def dm_values_def path_regex_match_def
      inner_path_def is_share_sub_def is_queue_sub_def SHARE_SUB_PREFIX_def QUEUE_SUB_PREFIX_def)

section \<open>Well-formed subscriptions\<close>

text \<open>
  The maps have distinct keys, those of the tasks apart.  Subscriptions, push entries, groups, members of groups and followers
  are stored under the key that their own fields give; push entries, members and the lists of
  subscribed topics name only topics that the path matches.  A follower does not store its topic,
  so its key determines all but that part; the lock of an exclusive path stores only the client.

  \<open>share_group p g n\<close>: the path \<open>p\<close> of a shared or queue subscription stands for the group \<open>g\<close> and
  the path \<open>n\<close> without prefix.
\<close>

definition share_group :: "string \<Rightarrow> string \<Rightarrow> string \<Rightarrow> bool" where
  "share_group p g n \<longleftrightarrow>
     (is_share_sub p \<and> (\<exists>g0. decode_share_info p = (Ok (g0, n) :: (_, MqttBrokerError) result) \<and> g = g0 @ ''_'' @ n)) \<or>
     (is_queue_sub p \<and> decode_queue_info p = (Ok n :: (_, MqttBrokerError) result) \<and> g = ''$queue_'' @ n)"

definition topic_matches :: "regex \<Rightarrow> string \<Rightarrow> string \<Rightarrow> bool" where
  "topic_matches R t p \<longleftrightarrow> path_regex_match R t p = (Ok True :: (bool, MqttBrokerError) result)"

definition topic_ok :: "regex \<Rightarrow> string \<Rightarrow> string \<Rightarrow> bool" where
  "topic_ok R t p \<longleftrightarrow> topic_matches R t p \<or> (\<exists>g n. share_group p g n \<and> topic_matches R t n)"

definition push_ok :: "regex \<Rightarrow> string \<Rightarrow> Subscriber \<Rightarrow> bool" where
  "push_ok R k s \<longleftrightarrow>
     k = exclusive_key (sr_client_id s) (sr_sub_path s) (sr_topic_id s) \<and> sr_group_name s = None \<and>
     topic_matches R (sr_topic_name s) (sr_sub_path s)"

text \<open>A member of the group that is stored under the key \<open>l\<close>.\<close>

definition member_ok :: "regex \<Rightarrow> string \<Rightarrow> string \<Rightarrow> Subscriber \<Rightarrow> bool" where
  "member_ok R l k s \<longleftrightarrow> (\<exists>g n. share_group (sr_sub_path s) g n \<and> sr_group_name s = Some g \<and>
     l = share_leader_key g n (sr_topic_id s) \<and> k = share_leader_sub_key (sr_client_id s) n \<and>
     topic_matches R (sr_topic_name s) n)"

definition leader_ok :: "regex \<Rightarrow> string \<Rightarrow> ShareLeaderSubscribeData \<Rightarrow> bool" where
  "leader_ok R k d \<longleftrightarrow>
     k = share_leader_key (sl_group_name d) (sl_sub_name d) (sl_topic_id d) \<and> dm_all (member_ok R k) (sl_sub_list d)"

definition follower_ok :: "string \<Rightarrow> ShareSubShareSub \<Rightarrow> bool" where
  "follower_ok k s \<longleftrightarrow> share_group (path (fs_filter s)) (fs_group_name s) (fs_sub_name s) \<and>
     (\<exists>tid. k = share_follower_key (fs_client_id s) (fs_group_name s) tid)"

definition subs_wf :: "regex \<Rightarrow> SubscribeManager \<Rightarrow> bool" where
  "subs_wf R m \<longleftrightarrow>
     dm_all (\<lambda>k d. k = subscribe_key (ms_client_id d) (ms_path d)) (subscribe_list m) \<and>
     dm_all (push_ok R) (exclusive_push m) \<and>
     dm_all (leader_ok R) (share_leader_push m) \<and>
     dm_all follower_ok (share_follower_resub m) \<and>
     dm_all (\<lambda>_ _. True) (exclusive_subscribe m) \<and>
     dm_all (\<lambda>t l. list_all (\<lambda>i. topic_ok R t (ts_path i)) l) (topic_subscribe_list m)"

lemma subs_wf_new [simp]: "subs_wf R subscribe_manager_new"
  by (simp add: subs_wf_def subscribe_manager_new_def)

lemma subs_wf_ops [intro]:
  assumes "subs_wf R m"
  shows "subs_wf R (add_subscribe d m)"
    and "subs_wf R (manager_remove_subscribe cid p m)"
    and "topic_ok R t p \<Longrightarrow> subs_wf R (add_topic_subscribe t cid p m)"
    and "subs_wf R (remove_topic_subscribe_by_path t p m)"
    and "subs_wf R (remove_topic_subscribe_by_client_id t cid m)"
    and "subs_wf R (add_exclusive_subscribe p cid m)"
    and "subs_wf R (remove_exclusive_subscribe_by_topic t m)"
    and "subs_wf R (remove_exclusive_subscribe_by_client_id cid m)"
    and "subs_wf R (remove_share_subscribe_follower_by_client_id cid m)"
    and "share_group (path (pq_filter req)) (pq_group_name req) (pq_sub_name req) \<Longrightarrow> subs_wf R (add_share_push_follower req m)"
    and "subs_wf R (m\<lparr>exclusive_push := dm_remove k (exclusive_push m)\<rparr>)"
    and "subs_wf R (m\<lparr>share_follower_resub := dm_remove k (share_follower_resub m)\<rparr>)"
  using assms
  by (auto simp: subs_wf_def add_subscribe_def manager_remove_subscribe_def add_topic_subscribe_def
      remove_topic_subscribe_by_path_def remove_topic_subscribe_by_client_id_def add_exclusive_subscribe_def
      manager_add_exclusive_subscribe_def remove_exclusive_subscribe_by_topic_def
      remove_exclusive_subscribe_by_client_id_def remove_share_subscribe_follower_by_client_id_def
      add_share_push_follower_def add_share_subscribe_follower_def follower_ok_def list_all_iff intro!: dm_all_intros)

lemma subs_wf_remove_share_leader_sub [intro]:
  assumes "subs_wf R m"
  shows "subs_wf R (remove_share_leader_sub key sub_key m)"
  using assms by (auto simp: subs_wf_def remove_share_leader_sub_def leader_ok_def intro!: dm_all_intros)

lemma subs_wf_remove_exclusive_subscribe [intro]:
  assumes "subs_wf R m"
  shows "subs_wf R (remove_exclusive_subscribe un m)"
proof -
  have "subs_wf R (remove_exclusive_subscribe_loop ps m)" for ps
    using assms by (induction ps arbitrary: m) auto
  then show ?thesis
    by (simp add: remove_exclusive_subscribe_def)
qed

lemma subs_wf_remove_exclusive_push:
  assumes "subs_wf R m"
  shows "subs_wf R (remove_exclusive_push_by_client_id cid m)"
  unfolding remove_exclusive_push_by_client_id_def
  by (rule fold_invariant [where I = "subs_wf R"]) (auto simp: assms intro!: subs_wf_ops)

lemma subs_wf_remove_share_leader:
  assumes "subs_wf R m"
  shows "subs_wf R (remove_share_subscribe_leader_by_client_id cid m)"
  unfolding remove_share_subscribe_leader_by_client_id_def
proof (rule fold_invariant [where I = "subs_wf R"], rule assms, clarify)
  fix key share_sub m'
  assume "subs_wf R m'"
  then show "subs_wf R (fold (\<lambda>(sub_key, subscriber) self.
      if sr_client_id subscriber = cid then
        remove_topic_subscribe_by_client_id (sr_topic_name subscriber) (sr_client_id subscriber)
          (remove_share_leader_sub key sub_key self)
      else self) (sl_sub_list share_sub) m')"
    by (rule fold_invariant [where I = "subs_wf R"]) (auto intro!: subs_wf_ops)
qed

lemma subs_wf_remove_client_id [intro]:
  assumes "subs_wf R m"
  shows "subs_wf R (remove_client_id cid m)"
  unfolding remove_client_id_def
  by (intro subs_wf_ops subs_wf_remove_share_leader subs_wf_remove_exclusive_push assms)

lemma subs_wf_add_share_subscribe_leader:
  assumes wf: "subs_wf R m" and sub: "sr_group_name sub = Some g" "share_group (sr_sub_path sub) g sub_name"
    "topic_matches R (sr_topic_name sub) sub_name" and add: "add_share_subscribe_leader sub_name sub m = Ok m'"
  shows "subs_wf R m'"
proof -
  let ?k = "share_leader_key g sub_name (sr_topic_id sub)" and ?sk = "share_leader_sub_key (sr_client_id sub) sub_name"
  have member: "member_ok R ?k ?sk sub"
    using sub by (auto simp: member_ok_def)
  obtain d where m': "m' = m\<lparr>share_leader_push := dm_insert ?k d (share_leader_push m)\<rparr>" and
    d: "(\<exists>d0. dm_get (share_leader_push m) ?k = Some d0 \<and> d = d0\<lparr>sl_sub_list := dm_insert ?sk sub (sl_sub_list d0)\<rparr>) \<or>
      d = \<lparr>sl_group_name = g, sl_topic_id = sr_topic_id sub, sl_topic_name = sr_topic_name sub, sl_sub_name = sub_name,
        sl_sub_list = [(?sk, sub)]\<rparr>"
    using add sub(1) by (auto simp: add_share_subscribe_leader_def Let_def split: option.splits)
  have leaders: "dm_all (leader_ok R) (share_leader_push m)"
    using wf by (simp add: subs_wf_def)
  have "leader_ok R ?k d"
    using d
  proof (elim disjE exE conjE)
    fix d0
    assume "dm_get (share_leader_push m) ?k = Some d0" and d: "d = d0\<lparr>sl_sub_list := dm_insert ?sk sub (sl_sub_list d0)\<rparr>"
    then have "leader_ok R ?k d0"
      using leaders by (blast dest: dm_all_get)
    then show ?thesis
      using member unfolding d leader_ok_def by (auto intro: dm_all_insert)
  qed (simp add: leader_ok_def dm_all_def dm_wf_def member)
  then show ?thesis
    using wf by (simp add: m' subs_wf_def dm_all_insert)
qed

lemma subs_wf_add_share_push_leader:
  assumes "subs_wf R m" "share_group (path (pq_filter req)) (pq_group_name req) (pq_sub_name req)"
    "topic_matches R (pq_topic_name req) (pq_sub_name req)" "add_share_push_leader req m = Ok m'"
  shows "subs_wf R m'"
  using assms(4) unfolding add_share_push_leader_def Let_def
  by (rule subs_wf_add_share_subscribe_leader [rotated 4]) (use assms in \<open>auto simp: topic_ok_def intro!: subs_wf_ops(3)\<close>)

text \<open>The handlers keep the subscriptions well formed, whatever the placement center answers.\<close>

abbreviation subs_inv :: "'p sub_env \<Rightarrow> SubscribeManager \<times> 'p \<Rightarrow> bool" where
  "subs_inv E \<equiv> \<lambda>(m, _). subs_wf (se_regex E) m"

lemma keeps_on_placement [keeps_intros]: "keeps (\<lambda>(m, _). I m) (on_placement c)"
  by (auto simp: keeps_def on_placement_def split: prod.split)

lemma keeps_on_subs: "(\<And>m. I m \<Longrightarrow> I (f m)) \<Longrightarrow> keeps (\<lambda>(m, _). I m) (on_subs f)"
  by (auto simp: on_subs_def intro!: keeps_upd)

lemma keeps_upd_fst: "(\<And>m. I m \<Longrightarrow> I (f m)) \<Longrightarrow> keeps (\<lambda>(m, _). I m) (s_upd (\<lambda>(m, p). (f m, p)))"
  by (auto intro!: keeps_upd)

lemma keeps_parse_share_queue_subscribe_common [keeps_intros]:
  assumes "share_group (path (pq_filter req)) (pq_group_name req) (pq_sub_name req)"
  shows "keeps (subs_inv E) (parse_share_queue_subscribe_common E req :: ('p, unit) subprog)"
proof -
  have "keeps (subs_inv E) ((\<lambda>(m, p). case add_share_push_leader req m of
      Ok m' \<Rightarrow> (Ok (), (m', p)) | Err e \<Rightarrow> (Err e, (m, p)) | Panic \<Rightarrow> (Panic, (m, p))) :: ('p, unit) subprog)"
    if "topic_matches (se_regex E) (pq_topic_name req) (pq_sub_name req)"
    using assms that by (auto simp: keeps_def split: result.split dest: subs_wf_add_share_push_leader)
  then show ?thesis
    unfolding parse_share_queue_subscribe_common_def
    by (intro keeps_bind_lift keeps_if keeps_ok keeps_match keeps_on_placement keeps_upd_fst subs_wf_ops)
      (auto simp: assms topic_matches_def)
qed

lemma share_prefix: "is_share_sub p \<Longrightarrow> prefix ''$'' p" "is_queue_sub p \<Longrightarrow> prefix ''$'' p"
  by (auto simp: is_share_sub_def is_queue_sub_def SHARE_SUB_PREFIX_def QUEUE_SUB_PREFIX_def prefix_def)

lemma share_group_prefix: "share_group p g n \<Longrightarrow> prefix ''$'' p"
  by (auto simp: share_group_def share_prefix)

lemma keeps_parse_share_subscribe [keeps_intros]:
  "is_share_sub (path (pq_filter req)) \<Longrightarrow> keeps (subs_inv E) (parse_share_subscribe E req :: ('p, unit) subprog)"
  "is_queue_sub (path (pq_filter req)) \<Longrightarrow> keeps (subs_inv E) (parse_queue_subscribe E req :: ('p, unit) subprog)"
  unfolding parse_share_subscribe_def parse_queue_subscribe_def
  by (intro keeps_bind_lift, auto intro!: keeps_parse_share_queue_subscribe_common simp: share_group_def)+

lemma keeps_add_exclusive_push [keeps_intros]:
  "keeps (subs_inv E) (add_exclusive_push (se_regex E) t cid pr i f :: ('p, unit) subprog)"
proof -
  have "subs_wf (se_regex E) (manager_add_exclusive_push cid (path f) (topic_id t) (exclusive_subscriber cid t pr i f)
      (add_topic_subscribe (t_topic_name t) cid (path f) m))"
    if "subs_wf (se_regex E) m" "path_regex_match (se_regex E) (t_topic_name t) (path f) = (Ok True :: (bool, MqttBrokerError) result)"
    for m
    using subs_wf_ops(3) [OF that(1), of "t_topic_name t" "path f" cid] that(2)
    by (auto simp: topic_ok_def topic_matches_def subs_wf_def manager_add_exclusive_push_def push_ok_def exclusive_subscriber_def intro!: dm_all_insert)
  then show ?thesis
    unfolding add_exclusive_push_def
    by (intro keeps_bind_lift keeps_if keeps_upd_fst keeps_ok) auto
qed

lemma keeps_parse_subscribe [keeps_intros]:
  "keeps (subs_inv E) (parse_subscribe E cache cid t pr pkid f props :: ('p, unit) subprog)"
  unfolding parse_subscribe_def Let_def
  by (intro keeps_intros keeps_upd_fst subs_wf_ops) simp_all

lemma keeps_save_subscribe [keeps_intros]:
  "keeps (subs_inv E) (save_subscribe E cache cid pr s props)"
  unfolding save_subscribe_def Let_def by (intro keeps_intros keeps_on_subs subs_wf_ops)

lemma keeps_parse_subscribe_by_new_topic [keeps_intros]:
  "keeps (subs_inv E) (parse_subscribe_by_new_topic E cache t0)"
  unfolding parse_subscribe_by_new_topic_def by (intro keeps_intros)

lemma keeps_unsubscribe_by_path:
  "keeps (subs_wf R) (unsubscribe_by_path E cache cid ps)"
  unfolding unsubscribe_by_path_def unsubscribe_leader_def unsubscribe_follower_def unsubscribe_exclusive_def send_stop_def
  by (intro keeps_intros keeps_upd subs_wf_ops subs_wf_remove_share_leader_sub)

lemma keeps_remove_subscribe [keeps_intros]:
  "keeps (subs_inv E) (remove_subscribe E cache cid un :: ('p, unit) subprog)"
proof -
  have "keeps (subs_inv E) ((\<lambda>(m, p). case unsubscribe_by_path E cache cid (u_filters un) m of (r, m') \<Rightarrow> (r, (m', p))) :: ('p, unit) subprog)"
    using keeps_unsubscribe_by_path [of "se_regex E" E cache cid "u_filters un"]
    by (auto simp: keeps_def split: prod.split)
  then show ?thesis
    unfolding remove_subscribe_def
    by (intro keeps_intros keeps_on_subs subs_wf_ops subs_wf_remove_exclusive_subscribe)
qed

text \<open>
  The states that a broker reaches: subscriptions, new topics, unsubscriptions and lost clients in any
  order, with push tasks that come and go and a placement center that changes.
\<close>

inductive subs_reach :: "'p sub_env \<Rightarrow> SubscribeManager \<times> 'p \<Rightarrow> bool" for E where
  start: "subs_reach E (subscribe_manager_new, p)"
| subscribe: "subs_reach E st \<Longrightarrow> save_subscribe E cache cid pr s props st = (r, st') \<Longrightarrow> subs_reach E st'"
| new_topic: "subs_reach E st \<Longrightarrow> parse_subscribe_by_new_topic E cache t0 st = (r, st') \<Longrightarrow> subs_reach E st'"
| unsubscribe: "subs_reach E st \<Longrightarrow> remove_subscribe E cache cid un st = (r, st') \<Longrightarrow> subs_reach E st'"
| lost_client: "subs_reach E (m, p) \<Longrightarrow> subs_reach E (remove_client_id cid m, p)"
| push_tasks: "subs_reach E (m, p) \<Longrightarrow>
    subs_reach E (m\<lparr>exclusive_push_thread := a, share_leader_push_thread := b, share_follower_resub_thread := c\<rparr>, p)"
| placement: "subs_reach E (m, p) \<Longrightarrow> subs_reach E (m, p')"

lemma subs_reach_inv:
  assumes "subs_reach E st"
  shows "subs_wf (se_regex E) (fst st)"
proof -
  have "subs_inv E st" if "subs_reach E st" for st
    using that
  proof induction
    case (subscribe st cache cid pr s props r st')
    then show ?case
      using keepsD [OF keeps_save_subscribe] by blast
  next
    case (new_topic st cache t0 r st')
    then show ?case
      using keepsD [OF keeps_parse_subscribe_by_new_topic] by blast
  next
    case (unsubscribe st cache cid un r st')
    then show ?case
      using keepsD [OF keeps_remove_subscribe] by blast
  next
    case (push_tasks m p a b c)
    then show ?case
      by (simp add: subs_wf_def)
  qed (auto simp: subs_wf_remove_client_id)
  then show ?thesis
    using assms by (cases st) fastforce
qed

text \<open>
  C33: in every reachable state the maps of subscriptions, push entries, groups, followers, locks and
  subscribed topics have distinct keys; subscriptions, push entries, groups, their members and followers are stored under the key that their own fields
  give; and push entries, members of groups and the lists of subscribed topics only name topics
  that match the path of the subscription.
\<close>

theorem subs_reach_wf:
  assumes "subs_reach E st"
  shows "subs_wf (se_regex E) (fst st)"
  using assms by (rule subs_reach_inv)

definition example_subscribe :: "string \<Rightarrow> Subscribe" where
  "example_subscribe p = \<lparr>packet_identifier = 1, s_filters = [example_filter p]\<rparr>"

theorem subs_reach_wf_witness:
  "subs_wf ascii_regex (fst (snd (save_subscribe (example_sub_env 1) (example_cache ''t'') ''c'' Mqtt5
     (example_subscribe ''t'') None (subscribe_manager_new, ()))))"
  using subs_reach_wf [OF subs_reach.subscribe [OF subs_reach.start surjective_pairing, of "example_sub_env 1" "example_cache ''t''"
        "''c''" Mqtt5 "example_subscribe ''t''" None "()"]]
  by (simp add: example_sub_env_def)

section \<open>Leaving a shared group\<close>

lemma unsubscribe_leader_none:
  assumes "leader_ok R k d" "\<not> prefix ''$'' sub_name"
  shows "unsubscribe_leader E cid g sub_name (k, d) m = (Ok (), m)"
proof -
  have none: "s_fold (\<lambda>(sub_key, share_sub) flag.
      if sr_client_id share_sub = cid \<and> sr_group_name share_sub = Some g \<and> sr_sub_path share_sub = sub_name then
        s_bind (s_upd (\<lambda>m. remove_topic_subscribe_by_path (sr_topic_name share_sub) (sr_sub_path share_sub)
          (remove_share_leader_sub k sub_key m))) (\<lambda>_. s_ok True)
      else s_ok flag) l False m = ((Ok False :: (bool, MqttBrokerError) result), m)"
    if "\<forall>(k', s)\<in>set l. member_ok R k k' s" for l
    using that assms(2) by (induction l) (auto simp: st_simps member_ok_def dest: share_group_prefix)
  have "\<forall>(k', s)\<in>set (sl_sub_list d). member_ok R k k' s"
    using assms(1) unfolding leader_ok_def dm_all_def by blast
  from none [OF this] show ?thesis
    unfolding unsubscribe_leader_def prod.case by (rule trans [OF s_bind_simps(1)]) (simp add: st_simps)
qed

lemma unsubscribe_leaders_none:
  assumes "dm_all (leader_ok R) L" "\<not> prefix ''$'' sub_name"
  shows "s_for L (unsubscribe_leader E cid g sub_name) m = (Ok (), m)"
proof -
  have "s_for l (unsubscribe_leader E cid g sub_name) m = (Ok (), m)" if "set l \<subseteq> set L" for l
    using that
  proof (induction l)
    case (Cons x l)
    then have "unsubscribe_leader E cid g sub_name x m = (Ok (), m)"
      using dm_all_mem [OF assms(1)] by (cases x) (auto intro!: unsubscribe_leader_none assms(2))
    then show ?case
      using Cons by (simp add: st_simps)
  qed (simp add: st_simps)
  then show ?thesis
    by simp
qed

lemma decode_share_info_slash: "decode_share_info p = Ok (g, n) \<Longrightarrow> \<not> prefix ''$'' n"
  by (auto simp: decode_share_info_def Let_def and_then_eq_Ok prefix_def)

lemma keeps_leaders:
  assumes leader: "dm_all (leader_ok R) L"
  shows "keeps (\<lambda>m. share_leader_push m = L) (unsubscribe_by_path E cache cid ps)"
proof -
  have leaders: "keeps (\<lambda>m. share_leader_push m = L) (s_for L (unsubscribe_leader E cid g n))" if "\<not> prefix ''$'' n" for g n
    by (simp add: keeps_def unsubscribe_leaders_none [OF leader that])
  have "keeps (\<lambda>m. share_leader_push m = L) (unsubscribe_follower E cid p x)"
    "keeps (\<lambda>m. share_leader_push m = L) (unsubscribe_exclusive E cid p y)" for p x y
    unfolding unsubscribe_follower_def unsubscribe_exclusive_def send_stop_def
    by (intro keeps_intros keeps_upd; simp add: remove_topic_subscribe_by_path_def)+
  note others = this
  show ?thesis
    unfolding unsubscribe_by_path_def
  proof (intro keeps_for keeps_bind_lift keeps_if keeps_ok keeps_bind_get others keeps_bind [OF _ others(1)])
    fix p :: string and x
    assume "p \<in> set ps" "is_share_sub p" "decode_share_info p = (Ok x :: (string \<times> string, MqttBrokerError) result)"
    then obtain g n where x: "x = (g, n)" "\<not> prefix ''$'' n"
      using decode_share_info_slash by (cases x) blast
    show "keeps (\<lambda>m. share_leader_push m = L) (case x of (g, n) \<Rightarrow>
      s_bind (s_get share_leader_push) (\<lambda>leaders. s_bind (s_for leaders (unsubscribe_leader E cid g n)) (\<lambda>_.
        s_bind (s_get share_follower_resub) (\<lambda>followers. s_for followers (unsubscribe_follower E cid p)))))"
      unfolding x(1) prod.case
      by (rule keeps_bind_get, simp) (intro keeps_bind leaders x(2) keeps_get keeps_for others)
  qed
qed

text \<open>
  C39: in every reachable state, unsubscribing changes no shared group that this broker leads, whoever
  unsubscribes from whatever shared paths: the members are compared with the path and the group of
  the request in another form than they are stored, so the client stays in the group.
\<close>

theorem share_unsubscribe_keeps_members:
  fixes E :: "'p sub_env"
  assumes "subs_reach E (m, p)"
  shows "share_leader_push (fst (snd (remove_subscribe E cache cid un (m, p)))) = share_leader_push m"
proof -
  let ?I = "\<lambda>m'. share_leader_push m' = share_leader_push m"
  have "dm_all (leader_ok (se_regex E)) (share_leader_push m)"
    using subs_reach_inv [OF assms(1)] by (simp add: subs_wf_def)
  then have "keeps ?I (unsubscribe_by_path E cache cid (u_filters un))"
    by (rule keeps_leaders)
  then have "keeps (\<lambda>(m, _). ?I m) ((\<lambda>(m, p). case unsubscribe_by_path E cache cid (u_filters un) m of (r, m') \<Rightarrow> (r, (m', p))) :: ('p, unit) subprog)"
    by (auto simp: keeps_def split: prod.split)
  moreover have "share_leader_push (remove_exclusive_subscribe_loop ps m') = share_leader_push m'" for ps m'
    by (induction ps arbitrary: m') (simp_all add: remove_exclusive_subscribe_by_topic_def)
  ultimately have "keeps (\<lambda>(m, _). ?I m) (remove_subscribe E cache cid un)"
    unfolding remove_subscribe_def remove_exclusive_subscribe_def
    by (intro keeps_intros keeps_on_subs) (simp_all add: manager_remove_subscribe_def)
  then show ?thesis
    by (auto simp: keeps_def split_def)
qed

lemma share_path_t:
  "is_share_sub ''$share/g/t''" "decode_share_info ''$share/g/t'' = Ok (''g'', ''/t'')"
  by (simp_all add: is_share_sub_def SHARE_SUB_PREFIX_def decode_share_info_def remove_first_def)

theorem share_unsubscribe_keeps_members_witness:
  "let st = snd (save_subscribe (example_sub_env 1) (example_cache ''/t'') ''c'' Mqtt5 (example_subscribe ''$share/g/t'') None
         (subscribe_manager_new, ()));
       st' = snd (remove_subscribe (example_sub_env 1) (example_cache ''/t'') ''c'' \<lparr>u_pkid = 2, u_filters = [''$share/g/t'']\<rparr> st) in
   dm_get (share_leader_push (fst st')) (share_leader_key ''g_/t'' ''/t'' ''id'') \<noteq> None"
proof -
  define st where "st = snd (save_subscribe (example_sub_env 1) (example_cache ''/t'') ''c'' Mqtt5 (example_subscribe ''$share/g/t'') None
    (subscribe_manager_new, ()))"
  have "subs_reach (example_sub_env 1) (fst st, snd st)"
    unfolding st_def prod.collapse by (rule subs_reach.subscribe [OF subs_reach.start surjective_pairing])
  then have "share_leader_push (fst (snd (remove_subscribe (example_sub_env 1) (example_cache ''/t'') ''c''
      \<lparr>u_pkid = 2, u_filters = [''$share/g/t'']\<rparr> (fst st, snd st)))) = share_leader_push (fst st)"
    by (rule share_unsubscribe_keeps_members)
  moreover have "dm_get (share_leader_push (fst st)) (share_leader_key ''g_/t'' ''/t'' ''id'') \<noteq> None"
    by (simp add: st_def save_subscribe_def example_subscribe_def example_filter_def example_sub_env_def dm_values_def
        parse_subscribe_def parse_share_subscribe_def share_path_t parse_share_queue_subscribe_common_def
        from_common_def on_placement_def on_subs_def s_ok_def Let_def add_subscribe_def subscribe_manager_new_def
        build_default_cluster_config_def add_exclusive_subscribe_def is_exclusive_sub_def EXCLUSIVE_SUB_PREFIX_def
        path_regex_match_def inner_path_def is_share_sub_def is_queue_sub_def SHARE_SUB_PREFIX_def QUEUE_SUB_PREFIX_def
        add_share_push_leader_def add_share_subscribe_leader_def add_topic_subscribe_def topic_new_def st_simps dm_simps)
  ultimately show ?thesis
    unfolding Let_def st_def [symmetric] prod.collapse by simp
qed

section \<open>Exclusive subscriptions\<close>

lemma path_regex_match_exclusive:
  assumes "is_exclusive_sub p" "CHR ''+'' \<notin> set p" "CHR ''#'' \<notin> set p" "t \<noteq> p" "\<not> is_share_sub t" "\<not> is_queue_sub t"
  shows "path_regex_match R t p = Ok False"
proof -
  have "\<not> is_share_sub p" "\<not> is_queue_sub p"
    using assms(1) by (auto simp: is_exclusive_sub_def is_share_sub_def is_queue_sub_def EXCLUSIVE_SUB_PREFIX_def
        SHARE_SUB_PREFIX_def QUEUE_SUB_PREFIX_def prefix_def)
  then show ?thesis
    using assms(2-) by (auto simp: path_regex_match_def inner_path_def)
qed

lemma plain_step_exclusive:
  "exclusive_subscribe (fold (plain_step True cid pr i (\<lambda>_ _. False)) tfs m) =
     fold (\<lambda>tf. if is_exclusive_sub (path (snd tf))
       then dm_insert (decode_exclusive_sub_path_to_topic_name (path (snd tf))) cid else (\<lambda>e. e)) tfs (exclusive_subscribe m)"
  by (induction tfs arbitrary: m)
    (auto simp: plain_step_def Let_def add_exclusive_subscribe_def manager_add_exclusive_subscribe_def)

text \<open>
  C40: where exclusive subscriptions are enabled, an exclusive subscription without wildcards gets no
  push entry: its path is compared with the topics prefix included, and no topic has that name (nor
  one that looks like a shared path).  On a broker with at least one topic, such as the system
  topics, it takes the lock, so that every later request for the path is refused; without
  topics it does not.
\<close>

theorem exclusive_subscription_effect:
  fixes E :: "'p sub_env"
  assumes "get_cluster_info cache = (Ok cluster :: (MqttClusterDynamicConfig, MqttBrokerError) result)"
    and "exclusive_subscription_available (cl_feature cluster) = Enable"
    and "is_exclusive_sub (path f)" "CHR ''+'' \<notin> set (path f)" "CHR ''#'' \<notin> set (path f)"
    and "\<forall>t\<in>set (dm_values (topic_info cache)). t_topic_name t \<noteq> path f \<and>
      \<not> is_share_sub (t_topic_name t) \<and> \<not> is_queue_sub (t_topic_name t)"
    and "\<And>d p. \<exists>p'. se_set_subscribe E d p = (Ok (), p')"
  shows "\<exists>m' p'. save_subscribe E cache cid pr \<lparr>packet_identifier = pkid, s_filters = [f]\<rparr> props (m, p) = (Ok (), (m', p')) \<and>
    exclusive_push m' = exclusive_push m \<and>
    (if topic_info cache = [] then exclusive_subscribe m' = exclusive_subscribe m
     else \<forall>s. path f \<in> path ` set (s_filters s) \<longrightarrow>
       check_exclusive_subscribe cache m' s = (Ok False :: (bool, MqttBrokerError) result))"
proof -
  let ?s = "\<lparr>packet_identifier = pkid, s_filters = [f]\<rparr>"
  let ?d = "decode_exclusive_sub_path_to_topic_name (path f)"
  have "\<not> is_share_sub (path f) \<and> \<not> is_queue_sub (path f)"
    using assms(3) by (auto simp: is_exclusive_sub_def is_share_sub_def is_queue_sub_def EXCLUSIVE_SUB_PREFIX_def
        SHARE_SUB_PREFIX_def QUEUE_SUB_PREFIX_def prefix_def)
  then obtain p' m' where save: "save_subscribe E cache cid pr ?s props (m, p) = (Ok (), (m', p'))" and
    m': "m' = fold (plain_step True cid pr (case props of Some q \<Rightarrow> sp_subscription_identifier q | None \<Rightarrow> None) (\<lambda>_ _. False))
      (List.product (dm_values (topic_info cache)) [f]) (add_subscribe (subscribe_data E cid pr pkid props f) m)"
    using save_subscribe_plain [OF assms(1) _ _ assms(7), of ?s "\<lambda>_ _. False" cid pr props m p] assms(2-6)
    by (auto simp: path_regex_match_exclusive)
  have "exclusive_push m' = exclusive_push m"
    by (simp add: m' fold_plain_step add_subscribe_def)
  moreover have "exclusive_subscribe m' = exclusive_subscribe m" if "topic_info cache = []"
    using that by (simp add: m' dm_values_def add_subscribe_def)
  moreover have "is_exclusive_subscribe m' ?d" if "topic_info cache \<noteq> []"
  proof -
    have lock: "dm_get (fold (\<lambda>tf. if is_exclusive_sub (path (snd tf)) then dm_insert (decode_exclusive_sub_path_to_topic_name (path (snd tf))) cid
        else (\<lambda>e. e)) (List.product ts [f]) e) ?d \<noteq> None" if "ts \<noteq> [] \<or> dm_get e ?d \<noteq> None" for ts e
      using that assms(3) by (induction ts arbitrary: e) (auto simp: dm_simps)
    show ?thesis
      unfolding is_exclusive_subscribe_def dm_contains_def m' plain_step_exclusive
      using \<open>topic_info cache \<noteq> []\<close> by (intro lock) (simp add: dm_values_def)
  qed
  ultimately show ?thesis
    using save assms(1-3) by (auto simp: check_exclusive_subscribe_def list_ex_iff)
qed

theorem exclusive_subscription_effect_witness:
  "\<exists>m p. save_subscribe (example_sub_env 1) (example_cache ''$SYS/brokers'') ''c'' Mqtt5 (example_subscribe ''$exclusive/t'') None
      (subscribe_manager_new, ()) = (Ok (), (m, p)) \<and>
    exclusive_push m = [] \<and>
    check_exclusive_subscribe (example_cache ''$SYS/brokers'') m (example_subscribe ''$exclusive/t'') =
      (Ok False :: (bool, MqttBrokerError) result)"
  using exclusive_subscription_effect [of "example_cache ''$SYS/brokers''" build_default_cluster_config "example_filter ''$exclusive/t''"
      "example_sub_env 1" "''c''" Mqtt5 1 None subscribe_manager_new "()"]
  by (auto simp: example_subscribe_def example_filter_def example_sub_env_def s_ok_def topic_new_def dm_values_def
      build_default_cluster_config_def is_share_sub_def is_queue_sub_def
      SHARE_SUB_PREFIX_def QUEUE_SUB_PREFIX_def is_exclusive_sub_def EXCLUSIVE_SUB_PREFIX_def subscribe_manager_new_def)

end
