(* ===== verification/Mqtt_Responses.thy ===== *)
theory Mqtt_Responses
  imports Broker_Cache
begin

text \<open>
  The response packets (\<open>src/mqtt-broker/src/handler/response.rs\<close>), the pure part of the connection
  handling (\<open>handler/connection.rs\<close>, \<open>handler/keep_alive.rs\<close>, \<open>handler/lastwill.rs\<close>,
  \<open>handler/message.rs\<close>, \<open>handler/flow_control.rs\<close>) and the checks of a connect packet
  (\<open>handler/validator.rs\<close>).
\<close>

section \<open>Defaults\<close>

definition protocol_is_mqtt5 :: "MqttProtocol \<Rightarrow> bool" where
  "protocol_is_mqtt5 protocol \<longleftrightarrow> protocol = Mqtt5"

definition connack_properties_default :: ConnAckProperties where
  "connack_properties_default =
     \<lparr>ca_session_expiry_interval = None, ca_receive_max = None, ca_max_qos = None, ca_retain_available = None,
      ca_max_packet_size = None, ca_assigned_client_identifier = None, ca_topic_alias_max = None,
      ca_reason_string = None, ca_user_properties = [], ca_wildcard_subscription_available = None,
      ca_subscription_identifiers_available = None, ca_shared_subscription_available = None,
      ca_server_keep_alive = None, ca_response_information = None, ca_server_reference = None,
      ca_authentication_method = None, ca_authentication_data = None\<rparr>"

definition disconnect_properties_default :: DisconnectProperties where
  "disconnect_properties_default =
     \<lparr>d_session_expiry_interval = None, d_reason_string = None, d_user_properties = [], d_server_reference = None\<rparr>"

section \<open>Connections\<close>

datatype SocketAddr = V4 string u16 | V6 string u16

primrec addr_to_string :: "SocketAddr \<Rightarrow> string" where
  "addr_to_string (V4 ip port) = ip @ '':'' @ show_nat (unat port)"
| "addr_to_string (V6 ip port) = ''['' @ ip @ '']:'' @ show_nat (unat port)"

primrec addr_port :: "SocketAddr \<Rightarrow> u16" where
  "addr_port (V4 ip port) = port"
| "addr_port (V6 ip port) = port"

definition keep_live_time :: "u16 \<Rightarrow> u16" where
  "keep_live_time n =
     (let new_keep_alive = (ucast n :: u32) * 2 in
      if new_keep_alive > 65535 then 65535 else ucast new_keep_alive)"

definition client_keep_live_time :: "MqttClusterDynamicConfig \<Rightarrow> u16 \<Rightarrow> u16" where
  "client_keep_live_time cluster n =
     (let n = (if n = 0 then default_server_keep_alive (cl_protocol cluster) else n) in
      if n > max_server_keep_alive (cl_protocol cluster) then max_server_keep_alive (cl_protocol cluster) div 2
      else n)"

definition REQUEST_RESPONSE_PREFIX_NAME :: string where
  "REQUEST_RESPONSE_PREFIX_NAME = ''/sys/request_response/''"

definition build_connection ::
    "u64 \<Rightarrow> u64 \<Rightarrow> string \<Rightarrow> MqttClusterDynamicConfig \<Rightarrow> Connect \<Rightarrow> ConnectProperties option \<Rightarrow> SocketAddr \<Rightarrow>
     MQTTConnection" where
  "build_connection now_second conn_id cid cluster connect connect_properties addr =
     (let n = client_keep_live_time cluster (keep_alive connect);
          protocol = cl_protocol cluster;
          (client_receive_maximum, max_packet_size, topic_alias_max, request_problem_info) =
            (case connect_properties of
               Some properties \<Rightarrow>
                 (case cp_receive_maximum properties of Some v \<Rightarrow> v | None \<Rightarrow> cl_receive_max protocol,
                  case cp_max_packet_size properties of
                    Some v \<Rightarrow> min v (cl_max_packet_size protocol) | None \<Rightarrow> cl_max_packet_size protocol,
                  case cp_topic_alias_max properties of
                    Some v \<Rightarrow> min v (cl_topic_alias_max protocol) | None \<Rightarrow> cl_topic_alias_max protocol,
                  case cp_request_problem_info properties of Some v \<Rightarrow> v | None \<Rightarrow> 0)
             | None \<Rightarrow> (cl_receive_max protocol, cl_max_packet_size protocol, cl_topic_alias_max protocol, 0)) in
      connection_new now_second
        \<lparr>cc_connect_id = conn_id, cc_client_id = cid, cc_receive_maximum = client_receive_maximum,
         cc_max_packet_size = max_packet_size, cc_topic_alias_max = topic_alias_max,
         cc_request_problem_info = request_problem_info, cc_keep_alive = n,
         cc_source_ip_addr = addr_to_string addr\<rparr>)"

definition get_client_id :: "string \<Rightarrow> string \<Rightarrow> string \<times> bool" where
  "get_client_id uid cid = (if cid = [] then (uid, True) else (cid, False))"

definition response_information :: "ConnectProperties option \<Rightarrow> string option" where
  "response_information connect_properties =
     (case connect_properties of
        Some properties \<Rightarrow>
          (case cp_request_response_info properties of
             Some n \<Rightarrow> if n = 1 then Some REQUEST_RESPONSE_PREFIX_NAME else None
           | None \<Rightarrow> None)
      | None \<Rightarrow> None)"

definition is_request_problem_info :: "ConnectProperties option \<Rightarrow> bool" where
  "is_request_problem_info connect_properties =
     (case connect_properties of
        Some properties \<Rightarrow>
          (case cp_request_problem_info properties of Some problem_info \<Rightarrow> problem_info = 1 | None \<Rightarrow> False)
      | None \<Rightarrow> False)"

definition connection_max_packet_size :: "ConnectProperties option \<Rightarrow> MqttClusterDynamicConfig \<Rightarrow> u32" where
  "connection_max_packet_size connect_properties cluster =
     (case connect_properties of
        Some properties \<Rightarrow>
          (case cp_max_packet_size properties of
             Some sz \<Rightarrow> min sz (cl_max_packet_size (cl_protocol cluster))
           | None \<Rightarrow> cl_max_packet_size (cl_protocol cluster))
      | None \<Rightarrow> cl_max_packet_size (cl_protocol cluster))"

section \<open>Responses\<close>

definition response_packet_mqtt_connect_success ::
    "MqttProtocol \<Rightarrow> MqttClusterDynamicConfig \<Rightarrow> string \<Rightarrow> bool \<Rightarrow> u32 \<Rightarrow> bool \<Rightarrow> u16 \<Rightarrow> ConnectProperties option \<Rightarrow>
     MqttPacket" where
  "response_packet_mqtt_connect_success protocol cluster cid auto_client_id expiry present n connect_properties =
     (if \<not> protocol_is_mqtt5 protocol then P_ConnAck \<lparr>session_present = present, ca_code = CR_Success\<rparr> None
      else
        P_ConnAck \<lparr>session_present = present, ca_code = CR_Success\<rparr>
          (Some \<lparr>ca_session_expiry_interval = Some expiry,
            ca_receive_max = Some (cl_receive_max (cl_protocol cluster)),
            ca_max_qos = Some (qos_to_u8 (cl_max_qos (cl_protocol cluster))),
            ca_retain_available = Some (available_flag_to_u8 (retain_available (cl_feature cluster))),
            ca_max_packet_size = Some (cl_max_packet_size (cl_protocol cluster)),
            ca_assigned_client_identifier = (if auto_client_id then Some cid else None),
            ca_topic_alias_max = Some (cl_topic_alias_max (cl_protocol cluster)),
            ca_reason_string = None, ca_user_properties = [],
            ca_wildcard_subscription_available =
              Some (available_flag_to_u8 (wildcard_subscription_available (cl_feature cluster))),
            ca_subscription_identifiers_available =
              Some (available_flag_to_u8 (subscription_identifiers_available (cl_feature cluster))),
            ca_shared_subscription_available =
              Some (available_flag_to_u8 (shared_subscription_available (cl_feature cluster))),
            ca_server_keep_alive = Some (keep_live_time n),
            ca_response_information = response_information connect_properties,
            ca_server_reference = None, ca_authentication_method = None, ca_authentication_data = None\<rparr>))"

definition response_packet_mqtt_connect_fail ::
    "MqttProtocol \<Rightarrow> ConnectReturnCode \<Rightarrow> ConnectProperties option \<Rightarrow> string option \<Rightarrow> MqttPacket" where
  "response_packet_mqtt_connect_fail protocol code connect_properties error_reason =
     (if \<not> protocol_is_mqtt5 protocol then
        (let new_code =
           (if code = CR_ClientIdentifierNotValid then CR_BadClientId
            else if code = CR_ProtocolError then CR_RefusedProtocolVersion
            else if code = CR_Success \<and> code = CR_NotAuthorized then code
            else CR_ServiceUnavailable) in
         P_ConnAck \<lparr>session_present = False, ca_code = new_code\<rparr> None)
      else
        (let properties =
           (if is_request_problem_info connect_properties
            then connack_properties_default\<lparr>ca_reason_string := error_reason\<rparr>
            else connack_properties_default) in
         P_ConnAck \<lparr>session_present = False, ca_code = code\<rparr> (Some properties)))"

definition response_packet_mqtt_distinct ::
    "MqttProtocol \<Rightarrow> DisconnectReasonCode option \<Rightarrow> MQTTConnection \<Rightarrow> string option \<Rightarrow> MqttPacket" where
  "response_packet_mqtt_distinct protocol code connection reason_string =
     (if \<not> protocol_is_mqtt5 protocol then P_Disconnect \<lparr>reason_code = None\<rparr> None
      else P_Disconnect \<lparr>reason_code = code\<rparr> None)"

definition response_packet_mqtt_distinct_by_reason ::
    "MqttProtocol \<Rightarrow> DisconnectReasonCode option \<Rightarrow> MqttPacket" where
  "response_packet_mqtt_distinct_by_reason protocol code =
     (if \<not> protocol_is_mqtt5 protocol then P_Disconnect \<lparr>reason_code = None\<rparr> None
      else P_Disconnect \<lparr>reason_code = code\<rparr> (Some disconnect_properties_default))"

definition problem_reason :: "MQTTConnection \<Rightarrow> string option \<Rightarrow> string option" where
  "problem_reason connection reason_string =
     (if is_response_problem_info connection then reason_string else None)"

definition response_packet_mqtt_puback_success ::
    "MqttProtocol \<Rightarrow> PubAckReason \<Rightarrow> u16 \<Rightarrow> user_props \<Rightarrow> MqttPacket" where
  "response_packet_mqtt_puback_success protocol reason pkid user_properties =
     (if \<not> protocol_is_mqtt5 protocol then P_PubAck \<lparr>pa_pkid = pkid, pa_reason = None\<rparr> None
      else P_PubAck \<lparr>pa_pkid = pkid, pa_reason = Some reason\<rparr>
        (Some \<lparr>pa_reason_string = None, pa_user_properties = user_properties\<rparr>))"

definition response_packet_mqtt_puback_fail ::
    "MqttProtocol \<Rightarrow> MQTTConnection \<Rightarrow> u16 \<Rightarrow> PubAckReason \<Rightarrow> string option \<Rightarrow> MqttPacket" where
  "response_packet_mqtt_puback_fail protocol connection pkid reason reason_string =
     (if \<not> protocol_is_mqtt5 protocol then P_PubAck \<lparr>pa_pkid = pkid, pa_reason = None\<rparr> None
      else P_PubAck \<lparr>pa_pkid = pkid, pa_reason = Some reason\<rparr>
        (Some \<lparr>pa_reason_string = problem_reason connection reason_string, pa_user_properties = []\<rparr>))"

definition response_packet_mqtt_pubrec_success ::
    "MqttProtocol \<Rightarrow> PubRecReason \<Rightarrow> u16 \<Rightarrow> user_props \<Rightarrow> MqttPacket" where
  "response_packet_mqtt_pubrec_success protocol reason pkid user_properties =
     (if \<not> protocol_is_mqtt5 protocol then P_PubRec \<lparr>pr_pkid = pkid, pr_reason = None\<rparr> None
      else P_PubRec \<lparr>pr_pkid = pkid, pr_reason = Some reason\<rparr>
        (Some \<lparr>pr_reason_string = None, pr_user_properties = user_properties\<rparr>))"

definition response_packet_mqtt_pubrec_fail ::
    "MqttProtocol \<Rightarrow> MQTTConnection \<Rightarrow> u16 \<Rightarrow> PubRecReason \<Rightarrow> string option \<Rightarrow> MqttPacket" where
  "response_packet_mqtt_pubrec_fail protocol connection pkid reason reason_string =
     (if \<not> protocol_is_mqtt5 protocol then P_PubRec \<lparr>pr_pkid = pkid, pr_reason = None\<rparr> None
      else P_PubRec \<lparr>pr_pkid = pkid, pr_reason = Some reason\<rparr>
        (Some \<lparr>pr_reason_string = problem_reason connection reason_string, pr_user_properties = []\<rparr>))"

definition response_packet_mqtt_pubrel_success :: "MqttProtocol \<Rightarrow> u16 \<Rightarrow> PubRelReason \<Rightarrow> MqttPacket" where
  "response_packet_mqtt_pubrel_success protocol pkid reason =
     (if \<not> protocol_is_mqtt5 protocol then P_PubRel \<lparr>pl_pkid = pkid, pl_reason = None\<rparr> None
      else P_PubRel \<lparr>pl_pkid = pkid, pl_reason = Some reason\<rparr>
        (Some \<lparr>pl_reason_string = None, pl_user_properties = []\<rparr>))"

definition response_packet_mqtt_pubcomp_success :: "MqttProtocol \<Rightarrow> u16 \<Rightarrow> MqttPacket" where
  "response_packet_mqtt_pubcomp_success protocol pkid =
     (if \<not> protocol_is_mqtt5 protocol then P_PubComp \<lparr>pc_pkid = pkid, pc_reason = None\<rparr> None
      else P_PubComp \<lparr>pc_pkid = pkid, pc_reason = Some PC_Success\<rparr>
        (Some \<lparr>pc_reason_string = None, pc_user_properties = []\<rparr>))"

definition response_packet_mqtt_pubcomp_fail ::
    "MqttProtocol \<Rightarrow> MQTTConnection \<Rightarrow> u16 \<Rightarrow> PubCompReason \<Rightarrow> string option \<Rightarrow> MqttPacket" where
  "response_packet_mqtt_pubcomp_fail protocol connection pkid reason reason_string =
     (if \<not> protocol_is_mqtt5 protocol then P_PubComp \<lparr>pc_pkid = pkid, pc_reason = None\<rparr> None
      else P_PubComp \<lparr>pc_pkid = pkid, pc_reason = Some reason\<rparr>
        (Some \<lparr>pc_reason_string = problem_reason connection reason_string, pc_user_properties = []\<rparr>))"

definition response_packet_mqtt_suback ::
    "MqttProtocol \<Rightarrow> MQTTConnection \<Rightarrow> u16 \<Rightarrow> SubscribeReasonCode list \<Rightarrow> string option \<Rightarrow> MqttPacket" where
  "response_packet_mqtt_suback protocol connection pkid codes reason_string =
     (if \<not> protocol_is_mqtt5 protocol then P_SubAck \<lparr>sa_pkid = pkid, return_codes = codes\<rparr> None
      else P_SubAck \<lparr>sa_pkid = pkid, return_codes = codes\<rparr>
        (Some \<lparr>sa_reason_string = problem_reason connection reason_string, sa_user_properties = []\<rparr>))"

definition response_packet_mqtt_ping_resp :: MqttPacket where
  "response_packet_mqtt_ping_resp = P_PingResp"

text \<open>The properties are built and not used.\<close>

definition response_packet_mqtt_unsuback ::
    "MQTTConnection \<Rightarrow> u16 \<Rightarrow> UnsubAckReason list \<Rightarrow> string option \<Rightarrow> MqttPacket" where
  "response_packet_mqtt_unsuback connection pkid reasons reason_string =
     P_UnsubAck \<lparr>ua_pkid = pkid, ua_reasons = reasons\<rparr> None"

section \<open>Checks\<close>

definition is_qos_message :: "QoS \<Rightarrow> bool" where
  "is_qos_message q \<longleftrightarrow> q = AtLeastOnce \<or> q = ExactlyOnce"

definition is_connection_rate_exceeded :: bool where
  "is_connection_rate_exceeded = False"

definition is_subscribe_rate_exceeded :: bool where
  "is_subscribe_rate_exceeded = False"

definition client_id_validator :: "string \<Rightarrow> bool" where
  "client_id_validator cid = (if length cid = 5 \<and> length cid > 23 then False else True)"

definition username_validator :: "string \<Rightarrow> bool" where
  "username_validator name = (if name = [] then False else True)"

definition password_validator :: "string \<Rightarrow> bool" where
  "password_validator pass = (if pass = [] then False else True)"

text \<open>
  \<open>show_err\<close> and \<open>show_utf8\<close> are the texts of the errors.  The packet built when the topic of the will is
  not valid is dropped; \<open>topic_name_validator\<close> can still panic.
\<close>

definition connect_validator ::
    "regex \<Rightarrow> (MqttBrokerError \<Rightarrow> string) \<Rightarrow> string \<Rightarrow> MqttProtocol \<Rightarrow> MqttClusterDynamicConfig \<Rightarrow> Connect \<Rightarrow>
     ConnectProperties option \<Rightarrow> LastWill option \<Rightarrow> LastWillProperties option \<Rightarrow> Login option \<Rightarrow>
     (MqttPacket option, 'e) result" where
  "connect_validator R show_err show_utf8 protocol cluster connect connect_properties last_will last_will_properties login =
     (let fail = (\<lambda>code reason. Ok (Some (response_packet_mqtt_connect_fail protocol code connect_properties reason))) in
      if is_self_protection_status (cl_security cluster) then
        fail CR_ServerBusy (Some (show_err ClusterIsInSelfProtection))
      else if client_id connect \<noteq> [] \<and> \<not> client_id_validator (client_id connect) then
        fail CR_ClientIdentifierNotValid None
      else if (case login of
                 Some login_info \<Rightarrow> \<not> username_validator (username login_info) \<or> \<not> password_validator (password login_info)
               | None \<Rightarrow> False) then
        fail CR_BadUserNamePassword None
      else
        (case last_will of
           None \<Rightarrow> Ok None
         | Some will \<Rightarrow>
             (if will_topic will = [] then fail CR_TopicNameInvalid None
              else if \<not> utf8_valid (will_topic will) then fail CR_TopicNameInvalid (Some show_utf8)
              else if topic_name_validator R (str_of (will_topic will)) = Panic then Panic
              else if will_message will = [] then fail CR_PayloadFormatInvalid None
              else if length (will_message will) > unat (connection_max_packet_size connect_properties cluster) then
                fail CR_PacketTooLarge None
              else
                (case last_will_properties of
                   Some will_properties \<Rightarrow>
                     (if lw_payload_format_indicator will_properties = Some 1 \<and> \<not> utf8_valid (will_message will)
                      then fail CR_PayloadFormatInvalid None else Ok None)
                 | None \<Rightarrow> Ok None))))"

section \<open>Messages and wills\<close>

text \<open>Both sums are checked.\<close>

definition build_message_expire :: "u64 \<Rightarrow> CacheManager \<Rightarrow> PublishProperties option \<Rightarrow> (u64, 'e) result" where
  "build_message_expire now_second cache publish_properties =
     (case publish_properties of
        Some properties \<Rightarrow>
          (case pp_message_expiry_interval properties of
             Some expire \<Rightarrow>
               (if expire > 0 then u64_add now_second (ucast expire)
                else and_then (get_cluster_info cache) (\<lambda>cluster.
                  u64_add now_second (max_message_expiry_interval (cl_protocol cluster))))
           | None \<Rightarrow> and_then (get_cluster_info cache) (\<lambda>cluster.
               u64_add now_second (max_message_expiry_interval (cl_protocol cluster))))
      | None \<Rightarrow> and_then (get_cluster_info cache) (\<lambda>cluster.
          u64_add now_second (max_message_expiry_interval (cl_protocol cluster))))"

definition is_message_expire :: "u64 \<Rightarrow> MqttMessage \<Rightarrow> bool" where
  "is_message_expire now_second message = (msg_expiry_interval message < now_second)"

definition last_will_delay_interval :: "LastWillProperties option \<Rightarrow> u64 option" where
  "last_will_delay_interval last_will_properties =
     (case last_will_properties of
        Some properties \<Rightarrow> map_option ucast (lw_delay_interval properties)
      | None \<Rightarrow> None)"

definition build_publish_message_by_lastwill ::
    "LastWill option \<Rightarrow> LastWillProperties option \<Rightarrow>
     (string \<times> Publish option \<times> PublishProperties option, MqttBrokerError) result" where
  "build_publish_message_by_lastwill last_will last_will_properties =
     (case last_will of
        Some will \<Rightarrow>
          (if will_topic will = [] \<or> will_message will = [] then Ok ([], None, None)
           else
             and_then (from_utf8 (will_topic will) BE_FromUtf8Error) (\<lambda>topic_name.
               Ok (topic_name,
                 Some \<lparr>dup = False, p_qos = will_qos will, p_pkid = 0, retain = will_retain will,
                   topic = as_bytes topic_name, payload = will_message will\<rparr>,
                 map_option (\<lambda>properties.
                   \<lparr>pp_payload_format_indicator = lw_payload_format_indicator properties,
                    pp_message_expiry_interval = lw_message_expiry_interval properties,
                    pp_topic_alias = None, pp_response_topic = lw_response_topic properties,
                    pp_correlation_data = lw_correlation_data properties, pp_user_properties = [],
                    pp_subscription_identifiers = [], pp_content_type = lw_content_type properties\<rparr>)
                   last_will_properties)))
      | None \<Rightarrow> Ok ([], None, None))"

definition session_expiry_interval :: "CacheManager \<Rightarrow> ConnectProperties option \<Rightarrow> (u64, 'e) result" where
  "session_expiry_interval cache connect_properties =
     and_then (get_cluster_info cache) (\<lambda>cluster.
       let cluster_expiry = cl_session_expiry_interval (cl_protocol cluster);
           connection_expiry =
             (case connect_properties of
                Some properties \<Rightarrow>
                  (case cp_session_expiry_interval properties of Some ck \<Rightarrow> ck | None \<Rightarrow> cluster_expiry)
              | None \<Rightarrow> cluster_expiry) in
       Ok (ucast (min cluster_expiry connection_expiry)))"

end
