(* ===== verification/Broker_State.thy ===== *)
theory Broker_State
  imports Subscriptions Mqtt_Responses Delay_Message
begin

text \<open>
  The state of a broker, what it needs from outside, and the steps that the packet handlers share:
  topics (\<open>src/mqtt-broker/src/handler/topic.rs\<close>), packet identifiers (\<open>handler/pkid.rs\<close>), sessions
  (\<open>handler/session.rs\<close>), wills (\<open>handler/lastwill.rs\<close>), retained messages (\<open>handler/retain.rs\<close>), storing
  a message (\<open>handler/offline_message.rs\<close>) and closing a connection (\<open>handler/connection.rs\<close>,
  \<open>server/connection_manager.rs\<close>).

  Parameters: the storage adapter, the delay queue, the clocks, the identifiers that \<open>unique_id\<close> draws,
  the placement center, whose calls are programs over its state \<open>'p\<close> and which also stores users and
  rules, the schema registry, \<open>serde_json\<close> and the texts of errors.  The clock is read once per request.
\<close>

section \<open>State and parameters\<close>

datatype NetworkConnectionType = NT_Tcp | NT_Tls | NT_WebSocket | NT_WebSockets | NT_Quic

record NetworkConnection =
  nc_connection_type :: NetworkConnectionType
  nc_connection_id :: u64
  nc_protocol :: "MqttProtocol option"
  nc_addr :: SocketAddr

text \<open>A task that sends retained messages, spawned and not waited for.\<close>

record retain_task =
  rt_protocol :: MqttProtocol
  rt_client_id :: string
  rt_subscribe :: Subscribe
  rt_subscribe_properties :: "SubscribeProperties option"
  rt_new_subs :: "(string, bool) dashmap"

record ('s, 'p, 'q) broker =
  b_cache :: CacheManager
  b_subs :: SubscribeManager
  b_store :: 's
  b_pc :: 'p
  b_delay :: "'q DelayMessageManager"
  b_conns :: "(u64, NetworkConnection) dashmap"
  b_counters :: counters
  b_acks :: "(sender \<times> QosAckPackageData) list"
  b_retain_tasks :: "retain_task list"

record 'p placement =
  pl_get_session :: "string \<Rightarrow> ('p, MqttSession option) cprog"
  pl_set_session :: "string \<Rightarrow> MqttSession \<Rightarrow> ('p, unit) cprog"
  pl_update_session :: "string \<Rightarrow> u64 \<Rightarrow> u64 \<Rightarrow> u64 \<Rightarrow> u64 \<Rightarrow> ('p, unit) cprog"
  pl_save_last_will :: "string \<Rightarrow> LastWillData \<Rightarrow> ('p, unit) cprog"
  pl_get_topic :: "string \<Rightarrow> ('p, MqttTopic option, MqttBrokerError) prog"
  pl_save_topic :: "MqttTopic \<Rightarrow> ('p, unit, MqttBrokerError) prog"
  pl_set_retain_message :: "string \<Rightarrow> MqttMessage \<Rightarrow> u64 \<Rightarrow> ('p, unit, MqttBrokerError) prog"
  pl_delete_retain_message :: "string \<Rightarrow> ('p, unit, MqttBrokerError) prog"
  pl_set_idempotent :: "string \<Rightarrow> u64 \<Rightarrow> ('p, unit) cprog"
  pl_exists_idempotent :: "string \<Rightarrow> u64 \<Rightarrow> ('p, bool) cprog"
  pl_delete_idempotent :: "string \<Rightarrow> u64 \<Rightarrow> ('p, unit) cprog"

record ('s, 'p, 'q) broker_env =
  be_adapter :: "'s StorageAdapter"
  be_queue :: "'q delay_queue"
  be_instant :: nat
  be_auth :: auth_env
  be_auth_driver :: "'p AuthStorageAdapter"
  be_sub :: "'p sub_env"
  be_placement :: "'p placement"
  be_client_uid :: string
  be_topic_uid :: "string \<Rightarrow> string"
  be_show_common :: "CommonError \<Rightarrow> string"
  be_show_utf8 :: string
  be_encode :: "MqttMessage \<Rightarrow> bytes option"
  be_crc :: "bytes \<Rightarrow> u32"
  be_is_check_schema :: "string \<Rightarrow> bool"
  be_schema_error :: "string \<Rightarrow> bytes \<Rightarrow> string option"

abbreviation be_regex :: "('s, 'p, 'q) broker_env \<Rightarrow> regex" where
  "be_regex E \<equiv> ae_regex (be_auth E)"

abbreviation be_now :: "('s, 'p, 'q) broker_env \<Rightarrow> u64" where
  "be_now E \<equiv> ae_now (be_auth E)"

abbreviation be_show_err :: "('s, 'p, 'q) broker_env \<Rightarrow> MqttBrokerError \<Rightarrow> string" where
  "be_show_err E \<equiv> ae_show_err (be_auth E)"

abbreviation be_cluster_name :: "('s, 'p, 'q) broker_env \<Rightarrow> string" where
  "be_cluster_name E \<equiv> se_cluster_name (be_sub E)"

abbreviation be_broker_id :: "('s, 'p, 'q) broker_env \<Rightarrow> u64" where
  "be_broker_id E \<equiv> se_broker_id (be_sub E)"

type_synonym ('s, 'p, 'q, 'a) bprog = "(('s, 'p, 'q) broker, 'a, MqttBrokerError) prog"

text \<open>Programs of the components on the state of the broker.\<close>

definition upd_cache :: "(CacheManager \<Rightarrow> CacheManager) \<Rightarrow> (('s, 'p, 'q) broker, unit, 'e) prog" where
  "upd_cache f = s_upd (\<lambda>b. b\<lparr>b_cache := f (b_cache b)\<rparr>)"

definition on_b_pc :: "('p, 'a, 'e) prog \<Rightarrow> (('s, 'p, 'q) broker, 'a, 'e) prog" where
  "on_b_pc m b = (case m (b_pc b) of (r, p) \<Rightarrow> (r, b\<lparr>b_pc := p\<rparr>))"

definition on_b_store :: "('s, 'a, 'e) prog \<Rightarrow> (('s, 'p, 'q) broker, 'a, 'e) prog" where
  "on_b_store m b = (case m (b_store b) of (r, s) \<Rightarrow> (r, b\<lparr>b_store := s\<rparr>))"

definition on_b_delay :: "('s \<times> 'q DelayMessageManager, 'a, 'e) prog \<Rightarrow> (('s, 'p, 'q) broker, 'a, 'e) prog" where
  "on_b_delay m b = (case m (b_store b, b_delay b) of (r, (s, d)) \<Rightarrow> (r, b\<lparr>b_store := s, b_delay := d\<rparr>))"

definition on_b_auth :: "(CacheManager \<times> 'p, 'a, 'e) prog \<Rightarrow> (('s, 'p, 'q) broker, 'a, 'e) prog" where
  "on_b_auth m b = (case m (b_cache b, b_pc b) of (r, (c, p)) \<Rightarrow> (r, b\<lparr>b_cache := c, b_pc := p\<rparr>))"

definition on_b_subs :: "(SubscribeManager \<times> 'p, 'a, 'e) prog \<Rightarrow> (('s, 'p, 'q) broker, 'a, 'e) prog" where
  "on_b_subs m b = (case m (b_subs b, b_pc b) of (r, (sm, p)) \<Rightarrow> (r, b\<lparr>b_subs := sm, b_pc := p\<rparr>))"

text \<open>A computation on the cache that only reads it.\<close>

definition read_cache :: "(CacheManager \<Rightarrow> ('a, 'e) result) \<Rightarrow> (('s, 'p, 'q) broker, 'a, 'e) prog" where
  "read_cache f b = (f (b_cache b), b)"

text \<open>\<open>Err(e) => return Err(MqttBrokerError::CommonError(e.to_string()))\<close>\<close>

definition common_text ::
    "('s, 'p, 'q) broker_env \<Rightarrow> (('s, 'p, 'q) broker, 'a, CommonError) prog \<Rightarrow> ('s, 'p, 'q, 'a) bprog" where
  "common_text E m = s_match m s_ok (\<lambda>e. s_err (BE_CommonError (be_show_common E e)))"

section \<open>Topics\<close>

definition get_topic_name ::
    "regex \<Rightarrow> u64 \<Rightarrow> CacheManager \<Rightarrow> Publish \<Rightarrow> PublishProperties option \<Rightarrow> (string, MqttBrokerError) result" where
  "get_topic_name R conn_id cache publish publish_properties =
     (let topic_alias = (case publish_properties of Some properties \<Rightarrow> pp_topic_alias properties | None \<Rightarrow> None) in
      and_then (from_utf8 (topic publish) BE_FromUtf8Error) (\<lambda>topic_text.
        if topic_text = [] \<and> topic_alias = None then Err TopicNameIsEmpty
        else
          and_then
            (if topic_text = [] then
               and_then (unwrap topic_alias) (\<lambda>alias.
                 case get_topic_alias cache conn_id alias of
                   Some tn \<Rightarrow> Ok tn
                 | None \<Rightarrow> Err TopicNameInvalid)
             else Ok topic_text)
            (\<lambda>topic_name.
              and_then (topic_name_validator R topic_name) (\<lambda>_.
              and_then (process_publish_topic_rewrite R topic_name (topic_rewrite_rule cache)) (\<lambda>rewrite_topic_name.
                case rewrite_topic_name of
                  Some val \<Rightarrow> and_then (topic_name_validator R val) (\<lambda>_. Ok val)
                | None \<Rightarrow> Ok topic_name)))))"

definition try_init_topic :: "('s, 'p, 'q) broker_env \<Rightarrow> string \<Rightarrow> ('s, 'p, 'q, MqttTopic) bprog" where
  "try_init_topic E topic_name =
     s_bind (s_get (\<lambda>b. get_topic_by_name (b_cache b) topic_name)) (\<lambda>cached.
       case cached of
         Some tp \<Rightarrow> s_ok tp
       | None \<Rightarrow>
           s_bind (on_b_pc (pl_get_topic (be_placement E) topic_name)) (\<lambda>stored.
           s_bind
             (case stored of
                Some t \<Rightarrow> s_ok t
              | None \<Rightarrow>
                  let t = topic_new (be_now E) (be_topic_uid E topic_name) (be_cluster_name E) topic_name in
                  s_bind (on_b_pc (pl_save_topic (be_placement E) t)) (\<lambda>_. s_ok t))
             (\<lambda>t.
               s_bind (upd_cache (add_topic topic_name t)) (\<lambda>_.
               s_bind (from_common (on_b_store (sa_list_shard (be_adapter E) (be_cluster_name E) topic_name))) (\<lambda>shards.
               s_bind
                 (if shards = [] then
                    from_common (on_b_store (sa_create_shard (be_adapter E)
                      \<lparr>si_namespace = be_cluster_name E, si_shard_name = topic_name, si_replica_num = 1\<rparr>))
                  else s_ok ())
                 (\<lambda>_. s_ok t))))))"

section \<open>Packet identifiers of clients\<close>

definition pkid_persistent :: "(('s, 'p, 'q) broker, bool, 'e) prog" where
  "pkid_persistent =
     s_bind (read_cache get_cluster_info) (\<lambda>cluster. s_ok (client_pkid_persistent (cl_protocol cluster)))"

definition pkid_save :: "('s, 'p, 'q) broker_env \<Rightarrow> string \<Rightarrow> u16 \<Rightarrow> ('s, 'p, 'q, unit) bprog" where
  "pkid_save E cid pkid =
     s_bind pkid_persistent (\<lambda>persistent.
       if persistent then common_text E (on_b_pc (pl_set_idempotent (be_placement E) cid (ucast pkid)))
       else upd_cache (add_client_pkid (be_now E) cid pkid))"

definition pkid_exists :: "('s, 'p, 'q) broker_env \<Rightarrow> string \<Rightarrow> u16 \<Rightarrow> ('s, 'p, 'q, bool) bprog" where
  "pkid_exists E cid pkid =
     s_bind pkid_persistent (\<lambda>persistent.
       if persistent then common_text E (on_b_pc (pl_exists_idempotent (be_placement E) cid (ucast pkid)))
       else s_get (\<lambda>b. get_client_pkid (b_cache b) cid pkid \<noteq> None))"

definition pkid_delete :: "('s, 'p, 'q) broker_env \<Rightarrow> string \<Rightarrow> u16 \<Rightarrow> ('s, 'p, 'q, unit) bprog" where
  "pkid_delete E cid pkid =
     s_bind pkid_persistent (\<lambda>persistent.
       if persistent then common_text E (on_b_pc (pl_delete_idempotent (be_placement E) cid (ucast pkid)))
       else upd_cache (delete_client_pkid cid pkid))"

section \<open>Sessions and wills\<close>

definition build_session ::
    "('s, 'p, 'q) broker_env \<Rightarrow> u64 \<Rightarrow> string \<Rightarrow> Connect \<Rightarrow> ConnectProperties option \<Rightarrow> LastWill option \<Rightarrow>
     LastWillProperties option \<Rightarrow> ('s, 'p, 'q, MqttSession \<times> bool) bprog" where
  "build_session E conn_id cid connect connect_properties last_will last_will_properties =
     s_bind (read_cache (\<lambda>cache. session_expiry_interval cache connect_properties)) (\<lambda>expiry.
     let fresh = session_new (be_now E) cid expiry (last_will \<noteq> None) (last_will_delay_interval last_will_properties) in
     s_bind
       (if clean_session connect then
          s_bind (common_text E (on_b_pc (pl_get_session (be_placement E) cid))) (\<lambda>stored.
            case stored of
              Some session \<Rightarrow> s_ok (session, False)
            | None \<Rightarrow> s_ok (fresh, True))
        else s_ok (fresh, True))
       (\<lambda>(session, new_session).
         s_ok (update_reconnect_time (be_now E) (update_broker_id (Some (be_broker_id E))
           (update_connnction_id (Some conn_id) session)), new_session)))"

definition save_session ::
    "('s, 'p, 'q) broker_env \<Rightarrow> u64 \<Rightarrow> MqttSession \<Rightarrow> bool \<Rightarrow> string \<Rightarrow> ('s, 'p, 'q, unit) bprog" where
  "save_session E conn_id session new_session cid =
     (if new_session then common_text E (on_b_pc (pl_set_session (be_placement E) cid session))
      else common_text E (on_b_pc (pl_update_session (be_placement E) cid conn_id (be_broker_id E) (be_now E) 0)))"

definition save_last_will_message ::
    "('s, 'p, 'q) broker_env \<Rightarrow> string \<Rightarrow> LastWill option \<Rightarrow> LastWillProperties option \<Rightarrow> ('s, 'p, 'q, unit) bprog" where
  "save_last_will_message E cid last_will last_will_properties =
     (if last_will = None then s_ok ()
      else from_common (on_b_pc (pl_save_last_will (be_placement E) cid
        \<lparr>lwd_client_id = cid, lwd_last_will = last_will, lwd_last_will_properties = last_will_properties\<rparr>)))"

section \<open>Messages\<close>

definition build_record ::
    "('s, 'p, 'q) broker_env \<Rightarrow> string \<Rightarrow> Publish \<Rightarrow> PublishProperties option \<Rightarrow> u64 \<Rightarrow> Record option" where
  "build_record E cid publish publish_properties expiry_interval =
     (case be_encode E (build_message (be_now E) cid publish publish_properties expiry_interval) of
        Some data \<Rightarrow> Some (build_byte (be_crc E) (be_now E) data)
      | None \<Rightarrow> None)"

text \<open>\<open>format!("{:?}", offsets)\<close>\<close>

fun join_sep :: "string \<Rightarrow> string list \<Rightarrow> string" where
  "join_sep sep [] = []"
| "join_sep sep [x] = x"
| "join_sep sep (x # y # xs) = x @ sep @ join_sep sep (y # xs)"

definition show_offsets :: "u64 list \<Rightarrow> string" where
  "show_offsets offsets = ''['' @ join_sep '', '' (map (\<lambda>i. show_nat (unat i)) offsets) @ '']''"

definition is_exist_subscribe :: "SubscribeManager \<Rightarrow> string \<Rightarrow> bool" where
  "is_exist_subscribe subscribe_manager t = contain_topic_subscribe subscribe_manager t"

definition save_message ::
    "('s, 'p, 'q) broker_env \<Rightarrow> Publish \<Rightarrow> PublishProperties option \<Rightarrow> string \<Rightarrow> MqttTopic \<Rightarrow>
     ('s, 'p, 'q, string option) bprog" where
  "save_message E publish publish_properties cid t =
     s_bind (s_get (\<lambda>b. is_exist_subscribe (b_subs b) (t_topic_name t))) (\<lambda>subscribed.
     s_bind (if subscribed then s_ok True
             else s_bind (read_cache get_cluster_info) (\<lambda>cluster. s_ok (cl_offline_message cluster))) (\<lambda>keep.
       if \<not> keep then s_ok None
       else
         s_bind (read_cache (\<lambda>cache. build_message_expire (be_now E) cache publish_properties)) (\<lambda>message_expire.
           case build_record E cid publish publish_properties message_expire of
             None \<Rightarrow> s_ok None
           | Some record \<Rightarrow>
               (if is_delay_message (t_topic_name t) then
                  s_bind (s_lift (decode_delay_topic (t_topic_name t))) (\<lambda>delay_topic.
                    if delay_topic = None then s_err (DelayPublishDecodeTopicNameFail (t_topic_name t))
                    else
                      s_bind (from_common (on_b_delay (send_delay_message (be_adapter E) (be_queue E) (be_instant E) record)))
                        (\<lambda>_. s_ok None))
                else
                  s_bind (from_common (on_b_store
                      (append_topic_message (be_adapter E) (be_cluster_name E) (topic_id t) [record]))) (\<lambda>offsets.
                    s_ok (Some (show_offsets offsets)))))))"

definition save_retain_message ::
    "('s, 'p, 'q) broker_env \<Rightarrow> string \<Rightarrow> string \<Rightarrow> Publish \<Rightarrow> PublishProperties option \<Rightarrow> ('s, 'p, 'q, unit) bprog" where
  "save_retain_message E topic_name cid publish publish_properties =
     (if \<not> retain publish then s_ok ()
      else if payload publish = [] then
        s_bind (on_b_pc (pl_delete_retain_message (be_placement E) topic_name)) (\<lambda>_.
          upd_cache (update_topic_retain_message topic_name (Some [])))
      else
        s_bind (read_cache (\<lambda>cache. build_message_expire (be_now E) cache publish_properties)) (\<lambda>message_expire.
        let message = build_message (be_now E) cid publish publish_properties message_expire in
        s_bind (on_b_pc (pl_set_retain_message (be_placement E) topic_name message message_expire)) (\<lambda>_.
        s_bind (s_lift (unwrap (be_encode E message))) (\<lambda>data.
          upd_cache (update_topic_retain_message topic_name (Some data))))))"

definition is_new_sub :: "string \<Rightarrow> Subscribe \<Rightarrow> SubscribeManager \<Rightarrow> (string, bool) dashmap" where
  "is_new_sub cid subscribe subscribe_manager =
     fold (\<lambda>f results. dm_insert (path f) (get_subscribe subscribe_manager cid (path f) = None) results)
       (s_filters subscribe) []"

definition send_last_will_message ::
    "('s, 'p, 'q) broker_env \<Rightarrow> string \<Rightarrow> LastWill option \<Rightarrow> LastWillProperties option \<Rightarrow> ('s, 'p, 'q, unit) bprog" where
  "send_last_will_message E cid last_will last_will_properties =
     s_bind (s_lift (build_publish_message_by_lastwill last_will last_will_properties))
       (\<lambda>(topic_name, publish_res, publish_properties).
         case publish_res of
           None \<Rightarrow> s_ok ()
         | Some publish \<Rightarrow>
             if topic_name = [] then s_ok ()
             else
               s_bind (try_init_topic E topic_name) (\<lambda>t.
               s_bind (save_retain_message E topic_name cid publish publish_properties) (\<lambda>_.
               s_bind (read_cache (\<lambda>cache. build_message_expire (be_now E) cache publish_properties)) (\<lambda>message_expire.
                 case build_record E cid publish publish_properties message_expire of
                   None \<Rightarrow> s_ok ()
                 | Some record \<Rightarrow>
                     s_bind (from_common (on_b_store
                       (append_topic_message (be_adapter E) (be_cluster_name E) (topic_id t) [record]))) (\<lambda>_. s_ok ())))))"

section \<open>Connections\<close>

definition close_connect :: "u64 \<Rightarrow> ('s, 'p, 'q) broker \<Rightarrow> ('s, 'p, 'q) broker" where
  "close_connect conn_id b = b\<lparr>b_conns := dm_remove conn_id (b_conns b)\<rparr>"

definition set_connect_protocol :: "u64 \<Rightarrow> u8 \<Rightarrow> ('s, 'p, 'q) broker \<Rightarrow> ('s, 'p, 'q) broker" where
  "set_connect_protocol conn_id protocol b =
     b\<lparr>b_conns := dm_modify conn_id (\<lambda>conn.
       if protocol = 3 then conn\<lparr>nc_protocol := Some Mqtt3\<rparr>
       else if protocol = 4 then conn\<lparr>nc_protocol := Some Mqtt4\<rparr>
       else if protocol = 5 then conn\<lparr>nc_protocol := Some Mqtt5\<rparr>
       else conn) (b_conns b)\<rparr>"

definition disconnect_connection :: "('s, 'p, 'q) broker_env \<Rightarrow> string \<Rightarrow> u64 \<Rightarrow> ('s, 'p, 'q, unit) bprog" where
  "disconnect_connection E cid conn_id =
     s_bind (upd_cache (remove_connection conn_id)) (\<lambda>_.
     s_bind (upd_cache (update_session_connect_id (be_now E) cid None)) (\<lambda>_.
     s_bind (common_text E (on_b_pc (pl_update_session (be_placement E) cid 0 0 0 (be_now E)))) (\<lambda>_.
       s_upd (close_connect conn_id))))"

end
