(* ===== verification/System_Events.thy ===== *)
theory System_Events
  imports Broker_State
begin

text \<open>
  The system topics on which the broker reports clients: \<open>src/mqtt-broker/src/observability/system_topic\<close>
  (\<open>event.rs\<close>, \<open>mod.rs\<close>).  \<open>serde_json\<close>, the local address, the clock in milliseconds and the texts of
  \<open>{:?}\<close> are parameters.
\<close>

record SystemTopicConnectedEventMessage =
  ce_username :: string
  ce_ts :: u128
  ce_sock_port :: u16
  ce_proto_ver :: "MqttProtocol option"
  ce_proto_name :: string
  ce_keepalive :: u16
  ce_ip_address :: string
  ce_expiry_interval :: u64
  ce_connected_at :: u128
  ce_connect_ack :: u16
  ce_client_id :: string
  ce_clean_start :: bool

record SystemTopicDisConnectedEventMessage =
  de_username :: string
  de_ts :: u128
  de_sock_port :: u16
  de_reason :: string
  de_proto_ver :: "MqttProtocol option"
  de_proto_name :: string
  de_ip_address :: string
  de_disconnected_at :: u128
  de_client_id :: string

record SystemTopicSubscribedEventMessageSUbopts =
  so_sub_props :: "(string \<times> string) list"
  so_rh :: u16
  so_rap :: u8
  so_qos :: u8
  so_nl :: u16
  so_is_new :: bool

record SystemTopicSubscribedEventMessage =
  see_username :: string
  see_ts :: u128
  see_subopts :: SystemTopicSubscribedEventMessageSUbopts
  see_topic :: string
  see_protocol :: string
  see_client_id :: string

record SystemTopicUnSubscribedEventMessage =
  ue_username :: string
  ue_ts :: u128
  ue_topic :: string
  ue_protocol :: string
  ue_client_id :: string

record event_env =
  ee_local_ip :: string
  ee_now_mills :: u128
  ee_show_protocol :: "MqttProtocol option \<Rightarrow> string"
  ee_show_reason :: "DisconnectReasonCode option \<Rightarrow> string"
  ee_connected :: "SystemTopicConnectedEventMessage \<Rightarrow> string option"
  ee_disconnected :: "SystemTopicDisConnectedEventMessage \<Rightarrow> string option"
  ee_subscribed :: "SystemTopicSubscribedEventMessage \<Rightarrow> string option"
  ee_unsubscribed :: "SystemTopicUnSubscribedEventMessage \<Rightarrow> string option"

definition SYSTEM_TOPIC_BROKERS_CONNECTED :: string where
  "SYSTEM_TOPIC_BROKERS_CONNECTED = ''$SYS/brokers/${node}/clients/${clientid}/connected''"

definition SYSTEM_TOPIC_BROKERS_DISCONNECTED :: string where
  "SYSTEM_TOPIC_BROKERS_DISCONNECTED = ''$SYS/brokers/${node}/clients/${clientid}/disconnected''"

definition SYSTEM_TOPIC_BROKERS_SUBSCRIBED :: string where
  "SYSTEM_TOPIC_BROKERS_SUBSCRIBED = ''$SYS/brokers/${node}/clients/${clientid}/subscribed''"

definition SYSTEM_TOPIC_BROKERS_UNSUBSCRIBED :: string where
  "SYSTEM_TOPIC_BROKERS_UNSUBSCRIBED = ''$SYS/brokers/${node}/clients/${clientid}/unsubscribed''"

text \<open>\<open>replace\<close> leaves a text without the placeholder as it is.\<close>

definition replace_name :: "event_env \<Rightarrow> string \<Rightarrow> string \<Rightarrow> string" where
  "replace_name V topic_name cid =
     str_replace ''${client_id}'' cid (str_replace ''${node}'' (ee_local_ip V) topic_name)"

definition build_system_topic_message :: "('s, 'p, 'q) broker_env \<Rightarrow> string \<Rightarrow> string \<Rightarrow> Record option" where
  "build_system_topic_message E topic_name text =
     (case be_encode E
        \<lparr>msg_client_id = ''-'', msg_dup = False, msg_qos = AtMostOnce, msg_pkid = 0, msg_retain = False,
         msg_topic = as_bytes topic_name, msg_payload = as_bytes text, msg_format_indicator = None,
         msg_expiry_interval = 0, msg_response_topic = None, msg_correlation_data = None,
         msg_user_properties = [], msg_subscription_identifiers = [], msg_content_type = None,
         msg_create_time = be_now E\<rparr> of
        Some data \<Rightarrow> Some (build_byte (be_crc E) (be_now E) data)
      | None \<Rightarrow> None)"

text \<open>Errors are logged.\<close>

definition write_topic_data :: "('s, 'p, 'q) broker_env \<Rightarrow> string \<Rightarrow> Record \<Rightarrow> (('s, 'p, 'q) broker, unit, 'e) prog" where
  "write_topic_data E topic_name record =
     s_match (try_init_topic E topic_name)
       (\<lambda>t. s_match (on_b_store (append_topic_message (be_adapter E) (be_cluster_name E) (topic_id t) [record]))
         (\<lambda>_. s_ok ()) (\<lambda>_. s_ok ()))
       (\<lambda>_. s_ok ())"

text \<open>The part that the reports share.\<close>

definition report_event ::
    "('s, 'p, 'q) broker_env \<Rightarrow> event_env \<Rightarrow> string \<Rightarrow> string \<Rightarrow> string option \<Rightarrow> (('s, 'p, 'q) broker, unit, 'e) prog" where
  "report_event E V system_topic cid json =
     (case json of
        Some data \<Rightarrow>
          (let topic_name = replace_name V system_topic cid in
           case build_system_topic_message E topic_name data of
             Some record \<Rightarrow> write_topic_data E topic_name record
           | None \<Rightarrow> s_ok ())
      | None \<Rightarrow> s_ok ())"

definition with_network :: "u64 \<Rightarrow> (NetworkConnection \<Rightarrow> (('s, 'p, 'q) broker, unit, 'e) prog) \<Rightarrow>
    (('s, 'p, 'q) broker, unit, 'e) prog" where
  "with_network conn_id f =
     s_bind (s_get (\<lambda>b. dm_get (b_conns b) conn_id)) (\<lambda>network_connection.
       case network_connection of Some nc \<Rightarrow> f nc | None \<Rightarrow> s_ok ())"

definition st_report_connected_event ::
    "('s, 'p, 'q) broker_env \<Rightarrow> event_env \<Rightarrow> MqttSession \<Rightarrow> MQTTConnection \<Rightarrow> u64 \<Rightarrow> (('s, 'p, 'q) broker, unit, 'e) prog" where
  "st_report_connected_event E V session connection conn_id =
     with_network conn_id (\<lambda>nc.
       report_event E V SYSTEM_TOPIC_BROKERS_CONNECTED (ses_client_id session)
         (ee_connected V
           \<lparr>ce_username = login_user connection, ce_ts = ee_now_mills V, ce_sock_port = addr_port (nc_addr nc),
            ce_proto_ver = nc_protocol nc, ce_proto_name = ''MQTT'', ce_keepalive = conn_keep_alive connection,
            ce_ip_address = source_ip_addr connection, ce_expiry_interval = session_expiry session,
            ce_connected_at = ee_now_mills V, ce_connect_ack = 1, ce_client_id = ses_client_id session,
            ce_clean_start = False\<rparr>))"

definition st_report_disconnected_event ::
    "('s, 'p, 'q) broker_env \<Rightarrow> event_env \<Rightarrow> MqttSession \<Rightarrow> MQTTConnection \<Rightarrow> u64 \<Rightarrow> DisconnectReasonCode option \<Rightarrow>
     (('s, 'p, 'q) broker, unit, 'e) prog" where
  "st_report_disconnected_event E V session connection conn_id reason =
     with_network conn_id (\<lambda>nc.
       report_event E V SYSTEM_TOPIC_BROKERS_DISCONNECTED (ses_client_id session)
         (ee_disconnected V
           \<lparr>de_username = login_user connection, de_ts = ee_now_mills V, de_sock_port = addr_port (nc_addr nc),
            de_reason = ee_show_reason V reason, de_proto_ver = nc_protocol nc, de_proto_name = ''MQTT'',
            de_ip_address = source_ip_addr connection, de_disconnected_at = ee_now_mills V,
            de_client_id = ses_client_id session\<rparr>))"

definition st_report_subscribed_event ::
    "('s, 'p, 'q) broker_env \<Rightarrow> event_env \<Rightarrow> MQTTConnection \<Rightarrow> u64 \<Rightarrow> Subscribe \<Rightarrow> (('s, 'p, 'q) broker, unit, 'e) prog" where
  "st_report_subscribed_event E V connection conn_id subscribe =
     with_network conn_id (\<lambda>nc.
       s_for (s_filters subscribe) (\<lambda>f.
         report_event E V SYSTEM_TOPIC_BROKERS_SUBSCRIBED (conn_client_id connection)
           (ee_subscribed V
             \<lparr>see_username = login_user connection, see_ts = ee_now_mills V,
              see_subopts = \<lparr>so_sub_props = [], so_rh = (if preserve_retain f then 1 else 0),
                so_rap = retain_forward_to_u8 (retain_forward_rule f), so_qos = qos_to_u8 (f_qos f),
                so_nl = (if nolocal f then 1 else 0), so_is_new = True\<rparr>,
              see_topic = path f, see_protocol = ee_show_protocol V (nc_protocol nc),
              see_client_id = conn_client_id connection\<rparr>)))"

definition st_report_unsubscribed_event ::
    "('s, 'p, 'q) broker_env \<Rightarrow> event_env \<Rightarrow> MQTTConnection \<Rightarrow> u64 \<Rightarrow> Unsubscribe \<Rightarrow> (('s, 'p, 'q) broker, unit, 'e) prog" where
  "st_report_unsubscribed_event E V connection conn_id un_subscribe =
     with_network conn_id (\<lambda>nc.
       s_for (u_filters un_subscribe) (\<lambda>p.
         report_event E V SYSTEM_TOPIC_BROKERS_UNSUBSCRIBED (conn_client_id connection)
           (ee_unsubscribed V
             \<lparr>ue_username = login_user connection, ue_ts = ee_now_mills V, ue_topic = p,
              ue_protocol = ee_show_protocol V (nc_protocol nc), ue_client_id = conn_client_id connection\<rparr>)))"

end
