(* ===== verification/Mqtt_Service.thy ===== *)
theory Mqtt_Service
  imports System_Events
begin

text \<open>
  The packet handlers of the broker: \<open>MqttService\<close> of \<open>src/mqtt-broker/src/handler/mqtt.rs\<close>, the checks of
  \<open>handler/validator.rs\<close> that need the state, and the dispatch of \<open>handler/command.rs\<close>.

  An early \<open>return\<close> of a handler is the error of its program: \<open>returning\<close> turns it into the response.
  The counters of a connection are shared between its copies, so they are kept in the cache.
\<close>

definition returning :: "('s, 'a, 'a) prog \<Rightarrow> ('s, 'a, 'e) prog" where
  "returning m = s_match m s_ok s_ok"

definition modify_connection :: "u64 \<Rightarrow> (MQTTConnection \<Rightarrow> MQTTConnection) \<Rightarrow> CacheManager \<Rightarrow> CacheManager" where
  "modify_connection conn_id f cache = cache\<lparr>connection_info := dm_modify conn_id f (connection_info cache)\<rparr>"

definition the_connection :: "u64 \<Rightarrow> 'r \<Rightarrow> (('s, 'p, 'q) broker, MQTTConnection, 'r) prog" where
  "the_connection conn_id r =
     s_bind (s_get (\<lambda>b. dm_get (connection_info (b_cache b)) conn_id)) (\<lambda>se.
       case se of Some connection \<Rightarrow> s_ok connection | None \<Rightarrow> s_err r)"

section \<open>Connect\<close>

definition run_flapping_detect :: "u64 \<Rightarrow> string \<Rightarrow> (('s, 'p, 'q) broker, unit, 'e) prog" where
  "run_flapping_detect now_second cid b =
     (case check_flapping_detect now_second cid (b_cache b, b_counters b) of
        Ok (cache, counters) \<Rightarrow> (Ok (), b\<lparr>b_cache := cache, b_counters := counters\<rparr>)
      | Err e \<Rightarrow> (Err e, b)
      | Panic \<Rightarrow> (Panic, b))"

definition mqtt_connect ::
    "('s, 'p, 'q) broker_env \<Rightarrow> event_env \<Rightarrow> MqttProtocol \<Rightarrow> u64 \<Rightarrow> Connect \<Rightarrow> ConnectProperties option \<Rightarrow>
     LastWill option \<Rightarrow> LastWillProperties option \<Rightarrow> Login option \<Rightarrow> SocketAddr \<Rightarrow>
     (('s, 'p, 'q) broker, MqttPacket, 'e) prog" where
  "mqtt_connect E V protocol conn_id connect connect_properties last_will last_will_properties login addr =
     (let fail = (\<lambda>code reason. response_packet_mqtt_connect_fail protocol code connect_properties reason);
          failing = (\<lambda>code e. fail code (Some (be_show_err E e))) in
      returning (
        s_bind (read_cache get_cluster_info) (\<lambda>cluster.
        s_bind (s_lift (connect_validator (be_regex E) (be_show_err E) (be_show_utf8 E) protocol cluster connect
            connect_properties last_will last_will_properties login)) (\<lambda>res.
        case res of Some packet \<Rightarrow> s_err packet | None \<Rightarrow>
        let (cid, new_client_id) = get_client_id (be_client_uid E) (client_id connect);
            connection = build_connection (be_now E) conn_id cid cluster connect connect_properties addr in
        s_bind (read_cache (\<lambda>cache. allow_connect (be_auth E) cache connection)) (\<lambda>banned.
        if banned then s_err (fail CR_Banned None) else
        s_bind (s_match (on_b_auth (check_login_auth (be_auth E) (be_auth_driver E) login)) s_ok
            (\<lambda>e. s_err (failing CR_UnspecifiedError e))) (\<lambda>flag.
        if \<not> flag then s_err (fail CR_NotAuthorized None) else
        s_bind (if fd_enable (cl_flapping_detect cluster) then run_flapping_detect (be_now E) (client_id connect)
                else s_ok ()) (\<lambda>_.
        s_bind (s_match (build_session E conn_id cid connect connect_properties last_will last_will_properties) s_ok
            (\<lambda>e. s_err (failing CR_MalformedPacket e))) (\<lambda>(session, new_session).
        s_bind (s_match (save_session E conn_id session new_session cid) s_ok (\<lambda>e. s_err (failing CR_MalformedPacket e))) (\<lambda>_.
        s_bind (s_match (save_last_will_message E cid last_will last_will_properties) s_ok
            (\<lambda>e. s_err (failing CR_UnspecifiedError e))) (\<lambda>_.
        s_bind (upd_cache (report_heartbeat cid
            \<lparr>lt_protocol = protocol, lt_keep_live = conn_keep_alive connection, lt_heartbeat = be_now E\<rparr>)) (\<lambda>_.
        s_bind (upd_cache (add_session cid session)) (\<lambda>_.
        s_bind (upd_cache (add_connection conn_id connection)) (\<lambda>_.
        s_bind (st_report_connected_event E V session connection conn_id) (\<lambda>_.
          s_ok (response_packet_mqtt_connect_success protocol cluster cid new_client_id (ucast (session_expiry session))
            new_session (conn_keep_alive connection) connect_properties)))))))))))))))"

section \<open>Publish\<close>

definition publish_fail ::
    "MqttProtocol \<Rightarrow> MQTTConnection \<Rightarrow> Publish \<Rightarrow> PubAckReason \<Rightarrow> PubRecReason \<Rightarrow> string option \<Rightarrow> MqttPacket" where
  "publish_fail protocol connection publish ack_reason rec_reason text =
     (if p_qos publish \<noteq> ExactlyOnce
      then response_packet_mqtt_puback_fail protocol connection (p_pkid publish) ack_reason text
      else response_packet_mqtt_pubrec_fail protocol connection (p_pkid publish) rec_reason text)"

definition publish_validator ::
    "('s, 'p, 'q) broker_env \<Rightarrow> MqttProtocol \<Rightarrow> MQTTConnection \<Rightarrow> Publish \<Rightarrow> PublishProperties option \<Rightarrow>
     (('s, 'p, 'q) broker, MqttPacket option, 'e) prog" where
  "publish_validator E protocol connection publish publish_properties =
     returning (
       s_bind
         (if p_qos publish = ExactlyOnce then
            s_match (pkid_exists E (conn_client_id connection) (p_pkid publish))
              (\<lambda>res. if res then s_err (Some (response_packet_mqtt_pubrec_fail protocol connection (p_pkid publish)
                         PR_PacketIdentifierInUse None))
                     else s_ok ())
              (\<lambda>e. s_err (Some (response_packet_mqtt_pubrec_fail protocol connection (p_pkid publish)
                     PR_UnspecifiedError (Some (be_show_err E e)))))
          else s_ok ()) (\<lambda>_.
       s_bind (read_cache get_cluster_info) (\<lambda>cluster.
         if length (payload publish) > unat (min (cl_max_packet_size (cl_protocol cluster)) (conn_max_packet_size connection)) then
           s_err (Some (publish_fail protocol connection publish PA_PayloadFormatInvalid PR_PayloadFormatInvalid
             (Some (be_show_err E (PacketLengthError (length (payload publish)))))))
         else if (case publish_properties of
                    Some properties \<Rightarrow> pp_payload_format_indicator properties = Some 1 \<and> \<not> utf8_valid (payload publish)
                  | None \<Rightarrow> False) then
           s_err (Some (publish_fail protocol connection publish PA_PayloadFormatInvalid PR_PayloadFormatInvalid
             (Some (be_show_err E (PacketLengthError (length (payload publish)))))))
         else if is_qos_message (p_qos publish) \<and>
                 sint (receive_qos_message connection) \<ge> uint (cl_receive_max (cl_protocol cluster)) then
           s_err (Some (publish_fail protocol connection publish PA_QuotaExceeded PR_QuotaExceeded None))
         else
           (case (case publish_properties of Some properties \<Rightarrow> pp_topic_alias properties | None \<Rightarrow> None) of
              Some alias \<Rightarrow>
                (if alias > cl_topic_alias_max (cl_protocol cluster) then
                   s_err (Some (publish_fail protocol connection publish PA_UnspecifiedError PR_UnspecifiedError
                     (Some (be_show_err E (TopicAliasTooLong alias)))))
                 else s_ok None)
            | None \<Rightarrow> s_ok None))))"

text \<open>The part of \<open>publish\<close> that follows the permission check.\<close>

definition publish_accepted ::
    "('s, 'p, 'q) broker_env \<Rightarrow> MqttProtocol \<Rightarrow> u64 \<Rightarrow> MQTTConnection \<Rightarrow> string \<Rightarrow> Publish \<Rightarrow> PublishProperties option \<Rightarrow>
     (('s, 'p, 'q) broker, MqttPacket option, MqttPacket option) prog" where
  "publish_accepted E protocol conn_id connection topic_name publish publish_properties =
     (let unspecified = (\<lambda>text. Some (publish_fail protocol connection publish PA_UnspecifiedError
            PR_UnspecifiedError (Some text)));
          failing = (\<lambda>e. unspecified (be_show_err E e));
          cid = conn_client_id connection in
      s_bind (s_match (try_init_topic E topic_name) s_ok (\<lambda>e. s_err (failing e))) (\<lambda>t.
      s_bind (if be_is_check_schema E topic_name then
                (case be_schema_error E topic_name (payload publish) of
                   Some text \<Rightarrow> s_err (unspecified text) | None \<Rightarrow> s_ok ())
              else s_ok ()) (\<lambda>_.
      s_bind (s_match (save_retain_message E topic_name cid publish publish_properties) s_ok (\<lambda>e. s_err (failing e))) (\<lambda>_.
      s_bind (s_match (save_message E publish publish_properties cid t) s_ok (\<lambda>e. s_err (failing e))) (\<lambda>da.
      let user_properties = [(''offset'', case da of Some text \<Rightarrow> ''Some('' @ [CHR 0x22] @ text @ [CHR 0x22] @ '')'' | None \<Rightarrow> ''None'')] in
      s_bind (upd_cache (add_topic_alias conn_id topic_name publish_properties)) (\<lambda>_.
        case p_qos publish of
          AtMostOnce \<Rightarrow> s_ok None
        | AtLeastOnce \<Rightarrow>
            s_ok (Some (response_packet_mqtt_puback_success protocol
              (if path_contain_sub topic_name then PA_Success else PA_NoMatchingSubscribers)
              (p_pkid publish) user_properties))
        | ExactlyOnce \<Rightarrow>
            s_bind (s_match (pkid_save E cid (p_pkid publish)) s_ok (\<lambda>e. s_err (failing e))) (\<lambda>_.
              s_ok (Some (response_packet_mqtt_pubrec_success protocol
                (if path_contain_sub topic_name then PR_Success else PR_NoMatchingSubscribers)
                (p_pkid publish) user_properties)))))))))"

definition mqtt_publish ::
    "('s, 'p, 'q) broker_env \<Rightarrow> MqttProtocol \<Rightarrow> u64 \<Rightarrow> Publish \<Rightarrow> PublishProperties option \<Rightarrow>
     (('s, 'p, 'q) broker, MqttPacket option, 'e) prog" where
  "mqtt_publish E protocol conn_id publish publish_properties =
     returning (
       s_bind (the_connection conn_id
           (Some (response_packet_mqtt_distinct_by_reason protocol (Some DR_MaximumConnectTime)))) (\<lambda>connection.
       s_bind (publish_validator E protocol connection publish publish_properties) (\<lambda>res.
       case res of Some pkg \<Rightarrow> s_err (if p_qos publish = AtMostOnce then None else Some pkg) | None \<Rightarrow>
       s_bind (s_match (read_cache (\<lambda>cache. get_topic_name (be_regex E) conn_id cache publish publish_properties)) s_ok
           (\<lambda>e. s_err (Some (publish_fail protocol connection publish PA_UnspecifiedError PR_UnspecifiedError
             (Some (be_show_err E e)))))) (\<lambda>topic_name.
       s_bind (read_cache (\<lambda>cache.
           allow_publish (be_auth E) cache connection topic_name (retain publish) (p_qos publish))) (\<lambda>allowed.
       if \<not> allowed then s_err (Some (publish_fail protocol connection publish PA_NotAuthorized PR_NotAuthorized None))
       else publish_accepted E protocol conn_id connection topic_name publish publish_properties)))))"

section \<open>Acknowledgements\<close>

text \<open>The channel of the task that waits for the acknowledgement; \<open>False\<close> when nobody waits.\<close>

definition send_ack ::
    "('s, 'p, 'q) broker_env \<Rightarrow> u64 \<Rightarrow> QosAckPackageType \<Rightarrow> u16 \<Rightarrow> (('s, 'p, 'q) broker, bool, 'e) prog" where
  "send_ack E conn_id ty pkid =
     s_bind (s_get b_cache) (\<lambda>cache.
       case dm_get (connection_info cache) conn_id of
         Some conn \<Rightarrow>
           (case get_ack_packet cache (conn_client_id conn) pkid of
              Some data \<Rightarrow>
                (if se_has_receiver (be_sub E) (ack_sx data) then
                   s_bind (s_upd (\<lambda>b. b\<lparr>b_acks := b_acks b @ [(ack_sx data, \<lparr>ack_type = ty, ack_pkid = pkid\<rparr>)]\<rparr>)) (\<lambda>_.
                     s_ok True)
                 else s_ok False)
            | None \<Rightarrow> s_ok False)
       | None \<Rightarrow> s_ok False)"

definition mqtt_publish_ack ::
    "('s, 'p, 'q) broker_env \<Rightarrow> u64 \<Rightarrow> PubAck \<Rightarrow> (('s, 'p, 'q) broker, MqttPacket option, 'e) prog" where
  "mqtt_publish_ack E conn_id pub_ack = s_bind (send_ack E conn_id QA_PubAck (pa_pkid pub_ack)) (\<lambda>_. s_ok None)"

definition mqtt_publish_rec ::
    "('s, 'p, 'q) broker_env \<Rightarrow> MqttProtocol \<Rightarrow> u64 \<Rightarrow> PubRec \<Rightarrow> (('s, 'p, 'q) broker, MqttPacket option, 'e) prog" where
  "mqtt_publish_rec E protocol conn_id pub_rec =
     s_bind (send_ack E conn_id QA_PubRec (pr_pkid pub_rec)) (\<lambda>sent.
       if sent then s_ok None
       else s_ok (Some (response_packet_mqtt_pubrel_success protocol (pr_pkid pub_rec) PL_Success)))"

definition mqtt_publish_comp ::
    "('s, 'p, 'q) broker_env \<Rightarrow> u64 \<Rightarrow> PubComp \<Rightarrow> (('s, 'p, 'q) broker, MqttPacket option, 'e) prog" where
  "mqtt_publish_comp E conn_id pub_comp = s_bind (send_ack E conn_id QA_PubComp (pc_pkid pub_comp)) (\<lambda>_. s_ok None)"

definition mqtt_publish_rel ::
    "('s, 'p, 'q) broker_env \<Rightarrow> MqttProtocol \<Rightarrow> u64 \<Rightarrow> PubRel \<Rightarrow> (('s, 'p, 'q) broker, MqttPacket, 'e) prog" where
  "mqtt_publish_rel E protocol conn_id pub_rel =
     returning (
       s_bind (the_connection conn_id (response_packet_mqtt_distinct_by_reason protocol (Some DR_MaximumConnectTime)))
         (\<lambda>connection.
       let failing = (\<lambda>text. response_packet_mqtt_pubcomp_fail protocol connection (pl_pkid pub_rel)
             PC_PacketIdentifierNotFound text) in
       s_bind (s_match (pkid_exists E (conn_client_id connection) (pl_pkid pub_rel)) s_ok
           (\<lambda>e. s_err (failing (Some (be_show_err E e))))) (\<lambda>res.
       if \<not> res then s_err (failing None) else
       s_bind (s_match (pkid_delete E (conn_client_id connection) (pl_pkid pub_rel))
           (\<lambda>_. upd_cache (modify_connection conn_id recv_qos_message_decr))
           (\<lambda>e. s_err (failing (Some (be_show_err E e))))) (\<lambda>_.
       s_bind (upd_cache (modify_connection conn_id recv_qos_message_decr)) (\<lambda>_.
         s_ok (response_packet_mqtt_pubcomp_success protocol (pl_pkid pub_rel)))))))"

section \<open>Subscribe and unsubscribe\<close>

definition invalid_paths :: "regex \<Rightarrow> string list \<Rightarrow> (string list, 'e) result" where
  "invalid_paths R ps =
     and_then (r_map (sub_path_validator R) ps) (\<lambda>oks. Ok (map fst (filter (\<lambda>(_, ok). \<not> ok) (zip ps oks))))"

definition subscribe_validator ::
    "('s, 'p, 'q) broker_env \<Rightarrow> MqttProtocol \<Rightarrow> MQTTConnection \<Rightarrow> Subscribe \<Rightarrow>
     (('s, 'p, 'q) broker, MqttPacket option, 'e) prog" where
  "subscribe_validator E protocol connection subscribe =
     (let suback = (\<lambda>codes. Some (response_packet_mqtt_suback protocol connection (packet_identifier subscribe) codes None)) in
      s_bind (s_lift (invalid_paths (be_regex E) (map path (s_filters subscribe)))) (\<lambda>invalid.
        if invalid \<noteq> [] then s_ok (suback (map (\<lambda>_. SR_TopicFilterInvalid) invalid))
        else if is_subscribe_rate_exceeded then s_ok (suback [SR_QuotaExceeded])
        else
          s_bind (\<lambda>b. (check_exclusive_subscribe (b_cache b) (b_subs b) subscribe, b)) (\<lambda>ok.
          if \<not> ok then s_ok (suback [SR_TopicSubscribed])
          else
            s_bind (read_cache (\<lambda>cache. allow_subscribe (be_auth E) cache connection subscribe)) (\<lambda>allowed.
              if \<not> allowed then s_ok (suback [SR_NotAuthorized]) else s_ok None))))"

definition suback_code :: "QoS \<Rightarrow> SubscribeReasonCode" where
  "suback_code q = (case q of AtMostOnce \<Rightarrow> SR_QoS0 | AtLeastOnce \<Rightarrow> SR_QoS1 | ExactlyOnce \<Rightarrow> SR_QoS2)"

definition mqtt_subscribe ::
    "('s, 'p, 'q) broker_env \<Rightarrow> event_env \<Rightarrow> MqttProtocol \<Rightarrow> u64 \<Rightarrow> Subscribe \<Rightarrow> SubscribeProperties option \<Rightarrow>
     (('s, 'p, 'q) broker, MqttPacket, 'e) prog" where
  "mqtt_subscribe E V protocol conn_id subscribe subscribe_properties =
     returning (
       s_bind (the_connection conn_id (response_packet_mqtt_distinct_by_reason protocol (Some DR_MaximumConnectTime)))
         (\<lambda>connection.
       s_bind (subscribe_validator E protocol connection subscribe) (\<lambda>res.
       case res of Some packet \<Rightarrow> s_err packet | None \<Rightarrow>
       s_bind (s_get (\<lambda>b. is_new_sub (conn_client_id connection) subscribe (b_subs b))) (\<lambda>new_subs.
       s_bind (read_cache (\<lambda>cache. process_sub_topic_rewrite (be_regex E) subscribe (topic_rewrite_rule cache)))
         (\<lambda>subscribe.
       s_bind (s_get b_cache) (\<lambda>cache.
       s_bind (s_match (on_b_subs (save_subscribe (be_sub E) cache (conn_client_id connection) protocol subscribe
             subscribe_properties)) s_ok
           (\<lambda>e. s_err (response_packet_mqtt_suback protocol connection (packet_identifier subscribe) [SR_Unspecified]
             (Some (be_show_err E e))))) (\<lambda>_.
       s_bind (st_report_subscribed_event E V connection conn_id subscribe) (\<lambda>_.
       s_bind (s_upd (\<lambda>b. b\<lparr>b_retain_tasks := b_retain_tasks b @
           [\<lparr>rt_protocol = protocol, rt_client_id = conn_client_id connection, rt_subscribe = subscribe,
             rt_subscribe_properties = subscribe_properties, rt_new_subs = new_subs\<rparr>]\<rparr>)) (\<lambda>_.
       s_bind (read_cache get_cluster_info) (\<lambda>cluster.
         s_ok (response_packet_mqtt_suback protocol connection (packet_identifier subscribe)
           (map (\<lambda>f. suback_code (min_qos (cl_max_qos (cl_protocol cluster)) (f_qos f))) (s_filters subscribe))
           None)))))))))))"

definition mqtt_ping :: "('s, 'p, 'q) broker_env \<Rightarrow> MqttProtocol \<Rightarrow> u64 \<Rightarrow> (('s, 'p, 'q) broker, MqttPacket, 'e) prog" where
  "mqtt_ping E protocol conn_id =
     returning (
       s_bind (the_connection conn_id (response_packet_mqtt_distinct_by_reason protocol (Some DR_MaximumConnectTime)))
         (\<lambda>connection.
       s_bind (upd_cache (report_heartbeat (conn_client_id connection)
           \<lparr>lt_protocol = protocol, lt_keep_live = conn_keep_alive connection, lt_heartbeat = be_now E\<rparr>)) (\<lambda>_.
         s_ok response_packet_mqtt_ping_resp)))"

definition un_subscribe_validator ::
    "('s, 'p, 'q) broker_env \<Rightarrow> MQTTConnection \<Rightarrow> Unsubscribe \<Rightarrow> (('s, 'p, 'q) broker, MqttPacket option, 'e) prog" where
  "un_subscribe_validator E connection un_subscribe =
     s_bind (s_lift (invalid_paths (be_regex E) (u_filters un_subscribe))) (\<lambda>invalid.
       if invalid \<noteq> [] then
         s_ok (Some (response_packet_mqtt_unsuback connection (u_pkid un_subscribe) (map (\<lambda>_. UR_TopicFilterInvalid) invalid) None))
       else
         s_bind (s_get (\<lambda>b. find (\<lambda>p. get_subscribe (b_subs b) (conn_client_id connection) p = None) (u_filters un_subscribe)))
           (\<lambda>missing.
             case missing of
               Some p \<Rightarrow>
                 s_ok (Some (response_packet_mqtt_unsuback connection (u_pkid un_subscribe) [UR_NoSubscriptionExisted]
                   (Some (be_show_err E (SubscriptionPathNotExists p)))))
             | None \<Rightarrow> s_ok None))"

definition mqtt_un_subscribe ::
    "('s, 'p, 'q) broker_env \<Rightarrow> event_env \<Rightarrow> MqttProtocol \<Rightarrow> u64 \<Rightarrow> Unsubscribe \<Rightarrow> (('s, 'p, 'q) broker, MqttPacket, 'e) prog" where
  "mqtt_un_subscribe E V protocol conn_id un_subscribe =
     returning (
       s_bind (the_connection conn_id (response_packet_mqtt_distinct_by_reason protocol (Some DR_MaximumConnectTime)))
         (\<lambda>connection.
       s_bind (un_subscribe_validator E connection un_subscribe) (\<lambda>res.
       case res of Some packet \<Rightarrow> s_err packet | None \<Rightarrow>
       s_bind (read_cache (\<lambda>cache. process_unsub_topic_rewrite (be_regex E) un_subscribe (topic_rewrite_rule cache)))
         (\<lambda>un_subscribe.
       s_bind (s_get b_cache) (\<lambda>cache.
       s_bind (s_match (on_b_subs (remove_subscribe (be_sub E) cache (conn_client_id connection) un_subscribe)) s_ok
           (\<lambda>e. s_err (response_packet_mqtt_unsuback connection (u_pkid un_subscribe) [UR_UnspecifiedError]
             (Some (be_show_err E e))))) (\<lambda>_.
       s_bind (st_report_unsubscribed_event E V connection conn_id un_subscribe) (\<lambda>_.
         s_ok (response_packet_mqtt_unsuback connection (u_pkid un_subscribe) [UR_Success] None))))))))"

section \<open>Disconnect\<close>

definition mqtt_disconnect ::
    "('s, 'p, 'q) broker_env \<Rightarrow> event_env \<Rightarrow> u64 \<Rightarrow> Disconnect \<Rightarrow> (('s, 'p, 'q) broker, MqttPacket option, 'e) prog" where
  "mqtt_disconnect E V conn_id disconnect =
     returning (
       s_bind (the_connection conn_id None) (\<lambda>connection.
       s_bind (s_get (\<lambda>b. get_session_info (b_cache b) (conn_client_id connection))) (\<lambda>found.
       s_bind (case found of
                 Some session \<Rightarrow> st_report_disconnected_event E V session connection conn_id (reason_code disconnect)
               | None \<Rightarrow> s_ok ()) (\<lambda>_.
       s_bind (s_match (disconnect_connection E (conn_client_id connection) conn_id) s_ok (\<lambda>_. s_ok ())) (\<lambda>_.
         s_ok None)))))"

section \<open>Dispatch\<close>

definition get_protocol :: "NetworkConnection \<Rightarrow> MqttProtocol" where
  "get_protocol tcp_connection = (case nc_protocol tcp_connection of Some protocol \<Rightarrow> protocol | None \<Rightarrow> Mqtt5)"

definition unsupported :: MqttPacket where
  "unsupported = response_packet_mqtt_connect_fail Mqtt5 CR_UnsupportedProtocolVersion None None"

definition by_service ::
    "NetworkConnection \<Rightarrow> (MqttProtocol \<Rightarrow> (('s, 'p, 'q) broker, MqttPacket option, 'e) prog) \<Rightarrow>
     (('s, 'p, 'q) broker, MqttPacket option, 'e) prog" where
  "by_service tcp_connection f =
     (case nc_protocol tcp_connection of Some protocol \<Rightarrow> f protocol | None \<Rightarrow> s_ok (Some unsupported))"

definition answer :: "('s, 'a, 'e) prog \<Rightarrow> ('s, 'a option, 'e) prog" where
  "answer m = s_bind m (\<lambda>x. s_ok (Some x))"

definition command_connect ::
    "('s, 'p, 'q) broker_env \<Rightarrow> event_env \<Rightarrow> NetworkConnection \<Rightarrow> SocketAddr \<Rightarrow> u8 \<Rightarrow> Connect \<Rightarrow> ConnectProperties option \<Rightarrow>
     LastWill option \<Rightarrow> LastWillProperties option \<Rightarrow> Login option \<Rightarrow> (('s, 'p, 'q) broker, MqttPacket option, 'e) prog" where
  "command_connect E V tcp_connection addr protocol_version connect properties last_will last_will_properties login =
     (let conn_id = nc_connection_id tcp_connection;
          service = (\<lambda>protocol. mqtt_connect E V protocol conn_id connect properties last_will last_will_properties login addr) in
      s_bind (s_upd (set_connect_protocol conn_id protocol_version)) (\<lambda>_.
        if \<not> is_mqtt3 protocol_version \<and> \<not> is_mqtt4 protocol_version \<and> \<not> is_mqtt5 protocol_version then
          s_ok (Some (response_packet_mqtt_connect_fail Mqtt4 CR_UnsupportedProtocolVersion None None))
        else
          s_bind (if is_mqtt3 protocol_version then service Mqtt3
                  else if is_mqtt4 protocol_version then service Mqtt4
                  else service Mqtt5) (\<lambda>ack_pkg.
          s_bind (case ack_pkg of
                    P_ConnAck conn_ack _ \<Rightarrow>
                      (if ca_code conn_ack = CR_Success
                       then upd_cache (cache_login_success conn_id (case login of Some user \<Rightarrow> username user | None \<Rightarrow> []))
                       else s_ok ())
                  | _ \<Rightarrow> s_ok ()) (\<lambda>_.
            s_ok (Some ack_pkg)))))"

definition command_publish ::
    "('s, 'p, 'q) broker_env \<Rightarrow> NetworkConnection \<Rightarrow> Publish \<Rightarrow> PublishProperties option \<Rightarrow>
     (('s, 'p, 'q) broker, MqttPacket option, 'e) prog" where
  "command_publish E tcp_connection publish publish_properties =
     (let conn_id = nc_connection_id tcp_connection in
      returning (
        s_bind (the_connection conn_id
          (Some (response_packet_mqtt_distinct_by_reason (get_protocol tcp_connection) (Some DR_MaximumConnectTime)))) (\<lambda>_.
        s_bind (if is_qos_message (p_qos publish) then upd_cache (modify_connection conn_id recv_qos_message_incr)
                else s_ok ()) (\<lambda>_.
        s_bind (case nc_protocol tcp_connection of
                  Some protocol \<Rightarrow> mqtt_publish E protocol conn_id publish publish_properties
                | None \<Rightarrow> s_ok None) (\<lambda>resp.
        s_bind (case resp of
                  Some (P_PubRec _ _) \<Rightarrow> s_ok ()
                | Some _ \<Rightarrow>
                    (if is_qos_message (p_qos publish) then upd_cache (modify_connection conn_id recv_qos_message_decr)
                     else s_ok ())
                | None \<Rightarrow> s_ok ()) (\<lambda>_.
          s_ok resp))))))"

definition command_apply ::
    "('s, 'p, 'q) broker_env \<Rightarrow> event_env \<Rightarrow> NetworkConnection \<Rightarrow> SocketAddr \<Rightarrow> MqttPacket \<Rightarrow>
     (('s, 'p, 'q) broker, MqttPacket option, 'e) prog" where
  "command_apply E V tcp_connection addr packet =
     (let conn_id = nc_connection_id tcp_connection;
          is_connect_pkg = (case packet of P_Connect _ _ _ _ _ _ \<Rightarrow> True | _ \<Rightarrow> False) in
      s_bind (s_get (\<lambda>b. is_login (b_cache b) conn_id)) (\<lambda>logged_in.
        if \<not> is_connect_pkg \<and> \<not> logged_in then
          s_ok (Some (response_packet_mqtt_distinct_by_reason Mqtt5 (Some DR_NotAuthorized)))
        else
          (case packet of
             P_Connect protocol_version connect properties last_will last_will_properties login \<Rightarrow>
               command_connect E V tcp_connection addr protocol_version connect properties last_will last_will_properties login
           | P_Publish publish publish_properties \<Rightarrow> command_publish E tcp_connection publish publish_properties
           | P_PubRec pub_rec _ \<Rightarrow> by_service tcp_connection (\<lambda>protocol. mqtt_publish_rec E protocol conn_id pub_rec)
           | P_PubComp pub_comp _ \<Rightarrow> by_service tcp_connection (\<lambda>_. mqtt_publish_comp E conn_id pub_comp)
           | P_PubRel pub_rel _ \<Rightarrow> by_service tcp_connection (\<lambda>protocol. answer (mqtt_publish_rel E protocol conn_id pub_rel))
           | P_PubAck pub_ack _ \<Rightarrow>
               (case nc_protocol tcp_connection of Some _ \<Rightarrow> mqtt_publish_ack E conn_id pub_ack | None \<Rightarrow> s_ok None)
           | P_Subscribe subscribe subscribe_properties \<Rightarrow>
               by_service tcp_connection (\<lambda>protocol. answer (mqtt_subscribe E V protocol conn_id subscribe subscribe_properties))
           | P_PingReq \<Rightarrow> by_service tcp_connection (\<lambda>protocol. answer (mqtt_ping E protocol conn_id))
           | P_Unsubscribe un_subscribe _ \<Rightarrow>
               by_service tcp_connection (\<lambda>protocol. answer (mqtt_un_subscribe E V protocol conn_id un_subscribe))
           | P_Disconnect disconnect _ \<Rightarrow> by_service tcp_connection (\<lambda>_. mqtt_disconnect E V conn_id disconnect)
           | _ \<Rightarrow> s_ok (Some (response_packet_mqtt_connect_fail Mqtt5 CR_MalformedPacket None None)))))"

end
