(* ===== verification/Broker_Example.thy ===== *)
theory Broker_Example
  imports Mqtt_Service
begin

text \<open>
  A concrete broker, on which the hypotheses of the properties hold: one topic in memory, one client that
  is logged in, a placement center that accepts everything and stores nothing.
\<close>

definition example_placement :: "unit placement" where
  "example_placement =
     \<lparr>pl_get_session = (\<lambda>_. s_ok None), pl_set_session = (\<lambda>_ _. s_ok ()), pl_update_session = (\<lambda>_ _ _ _ _. s_ok ()),
      pl_save_last_will = (\<lambda>_ _. s_ok ()), pl_get_topic = (\<lambda>_. s_ok None), pl_save_topic = (\<lambda>_. s_ok ()),
      pl_set_retain_message = (\<lambda>_ _ _. s_ok ()), pl_delete_retain_message = (\<lambda>_. s_ok ()),
      pl_set_idempotent = (\<lambda>_ _. s_ok ()), pl_exists_idempotent = (\<lambda>_ _. s_ok False),
      pl_delete_idempotent = (\<lambda>_ _. s_ok ())\<rparr>"

definition example_auth_driver :: "unit AuthStorageAdapter" where
  "example_auth_driver =
     \<lparr>au_read_all_user = s_ok [], au_read_all_acl = s_ok [], au_read_all_blacklist = s_ok [],
      au_get_user = (\<lambda>_. s_ok None), au_save_user = (\<lambda>_. s_ok ()), au_delete_user = (\<lambda>_. s_ok ()),
      au_save_acl = (\<lambda>_. s_ok ()), au_delete_acl = (\<lambda>_. s_ok ()),
      au_save_blacklist = (\<lambda>_. s_ok ()), au_delete_blacklist = (\<lambda>_. s_ok ())\<rparr>"

definition example_broker_env :: "(MemoryStorageAdapter, unit, unit) broker_env" where
  "example_broker_env =
     \<lparr>be_adapter = memory_adapter, be_queue = \<lparr>dq_new = (), dq_insert_at = (\<lambda>_ _ _. Some ())\<rparr>, be_instant = 0,
      be_auth = example_env, be_auth_driver = example_auth_driver, be_sub = example_sub_env 1,
      be_placement = example_placement, be_client_uid = ''u'', be_topic_uid = (\<lambda>t. ''id'' @ t),
      be_show_common = (\<lambda>_. []), be_show_utf8 = [], be_encode = (\<lambda>message. Some (msg_payload message)),
      be_crc = (\<lambda>_. 0), be_is_check_schema = (\<lambda>_. False), be_schema_error = (\<lambda>_ _. None)\<rparr>"

definition example_client :: MQTTConnection where
  "example_client =
     (connection_new 0 \<lparr>cc_connect_id = 1, cc_client_id = ''c'', cc_receive_maximum = 10, cc_max_packet_size = 1000,
        cc_topic_alias_max = 10, cc_request_problem_info = 0, cc_keep_alive = 60, cc_source_ip_addr = ''ip''\<rparr>)
       \<lparr>conn_is_login := True\<rparr>"

definition example_network :: NetworkConnection where
  "example_network = \<lparr>nc_connection_type = NT_Tcp, nc_connection_id = 1, nc_protocol = Some Mqtt5, nc_addr = V4 ''ip'' 1\<rparr>"

definition example_broker :: "(MemoryStorageAdapter, unit, unit) broker" where
  "example_broker =
     \<lparr>b_cache = (example_cache ''t'')\<lparr>connection_info := [(1, example_client)],
        session_info := [(''c'', session_new 0 ''c'' 0 False None)],
        heartbeat_data := [(''c'', \<lparr>lt_protocol = Mqtt5, lt_keep_live = 60, lt_heartbeat = 10\<rparr>)]\<rparr>,
      b_subs = subscribe_manager_new, b_store = memory_new, b_pc = (), b_delay = delay_manager_new ''n'' 1,
      b_conns = [(1, example_network)], b_counters = [], b_acks = [], b_retain_tasks = []\<rparr>"

definition example_event_env :: event_env where
  "example_event_env =
     \<lparr>ee_local_ip = ''ip'', ee_now_mills = 0, ee_show_protocol = (\<lambda>_. []), ee_show_reason = (\<lambda>_. []),
      ee_connected = (\<lambda>_. None), ee_disconnected = (\<lambda>_. None), ee_subscribed = (\<lambda>_. None), ee_unsubscribed = (\<lambda>_. None)\<rparr>"

text \<open>The broker before its client connects, with a user.\<close>

definition example_start :: "(MemoryStorageAdapter, unit, unit) broker" where
  "example_start = example_broker\<lparr>b_cache :=
     add_user \<lparr>us_username = ''u'', us_password = ''p'', is_superuser = False\<rparr>
       (set_cluster_info build_default_cluster_config (cache_new ''n''))\<rparr>"

definition example_connect :: MqttPacket where
  "example_connect =
     P_Connect 5 \<lparr>keep_alive = 60, client_id = ''c'', clean_session = True\<rparr> None None None
       (Some \<lparr>username = ''u'', password = ''p''\<rparr>)"

lemmas example_broker_defs = example_broker_def example_network_def example_client_def example_broker_env_def
  example_auth_driver_def example_placement_def example_env_def example_sub_env_def connection_new_def
  session_new_def example_cache_def

end
