(* ===== verification/Service_Contract.thy ===== *)
theory Service_Contract
  imports Broker_Example
begin

text \<open>
  What the packet handlers keep of the caches, proved once: the locales list the updates of the cache that
  the handlers make, as laws on a predicate \<open>J\<close> of the cache and of the subscriptions.  A predicate that
  satisfies the laws is kept by every handler, whether it answers, fails or panics.  \<open>T\<close> and \<open>S\<close> say what is
  known of a topic and of a session that come from the placement center.
\<close>

section \<open>Programs on the state of the broker\<close>

definition on_state :: "(CacheManager \<Rightarrow> SubscribeManager \<Rightarrow> bool) \<Rightarrow> ('s, 'p, 'q) broker \<Rightarrow> bool" where
  "on_state J b \<longleftrightarrow> J (b_cache b) (b_subs b)"

lemma keeps_on_b_pc [keeps_intros]: "keeps (on_state J) (on_b_pc m)"
  by (auto simp: keeps_def on_state_def on_b_pc_def split: prod.split)

lemma keeps_on_b_store [keeps_intros]: "keeps (on_state J) (on_b_store m)"
  by (auto simp: keeps_def on_state_def on_b_store_def split: prod.split)

lemma keeps_on_b_delay [keeps_intros]: "keeps (on_state J) (on_b_delay m)"
  by (auto simp: keeps_def on_state_def on_b_delay_def split: prod.split)

lemma keeps_read_cache [keeps_intros]: "keeps I (read_cache f)"
  by (simp add: keeps_def read_cache_def)

lemma keeps_common_text [keeps_intros]: "keeps I m \<Longrightarrow> keeps I (common_text E m)"
  unfolding common_text_def by (intro keeps_intros)

lemma keeps_returning [keeps_intros]: "keeps I m \<Longrightarrow> keeps I (returning m)"
  unfolding returning_def by (intro keeps_intros)

lemma keeps_answer [keeps_intros]: "keeps I m \<Longrightarrow> keeps I (answer m)"
  unfolding answer_def by (intro keeps_intros)

lemma keeps_the_connection [keeps_intros]: "keeps I (the_connection k r)"
  unfolding the_connection_def by (intro keeps_intros)

lemma on_b_pc_eq: "on_b_pc m b = (r, b') \<longleftrightarrow> (\<exists>p'. m (b_pc b) = (r, p') \<and> b' = b\<lparr>b_pc := p'\<rparr>)"
  by (auto simp: on_b_pc_def split: prod.splits)

lemma common_text_eq_Ok: "common_text E m s = (Ok x, s') \<longleftrightarrow> m s = (Ok x, s')"
  by (auto simp: common_text_def s_match_eq_Ok s_eqs)

lemma keeps_pure [keeps_intros]: "keeps I (\<lambda>(c, d). (f c, (c, d)))"
  by (auto simp: keeps_def)

lemma keeps_on_driver [keeps_intros]: "keeps (\<lambda>(c, _). I c) (on_driver u)"
  by (auto simp: keeps_def on_driver_def split: prod.split)

lemma keeps_on_cache: "(\<And>c. I c \<Longrightarrow> I (f c)) \<Longrightarrow> keeps (\<lambda>(c, _). I c) (on_cache f)"
  by (auto simp: on_cache_def intro!: keeps_upd)

lemma keeps_upd_cache: "(\<And>c m. J c m \<Longrightarrow> J (f c) m) \<Longrightarrow> keeps (on_state J) (upd_cache f)"
  by (auto simp: upd_cache_def on_state_def intro!: keeps_upd)

lemma keeps_case_qos [keeps_intros]:
  "keeps I m0 \<Longrightarrow> keeps I m1 \<Longrightarrow> keeps I m2 \<Longrightarrow>
   keeps I (case q of AtMostOnce \<Rightarrow> m0 | AtLeastOnce \<Rightarrow> m1 | ExactlyOnce \<Rightarrow> m2)"
  by (cases q) simp_all

text \<open>A result, known to the rest of the program.\<close>

lemma keeps_bind_result:
  "keeps I m \<Longrightarrow> (\<And>s x s'. I s \<Longrightarrow> m s = (Ok x, s') \<Longrightarrow> keeps I (f x)) \<Longrightarrow> keeps I (s_bind m f)"
  unfolding keeps_def s_bind_def by (fastforce split: prod.splits result.splits)

lemma keeps_pkid_exists [keeps_intros]: "keeps (on_state J) (pkid_exists E cid pkid)"
  unfolding pkid_exists_def pkid_persistent_def by (intro keeps_intros)

lemma keeps_save_message [keeps_intros]: "keeps (on_state J) (save_message E publish q cid t)"
  unfolding save_message_def by (intro keeps_intros)

lemma keeps_publish_validator [keeps_intros]: "keeps (on_state J) (publish_validator E pr c publish q)"
  unfolding publish_validator_def by (intro keeps_intros)

lemma keeps_send_ack [keeps_intros]: "keeps (on_state J) (send_ack E k ty pkid)"
  unfolding send_ack_def by (intro keeps_intros keeps_upd) (simp add: on_state_def)

lemma keeps_acks [keeps_intros]:
  "keeps (on_state J) (mqtt_publish_ack E k pub_ack)"
  "keeps (on_state J) (mqtt_publish_rec E pr k pub_rec)"
  "keeps (on_state J) (mqtt_publish_comp E k pub_comp)"
  unfolding mqtt_publish_ack_def mqtt_publish_rec_def mqtt_publish_comp_def by (intro keeps_intros)+

lemma keeps_by_service [keeps_intros]: "(\<And>pr. keeps I (f pr)) \<Longrightarrow> keeps I (by_service tc f)"
  unfolding by_service_def by (intro keeps_intros)

section \<open>Topics\<close>

definition topic_law :: "(string \<Rightarrow> MqttTopic \<Rightarrow> bool) \<Rightarrow> ('s, 'p, 'q) broker_env \<Rightarrow> bool" where
  "topic_law T E \<longleftrightarrow>
     (\<forall>n p t p'. pl_get_topic (be_placement E) n p = (Ok (Some t), p') \<longrightarrow> T n t) \<and>
     (\<forall>n. T n (topic_new (be_now E) (be_topic_uid E n) (be_cluster_name E) n))"

locale topic_contract =
  fixes J :: "CacheManager \<Rightarrow> SubscribeManager \<Rightarrow> bool"
    and T :: "string \<Rightarrow> MqttTopic \<Rightarrow> bool"
  assumes add_topic_law: "J c m \<Longrightarrow> T n t \<Longrightarrow> J (add_topic n t c) m"
    and retain_law: "J c m \<Longrightarrow> J (update_topic_retain_message n r c) m"
    and alias_law: "J c m \<Longrightarrow> J (add_topic_alias k n q c) m"
    and add_pkid_law: "J c m \<Longrightarrow> J (add_client_pkid now cid pkid c) m"
    and delete_pkid_law: "J c m \<Longrightarrow> J (delete_client_pkid cid pkid c) m"
begin

lemma keeps_try_init_topic:
  fixes E :: "('s, 'p, 'q) broker_env"
  assumes "topic_law T E"
  shows "keeps (on_state J) (try_init_topic E n)"
proof -
  have new: "T n (topic_new (be_now E) (be_topic_uid E n) (be_cluster_name E) n)"
    using assms by (simp add: topic_law_def)
  have rest: "keeps (on_state J) (s_bind (upd_cache (add_topic n t)) (\<lambda>_.
      s_bind (from_common (on_b_store (sa_list_shard (be_adapter E) (be_cluster_name E) n))) (\<lambda>shards.
      s_bind (if shards = [] then from_common (on_b_store (sa_create_shard (be_adapter E)
          \<lparr>si_namespace = be_cluster_name E, si_shard_name = n, si_replica_num = 1\<rparr>)) else s_ok ())
        (\<lambda>_. s_ok t))))" if "T n t" for t
    using that by (intro keeps_intros keeps_upd_cache) (simp add: add_topic_law)
  have known: "T n t" if "on_b_pc (pl_get_topic (be_placement E) n) b = (Ok (Some t), b')" for t b b'
    using that assms by (auto simp: on_b_pc_def topic_law_def split: prod.splits)
  have found: "T n t" if "(case stored of
        Some t \<Rightarrow> s_ok t
      | None \<Rightarrow> s_bind (on_b_pc (pl_save_topic (be_placement E)
            (topic_new (be_now E) (be_topic_uid E n) (be_cluster_name E) n)))
          (\<lambda>_. s_ok (topic_new (be_now E) (be_topic_uid E n) (be_cluster_name E) n))) b1 = (Ok t, b2)"
      "on_b_pc (pl_get_topic (be_placement E) n) b = (Ok stored, b')" for stored t b b' and b1 b2 :: "('s, 'p, 'q) broker"
    using that known new by (auto simp: Let_def s_bind_eq_Ok s_ok_eq split: option.splits)
  show ?thesis
    unfolding try_init_topic_def Let_def
    apply (rule keeps_bind [OF keeps_get], rule keeps_case_option)
     apply (rule keeps_bind_result [OF keeps_on_b_pc], rule keeps_bind_result)
      apply (intro keeps_intros)
     apply (rule rest, erule found, assumption)
    apply (rule keeps_ok)
    done
qed

lemma keeps_save_retain_message: "keeps (on_state J) (save_retain_message E n cid publish q)"
  unfolding save_retain_message_def Let_def
  by (intro keeps_intros keeps_upd_cache) (simp_all add: retain_law)

lemma keeps_pkid_save: "keeps (on_state J) (pkid_save E cid pkid)"
  unfolding pkid_save_def pkid_persistent_def
  by (intro keeps_intros keeps_upd_cache) (simp add: add_pkid_law)

lemma keeps_pkid_delete: "keeps (on_state J) (pkid_delete E cid pkid)"
  unfolding pkid_delete_def pkid_persistent_def
  by (intro keeps_intros keeps_upd_cache) (simp add: delete_pkid_law)

lemma keeps_mqtt_publish:
  assumes "topic_law T E"
  shows "keeps (on_state J) (mqtt_publish E pr k publish q)"
  unfolding mqtt_publish_def publish_accepted_def Let_def
  by (intro keeps_intros keeps_upd_cache keeps_try_init_topic keeps_save_retain_message keeps_pkid_save assms)
    (simp_all add: alias_law)

lemma keeps_report_event:
  assumes "topic_law T E"
  shows "keeps (on_state J) (report_event E V n cid json)"
  unfolding report_event_def write_topic_data_def Let_def
  by (intro keeps_intros keeps_try_init_topic assms)

lemma keeps_events:
  assumes "topic_law T E"
  shows "keeps (on_state J) (st_report_connected_event E V session connection k)"
    and "keeps (on_state J) (st_report_disconnected_event E V session connection k reason)"
    and "keeps (on_state J) (st_report_subscribed_event E V connection k subscribe)"
    and "keeps (on_state J) (st_report_unsubscribed_event E V connection k un_subscribe)"
  unfolding st_report_connected_event_def st_report_disconnected_event_def st_report_subscribed_event_def
    st_report_unsubscribed_event_def with_network_def
  by (intro keeps_intros keeps_report_event assms)+

end

section \<open>Sessions and subscriptions\<close>

definition session_law :: "(string \<Rightarrow> MqttSession \<Rightarrow> bool) \<Rightarrow> ('s, 'p, 'q) broker_env \<Rightarrow> bool" where
  "session_law S E \<longleftrightarrow>
     (\<forall>cid p session p' k. pl_get_session (be_placement E) cid p = (Ok (Some session), p') \<longrightarrow>
        S cid (update_reconnect_time (be_now E) (update_broker_id (Some (be_broker_id E)) (update_connnction_id (Some k) session)))) \<and>
     (\<forall>cid expiry will delay k. S cid (update_reconnect_time (be_now E) (update_broker_id (Some (be_broker_id E))
        (update_connnction_id (Some k) (session_new (be_now E) cid expiry will delay)))))"

lemma build_session_law:
  assumes "session_law S E" and "build_session E k cid connect q w wq b = (Ok (session, new_session), b')"
  shows "S cid session"
  using assms
  by (fastforce simp: build_session_def session_law_def Let_def s_bind_eq_Ok common_text_eq_Ok on_b_pc_eq s_eqs
      split: if_splits option.splits)

lemma keeps_build_session [keeps_intros]: "keeps (on_state J) (build_session E k cid connect q w wq)"
  unfolding build_session_def Let_def by (intro keeps_intros)

lemma keeps_bind_session:
  assumes "session_law S E" and "\<And>session n. S cid session \<Longrightarrow> keeps (on_state J) (f (session, n))"
  shows "keeps (on_state J) (s_bind (s_match (build_session E k cid connect q w wq) s_ok (\<lambda>e. s_err (g e))) f)"
proof (rule keeps_bind_result)
  show "keeps (on_state J) (f x)"
    if "s_match (build_session E k cid connect q w wq) s_ok (\<lambda>e. s_err (g e)) b = (Ok x, b')" for b x b'
    using that assms(2) build_session_law [OF assms(1), of k cid connect q w wq b _ _ b']
    by (cases x) (auto simp: s_match_eq_Ok s_eqs)
qed (intro keeps_intros)

lemma keeps_save_session [keeps_intros]: "keeps (on_state J) (save_session E k session n cid)"
  unfolding save_session_def by (intro keeps_intros)

lemma keeps_save_last_will_message [keeps_intros]: "keeps (on_state J) (save_last_will_message E cid w wq)"
  unfolding save_last_will_message_def by (intro keeps_intros)

lemma check_flapping_detect_acl:
  assumes "check_flapping_detect now cid (c, n) = Ok (c', n')"
  shows "\<exists>a. c' = c\<lparr>acl_metadata := a\<rparr>"
proof -
  have jitter: "\<exists>a. c1 = c\<lparr>acl_metadata := a\<rparr>"
    if "add_blacklist_4_connection_jitter now config cid c = Ok c1" for config c1
    using that by (auto simp: add_blacklist_4_connection_jitter_def add_blacklist_def and_then_eq_Ok)
  have "\<exists>a. c1 = c\<lparr>acl_metadata := a\<rparr>"
    if "(if x then add_blacklist_4_connection_jitter now config cid c else Ok c) = Ok c1" for x config c1
    using that jitter by (cases x) (auto intro: exI [of _ "acl_metadata c"])
  then show ?thesis
    using assms unfolding check_flapping_detect_def Let_def by (fastforce simp: and_then_eq_Ok)
qed

locale service_contract = topic_contract J T
  for J :: "CacheManager \<Rightarrow> SubscribeManager \<Rightarrow> bool" and T :: "string \<Rightarrow> MqttTopic \<Rightarrow> bool" +
  fixes S :: "string \<Rightarrow> MqttSession \<Rightarrow> bool"
    and R :: regex
  assumes heartbeat_law: "J c m \<Longrightarrow> J (report_heartbeat cid live c) m"
    and add_session_law: "J c m \<Longrightarrow> S cid session \<Longrightarrow> J (add_session cid session c) m"
    and add_connection_law:
      "J c m \<Longrightarrow> connect_id connection = k \<Longrightarrow> \<not> conn_is_login connection \<Longrightarrow> conn_topic_alias connection = [] \<Longrightarrow>
       J (add_connection k connection c) m"
    and remove_connection_law: "J c m \<Longrightarrow> J (remove_connection k c) m"
    and unbind_law: "J c m \<Longrightarrow> J (update_session_connect_id now cid None c) m"
    and user_law: "J c m \<Longrightarrow> J (add_user user c) m"
    and acl_law: "J c m \<Longrightarrow> J (c\<lparr>acl_metadata := a\<rparr>) m"
    and counter_law: "J c m \<Longrightarrow> J (modify_connection k recv_qos_message_incr c) m"
      "J c m \<Longrightarrow> J (modify_connection k recv_qos_message_decr c) m"
    and subs_law: "J c m \<Longrightarrow> (subs_wf R m \<Longrightarrow> subs_wf R m') \<Longrightarrow> J c m'"
begin

lemma keeps_check_login_auth: "keeps (on_state J) (on_b_auth (check_login_auth A D login))"
proof -
  have login: "keeps (\<lambda>(c, _). J c m) (check_login_auth A D login)" for m
    unfolding check_login_auth_def plaintext_check_login_def try_get_check_user_by_driver_def
    by (intro keeps_intros keeps_on_cache user_law)
  have "J c (b_subs b)" if "J (b_cache b) (b_subs b)" "check_login_auth A D login (b_cache b, b_pc b) = (r, (c, p))" for b r c p
    using keepsD [OF login _ that(2), of "b_subs b"] that(1) by simp
  then show ?thesis
    by (auto simp: keeps_def on_state_def on_b_auth_def split: prod.split)
qed

lemma keeps_run_flapping_detect: "keeps (on_state J) (run_flapping_detect now cid)"
proof (rule keepsI)
  fix b :: "('s, 'p, 'q) broker"
  assume J: "on_state J b"
  show "on_state J (snd (run_flapping_detect now cid b :: (unit, 'e) result \<times> _))"
  proof (cases "check_flapping_detect now cid (b_cache b, b_counters b) :: (CacheManager \<times> counters, 'e) result")
    case (Ok cn)
    obtain c n where cn: "cn = (c, n)" by (cases cn)
    then obtain a where "c = (b_cache b)\<lparr>acl_metadata := a\<rparr>"
      using check_flapping_detect_acl Ok by blast
    then show ?thesis
      using J Ok cn by (simp add: run_flapping_detect_def on_state_def acl_law)
  qed (use J in \<open>simp_all add: run_flapping_detect_def\<close>)
qed

lemma keeps_subs:
  assumes "se_regex F = R" "keeps (subs_inv F) u"
  shows "keeps (on_state J :: ('s, 'p, 'q) broker \<Rightarrow> bool) (on_b_subs u)"
proof (rule keepsI)
  fix b :: "('s, 'p, 'q) broker"
  assume J: "on_state J b"
  obtain r m p where u: "u (b_subs b, b_pc b) = (r, (m, p))" by (metis prod.exhaust)
  have "subs_wf R m" if "subs_wf R (b_subs b)"
    using keepsD [OF assms(2) _ u] that assms(1) by simp
  with J u show "on_state J (snd (on_b_subs u b))"
    by (simp add: on_state_def on_b_subs_def) (rule subs_law)
qed

lemma keeps_mqtt_connect:
  assumes "topic_law T E" "session_law S E"
  shows "keeps (on_state J) (mqtt_connect E V pr k connect q w wq login addr)"
proof -
  have built: "connect_id (build_connection now k cid cluster connect q addr) = k"
    "\<not> conn_is_login (build_connection now k cid cluster connect q addr)"
    "conn_topic_alias (build_connection now k cid cluster connect q addr) = []" for now cid cluster
    by (simp_all add: build_connection_def connection_new_def Let_def split_def)
  show ?thesis
    unfolding mqtt_connect_def Let_def
    by (intro keeps_bind_session [OF assms(2)] keeps_intros keeps_check_login_auth keeps_run_flapping_detect keeps_upd_cache keeps_events assms(1))
      (simp_all add: heartbeat_law add_session_law add_connection_law built)
qed

lemma keeps_mqtt_publish_rel: "keeps (on_state J) (mqtt_publish_rel E pr k pub_rel)"
  unfolding mqtt_publish_rel_def Let_def
  by (intro keeps_intros keeps_pkid_delete keeps_upd_cache) (simp_all add: counter_law)

lemma keeps_subscribe_validator: "keeps (on_state J) (subscribe_validator E pr connection subscribe)"
proof -
  have "keeps (on_state J) (\<lambda>b. (check_exclusive_subscribe (b_cache b) (b_subs b) subscribe, b))"
    by (simp add: keeps_def)
  then show ?thesis
    unfolding subscribe_validator_def Let_def by (intro keeps_intros)
qed

lemma keeps_mqtt_subscribe:
  assumes "topic_law T E" "se_regex (be_sub E) = R"
  shows "keeps (on_state J) (mqtt_subscribe E V pr k subscribe q)"
  unfolding mqtt_subscribe_def
  by (intro keeps_intros keeps_subscribe_validator keeps_subs [OF assms(2)] keeps_events assms(1) keeps_upd)
    (simp add: on_state_def)

lemma keeps_mqtt_ping: "keeps (on_state J) (mqtt_ping E pr k)"
  unfolding mqtt_ping_def by (intro keeps_intros keeps_upd_cache) (simp add: heartbeat_law)

lemma keeps_mqtt_un_subscribe:
  assumes "topic_law T E" "se_regex (be_sub E) = R"
  shows "keeps (on_state J) (mqtt_un_subscribe E V pr k un_subscribe)"
  unfolding mqtt_un_subscribe_def un_subscribe_validator_def
  by (intro keeps_intros keeps_subs [OF assms(2)] keeps_events assms(1))

lemma keeps_disconnect_connection: "keeps (on_state J) (disconnect_connection E cid k)"
  unfolding disconnect_connection_def
  by (intro keeps_intros keeps_upd_cache keeps_upd)
    (simp_all add: remove_connection_law unbind_law on_state_def close_connect_def)

lemma keeps_mqtt_disconnect:
  assumes "topic_law T E"
  shows "keeps (on_state J) (mqtt_disconnect E V k disconnect)"
  unfolding mqtt_disconnect_def
  by (intro keeps_intros keeps_events keeps_disconnect_connection assms)

lemma keeps_command_publish:
  assumes "topic_law T E"
  shows "keeps (on_state J) (command_publish E tc publish q)"
proof -
  have dec: "keeps (on_state J) (upd_cache (modify_connection k recv_qos_message_decr))" for k
    by (intro keeps_upd_cache counter_law)
  show ?thesis
    unfolding command_publish_def Let_def
    by (intro keeps_intros keeps_upd_cache keeps_mqtt_publish assms)
      (auto simp: counter_law dec keeps_ok split: MqttPacket.split)
qed

text \<open>Every packet other than a connect packet.\<close>

lemma keeps_command_apply_other:
  assumes laws: "topic_law T E" "se_regex (be_sub E) = R"
    and other: "\<And>v p q w wq l. packet \<noteq> P_Connect v p q w wq l"
  shows "keeps (on_state J) (command_apply E V tc addr packet)"
proof -
  note handlers = keeps_intros keeps_command_publish [OF laws(1)] keeps_mqtt_publish_rel keeps_mqtt_subscribe [OF laws]
    keeps_mqtt_ping keeps_mqtt_un_subscribe [OF laws] keeps_mqtt_disconnect [OF laws(1)]
  show ?thesis
    unfolding command_apply_def Let_def
    by (intro keeps_bind keeps_get keeps_if keeps_ok; cases packet; simp add: other; intro handlers)
qed

end

end
