(* ===== verification/Keep_Alive.thy ===== *)
theory Keep_Alive
  imports Broker_Example Mqtt_Codec
begin

text \<open>
  The scan that closes connections whose client is silent: \<open>src/mqtt-broker/src/handler/keep_alive.rs\<close>.
  The scan runs every second; one run reads the clock once.  Writing to the sockets is a parameter, which
  says whether the write succeeds.
\<close>

record net_writer =
  nw_tcp :: "u64 \<Rightarrow> MqttPacketWrapper \<Rightarrow> bool"
  nw_websocket :: "u64 \<Rightarrow> MqttPacketWrapper \<Rightarrow> bytes \<Rightarrow> bool"

definition is_tcp :: "NetworkConnection \<Rightarrow> bool" where
  "is_tcp nc \<longleftrightarrow> nc_connection_type nc = NT_Tcp \<or> nc_connection_type nc = NT_Tls"

definition check_expire ::
    "('s, 'p, 'q) broker_env \<Rightarrow> u64 \<times> MQTTConnection \<Rightarrow> u64 list \<Rightarrow> ('s, 'p, 'q, u64 list) bprog" where
  "check_expire E kc expired =
     (case kc of (conn_id, connection) \<Rightarrow>
       s_bind (s_get (\<lambda>b. dm_get (heartbeat_data (b_cache b)) (conn_client_id connection))) (\<lambda>found.
         case found of
           Some time \<Rightarrow>
             (let max_timeout = ucast (keep_live_time (lt_keep_live time)) in
              s_bind (s_lift (u64_sub (be_now E) (lt_heartbeat time))) (\<lambda>silence.
                if silence \<ge> max_timeout then s_ok (expired @ [conn_id]) else s_ok expired))
         | None \<Rightarrow>
             s_bind (upd_cache (report_heartbeat (conn_client_id connection)
                 \<lparr>lt_protocol = Mqtt5, lt_keep_live = conn_keep_alive connection, lt_heartbeat = be_now E\<rparr>)) (\<lambda>_.
               s_ok expired)))"

definition get_expire_connection :: "('s, 'p, 'q) broker_env \<Rightarrow> ('s, 'p, 'q, u64 list) bprog" where
  "get_expire_connection E =
     s_bind (s_get (\<lambda>b. connection_info (b_cache b))) (\<lambda>connections. s_fold (check_expire E) connections [])"

definition expire_connection ::
    "('s, 'p, 'q) broker_env \<Rightarrow> net_writer \<Rightarrow> u64 \<Rightarrow> ('s, 'p, 'q, unit) bprog" where
  "expire_connection E W conn_id =
     s_bind (s_get (\<lambda>b. get_connection (b_cache b) conn_id)) (\<lambda>found.
       case found of None \<Rightarrow> s_ok () | Some connection \<Rightarrow>
     s_bind (s_get (\<lambda>b. dm_get (b_conns b) conn_id)) (\<lambda>found.
       case found of None \<Rightarrow> s_ok () | Some network \<Rightarrow>
     s_bind (s_lift (unwrap (nc_protocol network))) (\<lambda>protocol.
     let wrap = \<lparr>w_protocol_version = protocol_to_u8 protocol,
           w_packet = response_packet_mqtt_distinct_by_reason protocol (Some DR_KeepAliveTimeout)\<rparr> in
     s_bind
       (if is_tcp network then s_ok (nw_tcp W (connect_id connection) wrap)
        else
          (case encode_data wrap [] of
             (Panic, _) \<Rightarrow> s_lift Panic
           | (_, buff) \<Rightarrow> s_ok (nw_websocket W (connect_id connection) wrap buff)))
       (\<lambda>written.
         if written then
           s_match (disconnect_connection E (conn_client_id connection) conn_id) (\<lambda>_. s_ok ()) (\<lambda>_. s_ok ())
         else s_ok ()))))"

definition remove_dead_heartbeats :: "CacheManager \<Rightarrow> CacheManager" where
  "remove_dead_heartbeats cache =
     cache\<lparr>heartbeat_data := dm_remove_all (\<lambda>cid _. \<not> dm_contains (session_info cache) cid)
       (heartbeat_data cache) (heartbeat_data cache)\<rparr>"

definition keep_alive_scan :: "('s, 'p, 'q) broker_env \<Rightarrow> net_writer \<Rightarrow> ('s, 'p, 'q, unit) bprog" where
  "keep_alive_scan E W =
     s_bind (get_expire_connection E) (\<lambda>expired.
     s_bind (s_for expired (expire_connection E W)) (\<lambda>_.
       upd_cache remove_dead_heartbeats))"

section \<open>Facts\<close>

abbreviation conns_of :: "('s, 'p, 'q) broker \<Rightarrow> (u64, MQTTConnection) dashmap" where
  "conns_of b \<equiv> connection_info (b_cache b)"

abbreviation beats_of :: "('s, 'p, 'q) broker \<Rightarrow> (string, ConnectionLiveTime) dashmap" where
  "beats_of b \<equiv> heartbeat_data (b_cache b)"

abbreviation sessions_of :: "('s, 'p, 'q) broker \<Rightarrow> (string, MqttSession) dashmap" where
  "sessions_of b \<equiv> session_info (b_cache b)"

text \<open>
  The time after the heartbeat at which the scan closes the connection: twice the keep alive time of the
  client, at most 65535 seconds.
\<close>

definition overdue :: "u64 \<Rightarrow> ConnectionLiveTime \<Rightarrow> bool" where
  "overdue now_second time \<longleftrightarrow> unat now_second \<ge> unat (lt_heartbeat time) + min (2 * unat (lt_keep_live time)) 65535"

lemma unat_keep_live_time: "unat (keep_live_time n) = min (2 * unat n) 65535"
proof -
  have n: "unat n < 2 ^ 16" using unsigned_less [of n] by simp
  then have "unat (ucast n :: u32) = unat n" by (simp add: unsigned_ucast_eq take_bit_nat_eq_self)
  with n have "unat ((ucast n :: u32) * 2) = 2 * unat n" by (simp add: unat_word_ariths)
  with n show ?thesis
    by (auto simp: keep_live_time_def Let_def word_less_nat_alt unsigned_ucast_eq take_bit_nat_eq_self)
qed

text \<open>No heartbeat is in the future.\<close>

definition clock_ok :: "u64 \<Rightarrow> ('s, 'p, 'q) broker \<Rightarrow> bool" where
  "clock_ok now_second b \<longleftrightarrow> (\<forall>cid time. dm_get (beats_of b) cid = Some time \<longrightarrow> lt_heartbeat time \<le> now_second)"

lemma unat_ucast_u16: "unat (ucast (n :: u16) :: u64) = unat n"
proof -
  have "unat n < 2 ^ LENGTH(16)" by (rule unsigned_less)
  then have "unat n < 2 ^ LENGTH(64)" by simp
  then show ?thesis by (simp add: unsigned_ucast_eq take_bit_nat_eq_self)
qed

lemma overdue_iff:
  assumes "lt_heartbeat time \<le> now_second"
  shows "ucast (keep_live_time (lt_keep_live time)) \<le> now_second - lt_heartbeat time \<longleftrightarrow> overdue now_second time"
  using assms by (auto simp: overdue_def word_le_nat_alt unat_sub unat_ucast_u16 unat_keep_live_time)

text \<open>What collecting the expired connections does to the state: it only adds missing heartbeats.\<close>

definition beats_added :: "('s, 'p, 'q) broker \<Rightarrow> ('s, 'p, 'q) broker \<Rightarrow> bool" where
  "beats_added b b' \<longleftrightarrow> conns_of b' = conns_of b \<and> sessions_of b' = sessions_of b \<and> b_conns b' = b_conns b \<and>
     (\<forall>cid time. dm_get (beats_of b) cid = Some time \<longrightarrow> dm_get (beats_of b') cid = Some time)"

lemma beats_added_trans: "beats_added b b1 \<Longrightarrow> beats_added b1 b2 \<Longrightarrow> beats_added b b2"
  by (auto simp: beats_added_def)

lemma check_expire_step:
  assumes "clock_ok (be_now E) b"
  obtains b' xs where "check_expire E (k, c) expired b = (Ok (expired @ xs), b')" "clock_ok (be_now E) b'"
    "beats_added b b'" "xs = [] \<or> xs = [k]"
    "\<And>time. dm_get (beats_of b) (conn_client_id c) = Some time \<Longrightarrow> xs = [k] \<longleftrightarrow> overdue (be_now E) time"
proof (cases "dm_get (beats_of b) (conn_client_id c)")
  case None
  define b1 where "b1 = b\<lparr>b_cache := report_heartbeat (conn_client_id c)
    \<lparr>lt_protocol = Mqtt5, lt_keep_live = conn_keep_alive c, lt_heartbeat = be_now E\<rparr> (b_cache b)\<rparr>"
  have "check_expire E (k, c) expired b = (Ok (expired @ []), b1)"
    using None by (simp add: check_expire_def st_simps upd_cache_def b1_def)
  moreover have "clock_ok (be_now E) b1" "beats_added b b1"
    using assms None by (auto simp: b1_def clock_ok_def report_heartbeat_def beats_added_def dm_simps)
  ultimately show ?thesis using that [of "[]" b1] None by simp
next
  case (Some time)
  then have le: "lt_heartbeat time \<le> be_now E"
    using assms by (auto simp: clock_ok_def)
  have "check_expire E (k, c) expired b = (Ok (expired @ (if overdue (be_now E) time then [k] else [])), b)"
    using Some le overdue_iff [OF le] by (simp add: check_expire_def st_simps u64_sub_def Let_def)
  then show ?thesis
    by (rule that) (use assms Some in \<open>auto simp: beats_added_def\<close>)
qed

lemma fold_check_expire:
  assumes "clock_ok (be_now E) b" and "distinct (map fst conns)"
  shows "\<exists>b' xs. s_fold (check_expire E) conns expired b = (Ok (expired @ xs), b') \<and> clock_ok (be_now E) b' \<and>
    beats_added b b' \<and> set xs \<subseteq> fst ` set conns \<and>
    (\<forall>k c time. (k, c) \<in> set conns \<longrightarrow> dm_get (beats_of b) (conn_client_id c) = Some time \<longrightarrow>
       (k \<in> set xs \<longleftrightarrow> overdue (be_now E) time))"
  using assms
proof (induction conns arbitrary: b expired)
  case Nil
  then show ?case by (auto simp: st_simps beats_added_def intro!: exI [of _ "[]"])
next
  case (Cons kc conns)
  obtain k c where kc: "kc = (k, c)" by (cases kc)
  obtain b1 xs1 where 1: "check_expire E (k, c) expired b = (Ok (expired @ xs1), b1)" "clock_ok (be_now E) b1"
    "beats_added b b1" "xs1 = [] \<or> xs1 = [k]"
    "\<And>time. dm_get (beats_of b) (conn_client_id c) = Some time \<Longrightarrow> xs1 = [k] \<longleftrightarrow> overdue (be_now E) time"
    by (rule check_expire_step [OF Cons.prems(1), of k c expired], rule that)
  have dist: "distinct (map fst conns)" "k \<notin> fst ` set conns" using Cons.prems(2) kc by auto
  obtain b2 xs2 where 2: "s_fold (check_expire E) conns (expired @ xs1) b1 = (Ok (expired @ xs1 @ xs2), b2)"
    "clock_ok (be_now E) b2" "beats_added b1 b2" "set xs2 \<subseteq> fst ` set conns"
    "\<forall>k c time. (k, c) \<in> set conns \<longrightarrow> dm_get (beats_of b1) (conn_client_id c) = Some time \<longrightarrow>
       (k \<in> set xs2 \<longleftrightarrow> overdue (be_now E) time)"
    using Cons.IH [OF 1(2) dist(1), of "expired @ xs1"] unfolding append_assoc
    by (elim exE conjE) (rule that)
  have mem: "k' \<in> set (xs1 @ xs2) \<longleftrightarrow> overdue (be_now E) time"
    if "(k', c') \<in> set (kc # conns)" "dm_get (beats_of b) (conn_client_id c') = Some time" for k' c' time
  proof (cases "k' = k")
    case True
    with that(1) kc dist(2) have "c' = c" by (force simp: image_iff)
    with True that(2) 1(4,5) 2(4) dist(2) show ?thesis by auto
  next
    case False
    with that 1(3,4) 2(5) [rule_format, of k' c' time] kc show ?thesis by (auto simp: beats_added_def)
  qed
  have "s_fold (check_expire E) (kc # conns) expired b = (Ok (expired @ xs1 @ xs2), b2)"
    using 1(1) 2(1) by (simp add: kc s_bind_simps(1))
  moreover have "beats_added b b2" using 1(3) 2(3) by (rule beats_added_trans)
  moreover have "set (xs1 @ xs2) \<subseteq> fst ` set (kc # conns)" using 1(4) 2(4) kc by auto
  ultimately show ?case
    using 2(2) mem by (intro exI [of _ b2] exI [of _ "xs1 @ xs2"]) simp
qed


section \<open>Closing connections\<close>

text \<open>Writes to sockets and calls to the placement center succeed.\<close>

definition network_up :: "('s, 'p, 'q) broker_env \<Rightarrow> net_writer \<Rightarrow> bool" where
  "network_up E W \<longleftrightarrow> (\<forall>k w. nw_tcp W k w) \<and> (\<forall>k w bs. nw_websocket W k w bs) \<and>
     (\<forall>cid a a' t t' p. fst (pl_update_session (be_placement E) cid a a' t t' p) = Ok ())"

definition protocols_known :: "('s, 'p, 'q) broker \<Rightarrow> bool" where
  "protocols_known b \<longleftrightarrow>
     (\<forall>k c nw. dm_get (conns_of b) k = Some c \<longrightarrow> dm_get (b_conns b) k = Some nw \<longrightarrow> nc_protocol nw \<noteq> None)"

text \<open>The connections \<open>ks\<close> are closed, in the cache and in the network, and nothing else happens to these.\<close>

definition closes :: "u64 set \<Rightarrow> ('s, 'p, 'q) broker \<Rightarrow> ('s, 'p, 'q) broker \<Rightarrow> bool" where
  "closes ks b b' \<longleftrightarrow>
     (\<forall>k. dm_get (conns_of b') k = (if k \<in> ks \<and> dm_get (b_conns b) k \<noteq> None then None else dm_get (conns_of b) k)) \<and>
     (\<forall>k. dm_get (b_conns b') k = (if k \<in> ks \<and> dm_get (conns_of b) k \<noteq> None then None else dm_get (b_conns b) k)) \<and>
     beats_of b' = beats_of b \<and> (dm_wf (conns_of b) \<longrightarrow> dm_wf (conns_of b')) \<and>
     (\<forall>cid. dm_contains (sessions_of b') cid = dm_contains (sessions_of b) cid)"

lemma closes_trans: "closes ks b b1 \<Longrightarrow> closes ks' b1 b2 \<Longrightarrow> closes (ks \<union> ks') b b2"
  by (auto simp: closes_def split: if_splits)

lemma encode_disconnect_no_panic:
  "fst (encode_data \<lparr>w_protocol_version = protocol_to_u8 protocol,
     w_packet = response_packet_mqtt_distinct_by_reason protocol (Some DR_KeepAliveTimeout)\<rparr> []) \<noteq> Panic"
  by (cases protocol)
    (simp_all add: encode_data_def write_v4_def write_v5_def v4_disconnect_write_def v5_disconnect_write_def
      v5_disconnect_len_def response_packet_mqtt_distinct_by_reason_def protocol_is_mqtt5_def
      disconnect_properties_default_def v5_disconnect_properties_len_def w_bind_def w_ok_def put_slice_def put_u8_def
      opt_len_def user_props_len_def len_len_def)

lemma disconnect_connection_effect:
  assumes "network_up E W" and "dm_get (conns_of b) k = Some c" and "dm_get (b_conns b) k = Some nw"
  shows "\<exists>b'. disconnect_connection E cid k b = (Ok (), b') \<and> closes {k} b b'"
proof -
  obtain p where p: "pl_update_session (be_placement E) cid 0 0 0 (be_now E) (b_pc b) = (Ok (), p)"
    using assms(1) unfolding network_up_def by (metis prod.collapse)
  let ?b = "close_connect k (b\<lparr>b_cache := update_session_connect_id (be_now E) cid None (remove_connection k (b_cache b)), b_pc := p\<rparr>)"
  have "disconnect_connection E cid k b = (Ok (), ?b)"
    by (simp add: disconnect_connection_def upd_cache_def common_text_def on_b_pc_def st_simps p)
  moreover have "closes {k} b ?b"
    using assms(2,3)
    by (auto simp: closes_def close_connect_def remove_connection_def update_session_connect_id_def dm_simps dm_contains_def)
  ultimately show ?thesis by blast
qed


lemma expire_connection_effect:
  assumes "network_up E W" and "protocols_known b"
  shows "\<exists>b'. expire_connection E W k b = (Ok (), b') \<and> closes {k} b b'"
proof (cases "dm_get (conns_of b) k = None \<or> dm_get (b_conns b) k = None")
  case True
  then have "expire_connection E W k b = (Ok (), b)"
    by (cases "dm_get (conns_of b) k") (auto simp: expire_connection_def get_connection_def st_simps)
  moreover have "closes {k} b b"
    using True by (auto simp: closes_def)
  ultimately show ?thesis by blast
next
  case False
  then obtain c nw where c: "dm_get (conns_of b) k = Some c" and nw: "dm_get (b_conns b) k = Some nw" by auto
  then obtain protocol where pr: "nc_protocol nw = Some protocol"
    using assms(2) unfolding protocols_known_def by blast
  let ?wrap = "\<lparr>w_protocol_version = protocol_to_u8 protocol,
    w_packet = response_packet_mqtt_distinct_by_reason protocol (Some DR_KeepAliveTimeout)\<rparr>"
  obtain r buff where enc: "encode_data ?wrap [] = (r, buff)" "r \<noteq> Panic"
    using encode_disconnect_no_panic by (metis surjective_pairing)
  obtain b' where d: "disconnect_connection E (conn_client_id c) k b = (Ok (), b')" "closes {k} b b'"
    using disconnect_connection_effect [OF assms(1) c nw] by blast
  have "expire_connection E W k b = s_match (disconnect_connection E (conn_client_id c) k) (\<lambda>_. s_ok ()) (\<lambda>_. s_ok ()) b"
    using assms(1) c nw pr enc
    by (cases "is_tcp nw"; cases r) (simp_all add: expire_connection_def get_connection_def st_simps network_up_def Let_def)
  then show ?thesis using d by (simp add: s_match_simps(1) s_simps)
qed

lemma closes_keeps:
  assumes "closes ks b b'"
  shows "protocols_known b \<Longrightarrow> protocols_known b'" and "clock_ok t b \<Longrightarrow> clock_ok t b'"
  using assms by (auto simp: closes_def protocols_known_def clock_ok_def split: if_splits)

lemma for_expire_connection:
  assumes "network_up E W" and "protocols_known b"
  shows "\<exists>b'. s_for ks (expire_connection E W) b = (Ok (), b') \<and> closes (set ks) b b'"
  using assms(2)
proof (induction ks arbitrary: b)
  case Nil
  then show ?case by (auto simp: st_simps closes_def)
next
  case (Cons k ks)
  obtain b1 where 1: "expire_connection E W k b = (Ok (), b1)" "closes {k} b b1"
    using expire_connection_effect [OF assms(1) Cons.prems] by blast
  obtain b2 where 2: "s_for ks (expire_connection E W) b1 = (Ok (), b2)" "closes (set ks) b1 b2"
    using Cons.IH [OF closes_keeps(1) [OF 1(2) Cons.prems]] by blast
  from closes_trans [OF 1(2) 2(2)] 1(1) 2(1) show ?case
    by (simp add: s_bind_simps(1))
qed

lemma clock_ok_mono: "clock_ok t b \<Longrightarrow> t \<le> t' \<Longrightarrow> clock_ok t' b"
  unfolding clock_ok_def by (meson order_trans)

text \<open>What one scan does, for all connections.\<close>

definition scan_result :: "u64 \<Rightarrow> ('s, 'p, 'q) broker \<Rightarrow> ('s, 'p, 'q) broker \<Rightarrow> bool" where
  "scan_result t b b' \<longleftrightarrow> protocols_known b' \<and> clock_ok t b' \<and> dm_wf (conns_of b') \<and>
     (\<forall>k. dm_get (conns_of b) k = None \<and> dm_get (b_conns b) k = None \<longrightarrow>
        dm_get (conns_of b') k = None \<and> dm_get (b_conns b') k = None) \<and>
     (\<forall>k c nw time. dm_get (conns_of b) k = Some c \<and> dm_get (b_conns b) k = Some nw \<and>
        dm_get (beats_of b) (conn_client_id c) = Some time \<and> dm_contains (sessions_of b) (conn_client_id c) \<longrightarrow>
        dm_get (conns_of b') k = (if overdue t time then None else Some c) \<and>
        dm_get (b_conns b') k = (if overdue t time then None else Some nw) \<and>
        dm_get (beats_of b') (conn_client_id c) = Some time \<and> dm_contains (sessions_of b') (conn_client_id c))"

lemma keep_alive_scan_step:
  assumes net: "network_up E W" and pk: "protocols_known b" and clock: "clock_ok (be_now E) b" and wf: "dm_wf (conns_of b)"
  shows "\<exists>b'. keep_alive_scan E W b = (Ok (), b') \<and> scan_result (be_now E) b b'"
proof -
  from fold_check_expire [OF clock, of "conns_of b" "[]"] wf
  obtain b1 ks where 1: "s_fold (check_expire E) (conns_of b) [] b = (Ok ks, b1)" "clock_ok (be_now E) b1"
    "beats_added b b1"
    "\<forall>k c time. (k, c) \<in> set (conns_of b) \<longrightarrow> dm_get (beats_of b) (conn_client_id c) = Some time \<longrightarrow>
       (k \<in> set ks \<longleftrightarrow> overdue (be_now E) time)"
    by (auto simp: dm_wf_def)
  have pk1: "protocols_known b1" using pk 1(3) by (auto simp: beats_added_def protocols_known_def)
  obtain b2 where 2: "s_for ks (expire_connection E W) b1 = (Ok (), b2)" "closes (set ks) b1 b2"
    using for_expire_connection [OF net pk1] by blast
  let ?b = "b2\<lparr>b_cache := remove_dead_heartbeats (b_cache b2)\<rparr>"
  have "keep_alive_scan E W b = (Ok (), ?b)"
    using 1(1) 2(1) by (simp add: keep_alive_scan_def get_expire_connection_def upd_cache_def st_simps)
  moreover have "protocols_known ?b" "clock_ok (be_now E) ?b"
    using closes_keeps(1) [OF 2(2) pk1] closes_keeps(2) [OF 2(2) 1(2)]
    by (auto simp: protocols_known_def clock_ok_def remove_dead_heartbeats_def dm_get_remove_all split: if_splits)
  moreover have "dm_wf (conns_of ?b)"
    using 1(3) 2(2) wf by (simp add: remove_dead_heartbeats_def closes_def beats_added_def)
  moreover have "dm_get (conns_of ?b) k = None \<and> dm_get (b_conns ?b) k = None"
    if "dm_get (conns_of b) k = None" "dm_get (b_conns b) k = None" for k
    using that 1(3) 2(2) by (simp add: remove_dead_heartbeats_def closes_def beats_added_def)
  moreover have "dm_get (conns_of ?b) k = (if overdue (be_now E) time then None else Some c) \<and>
      dm_get (b_conns ?b) k = (if overdue (be_now E) time then None else Some nw) \<and>
      dm_get (beats_of ?b) (conn_client_id c) = Some time \<and> dm_contains (sessions_of ?b) (conn_client_id c)"
    if that: "dm_get (conns_of b) k = Some c" "dm_get (b_conns b) k = Some nw"
      "dm_get (beats_of b) (conn_client_id c) = Some time" "dm_contains (sessions_of b) (conn_client_id c)" for k c nw time
  proof -
    have "(k \<in> set ks) = overdue (be_now E) time"
      using 1(4) that(1,3) by (metis map_of_SomeD)
    with that 1(3) 2(2) show ?thesis
      by (simp add: remove_dead_heartbeats_def closes_def beats_added_def dm_get_remove_all)
  qed
  ultimately show ?thesis unfolding scan_result_def by blast
qed

section \<open>Silent clients\<close>

definition at_time :: "u64 \<Rightarrow> ('s, 'p, 'q) broker_env \<Rightarrow> ('s, 'p, 'q) broker_env" where
  "at_time t E = E\<lparr>be_auth := (be_auth E)\<lparr>ae_now := t\<rparr>\<rparr>"

fun keep_alive_scans :: "('s, 'p, 'q) broker_env \<Rightarrow> net_writer \<Rightarrow> u64 list \<Rightarrow> ('s, 'p, 'q, unit) bprog" where
  "keep_alive_scans E W [] = s_ok ()"
| "keep_alive_scans E W (t # ts) = s_bind (keep_alive_scan (at_time t E) W) (\<lambda>_. keep_alive_scans E W ts)"

lemma network_up_at_time [simp]: "network_up (at_time t E) W = network_up E W"
  by (simp add: network_up_def at_time_def)

lemma be_now_at_time [simp]: "be_now (at_time t E) = t"
  by (simp add: at_time_def)

lemma closed_stays_closed:
  assumes "network_up E W" and "protocols_known b" and "dm_wf (conns_of b)" and "sorted (t0 # ts)" and "clock_ok t0 b"
    and "dm_get (conns_of b) k = None" and "dm_get (b_conns b) k = None"
  shows "\<exists>b'. keep_alive_scans E W ts b = (Ok (), b') \<and> dm_get (conns_of b') k = None \<and> dm_get (b_conns b') k = None"
  using assms(2-)
proof (induction ts arbitrary: b t0)
  case (Cons t ts)
  have pre: "network_up (at_time t E) W" "clock_ok (be_now (at_time t E)) b"
    using assms(1) Cons.prems(3,4) by (auto intro: clock_ok_mono)
  obtain b1 where b1: "keep_alive_scan (at_time t E) W b = (Ok (), b1)" "scan_result t b b1"
    using keep_alive_scan_step [OF pre(1) Cons.prems(1) pre(2) Cons.prems(2)] by auto
  then have inv: "protocols_known b1" "dm_wf (conns_of b1)" "clock_ok t b1" by (simp_all add: scan_result_def)
  have "dm_get (conns_of b1) k = None" "dm_get (b_conns b1) k = None"
    using b1(2) Cons.prems(5,6) by (simp_all add: scan_result_def)
  from Cons.IH [OF inv(1,2) _ inv(3) this] Cons.prems(3) b1(1) show ?case
    by (auto simp: s_bind_simps(1))
qed (simp add: st_simps)

text \<open>
  C9: when the writes to the network and the calls to the placement center succeed, a client that sends
  nothing after its heartbeat is disconnected by the first scan that finds twice its keep alive time
  passed, or 65535 seconds if that is less, and stays connected as long as no scan does; the scans
  themselves never fail.
\<close>

theorem silent_connection_closed:
  assumes "network_up E W" and "protocols_known b" and "dm_wf (conns_of b)" and "sorted (t0 # ts)" and "clock_ok t0 b"
    and "dm_get (conns_of b) k = Some c" and "dm_get (b_conns b) k = Some nw"
    and "dm_get (beats_of b) (conn_client_id c) = Some time" and "dm_contains (sessions_of b) (conn_client_id c)"
  shows "\<exists>b'. keep_alive_scans E W ts b = (Ok (), b') \<and>
    dm_get (conns_of b') k = (if \<exists>t\<in>set ts. overdue t time then None else Some c) \<and>
    dm_get (b_conns b') k = (if \<exists>t\<in>set ts. overdue t time then None else Some nw)"
  using assms(2-)
proof (induction ts arbitrary: b t0)
  case (Cons t ts)
  have pre: "network_up (at_time t E) W" "clock_ok (be_now (at_time t E)) b"
    using assms(1) Cons.prems(3,4) by (auto intro: clock_ok_mono)
  obtain b1 where b1: "keep_alive_scan (at_time t E) W b = (Ok (), b1)" "scan_result t b b1"
    using keep_alive_scan_step [OF pre(1) Cons.prems(1) pre(2) Cons.prems(2)] by auto
  then have inv: "protocols_known b1" "dm_wf (conns_of b1)" "clock_ok t b1" by (simp_all add: scan_result_def)
  have st: "sorted (t # ts)" using Cons.prems(3) by simp
  have res: "dm_get (conns_of b1) k = (if overdue t time then None else Some c)"
    "dm_get (b_conns b1) k = (if overdue t time then None else Some nw)"
    "dm_get (beats_of b1) (conn_client_id c) = Some time" "dm_contains (sessions_of b1) (conn_client_id c)"
    using b1(2) Cons.prems(5-8) by (simp_all add: scan_result_def)
  show ?case
  proof (cases "overdue t time")
    case True
    then show ?thesis
      using closed_stays_closed [OF assms(1) inv(1,2) st inv(3), of k] b1(1) res by (auto simp: s_bind_simps(1))
  next
    case False
    then show ?thesis
      using Cons.IH [OF inv(1,2) st inv(3)] b1(1) res by (auto simp: s_bind_simps(1))
  qed
qed (simp add: st_simps)


theorem silent_connection_closed_witness:
  "\<exists>b'. keep_alive_scans example_broker_env \<lparr>nw_tcp = (\<lambda>_ _. True), nw_websocket = (\<lambda>_ _ _. True)\<rparr> [100, 130]
      example_broker = (Ok (), b') \<and> dm_get (conns_of b') 1 = None \<and> dm_get (b_conns b') 1 = None"
proof -
  let ?W = "\<lparr>nw_tcp = (\<lambda>_ _. True), nw_websocket = (\<lambda>_ _ _. True)\<rparr>"
  let ?time = "\<lparr>lt_protocol = Mqtt5, lt_keep_live = 60, lt_heartbeat = 10\<rparr>"
  have "network_up example_broker_env ?W"
    by (simp add: network_up_def example_broker_env_def example_placement_def s_ok_def)
  moreover have "protocols_known example_broker" "dm_wf (conns_of example_broker)" "clock_ok 100 example_broker"
    by (auto simp: protocols_known_def dm_wf_def clock_ok_def example_broker_def example_network_def split: if_splits)
  moreover have "dm_get (conns_of example_broker) 1 = Some example_client" "dm_get (b_conns example_broker) 1 = Some example_network"
    "dm_get (beats_of example_broker) (conn_client_id example_client) = Some ?time"
    "dm_contains (sessions_of example_broker) (conn_client_id example_client)"
    by (simp_all add: example_broker_def example_client_def connection_new_def dm_contains_def)
  moreover have "overdue 130 ?time"
    by (simp add: overdue_def)
  ultimately show ?thesis
    using silent_connection_closed [of example_broker_env ?W example_broker 100 "[100, 130]" 1 example_client example_network ?time]
    by auto
qed

end
