(* ===== verification/Service_Safety.thy ===== *)
theory Service_Safety
  imports Service_Contract Keep_Alive
begin

text \<open>
  What holds of a broker whatever its clients send: the contracts of the packet handlers, interpreted on
  the well-formedness of the caches, on who is logged in and on the counters of a connection.
\<close>

section \<open>Well-formed caches\<close>

text \<open>
  The configuration is present, these maps have distinct keys, and every connection, session, topic and user is
  stored under its own identifier.
\<close>

definition cache_wf :: "CacheManager \<Rightarrow> bool" where
  "cache_wf c \<longleftrightarrow> dm_contains (cluster_info c) (cm_cluster_name c) \<and>
     dm_all (\<lambda>k connection. connect_id connection = k \<and> dm_wf (conn_topic_alias connection)) (connection_info c) \<and>
     dm_all (\<lambda>cid session. ses_client_id session = cid) (session_info c) \<and>
     dm_all (\<lambda>n t. t_topic_name t = n) (topic_info c) \<and>
     dm_all (\<lambda>n user. us_username user = n) (user_info c) \<and>
     dm_wf (topic_id_name c) \<and> dm_wf (heartbeat_data c) \<and> dm_wf (client_pkid_data c)"

definition broker_inv :: "regex \<Rightarrow> CacheManager \<Rightarrow> SubscribeManager \<Rightarrow> bool" where
  "broker_inv R c m \<longleftrightarrow> cache_wf c \<and> subs_wf R m"

abbreviation topic_named :: "string \<Rightarrow> MqttTopic \<Rightarrow> bool" where
  "topic_named n t \<equiv> t_topic_name t = n"

abbreviation session_named :: "string \<Rightarrow> MqttSession \<Rightarrow> bool" where
  "session_named cid session \<equiv> ses_client_id session = cid"

locale command_contract = service_contract J T S R
  for J :: "CacheManager \<Rightarrow> SubscribeManager \<Rightarrow> bool" and T S R +
  assumes login_law: "J c m \<Longrightarrow> J (cache_login_success k name c) m"
    and dead_heartbeats_law: "J c m \<Longrightarrow> J (remove_dead_heartbeats c) m"
begin

lemma keeps_command_connect:
  assumes "topic_law T E" "session_law S E"
  shows "keeps (on_state J) (command_connect E V tc addr v connect q w wq login)"
proof -
  have login: "keeps (on_state J) (upd_cache (cache_login_success k name))" for k name
    by (intro keeps_upd_cache login_law)
  show ?thesis
    unfolding command_connect_def Let_def
    by (intro keeps_intros keeps_mqtt_connect assms keeps_upd)
      (auto simp: on_state_def set_connect_protocol_def login keeps_ok split: MqttPacket.split)
qed

lemma keeps_command_apply:
  assumes "topic_law T E" "session_law S E" "se_regex (be_sub E) = R"
  shows "keeps (on_state J) (command_apply E V tc addr packet)"
proof (cases "\<exists>v p q w wq l. packet = P_Connect v p q w wq l")
  case True
  then show ?thesis
    unfolding command_apply_def Let_def by (auto intro!: keeps_bind keeps_get keeps_command_connect assms)
qed (intro keeps_command_apply_other; use assms in auto)

lemma keeps_keep_alive_scan: "keeps (on_state J) (keep_alive_scan E W)"
  unfolding keep_alive_scan_def get_expire_connection_def check_expire_def expire_connection_def Let_def
  by (intro keeps_intros keeps_upd_cache keeps_disconnect_connection)
    (auto simp: dead_heartbeats_law heartbeat_law keeps_ok keeps_lift split: result.split)

end

lemmas cache_ops = add_topic_def update_topic_retain_message_def add_topic_alias_def add_client_pkid_def
  delete_client_pkid_def report_heartbeat_def add_session_def add_connection_def remove_connection_def
  update_session_connect_id_def add_user_def modify_connection_def cache_login_success_def remove_dead_heartbeats_def

lemmas record_ops = recv_qos_message_incr_def recv_qos_message_decr_def connection_login_success_def
  update_connnction_id_def update_distinct_time_def

lemma dm_all_get': "dm_all P m \<Longrightarrow> dm_get m k = Some v \<Longrightarrow> (P k v \<Longrightarrow> Q) \<Longrightarrow> Q"
  using dm_all_get by fast

interpretation wf: command_contract "broker_inv R" topic_named session_named R for R
  by unfold_locales
    (auto simp: broker_inv_def cache_wf_def cache_ops record_ops Let_def dm_wf_remove_all
      intro!: dm_all_intros elim: dm_all_get' split: option.split)

interpretation no_login: service_contract "\<lambda>c _. \<not> is_login c k" "\<lambda>_ _. True" "\<lambda>_ _. True" R for k R
  by unfold_locales
    (auto simp: is_login_def cache_ops record_ops dm_simps split: option.splits if_splits)

text \<open>What publishing leaves alone: the counter and the client of every connection and the configuration.\<close>

definition recv_count :: "CacheManager \<Rightarrow> u64 \<Rightarrow> isize option" where
  "recv_count c k = map_option receive_qos_message (dm_get (connection_info c) k)"

definition conn_view :: "u64 \<Rightarrow> CacheManager \<Rightarrow> (isize \<times> string) option \<times> (string, MqttClusterDynamicConfig) dashmap \<times> string" where
  "conn_view k c = (map_option (\<lambda>conn. (receive_qos_message conn, conn_client_id conn)) (dm_get (connection_info c) k),
     cluster_info c, cm_cluster_name c)"

interpretation view: topic_contract "\<lambda>c _. conn_view k c = x" "\<lambda>_ _. True" for k x
  by unfold_locales
    (auto simp: conn_view_def cache_ops dm_simps option.map_comp o_def split: option.splits)

lemma topic_law_True [simp]: "topic_law (\<lambda>_ _. True) E" "session_law (\<lambda>_ _. True) E"
  by (simp_all add: topic_law_def session_law_def)

section \<open>Reachable states\<close>

text \<open>The placement center answers with the topic and the session that were asked for.\<close>

definition placement_ok :: "'p placement \<Rightarrow> bool" where
  "placement_ok P \<longleftrightarrow>
     (\<forall>n p t p'. pl_get_topic P n p = (Ok (Some t), p') \<longrightarrow> t_topic_name t = n) \<and>
     (\<forall>cid p session p'. pl_get_session P cid p = (Ok (Some session), p') \<longrightarrow> ses_client_id session = cid)"

lemma placement_laws:
  assumes "placement_ok (be_placement E)"
  shows "topic_law topic_named E" "session_law session_named E"
  using assms
  by (auto simp: placement_ok_def topic_law_def session_law_def topic_new_def session_new_def
      update_reconnect_time_def update_broker_id_def update_connnction_id_def)

text \<open>The operations of the authentication driver that change users, rules and bans.\<close>

inductive admin_op :: "'d AuthStorageAdapter \<Rightarrow> ('d, unit) aprog \<Rightarrow> bool" for D where
  "admin_op D (save_user D user)"
| "admin_op D (delete_user D name)"
| "admin_op D (update_user_cache D)"
| "admin_op D (save_acl D acl)"
| "admin_op D (delete_acl D acl)"
| "admin_op D (update_acl_cache D)"
| "admin_op D (save_blacklist D ban)"
| "admin_op D (delete_blacklist D ban)"

lemma keeps_admin_op:
  assumes "admin_op D u"
  shows "keeps (\<lambda>(c, _). broker_inv R c m) u"
proof -
  have user: "broker_inv R (add_user user c) m" "broker_inv R (del_user name c) m" "broker_inv R (retain_users names c) m"
    if "broker_inv R c m" for c user name names
    using that
    by (auto simp: broker_inv_def cache_wf_def add_user_def del_user_def retain_users_def intro!: dm_all_intros)
  have acl: "broker_inv R (c\<lparr>acl_metadata := a\<rparr>) m" if "broker_inv R c m" for c a
    using that by (simp add: broker_inv_def cache_wf_def)
  show ?thesis
    using assms
    by cases
      (auto simp: save_user_def delete_user_def update_user_cache_def save_acl_def delete_acl_def update_acl_cache_def
        save_blacklist_def delete_blacklist_def add_acl_def remove_acl_def retain_acls_def add_blacklist_def
        remove_blacklist_def Let_def user acl intro!: keeps_bind keeps_if keeps_err keeps_get keeps_for keeps_on_driver keeps_on_cache)
qed

text \<open>
  The states of a broker: packets of any clients, scans of the keep alive task, new topics, changes of
  users, rules and bans, and lost clients in any order, with sockets and push tasks that come and go.
  The parameters may change between two steps, as the clock does.
\<close>

inductive broker_reach :: "regex \<Rightarrow> ('s, 'p, 'q) broker \<Rightarrow> bool" for R where
  start: "b_cache b = set_cluster_info cluster (cache_new name) \<Longrightarrow> b_subs b = subscribe_manager_new \<Longrightarrow> broker_reach R b"
| packet: "broker_reach R b \<Longrightarrow> placement_ok (be_placement E) \<Longrightarrow> se_regex (be_sub E) = R \<Longrightarrow>
    command_apply E V tc addr pk b = ((r :: (MqttPacket option, MqttBrokerError) result), b') \<Longrightarrow> broker_reach R b'"
| scan: "broker_reach R b \<Longrightarrow> keep_alive_scan E W b = (r, b') \<Longrightarrow> broker_reach R b'"
| new_topic: "broker_reach R b \<Longrightarrow> se_regex F = R \<Longrightarrow>
    on_b_subs (parse_subscribe_by_new_topic F (b_cache b) t0) b = (r, b') \<Longrightarrow> broker_reach R b'"
| admin: "broker_reach R b \<Longrightarrow> admin_op D u \<Longrightarrow> on_b_auth u b = (r, b') \<Longrightarrow> broker_reach R b'"
| lost_client: "broker_reach R b \<Longrightarrow> broker_reach R (b\<lparr>b_subs := remove_client_id cid (b_subs b)\<rparr>)"
| push_tasks: "broker_reach R b \<Longrightarrow> broker_reach R (b\<lparr>b_subs := (b_subs b)\<lparr>exclusive_push_thread := x,
    share_leader_push_thread := y, share_follower_resub_thread := z\<rparr>\<rparr>)"
| sockets: "broker_reach R b \<Longrightarrow> broker_reach R (b\<lparr>b_conns := cs\<rparr>)"

lemma broker_reach_on_state:
  assumes "broker_reach R b"
  shows "on_state (broker_inv R) b"
  using assms
proof induction
  case (start b cluster name)
  then show ?case
    by (simp add: on_state_def broker_inv_def cache_wf_def set_cluster_info_def cache_new_def dm_contains_def dm_simps)
next
  case (packet b E V tc addr pk r b')
  then show ?case
    using keepsD [OF wf.keeps_command_apply [OF placement_laws(1,2)]] by metis
next
  case (scan b E W r b')
  then show ?case
    using keepsD [OF wf.keeps_keep_alive_scan] by metis
next
  case (new_topic b F t0 r b')
  then show ?case
    using keepsD [OF wf.keeps_subs [OF _ keeps_parse_subscribe_by_new_topic]] by metis
next
  case (admin b D u r b')
  obtain r' c p where u: "u (b_cache b, b_pc b) = (r', (c, p))" by (metis prod.exhaust)
  have "broker_inv R c (b_subs b)"
    using keepsD [OF keeps_admin_op [OF admin.hyps(2)] _ u] admin.IH by (simp add: on_state_def)
  then show ?case using admin.hyps(3) u by (auto simp: on_b_auth_def on_state_def)
next
  case (lost_client b cid)
  then show ?case by (auto simp: on_state_def broker_inv_def)
next
  case (push_tasks b x y z)
  then show ?case by (simp add: on_state_def broker_inv_def subs_wf_def)
qed (simp add: on_state_def)

text \<open>
  C8: in every reachable state of a broker the caches are well formed: the configuration is present, the
  maps of connections, sessions, topics, users, heartbeats and packet identifiers have distinct keys, every connection, session, topic and user is stored under its own identifier,
  the subscriptions are stored under their keys, and push entries and members of groups only name topics
  that match their path (\<open>subs_wf\<close>).
\<close>

theorem broker_reach_wf:
  assumes "broker_reach R b"
  shows "cache_wf (b_cache b) \<and> subs_wf R (b_subs b)"
  using broker_reach_on_state [OF assms] by (simp add: on_state_def broker_inv_def)

lemma example_placement_ok: "placement_ok (be_placement example_broker_env)"
  by (simp add: placement_ok_def example_broker_env_def example_placement_def s_ok_def)

abbreviation example_login :: "(MqttPacket option, MqttBrokerError) result \<times> (MemoryStorageAdapter, unit, unit) broker" where
  "example_login \<equiv> command_apply example_broker_env example_event_env example_network (V4 ''ip'' 1) example_connect example_start"

lemma example_login_done: "is_login (b_cache (snd example_login)) 1"
  by code_simp

text \<open>The user is added, then the client connects.\<close>

theorem broker_reach_wf_witness:
  "is_login (b_cache (snd example_login)) 1 \<and>
   cache_wf (b_cache (snd example_login)) \<and> subs_wf ascii_regex (b_subs (snd example_login))"
proof -
  let ?u = "\<lparr>us_username = ''u'', us_password = ''p'', is_superuser = False\<rparr>"
  have "broker_reach ascii_regex (example_broker\<lparr>b_cache := set_cluster_info build_default_cluster_config (cache_new ''n'')\<rparr>)"
    by (rule broker_reach.start) (simp_all add: example_broker_def)
  moreover have "on_b_auth (save_user example_auth_driver ?u)
      (example_broker\<lparr>b_cache := set_cluster_info build_default_cluster_config (cache_new ''n'')\<rparr>) = (Ok (), example_start)"
    by (simp add: on_b_auth_def save_user_def on_cache_def on_driver_def example_auth_driver_def example_start_def
        example_broker_def cache_new_def set_cluster_info_def st_simps)
  ultimately have "broker_reach ascii_regex example_start"
    by (rule broker_reach.admin [OF _ admin_op.intros(1)])
  then have "broker_reach ascii_regex (snd example_login)"
    by (rule broker_reach.packet [OF _ example_placement_ok _ surjective_pairing])
      (simp add: example_broker_env_def example_sub_env_def)
  from broker_reach_wf [OF this] example_login_done show ?thesis by simp
qed

section \<open>Login\<close>

text \<open>
  C5: a connection becomes logged in only by a connect packet of its own that is answered with success.
\<close>

theorem login_only_by_connect:
  fixes r :: "(MqttPacket option, 'e) result"
  assumes "\<not> is_login (b_cache b) k" and "command_apply E V tc addr pk b = (r, b')" and "is_login (b_cache b') k"
  shows "k = nc_connection_id tc \<and> (\<exists>v p q w wq l. pk = P_Connect v p q w wq l) \<and>
    (\<exists>ack p. r = Ok (Some (P_ConnAck ack p)) \<and> ca_code ack = CR_Success)"
proof -
  let ?I = "on_state (\<lambda>c _. \<not> is_login c k)"
  have I: "?I b" "\<not> ?I b'" using assms(1,3) by (simp_all add: on_state_def)
  have "\<exists>v p q w wq l. pk = P_Connect v p q w wq l"
    using keepsD [OF no_login.keeps_command_apply_other [OF topic_law_True(1) refl] I(1) assms(2)] I(2) by blast
  then obtain v p q w wq l where pk: "pk = P_Connect v p q w wq l" by blast
  let ?k = "nc_connection_id tc"
  let ?b = "set_connect_protocol ?k v b"
  let ?pr = "if is_mqtt3 v then Mqtt3 else if is_mqtt4 v then Mqtt4 else Mqtt5"
  have I1: "?I ?b" using I(1) by (simp add: on_state_def set_connect_protocol_def)
  have keep: "keeps ?I (mqtt_connect E V pr ?k p q w wq l addr)" for pr
    by (rule no_login.keeps_mqtt_connect) simp_all
  have cc: "command_connect E V tc addr v p q w wq l b = (r, b')"
    using assms(2) by (simp add: command_apply_def pk st_simps)
  obtain b1 and r1 :: "(MqttPacket, 'e) result" where 1: "mqtt_connect E V ?pr ?k p q w wq l addr ?b = (r1, b1)"
    by (metis surj_pair)
  have I2: "?I b1" using keepsD [OF keep I1 1] .
  show ?thesis
    using cc 1 I1 I2 I(2) pk
    by (cases r1)
      (auto simp: command_connect_def Let_def st_simps upd_cache_def on_state_def is_login_def cache_login_success_def dm_simps
        split: if_splits MqttPacket.splits option.splits)
qed

theorem login_only_by_connect_witness:
  "is_login (b_cache (snd example_login)) 1 \<and>
   (\<exists>ack p. fst example_login = Ok (Some (P_ConnAck ack p)) \<and> ca_code ack = CR_Success)"
proof -
  have "\<not> is_login (b_cache example_start) 1" by code_simp
  with example_login_done show ?thesis
    using login_only_by_connect [OF _ surjective_pairing] by blast
qed

end
