(* ===== verification/Service_Publish.thy ===== *)
theory Service_Publish
  imports Service_Safety
begin

text \<open>
  Publishing: who may publish, identifiers in use, the counter of received messages, and the log of a topic
  as the specification of what publishing does to the storage.
\<close>

section \<open>Publishing\<close>

text \<open>Validation may ask the placement center, and changes nothing else.\<close>

lemma keeps_only_pc: "keeps (\<lambda>b'. \<exists>p. b' = b\<lparr>b_pc := p\<rparr>) (on_b_pc m)"
  by (auto simp: keeps_def on_b_pc_def split: prod.split)

lemma publish_validator_state:
  assumes "publish_validator E pr connection publish q b = (r, b')"
  shows "\<exists>p. b' = b\<lparr>b_pc := p\<rparr>"
proof -
  have "keeps (\<lambda>b'. \<exists>p. b' = b\<lparr>b_pc := p\<rparr>) (publish_validator E pr connection publish q)"
    unfolding publish_validator_def pkid_exists_def pkid_persistent_def by (intro keeps_intros keeps_only_pc)
  moreover have "\<exists>p. b = b\<lparr>b_pc := p\<rparr>" by (rule exI [of _ "b_pc b"]) simp
  ultimately show ?thesis using assms by (rule keepsD)
qed

text \<open>
  The handler itself changes something other than the placement center only if the connection exists and
  the access rules allow it to publish to the topic of the packet.
\<close>

definition may_publish :: "('s, 'p, 'q) broker_env \<Rightarrow> u64 \<Rightarrow> Publish \<Rightarrow> PublishProperties option \<Rightarrow> CacheManager \<Rightarrow> bool" where
  "may_publish E k publish q c \<longleftrightarrow> (\<exists>connection topic_name. dm_get (connection_info c) k = Some connection \<and>
     get_topic_name (be_regex E) k c publish q = Ok topic_name \<and>
     allow_publish (be_auth E) c connection topic_name (retain publish) (p_qos publish) =
       (Ok True :: (bool, MqttPacket option) result))"

lemma mqtt_publish_needs_permission:
  assumes "mqtt_publish E pr k publish q b = (r, b')" and "b'\<lparr>b_pc := b_pc b\<rparr> \<noteq> b"
  shows "may_publish E k publish q (b_cache b)"
proof -
  obtain connection where c: "dm_get (connection_info (b_cache b)) k = Some connection"
    using assms by (cases "dm_get (connection_info (b_cache b)) k")
      (auto simp: mqtt_publish_def returning_def the_connection_def st_simps)
  obtain rv b1 where v: "(publish_validator E pr connection publish q :: (_, _, MqttPacket option) prog) b = (rv, b1)"
    by (metis surj_pair)
  then obtain p where b1: "b1 = b\<lparr>b_pc := p\<rparr>" using publish_validator_state by blast
  note step = mqtt_publish_def returning_def the_connection_def read_cache_def c
  have "rv = Ok None"
  proof (rule ccontr)
    assume "rv \<noteq> Ok None"
    then have "b' = b1"
      using assms(1) v by (cases rv) (auto simp: step s_bind_def s_match_def s_get_def s_ok_def s_err_def split: option.splits)
    then show False using assms(2) b1 by simp
  qed
  then have run: "mqtt_publish E pr k publish q b =
      returning (s_bind (s_match (read_cache (\<lambda>cache. get_topic_name (be_regex E) k cache publish q)) s_ok
        (\<lambda>e. s_err (Some (publish_fail pr connection publish PA_UnspecifiedError PR_UnspecifiedError (Some (be_show_err E e))))))
        (\<lambda>topic_name. s_bind (read_cache (\<lambda>cache.
           allow_publish (be_auth E) cache connection topic_name (retain publish) (p_qos publish))) (\<lambda>allowed.
         if \<not> allowed then s_err (Some (publish_fail pr connection publish PA_NotAuthorized PR_NotAuthorized None))
         else publish_accepted E pr k connection topic_name publish q))) b1"
    using v by (simp add: mqtt_publish_def the_connection_def returning_def c s_match_def s_bind_def s_get_def s_ok_def)
  show ?thesis
  proof (cases "get_topic_name (be_regex E) k (b_cache b) publish q")
    case (Ok topic_name)
    have "allow_publish (be_auth E) (b_cache b) connection topic_name (retain publish) (p_qos publish) =
        (Ok True :: (bool, MqttPacket option) result)"
    proof (rule ccontr)
      assume "\<not> ?thesis"
      then have "b' = b1"
        using assms(1) b1 unfolding run
        by (cases "allow_publish (be_auth E) (b_cache b) connection topic_name (retain publish) (p_qos publish) ::
            (bool, MqttPacket option) result")
          (auto simp: returning_def read_cache_def Ok s_match_def s_bind_def s_ok_def s_err_def)
      then show False using assms(2) b1 by simp
    qed
    with c Ok show ?thesis by (auto simp: may_publish_def)
  qed (use assms b1 in \<open>auto simp: run returning_def read_cache_def s_match_def s_bind_def s_ok_def s_err_def\<close>)
qed

subsection \<open>The counter of received messages\<close>

text \<open>
  \<open>Command::apply\<close> counts the messages of quality of service 1 and 2 of a connection before it calls the
  handler; nothing else depends on that count.
\<close>

definition with_recv :: "u64 \<Rightarrow> isize \<Rightarrow> CacheManager \<Rightarrow> CacheManager" where
  "with_recv k n = modify_connection k (\<lambda>conn. conn\<lparr>receive_qos_message := n\<rparr>)"

lemma dm_insert_same: "dm_get m k = Some v \<Longrightarrow> dm_insert k v m = m"
  by (induction m) (auto split: if_splits)

lemma dm_insert_twice: "dm_insert k v (dm_insert k v' m) = dm_insert k v m"
  by (induction m) auto

lemma with_recv_twice [simp]: "with_recv k n (with_recv k n' c) = with_recv k n c"
  by (simp add: with_recv_def modify_connection_def dm_modify_def dm_simps dm_insert_twice split: option.split)

lemma with_recv_fields:
  "topic_rewrite_rule (with_recv k n c) = topic_rewrite_rule c" "acl_metadata (with_recv k n c) = acl_metadata c"
  "user_info (with_recv k n c) = user_info c" "cluster_info (with_recv k n c) = cluster_info c"
  "cm_cluster_name (with_recv k n c) = cm_cluster_name c" "client_pkid_data (with_recv k n c) = client_pkid_data c"
  by (simp_all add: with_recv_def modify_connection_def)

lemma with_recv_None: "dm_get (connection_info c) k = None \<Longrightarrow> with_recv k n c = c"
  by (simp add: with_recv_def modify_connection_def dm_modify_def)

lemma with_recv_Some:
  assumes "dm_get (connection_info c) k = Some conn"
  shows "with_recv k (receive_qos_message conn) c = c"
    and "modify_connection k recv_qos_message_incr c = with_recv k (receive_qos_message conn + 1) c"
    and "modify_connection k recv_qos_message_decr c = with_recv k (receive_qos_message conn - 1) c"
    and "dm_get (connection_info (with_recv k n c)) k = Some (conn\<lparr>receive_qos_message := n\<rparr>)"
  using assms
  by (simp_all add: with_recv_def modify_connection_def dm_modify_def dm_simps dm_insert_same
      recv_qos_message_incr_def recv_qos_message_decr_def)

lemma ex_with_recv:
  "\<exists>n. with_recv k n c = c"
  "\<exists>n. modify_connection k recv_qos_message_incr c = with_recv k n c"
  "\<exists>n. modify_connection k recv_qos_message_decr c = with_recv k n c"
proof -
  have "(\<exists>n. with_recv k n c = c) \<and> (\<exists>n. modify_connection k recv_qos_message_incr c = with_recv k n c) \<and>
      (\<exists>n. modify_connection k recv_qos_message_decr c = with_recv k n c)"
  proof (cases "dm_get (connection_info c) k")
    case None
    then show ?thesis by (simp add: with_recv_None) (simp add: modify_connection_def dm_modify_def)
  qed (blast intro: with_recv_Some)
  then show "\<exists>n. with_recv k n c = c" "\<exists>n. modify_connection k recv_qos_message_incr c = with_recv k n c"
    "\<exists>n. modify_connection k recv_qos_message_decr c = with_recv k n c" by blast+
qed

lemma may_publish_with_recv: "may_publish E k publish q (with_recv k n c) = may_publish E k publish q c"
proof (cases "dm_get (connection_info c) k")
  case (Some conn)
  have "get_topic_alias (with_recv k n c) k a = get_topic_alias c k a" for a
    using Some with_recv_Some(4) [OF Some, of n] by (simp add: get_topic_alias_def)
  then have "get_topic_name (be_regex E) k (with_recv k n c) publish q = get_topic_name (be_regex E) k c publish q"
    by (simp add: get_topic_name_def with_recv_fields Let_def cong: if_cong option.case_cong)
  moreover have "allow_publish A (with_recv k n c) (conn\<lparr>receive_qos_message := n\<rparr>) t x y =
      (allow_publish A c conn t x y :: (bool, MqttPacket option) result)" for A t x y
  proof -
    have denies: "acl_rule_denies A (conn\<lparr>receive_qos_message := n\<rparr>) = acl_rule_denies A conn"
      by (simp add: fun_eq_iff acl_rule_denies_def)
    have "is_acl_deny A (with_recv k n c) (conn\<lparr>receive_qos_message := n\<rparr>) t a = is_acl_deny A c conn t a" for a
      by (simp add: is_acl_deny_def with_recv_fields denies cong: option.case_cong)
    moreover have "is_blacklist A (with_recv k n c) (conn\<lparr>receive_qos_message := n\<rparr>) =
        (is_blacklist A c conn :: (bool, MqttPacket option) result)"
      by (simp add: is_blacklist_def with_recv_fields Let_def cong: if_cong option.case_cong)
    ultimately show ?thesis
      by (simp add: allow_publish_def is_allow_acl_def is_super_user_def with_recv_fields cong: if_cong)
  qed
  ultimately show ?thesis
    using Some with_recv_Some(4) [OF Some, of n] by (simp add: may_publish_def)
qed (simp add: with_recv_None)

text \<open>
  C7: a publish packet that is not allowed changes nothing of the broker but the placement center and the
  counter of received messages of its own connection.  Allowed means that the connection exists, that
  the packet names a valid topic, and that the access rules let the connection publish to it.
\<close>

theorem publish_needs_permission:
  assumes "command_apply E V tc addr (P_Publish publish q) b = (r, b')" and "k = nc_connection_id tc"
    and "\<not> may_publish E k publish q (b_cache b)"
  shows "\<exists>p n. b' = b\<lparr>b_cache := with_recv k n (b_cache b), b_pc := p\<rparr>"
proof -
  let ?I = "\<lambda>b'. \<exists>p n. b' = b\<lparr>b_cache := with_recv k n (b_cache b), b_pc := p\<rparr>"
  have "keeps ?I (mqtt_publish E pr k publish q :: (_, _, MqttPacket option) prog)" for pr
  proof (rule keepsI)
    fix b1
    assume "?I b1"
    then obtain p n where b1: "b1 = b\<lparr>b_cache := with_recv k n (b_cache b), b_pc := p\<rparr>" by blast
    obtain r2 b2 where run: "(mqtt_publish E pr k publish q :: (_, _, MqttPacket option) prog) b1 = (r2, b2)" by (metis surj_pair)
    have "\<not> may_publish E k publish q (b_cache b1)"
      using assms(3) by (simp add: b1 may_publish_with_recv)
    with mqtt_publish_needs_permission [OF run] have "b2\<lparr>b_pc := b_pc b1\<rparr> = b1" by blast
    then have "b2 = b1\<lparr>b_pc := b_pc b2\<rparr>" by (metis broker.surjective broker.update_convs(4))
    then have "b2 = b\<lparr>b_cache := with_recv k n (b_cache b), b_pc := b_pc b2\<rparr>" by (simp add: b1)
    then show "?I (snd (mqtt_publish E pr k publish q b1 :: (_, MqttPacket option) result \<times> _))" using run by auto
  qed
  moreover have "keeps ?I (upd_cache f)" if f: "\<And>c. \<exists>n. f c = with_recv k n c" for f
  proof (rule keepsI)
    fix b1
    assume "?I b1"
    then obtain p n where b1: "b1 = b\<lparr>b_cache := with_recv k n (b_cache b), b_pc := p\<rparr>" by blast
    obtain n' where "f (with_recv k n (b_cache b)) = with_recv k n' (b_cache b)"
      using f [of "with_recv k n (b_cache b)"] by auto
    then have "snd (upd_cache f b1) = b\<lparr>b_cache := with_recv k n' (b_cache b), b_pc := p\<rparr>"
      by (intro broker.equality) (simp_all add: b1 upd_cache_def s_upd_def)
    then show "?I (snd (upd_cache f b1))" by blast
  qed
  note this [OF ex_with_recv(2)] this [OF ex_with_recv(3)]
  ultimately have "keeps ?I (command_publish E tc publish q)"
    unfolding command_publish_def the_connection_def returning_def Let_def assms(2) [symmetric]
    by (intro keeps_intros) (auto intro!: keeps_ok keeps_if split: option.split MqttPacket.split)
  then have "keeps ?I (command_apply E V tc addr (P_Publish publish q))"
    unfolding command_apply_def Let_def MqttPacket.case by (intro keeps_bind keeps_get keeps_if keeps_ok)
  moreover have "?I b"
  proof -
    obtain n where "with_recv k n (b_cache b) = b_cache b" using ex_with_recv(1) by blast
    then have "b = b\<lparr>b_cache := with_recv k n (b_cache b), b_pc := b_pc b\<rparr>" by simp
    then show ?thesis by blast
  qed
  ultimately show ?thesis using assms(1) by (rule keepsD)
qed

definition example_publish :: "QoS \<Rightarrow> Publish" where
  "example_publish q = \<lparr>dup = False, p_qos = q, p_pkid = 7, retain = False, topic = [116], payload = [1, 2]\<rparr>"

theorem publish_needs_permission_witness:
  "let deny = \<lparr>acl_resource_type = ART_ClientId, acl_resource_name = ''c'', acl_topic = ''*'', acl_ip = ''*'',
         acl_action = AA_Publish, acl_permission = Deny\<rparr>;
       b = example_broker\<lparr>b_cache := add_acl deny (b_cache example_broker)\<rparr> in
   \<exists>p n. snd (command_apply example_broker_env example_event_env example_network (V4 ''ip'' 1)
       (P_Publish (example_publish ExactlyOnce) None) b :: (MqttPacket option, unit) result \<times> _) =
     b\<lparr>b_cache := with_recv 1 n (b_cache b), b_pc := p\<rparr>"
proof -
  let ?deny = "\<lparr>acl_resource_type = ART_ClientId, acl_resource_name = ''c'', acl_topic = ''*'', acl_ip = ''*'',
    acl_action = AA_Publish, acl_permission = Deny\<rparr>"
  let ?b = "example_broker\<lparr>b_cache := add_acl ?deny (b_cache example_broker)\<rparr>"
  have "dm_get (connection_info (b_cache ?b)) 1 = Some example_client"
    by (simp add: example_broker_def add_acl_def)
  moreover have "get_topic_name (be_regex example_broker_env) 1 (b_cache ?b) (example_publish ExactlyOnce) None = Ok ''t''"
    by code_simp
  moreover have "allow_publish (be_auth example_broker_env) (b_cache ?b) example_client ''t'' (retain (example_publish ExactlyOnce))
      (p_qos (example_publish ExactlyOnce)) = (Ok False :: (bool, MqttPacket option) result)"
    by code_simp
  ultimately have "\<not> may_publish example_broker_env 1 (example_publish ExactlyOnce) None (b_cache ?b)"
    by (simp add: may_publish_def)
  then show ?thesis
    unfolding Let_def by (intro publish_needs_permission [OF surjective_pairing]) (simp_all add: example_network_def)
qed

text \<open>
  C10: when packet identifiers are kept in the cache, a publish packet of quality of service 2 of a logged
  in connection whose identifier is in use is answered with a PubRec, which in MQTT 5 says
  that the identifier is in use, and is not stored again.  All that changes is the counter of
  received messages, which goes up by one and stays so.
\<close>

theorem qos2_duplicate_refused:
  assumes "k = nc_connection_id tc" and "is_login (b_cache b) k" and "nc_protocol tc = Some pr"
    and "dm_get (connection_info (b_cache b)) k = Some connection"
    and "dm_get (cluster_info (b_cache b)) (cm_cluster_name (b_cache b)) = Some cluster"
    and "\<not> client_pkid_persistent (cl_protocol cluster)" and "p_qos publish = ExactlyOnce"
    and "get_client_pkid (b_cache b) (conn_client_id connection) (p_pkid publish) \<noteq> None"
  shows "command_apply E V tc addr (P_Publish publish q) b =
    (Ok (Some (if pr = Mqtt5
       then P_PubRec \<lparr>pr_pkid = p_pkid publish, pr_reason = Some PR_PacketIdentifierInUse\<rparr>
         (Some \<lparr>pr_reason_string = None, pr_user_properties = []\<rparr>)
       else P_PubRec \<lparr>pr_pkid = p_pkid publish, pr_reason = None\<rparr> None)),
     b\<lparr>b_cache := with_recv k (receive_qos_message connection + 1) (b_cache b)\<rparr>)"
proof -
  let ?c = "connection\<lparr>receive_qos_message := receive_qos_message connection + 1\<rparr>"
  let ?b = "b\<lparr>b_cache := with_recv k (receive_qos_message connection + 1) (b_cache b)\<rparr>"
  have "(mqtt_publish E pr k publish q :: (_, _, MqttPacket option) prog) ?b =
      (Ok (Some (response_packet_mqtt_pubrec_fail pr ?c (p_pkid publish) PR_PacketIdentifierInUse None)), ?b)"
    using assms(5-8) with_recv_Some(4) [OF assms(4), of "receive_qos_message connection + 1"]
    by (simp add: mqtt_publish_def publish_validator_def returning_def the_connection_def pkid_exists_def pkid_persistent_def
        read_cache_def get_cluster_info_def get_client_pkid_def with_recv_fields st_simps)
  then show ?thesis
    using assms(1-4,7) with_recv_Some(2) [OF assms(4)]
    by (cases pr) (simp_all add: command_apply_def command_publish_def returning_def the_connection_def upd_cache_def
        is_qos_message_def response_packet_mqtt_pubrec_fail_def protocol_is_mqtt5_def problem_reason_def Let_def st_simps)
qed

theorem qos2_duplicate_refused_witness:
  "let b = example_broker\<lparr>b_cache := add_client_pkid 10 ''c'' 7 (b_cache example_broker)\<rparr> in
   (command_apply example_broker_env example_event_env example_network (V4 ''ip'' 1)
      (P_Publish (example_publish ExactlyOnce) None) b :: (MqttPacket option, unit) result \<times> _) =
     (Ok (Some (P_PubRec \<lparr>pr_pkid = 7, pr_reason = Some PR_PacketIdentifierInUse\<rparr>
        (Some \<lparr>pr_reason_string = None, pr_user_properties = []\<rparr>))),
      b\<lparr>b_cache := with_recv 1 1 (b_cache b)\<rparr>)"
proof -
  let ?b = "example_broker\<lparr>b_cache := add_client_pkid 10 ''c'' 7 (b_cache example_broker)\<rparr>"
  have conn: "dm_get (connection_info (b_cache ?b)) 1 = Some example_client"
    by (simp add: example_broker_def add_client_pkid_def)
  have net: "nc_connection_id example_network = 1" "nc_protocol example_network = Some Mqtt5"
    by (simp_all add: example_network_def)
  have client: "receive_qos_message example_client = 0" "conn_is_login example_client"
    by (simp_all add: example_client_def connection_new_def)
  moreover have "dm_get (cluster_info (b_cache ?b)) (cm_cluster_name (b_cache ?b)) = Some build_default_cluster_config"
    by (simp add: example_broker_def example_cache_def add_client_pkid_def set_cluster_info_def add_topic_def cache_new_def)
  moreover have "\<not> client_pkid_persistent (cl_protocol build_default_cluster_config)" by code_simp
  moreover have "get_client_pkid (b_cache ?b) (conn_client_id example_client) (p_pkid (example_publish ExactlyOnce)) \<noteq> None"
    by code_simp
  ultimately show ?thesis
    using qos2_duplicate_refused [of 1 example_network ?b Mqtt5 example_client build_default_cluster_config
        "example_publish ExactlyOnce"] conn net
    by (simp add: example_publish_def Let_def is_login_def)
qed

section \<open>Logs of topics\<close>

lemma mqtt_publish_run:
  assumes "dm_get (connection_info (b_cache b)) k = Some connection"
    and "(publish_validator E pr connection publish q :: (_, _, MqttPacket option) prog) b = (Ok None, b1)"
    and "get_topic_name (be_regex E) k (b_cache b1) publish q = Ok topic_name"
    and "allow_publish (be_auth E) (b_cache b1) connection topic_name (retain publish) (p_qos publish) =
      (Ok True :: (bool, MqttPacket option) result)"
  shows "mqtt_publish E pr k publish q b = returning (publish_accepted E pr k connection topic_name publish q) b1"
  using assms
  by (simp add: mqtt_publish_def the_connection_def returning_def read_cache_def s_match_def s_bind_def s_get_def s_ok_def)

text \<open>The specification: a topic is a log, and publishing appends the message.\<close>

definition topic_logs :: "string \<Rightarrow> (MemoryStorageAdapter, 'p, 'q) broker \<Rightarrow> string \<Rightarrow> Record list" where
  "topic_logs cluster_name b tid = mem_store (b_store b) (shard_key cluster_name tid)"

definition log_append :: "string \<Rightarrow> Record \<Rightarrow> (string \<Rightarrow> Record list) \<Rightarrow> string \<Rightarrow> Record list" where
  "log_append tid record logs = logs(tid := logs tid @ [record\<lparr>r_offset := Some (word_of_nat (length (logs tid)))\<rparr>])"

lemma shard_key_inject: "shard_key n a = shard_key n b \<longleftrightarrow> a = b"
  by (simp add: shard_key_def)

lemma topic_logs_cache [simp]: "topic_logs n (b\<lparr>b_cache := c\<rparr>) = topic_logs n b"
  by (simp add: topic_logs_def fun_eq_iff)

lemma save_message_log:
  assumes "be_adapter E = memory_adapter" and "\<not> is_delay_message (t_topic_name t)"
    and "is_exist_subscribe (b_subs b) (t_topic_name t)"
    and "build_message_expire (be_now E) (b_cache b) q = (Ok expire :: (u64, MqttBrokerError) result)"
    and "build_record E cid publish q expire = Some record"
  shows "\<exists>text s'. save_message E publish q cid t b = (Ok (Some text), b\<lparr>b_store := s'\<rparr>) \<and>
    topic_logs (be_cluster_name E) (b\<lparr>b_store := s'\<rparr>) = log_append (topic_id t) record (topic_logs (be_cluster_name E) b)"
  using assms
  by (auto simp: save_message_def read_cache_def from_common_def on_b_store_def append_topic_message_def memory_adapter_def
      mem_batch_write_eq topic_logs_def log_append_def mem_store_insert shard_key_inject st_simps Let_def fun_eq_iff)


text \<open>The answer to a packet that was stored: nothing for quality of service 0.\<close>

definition stored_response :: "MqttProtocol \<Rightarrow> string \<Rightarrow> Publish \<Rightarrow> user_props \<Rightarrow> MqttPacket option" where
  "stored_response pr topic_name publish props =
     (if p_qos publish = AtMostOnce then None
      else Some (response_packet_mqtt_puback_success pr
        (if path_contain_sub topic_name then PA_Success else PA_NoMatchingSubscribers) (p_pkid publish) props))"

lemma publish_accepted_log:
  assumes "be_adapter E = memory_adapter" and "get_topic_by_name (b_cache b) topic_name = Some t"
    and "\<not> be_is_check_schema E topic_name" and "\<not> retain publish" and "p_qos publish \<noteq> ExactlyOnce"
    and "\<not> is_delay_message (t_topic_name t)" and "is_exist_subscribe (b_subs b) (t_topic_name t)"
    and "build_message_expire (be_now E) (b_cache b) q = (Ok expire :: (u64, MqttBrokerError) result)"
    and "build_record E (conn_client_id connection) publish q expire = Some record"
  shows "\<exists>props b'. publish_accepted E pr k connection topic_name publish q b =
      (Ok (stored_response pr topic_name publish props), b') \<and>
    topic_logs (be_cluster_name E) b' = log_append (topic_id t) record (topic_logs (be_cluster_name E) b)"
proof -
  obtain offsets s' where m: "save_message E publish q (conn_client_id connection) t b = (Ok (Some offsets), b\<lparr>b_store := s'\<rparr>)"
    and log: "topic_logs (be_cluster_name E) (b\<lparr>b_store := s'\<rparr>) = log_append (topic_id t) record (topic_logs (be_cluster_name E) b)"
    using save_message_log [OF assms(1,6-9)] by blast
  have init: "try_init_topic E topic_name b = (Ok t, b)"
    by (simp add: try_init_topic_def st_simps assms(2))
  have ret: "save_retain_message E topic_name (conn_client_id connection) publish q = s_ok ()"
    by (simp add: save_retain_message_def assms(4))
  show ?thesis
    using assms(3,5) log
    by (cases "p_qos publish")
      (auto simp: publish_accepted_def Let_def st_simps init ret m upd_cache_def stored_response_def)
qed

text \<open>
  C6: over the memory adapter, when \<open>MqttService::publish\<close> gets a valid and permitted message of quality of
  service 0 or 1 that is not retained, for a known topic with subscribers that is not a delay topic and
  has no schema, it refines the append to a log: the message is stored at the end of the log
  of the topic, under its offset, and the logs of all other topics are as before.
\<close>

theorem publish_refines_log:
  assumes "be_adapter E = memory_adapter" and "dm_get (connection_info (b_cache b)) k = Some connection"
    and "publish_validator E pr connection publish q b = (Ok None :: (_, MqttPacket option) result, b)"
    and "get_topic_name (be_regex E) k (b_cache b) publish q = Ok topic_name"
    and "allow_publish (be_auth E) (b_cache b) connection topic_name (retain publish) (p_qos publish) =
      (Ok True :: (bool, MqttPacket option) result)"
    and "get_topic_by_name (b_cache b) topic_name = Some t"
    and "\<not> be_is_check_schema E topic_name" and "\<not> retain publish" and "p_qos publish \<noteq> ExactlyOnce"
    and "\<not> is_delay_message (t_topic_name t)" and "is_exist_subscribe (b_subs b) (t_topic_name t)"
    and "build_message_expire (be_now E) (b_cache b) q = (Ok expire :: (u64, MqttBrokerError) result)"
    and "build_record E (conn_client_id connection) publish q expire = Some record"
  shows "\<exists>props b'. mqtt_publish E pr k publish q b = (Ok (stored_response pr topic_name publish props), b') \<and>
    topic_logs (be_cluster_name E) b' = log_append (topic_id t) record (topic_logs (be_cluster_name E) b)"
proof -
  obtain props b' where "publish_accepted E pr k connection topic_name publish q b =
      (Ok (stored_response pr topic_name publish props), b')"
    "topic_logs (be_cluster_name E) b' = log_append (topic_id t) record (topic_logs (be_cluster_name E) b)"
    using publish_accepted_log [OF assms(1,6-13)] by blast
  then show ?thesis
    by (intro exI [of _ props] exI [of _ b']) (simp add: mqtt_publish_run [OF assms(2-5)] returning_def st_simps)
qed

definition example_subscribed :: "(MemoryStorageAdapter, unit, unit) broker" where
  "example_subscribed = example_broker\<lparr>b_subs := add_topic_subscribe ''t'' ''d'' ''t'' subscribe_manager_new\<rparr>"

definition example_record :: Record where
  "example_record = build_byte (\<lambda>_. 0) 10 [1, 2]"

lemma example_cluster:
  "get_cluster_info (b_cache example_subscribed) = Ok build_default_cluster_config"
  by (simp add: example_subscribed_def example_broker_def example_cache_def get_cluster_info_def set_cluster_info_def
      add_topic_def cache_new_def)

lemma example_publish_valid:
  "publish_validator example_broker_env Mqtt5 example_client (example_publish AtLeastOnce) None example_subscribed =
     (Ok None :: (_, MqttPacket option) result, example_subscribed)"
proof -
  have "cl_max_packet_size (cl_protocol build_default_cluster_config) = 10485760"
    "cl_receive_max (cl_protocol build_default_cluster_config) = 65535" by code_simp+
  then show ?thesis
    by (simp add: publish_validator_def returning_def read_cache_def example_cluster st_simps example_publish_def
        example_client_def connection_new_def is_qos_message_def)
qed

lemma example_publish_topic:
  "get_topic_name (be_regex example_broker_env) 1 (b_cache example_subscribed) (example_publish AtLeastOnce) None = Ok ''t''"
  by code_simp


abbreviation example_run :: "QoS \<Rightarrow> (MqttPacket option, unit) result \<times> (MemoryStorageAdapter, unit, unit) broker" where
  "example_run q \<equiv> mqtt_publish example_broker_env Mqtt5 1 (example_publish q) None example_subscribed"

lemma example_run_conn: "dm_get (connection_info (b_cache example_subscribed)) 1 = Some example_client"
  by (simp add: example_subscribed_def example_broker_def)

lemma example_publish_env:
  "be_adapter example_broker_env = memory_adapter" "be_auth example_broker_env = example_env"
  "be_cluster_name example_broker_env = ''n''" "ae_now example_env = 10"
  "be_is_check_schema example_broker_env t = False"
  "p_qos (example_publish q) = q" "retain (example_publish q) = False" "conn_client_id example_client = ''c''"
  "build_record example_broker_env cid (example_publish q) None e = Some example_record"
  by (simp_all add: example_broker_env_def example_env_def example_sub_env_def example_publish_def example_client_def
      connection_new_def build_record_def build_message_def example_record_def)

lemma example_publish_expire:
  "build_message_expire 10 (b_cache example_subscribed) None = (Ok 3610 :: (u64, MqttBrokerError) result)"
  by (simp add: build_message_expire_def example_cluster and_then_def build_default_cluster_config_def u64_add_def)

lemma example_topic:
  "get_topic_by_name (b_cache example_subscribed) ''t'' = Some (topic_new 0 ''id'' ''n'' ''t'')"
  by code_simp

lemma example_topic_subscribed:
  "\<not> is_delay_message ''t''" "is_exist_subscribe (b_subs example_subscribed) ''t''"
  by code_simp+

lemma example_publish_allowed:
  "allow_publish example_env (b_cache example_subscribed) example_client ''t'' False q =
     (Ok True :: (bool, MqttPacket option) result)"
  by (cases q) code_simp+

lemmas example_publish_facts = example_run_conn example_publish_valid example_publish_topic example_publish_env
  example_publish_expire example_topic example_topic_subscribed example_publish_allowed

theorem publish_refines_log_witness:
  "\<exists>props b'. example_run AtLeastOnce = (Ok (stored_response Mqtt5 ''t'' (example_publish AtLeastOnce) props), b') \<and>
     topic_logs ''n'' b' = log_append ''id'' example_record (topic_logs ''n'' example_subscribed)"
  using publish_refines_log [OF example_publish_env(1) example_run_conn example_publish_valid example_publish_topic,
      of "topic_new 0 ''id'' ''n'' ''t''" 3610 example_record]
  by (simp add: example_publish_facts topic_new_def)

end
