(* ===== verification/Spec2Isabelle.thy ===== *)
theory Spec2Isabelle
  imports Mqtt_Codec Delay_Message Service_Publish
begin

text \<open>
  \<^bold>\<open>RobustMQ: the MQTT wire protocol.\<close>

  RobustMQ is a message broker.  A client speaks MQTT 3.1, 3.1.1 or 5 over a byte stream;
  \<^verbatim>\<open>MqttCodec\<close> of \<^verbatim>\<open>src/src/protocol/src/mqtt/codec.rs\<close> cuts that stream into packets and
  writes packets into it.

  \<^bold>\<open>Theories.\<close>
  \<^item> \<^verbatim>\<open>Rust_Prelude\<close>: the Rust that the sources use.  A fallible function returns
    \<^typ>\<open>('a, 'e) result\<close>, with \<^const>\<open>Panic\<close> for \<open>unreachable!()\<close>, slices out of range and
    arithmetic underflow; a function with a \<open>&mut BytesMut\<close> is a \<^typ>\<open>('a, 'e) writer\<close>; UTF-8
    validation is written out.
  \<^item> \<^verbatim>\<open>Mqtt_Types\<close>: the structs and enums of \<^verbatim>\<open>mqtt/common.rs\<close>.
  \<^item> \<^verbatim>\<open>Mqtt_Wire\<close>: fixed header, remaining length, integers, strings (\<^verbatim>\<open>mqtt/common.rs\<close>) and the
    locale \<open>packet_codec\<close>, the contract of a packet module.
  \<^item> \<^verbatim>\<open>Mqtt_V4\<close>: the packet modules of \<^verbatim>\<open>mqtt/mqttv4\<close>.
  \<^item> \<^verbatim>\<open>Mqtt_Props\<close>: the property lists of MQTT 5 (\<^verbatim>\<open>mqtt/mqttv5/mod.rs\<close> and the loop that all
    \<open>properties\<close> modules share), with the locale \<open>props_codec\<close>.
  \<^item> \<^verbatim>\<open>Mqtt_V5_Acks\<close>, \<^verbatim>\<open>Mqtt_V5_Subs\<close>, \<^verbatim>\<open>Mqtt_V5_Publish\<close>, \<^verbatim>\<open>Mqtt_V5_Disconnect\<close>,
    \<^verbatim>\<open>Mqtt_V5_Connack\<close>, \<^verbatim>\<open>Mqtt_V5_Connect\<close>: the packet modules of \<^verbatim>\<open>mqtt/mqttv5\<close>.
  \<^item> \<^verbatim>\<open>Mqtt_Codec\<close>: \<open>MqttCodec\<close>, \<open>Mqtt4Codec\<close> and \<open>Mqtt5Codec\<close>, with the locale
    \<open>stream_codec\<close>.

  \<^bold>\<open>Storage.\<close>  A broker stores the messages of a topic in a shard, through the trait
  \<^verbatim>\<open>StorageAdapter\<close> of \<^verbatim>\<open>src/src/storage-adapter/src/storage.rs\<close>.
  \<^item> \<^verbatim>\<open>Rust_Std\<close>: programs over a state, \<^typ>\<open>('s, 'a, 'e) prog\<close>, with the sequencing, matching
    and loops that the sources use; \<open>DashMap\<close> as an association list; decimal formatting.
  \<^item> \<^verbatim>\<open>Storage_Types\<close>: records, read configuration, shards; the trait as a record of its methods;
    the locales \<open>shard_log\<close> and \<open>total_shard_log\<close>, what a shard promises to its clients.
  \<^item> \<^verbatim>\<open>Storage_Memory\<close>: the memory adapter, which interprets \<open>total_shard_log\<close>.
  \<^item> \<^verbatim>\<open>Message_Storage\<close>: appending and reading messages of a topic, group offsets
    (\<^verbatim>\<open>mqtt-broker/src/storage/message.rs\<close>), proved once inside \<open>shard_log\<close>.
  \<^item> \<^verbatim>\<open>Rocksdb_Engine\<close>: \<^verbatim>\<open>common/rocksdb-engine\<close>.  The \<open>rocksdb\<close> crate and \<open>serde_json\<close> are
    parameters with the laws \<open>rocksdb_laws\<close> and \<open>serde_laws\<close>, which a database held in
    association lists satisfies.
  \<^item> \<^verbatim>\<open>Storage_Rocksdb\<close>: the RocksDB adapter, which refines \<open>shard_log\<close> on every database that
    satisfies the laws.  Write threads are not modelled: a request is handled when it is sent.
  \<^item> \<^verbatim>\<open>Delay_Message\<close>: \<^verbatim>\<open>delay-message\<close> over any adapter.  The loop of \<open>build_delay_queue\<close> is a
    partial function, whose value \<open>None\<close> means that it does not end; the clock is read once.
    \<open>DelayQueue\<close> is a parameter that may refuse a deadline, which is a panic.

  \<^bold>\<open>The broker.\<close>  A broker of \<^verbatim>\<open>src/src/mqtt-broker\<close> keeps clients, sessions, topics and rules in
  caches.
  \<^item> \<^verbatim>\<open>Broker_Types\<close>: errors and the metadata of connections, sessions, topics, users, rules,
    configuration and messages.
  \<^item> \<^verbatim>\<open>Topic_Path\<close>: validation and matching of topics and paths (\<^verbatim>\<open>subscribe/sub_common.rs\<close>,
    \<^verbatim>\<open>handler/topic.rs\<close>, \<^verbatim>\<open>topic_util.rs\<close>).  The \<open>regex\<close> crate is a parameter with the laws
    \<open>regex_laws\<close>, which a small matcher satisfies.
  \<^item> \<^verbatim>\<open>Broker_Std\<close>: updates of \<open>DashMap\<close>s, checked arithmetic, time units.
  \<^item> \<^verbatim>\<open>Acl_Metadata\<close>, \<^verbatim>\<open>Broker_Cache\<close>: \<^verbatim>\<open>security/acl/metadata.rs\<close> and \<^verbatim>\<open>handler/cache.rs\<close>.
    The search for a packet identifier waits when there is none, so it is a partial function.
  \<^item> \<^verbatim>\<open>Broker_Auth\<close>: login, access control and flapping detection.
  \<^item> \<^verbatim>\<open>Prog_Invariant\<close>: invariants of programs, one rule per construct, and of the entries of maps.
  \<^item> \<^verbatim>\<open>Subscribe_Manager\<close>, \<^verbatim>\<open>Subscriptions\<close>: \<^verbatim>\<open>subscribe/subscribe_manager.rs\<close> and the steps
    that change it (\<^verbatim>\<open>handler/subscribe.rs\<close>, \<^verbatim>\<open>unsubscribe.rs\<close>, \<^verbatim>\<open>sub_parse_topic.rs\<close>,
    \<^verbatim>\<open>topic_rewrite.rs\<close>), with the reachable states and their invariant.
  \<^item> \<^verbatim>\<open>Mqtt_Responses\<close>: response packets, validators, message expiry.
  \<^item> \<^verbatim>\<open>Broker_State\<close>: the state of a broker (caches, subscriptions, storage, delay queues,
    connections), its parameters and the steps that the handlers share.  The placement center is a
    parameter: each of its calls is a program over a state of its own.
  \<^item> \<^verbatim>\<open>System_Events\<close>: the messages on system topics.
  \<^item> \<^verbatim>\<open>Mqtt_Service\<close>: the packet handlers of \<^verbatim>\<open>handler/mqtt.rs\<close> and the dispatch of
    \<^verbatim>\<open>handler/command.rs\<close>.
  \<^item> \<^verbatim>\<open>Broker_Example\<close>: a small broker on which the statements are evaluated.
  \<^item> \<^verbatim>\<open>Keep_Alive\<close>: the scan of \<^verbatim>\<open>handler/keep_alive.rs\<close>, and that repeated scans disconnect
    exactly the silent clients.
  \<^item> \<^verbatim>\<open>Service_Contract\<close>: the locales \<open>topic_contract\<close> and \<open>service_contract\<close>.  A property of the
    caches that the elementary updates keep is kept by every handler.
  \<^item> \<^verbatim>\<open>Service_Safety\<close>: three interpretations of that contract on the broker: well-formed caches,
    nobody logged in, and the counters of one connection; the reachable states of a broker.
  \<^item> \<^verbatim>\<open>Service_Publish\<close>: a publish packet needs permission, duplicates are refused, and publishing
    refines the append to a log; what is refused changes only the counter of received messages.

  \<^bold>\<open>Bounds.\<close>  Offsets are 64-bit words.  The statements about logs assume fewer than \<open>2 ^ 63\<close>
  records, because \<open>offset + max_record_num\<close> overflows beyond that.  The seconds of an \<open>Instant\<close> are
  a signed 64-bit integer.  The statements about wildcards hold for paths of at most 1024
  characters, whose patterns the \<open>regex\<close> crate compiles.

  \<^bold>\<open>Not modelled.\<close>  The network servers and their threads, gRPC and HTTP endpoints, metrics, tracing
  and configuration files only move data between the operating system and the parts above.  The
  threads that push messages to subscribers interleave with everything else through channels and
  timers of \<open>tokio\<close>, and no handler reads their state.  The placement center and the journal server are
  separate processes; the broker sees them through client calls, which are parameters here, and
  their Raft state machine is the crate \<open>openraft\<close>.  Generated protobuf code is not part of the sources.
\<close>

end
